(* ===== verification/Prelude.thy ===== *)
theory Prelude
  imports Main "HOL-Library.AList" "HOL-Library.List_Lexorder" "HOL-Library.Char_ord"
    "HOL-Library.Multiset"
begin

text \<open>
  The parts of Go and of its small helper packages that every component of kubemci uses:
  error values (\<^verbatim>\<open>error\<close>, \<^verbatim>\<open>googleapi.Error\<close>, \<^verbatim>\<open>multierror\<close>), calls that may panic,
  slices (nil and empty are different values for \<^verbatim>\<open>reflect.DeepEqual\<close> and for
  \<^verbatim>\<open>encoding/json\<close>), maps and the unspecified order in which \<^verbatim>\<open>range\<close> visits them,
  decimal formatting and the \<^verbatim>\<open>strings\<close> functions the code calls.  Console and log output
  has no effect on any result and is left out everywhere.
\<close>

named_theorems go_simps \<open>unfolding rules of the Go helper functions\<close>

section \<open>Errors\<close>

text \<open>
  An \<^verbatim>\<open>error\<close> is \<open>go_error option\<close>, \<open>None\<close> being \<^verbatim>\<open>nil\<close>.  \<open>GoogleAPI code msg\<close> is
  a \<^verbatim>\<open>*googleapi.Error\<close>, \<open>KubeStatus reason\<close> an API-machinery status error,
  \<open>LibError s\<close> an error made by the standard library, \<open>Multi es\<close> a \<^verbatim>\<open>*multierror.Error\<close>
  and \<open>Errorf f args\<close> the value of \<^verbatim>\<open>fmt.Errorf(f, args...)\<close>, kept with its format
  and arguments instead of the rendered text.
\<close>

datatype go_error =
    GoogleAPI int string
  | KubeStatus string
  | LibError string
  | Errorf string "go_arg list"
  | Multi "go_error list"
and go_arg = AStr string | AInt int | AErr go_error

definition StatusNotFound :: int where
  "StatusNotFound = 404"

fun IsHTTPErrorCode :: "go_error option \<Rightarrow> int \<Rightarrow> bool" where
  "IsHTTPErrorCode (Some (GoogleAPI c m)) code = (c = code)"
| "IsHTTPErrorCode _ code = False"

definition IgnoreHTTPNotFound :: "go_error option \<Rightarrow> go_error option" where
  "IgnoreHTTPNotFound err =
     (if err \<noteq> None \<and> IsHTTPErrorCode err StatusNotFound then None else err)"

definition FakeGoogleAPINotFoundErr :: go_error where
  "FakeGoogleAPINotFoundErr = GoogleAPI StatusNotFound ''''"

definition FakeGoogleAPIForbiddenErr :: go_error where
  "FakeGoogleAPIForbiddenErr = GoogleAPI 403 ''''"

fun error_list :: "go_error option \<Rightarrow> go_error list" where
  "error_list None = []"
| "error_list (Some (Multi es)) = es"
| "error_list (Some e) = [e]"

text \<open>
  \<^verbatim>\<open>multierror.Append\<close> never returns nil: it flattens the errors it is given into one
  \<^verbatim>\<open>*multierror.Error\<close>.
\<close>

definition multierror_Append :: "go_error option \<Rightarrow> go_error list \<Rightarrow> go_error option" where
  "multierror_Append err errs = Some (Multi (error_list err @ concat (map (error_list \<circ> Some) errs)))"

lemma IsHTTPErrorCode_None [simp]: "\<not> IsHTTPErrorCode None c"
  by simp

lemma IsHTTPErrorCode_iff: "IsHTTPErrorCode err c \<longleftrightarrow> (\<exists>m. err = Some (GoogleAPI c m))"
  by (cases "(err, c)" rule: IsHTTPErrorCode.cases) auto

lemma multierror_Append_not_None [simp]:
  "multierror_Append err errs \<noteq> None" "None \<noteq> multierror_Append err errs"
  by (simp_all add: multierror_Append_def)

lemma multierror_Append_Some [simp]: "\<exists>y. multierror_Append err errs = Some y"
  by (simp add: multierror_Append_def)

lemma multierror_Append_not_http [simp]: "\<not> IsHTTPErrorCode (multierror_Append err errs) c"
  by (simp add: multierror_Append_def)

lemma fold_multierror_None: "fold (\<lambda>e err. multierror_Append err [e]) es err = None \<longleftrightarrow> es = [] \<and> err = None"
  by (induction es arbitrary: err) auto

lemma IgnoreHTTPNotFound_None: "IgnoreHTTPNotFound err = None \<longleftrightarrow> err = None \<or> IsHTTPErrorCode err StatusNotFound"
  by (auto simp: IgnoreHTTPNotFound_def)

section \<open>Panics\<close>

text \<open>
  A call whose body may index out of range or dereference nil gives an \<open>outcome\<close>;
  \<open>Panics\<close> is the run-time panic that ends the program.
\<close>

datatype 'a outcome = Returns 'a | Panics

fun map_returned :: "('a \<Rightarrow> 'b) \<Rightarrow> 'a outcome \<Rightarrow> 'b outcome" where
  "map_returned f (Returns x) = Returns (f x)"
| "map_returned f Panics = Panics"

section \<open>Slices\<close>

datatype 'a slice = NilSlice | Slice "'a list"

fun elems :: "'a slice \<Rightarrow> 'a list" where
  "elems NilSlice = []"
| "elems (Slice xs) = xs"

definition slice_of :: "'a list \<Rightarrow> 'a slice" where
  "slice_of xs = (if xs = [] then NilSlice else Slice xs)"

text \<open>\<open>slice_of xs\<close> is what \<^verbatim>\<open>var s []T; for ... { s = append(s, x) }\<close> leaves in \<^verbatim>\<open>s\<close>:
  the nil slice if nothing was appended.\<close>

lemma elems_slice_of [simp]: "elems (slice_of xs) = xs"
  by (simp add: slice_of_def)

lemma slice_of_inject [simp]: "slice_of xs = slice_of ys \<longleftrightarrow> xs = ys"
  by (auto simp: slice_of_def)

section \<open>Maps and the order of range\<close>

text \<open>
  A Go map is an association list with distinct keys; \<open>map_of\<close> is the lookup and
  \<open>AList.update\<close> the assignment \<^verbatim>\<open>m[k] = v\<close>.  \<^verbatim>\<open>range\<close> over a map visits the keys in an
  order the language leaves open, so every function with such a loop takes a
  \<open>range_order\<close>: for each loop (named by a label) and each list of keys, the order
  in which this run visits them.
\<close>

type_synonym 'v gomap = "(string \<times> 'v) list"
type_synonym range_order = "string \<Rightarrow> string list \<Rightarrow> string list"

definition range_ok :: "range_order \<Rightarrow> bool" where
  "range_ok ord \<longleftrightarrow> (\<forall>site ks. mset (ord site ks) = mset ks)"

definition range_entries :: "range_order \<Rightarrow> string \<Rightarrow> 'v gomap \<Rightarrow> 'v gomap" where
  "range_entries ord site m =
     List.map_filter (\<lambda>k. map_option (Pair k) (map_of m k)) (ord site (map fst m))"

definition in_order :: range_order where
  "in_order site ks = ks"

definition reversed :: range_order where
  "reversed site ks = rev ks"

lemma range_ok_in_order [simp]: "range_ok in_order"
  by (simp add: range_ok_def in_order_def)

lemma range_ok_reversed [simp]: "range_ok reversed"
  by (simp add: range_ok_def reversed_def)

lemma range_ok_set: "range_ok ord \<Longrightarrow> set (ord site ks) = set ks"
  unfolding range_ok_def by (metis set_mset_mset)

lemma range_ok_distinct: "range_ok ord \<Longrightarrow> distinct (ord site ks) \<longleftrightarrow> distinct ks"
  unfolding range_ok_def by (metis mset_eq_imp_distinct_iff)

lemma range_ok_length: "range_ok ord \<Longrightarrow> length (ord site ks) = length ks"
  unfolding range_ok_def by (metis size_mset)

lemma set_map_filter: "set (List.map_filter f xs) = {y. \<exists>x \<in> set xs. f x = Some y}"
  by (induction xs) (auto simp: List.map_filter_simps split: option.splits)

lemma set_range_entries:
  assumes "range_ok ord" "distinct (map fst m)"
  shows "set (range_entries ord site m) = set m"
proof -
  have "(k, v) \<in> set (range_entries ord site m) \<longleftrightarrow> (k, v) \<in> set m" for k v
  proof -
    have "(k, v) \<in> set (range_entries ord site m) \<longleftrightarrow> k \<in> fst ` set m \<and> map_of m k = Some v"
      using range_ok_set[OF assms(1)] by (auto simp: range_entries_def set_map_filter)
    also have "\<dots> \<longleftrightarrow> (k, v) \<in> set m"
      using assms(2) by (auto simp: map_of_eq_Some_iff intro: rev_image_eqI)
    finally show ?thesis .
  qed
  then show ?thesis by auto
qed

lemma range_entries_subset: "set (range_entries ord site m) \<subseteq> set m"
  by (auto simp: range_entries_def set_map_filter dest: map_of_SomeD)

lemma keys_map_filter_map_of:
  "set ks \<subseteq> fst ` set m \<Longrightarrow>
   map fst (List.map_filter (\<lambda>k. map_option (Pair k) (map_of m k)) ks) = ks"
proof (induction ks)
  case Nil
  then show ?case by (simp add: List.map_filter_simps)
next
  case (Cons k ks)
  then obtain v where "map_of m k = Some v"
    by (metis insert_subset list.simps(15) map_of_eq_None_iff not_Some_eq)
  with Cons show ?case by (simp add: List.map_filter_simps)
qed

lemma keys_range_entries:
  "range_ok ord \<Longrightarrow> map fst (range_entries ord site m) = ord site (map fst m)"
  unfolding range_entries_def by (rule keys_map_filter_map_of) (simp add: range_ok_set)

lemma map_of_range_entries:
  assumes "range_ok ord" "distinct (map fst m)"
  shows "map_of (range_entries ord site m) = map_of m"
  using assms by (subst map_of_inject_set) (simp_all add: keys_range_entries range_ok_distinct set_range_entries)

lemma length_range_entries: "range_ok ord \<Longrightarrow> length (range_entries ord site m) = length m"
  by (metis keys_range_entries length_map range_ok_length)

lemma find_map: "find P (map f xs) = map_option f (find (P \<circ> f) xs)"
  by (induction xs) simp_all

lemma find_key: "find (\<lambda>e. fst e = k) al = map_option (Pair k) (map_of al k)"
  by (induction al) auto

lemma find_SomeD: "find P xs = Some x \<Longrightarrow> x \<in> set xs \<and> P x"
  by (induction xs) (auto split: if_splits)

lemma find_append: "find P (xs @ ys) = (case find P xs of None \<Rightarrow> find P ys | Some x \<Rightarrow> Some x)"
  by (induction xs) auto

lemma length_filter_same: "length (filter P xs) = length xs \<longleftrightarrow> (\<forall>x \<in> set xs. P x)"
proof (cases "\<forall>x \<in> set xs. P x")
  case False
  then obtain x where "x \<in> set xs" "\<not> P x" by blast
  then have "length (filter P xs) < length xs" by (rule length_filter_less)
  with False show ?thesis by simp
qed simp

section \<open>Strings\<close>

definition HasPrefix :: "string \<Rightarrow> string \<Rightarrow> bool" where
  "HasPrefix s p \<longleftrightarrow> take (length p) s = p"

lemma HasPrefix_iff: "HasPrefix s p \<longleftrightarrow> (\<exists>t. s = p @ t)"
  by (auto simp: HasPrefix_def) (metis append_take_drop_id)

text \<open>\<^verbatim>\<open>strings.Join\<close>.\<close>

fun join :: "string \<Rightarrow> string list \<Rightarrow> string" where
  "join sep [] = []"
| "join sep [x] = x"
| "join sep (x # y # ys) = x @ sep @ join sep (y # ys)"

text \<open>\<^verbatim>\<open>strconv.ParseBool\<close>.\<close>

definition ParseBool :: "string \<Rightarrow> bool option" where
  "ParseBool s =
     (if s \<in> {''1'', ''t'', ''T'', ''true'', ''TRUE'', ''True''} then Some True
      else if s \<in> {''0'', ''f'', ''F'', ''false'', ''FALSE'', ''False''} then Some False
      else None)"

definition digit :: "nat \<Rightarrow> char" where
  "digit d = char_of (48 + d)"

fun show_nat :: "nat \<Rightarrow> string" where
  "show_nat n = (if n < 10 then [digit n] else show_nat (n div 10) @ [digit (n mod 10)])"

declare show_nat.simps [simp del]

definition show_int :: "int \<Rightarrow> string" where
  "show_int i = (if i < 0 then CHR ''-'' # show_nat (nat (- i)) else show_nat (nat i))"

definition is_digit :: "char \<Rightarrow> bool" where
  "is_digit c \<longleftrightarrow> 48 \<le> (of_char c :: nat) \<and> (of_char c :: nat) \<le> 57"

definition digit_val :: "char \<Rightarrow> nat" where
  "digit_val c = of_char c - 48"

definition read_nat :: "string \<Rightarrow> nat" where
  "read_nat s = foldl (\<lambda>n c. 10 * n + digit_val c) 0 s"

lemma digits:
  "digit 0 = CHR ''0''" "digit (Suc 0) = CHR ''1''" "digit 2 = CHR ''2''" "digit 3 = CHR ''3''" "digit 4 = CHR ''4''"
  "digit 5 = CHR ''5''" "digit 6 = CHR ''6''" "digit 7 = CHR ''7''" "digit 8 = CHR ''8''" "digit 9 = CHR ''9''"
  by (simp_all add: digit_def char_of_def bit_0)

lemma digit_val_digit [simp]: "d < 10 \<Longrightarrow> digit_val (digit d) = d"
  by (simp add: digit_val_def digit_def)

lemma is_digit_digit [simp]: "d < 10 \<Longrightarrow> is_digit (digit d)"
  by (simp add: is_digit_def digit_def)

lemma not_is_digit_dash [simp]: "\<not> is_digit (CHR ''-'')"
  by (simp add: is_digit_def)

lemma read_nat_show_nat [simp]: "read_nat (show_nat n) = n"
proof (induction n rule: show_nat.induct)
  case (1 n)
  then show ?case
    by (cases "n < 10") (simp_all add: show_nat.simps[of n] read_nat_def)
qed

lemma show_nat_inject [simp]: "show_nat m = show_nat n \<longleftrightarrow> m = n"
  by (metis read_nat_show_nat)

lemma show_nat_digits: "c \<in> set (show_nat n) \<Longrightarrow> is_digit c"
proof (induction n rule: show_nat.induct)
  case (1 n)
  then show ?case
    by (cases "n < 10") (auto simp: show_nat.simps[of n])
qed

lemma show_nat_not_Nil [simp]: "show_nat n \<noteq> []"
  by (simp add: show_nat.simps[of n])

lemma show_nat_no_dash [simp]: "show_nat n \<noteq> CHR ''-'' # s"
  using show_nat_digits[of "CHR ''-''" n] by (metis list.set_intros(1) not_is_digit_dash)

lemma show_int_not_Nil [simp]: "show_int i \<noteq> []"
  by (simp add: show_int_def)

lemma show_int_inject [simp]: "show_int i = show_int j \<longleftrightarrow> i = j"
  using show_nat_no_dash [THEN not_sym] by (auto simp: show_int_def)

lemma digits_then_dash:
  assumes "\<forall>c \<in> set xs. is_digit c" "\<forall>c \<in> set ys. is_digit c"
    "xs @ CHR ''-'' # s = ys @ CHR ''-'' # t"
  shows "xs = ys \<and> s = t"
proof -
  have "takeWhile is_digit (xs @ CHR ''-'' # s) = xs" "takeWhile is_digit (ys @ CHR ''-'' # t) = ys"
    using assms(1,2) by simp_all
  with assms(3) show ?thesis by (metis append_same_eq list.inject same_append_eq)
qed

lemma show_nat_then_dash:
  "show_nat m @ CHR ''-'' # s = show_nat n @ CHR ''-'' # t \<Longrightarrow> m = n \<and> s = t"
  using digits_then_dash[of "show_nat m" "show_nat n" s t] by (auto dest: show_nat_digits)

lemma show_int_then_dash:
  assumes "show_int i @ CHR ''-'' # s = show_int j @ CHR ''-'' # t"
  shows "i = j \<and> s = t"
proof -
  have *: "show_nat m @ CHR ''-'' # s' \<noteq> CHR ''-'' # t'" for m s' t'
    by (cases "show_nat m") (use show_nat_no_dash[of m] in auto)
  from assms show ?thesis
    using * not_sym[OF *]
    by (auto simp: show_int_def dest: show_nat_then_dash split: if_splits)
qed

end
