(* ===== verification/Json.thy ===== *)
theory Json
  imports Prelude
begin

text \<open>
  The part of Go's \<^verbatim>\<open>encoding/json\<close> that kubemci relies on, on the byte level: the encoding of
  strings with HTML escaping, a parser for JSON texts that accepts what \<^verbatim>\<open>json.Unmarshal\<close>
  accepts, and case-insensitive matching of object keys with struct fields.  A Go string is a
  list of bytes, so it may be invalid UTF-8: the encoder and the decoder then write U+FFFD.
\<close>

section \<open>Bytes and UTF-8\<close>

abbreviation byte :: "char \<Rightarrow> nat" where
  "byte c \<equiv> of_char c"

definition dquote :: char where "dquote = CHR 0x22"
definition backslash :: char where "backslash = CHR 0x5C"

definition is_cont :: "char \<Rightarrow> bool" where
  "is_cont c \<longleftrightarrow> 0x80 \<le> byte c \<and> byte c \<le> 0xBF"

text \<open>The second byte a leading byte accepts (the \<^verbatim>\<open>acceptRanges\<close> of \<^verbatim>\<open>unicode/utf8\<close>).\<close>

definition second_of_3 :: "char \<Rightarrow> char \<Rightarrow> bool" where
  "second_of_3 c d \<longleftrightarrow>
     (byte c = 0xE0 \<and> 0xA0 \<le> byte d \<and> byte d \<le> 0xBF)
   \<or> (byte c = 0xED \<and> 0x80 \<le> byte d \<and> byte d \<le> 0x9F)
   \<or> (0xE1 \<le> byte c \<and> byte c \<le> 0xEF \<and> byte c \<noteq> 0xED \<and> is_cont d)"

definition second_of_4 :: "char \<Rightarrow> char \<Rightarrow> bool" where
  "second_of_4 c d \<longleftrightarrow>
     (byte c = 0xF0 \<and> 0x90 \<le> byte d \<and> byte d \<le> 0xBF)
   \<or> (byte c = 0xF4 \<and> 0x80 \<le> byte d \<and> byte d \<le> 0x8F)
   \<or> (0xF1 \<le> byte c \<and> byte c \<le> 0xF3 \<and> is_cont d)"

text \<open>Size of the multi-byte sequence at the start of the string; 0 if there is no valid one.\<close>

fun utf8_multi :: "string \<Rightarrow> nat" where
  "utf8_multi (c0 # c1 # r) =
     (if 0xC2 \<le> byte c0 \<and> byte c0 \<le> 0xDF \<and> is_cont c1 then 2
      else case r of
        [] \<Rightarrow> 0
      | c2 # r' \<Rightarrow>
          if second_of_3 c0 c1 \<and> is_cont c2 then 3
          else (case r' of
            [] \<Rightarrow> 0
          | c3 # _ \<Rightarrow> if second_of_4 c0 c1 \<and> is_cont c2 \<and> is_cont c3 then 4 else 0))"
| "utf8_multi _ = 0"

lemma utf8_multi_le: "utf8_multi s \<le> length s"
  by (induction s rule: utf8_multi.induct) (auto split: list.splits)

lemma utf8_multi_append: "utf8_multi s \<noteq> 0 \<Longrightarrow> utf8_multi (s @ t) = utf8_multi s"
  by (induction s rule: utf8_multi.induct) (auto split: list.splits if_splits)

function valid_utf8 :: "string \<Rightarrow> bool" where
  "valid_utf8 [] = True"
| "valid_utf8 (c # s) =
     (if byte c < 0x80 then valid_utf8 s
      else case utf8_multi (c # s) of 0 \<Rightarrow> False | Suc n \<Rightarrow> valid_utf8 (drop n s))"
  by pat_completeness auto
termination by (relation "measure length") auto

text \<open>UTF-8 encoding of a code point.\<close>

definition utf8_encode :: "nat \<Rightarrow> string" where
  "utf8_encode r = map char_of
     (if r < 0x80 then [r]
      else if r < 0x800 then [0xC0 + r div 64, 0x80 + r mod 64]
      else if r < 0x10000 then [0xE0 + r div 4096, 0x80 + r div 64 mod 64, 0x80 + r mod 64]
      else [0xF0 + r div 262144, 0x80 + r div 4096 mod 64, 0x80 + r div 64 mod 64, 0x80 + r mod 64])"

definition replacement_char :: string where
  "replacement_char = [CHR 0xEF, CHR 0xBF, CHR 0xBD]"

section \<open>Encoding\<close>

definition hex_digit :: "nat \<Rightarrow> char" where
  "hex_digit d = (if d < 10 then char_of (48 + d) else char_of (87 + d))"

text \<open>
  Bytes below 0x80: all but the quote, the backslash, the control characters and
  \<^verbatim>\<open><\<close>, \<^verbatim>\<open>>\<close>, \<^verbatim>\<open>&\<close> stand for themselves.
\<close>

definition html_safe :: "char \<Rightarrow> bool" where
  "html_safe c \<longleftrightarrow> 0x20 \<le> byte c \<and> c \<noteq> dquote \<and> c \<noteq> backslash
     \<and> c \<noteq> CHR ''<'' \<and> c \<noteq> CHR ''>'' \<and> c \<noteq> CHR ''&''"

definition escape_ascii :: "char \<Rightarrow> string" where
  "escape_ascii c =
     (if html_safe c then [c]
      else if c = backslash \<or> c = dquote then [backslash, c]
      else if c = CHR 0x0A then [backslash, CHR ''n'']
      else if c = CHR 0x0D then [backslash, CHR ''r'']
      else if c = CHR 0x09 then [backslash, CHR ''t'']
      else [backslash, CHR ''u'', CHR ''0'', CHR ''0'', hex_digit (byte c div 16), hex_digit (byte c mod 16)])"

function quote_body :: "string \<Rightarrow> string" where
  "quote_body [] = []"
| "quote_body (c # s) =
     (if byte c < 0x80 then escape_ascii c @ quote_body s
      else case utf8_multi (c # s) of
        0 \<Rightarrow> backslash # ''ufffd'' @ quote_body s
      | Suc n \<Rightarrow>
          (if take (Suc n) (c # s) = [CHR 0xE2, CHR 0x80, CHR 0xA8] then backslash # ''u2028''
           else if take (Suc n) (c # s) = [CHR 0xE2, CHR 0x80, CHR 0xA9] then backslash # ''u2029''
           else take (Suc n) (c # s)) @ quote_body (drop n s))"
  by pat_completeness auto
termination by (relation "measure length") auto

definition json_string :: "string \<Rightarrow> string" where
  "json_string s = dquote # quote_body s @ [dquote]"

section \<open>Parsing\<close>

datatype json =
    JNull | JBool bool | JNum string | JStr string | JArr "json list" | JObj "(string \<times> json) list"

definition hex_val :: "char \<Rightarrow> nat option" where
  "hex_val c =
     (if 48 \<le> byte c \<and> byte c \<le> 57 then Some (byte c - 48)
      else if 97 \<le> byte c \<and> byte c \<le> 102 then Some (byte c - 87)
      else if 65 \<le> byte c \<and> byte c \<le> 70 then Some (byte c - 55)
      else None)"

fun hex4 :: "string \<Rightarrow> (nat \<times> string) option" where
  "hex4 (a # b # c # d # r) =
     (case (hex_val a, hex_val b, hex_val c, hex_val d) of
        (Some w, Some x, Some y, Some z) \<Rightarrow> Some (((w * 16 + x) * 16 + y) * 16 + z, r)
      | _ \<Rightarrow> None)"
| "hex4 _ = None"

text \<open>A \<^verbatim>\<open>\uXXXX\<close> escape, with the second half of a surrogate pair if it follows.\<close>

fun second_surrogate :: "string \<Rightarrow> (nat \<times> string) option" where
  "second_surrogate (b # u # r) =
     (if b = backslash \<and> u = CHR ''u'' then
        (case hex4 r of
           Some (n, r') \<Rightarrow> if 0xDC00 \<le> n \<and> n < 0xE000 then Some (n, r') else None
         | None \<Rightarrow> None)
      else None)"
| "second_surrogate _ = None"

definition unescape_u :: "string \<Rightarrow> (string \<times> string) option" where
  "unescape_u r =
     (case hex4 r of
        None \<Rightarrow> None
      | Some (n, r') \<Rightarrow>
          if 0xD800 \<le> n \<and> n < 0xE000 then
            (case (if n < 0xDC00 then second_surrogate r' else None) of
               Some (m, r'') \<Rightarrow>
                 Some (utf8_encode ((n - 0xD800) * 0x400 + (m - 0xDC00) + 0x10000), r'')
             | None \<Rightarrow> Some (replacement_char, r'))
          else Some (utf8_encode n, r'))"

fun unescape :: "string \<Rightarrow> (string \<times> string) option" where
  "unescape [] = None"
| "unescape (c # r) =
     (if c = dquote \<or> c = backslash \<or> c = CHR ''/'' then Some ([c], r)
      else if c = CHR ''b'' then Some ([CHR 0x08], r)
      else if c = CHR ''f'' then Some ([CHR 0x0C], r)
      else if c = CHR ''n'' then Some ([CHR 0x0A], r)
      else if c = CHR ''r'' then Some ([CHR 0x0D], r)
      else if c = CHR ''t'' then Some ([CHR 0x09], r)
      else if c = CHR ''u'' then unescape_u r
      else None)"

lemma hex4_length: "hex4 s = Some (n, r) \<Longrightarrow> length r < length s"
  by (induction s rule: hex4.induct) (auto split: option.splits)

lemma second_surrogate_length: "second_surrogate s = Some (n, r) \<Longrightarrow> length r < length s"
  by (induction s rule: second_surrogate.induct)
    (auto split: option.splits if_splits dest: hex4_length)

lemma unescape_length: "unescape s = Some (x, r) \<Longrightarrow> length r < length s"
  by (induction s rule: unescape.induct)
    (fastforce simp: unescape_u_def split: option.splits if_splits
      dest: hex4_length second_surrogate_length)+

text \<open>The rest of a string literal after its opening quote: its value and what follows it.\<close>

function unquote :: "string \<Rightarrow> (string \<times> string) option" where
  "unquote [] = None"
| "unquote (c # r) =
     (if c = dquote then Some ([], r)
      else if c = backslash then
        (case unescape r of
           None \<Rightarrow> None
         | Some (x, r') \<Rightarrow> map_option (map_prod ((@) x) id) (unquote r'))
      else if byte c < 0x20 then None
      else if byte c < 0x80 then map_option (map_prod ((#) c) id) (unquote r)
      else case utf8_multi (c # r) of
        0 \<Rightarrow> map_option (map_prod ((@) replacement_char) id) (unquote r)
      | Suc n \<Rightarrow> map_option (map_prod ((@) (take (Suc n) (c # r))) id) (unquote (drop n r)))"
  by pat_completeness auto
termination by (relation "measure length") (auto dest: unescape_length)

definition is_space :: "char \<Rightarrow> bool" where
  "is_space c \<longleftrightarrow> c = CHR '' '' \<or> c = CHR 0x09 \<or> c = CHR 0x0A \<or> c = CHR 0x0D"

definition skip_space :: "string \<Rightarrow> string" where
  "skip_space s = dropWhile is_space s"

text \<open>Numbers: \<^verbatim>\<open>-?(0|[1-9][0-9]*)(\.[0-9]+)?([eE][+-]?[0-9]+)?\<close>\<close>

definition digits1 :: "string \<Rightarrow> (string \<times> string) option" where
  "digits1 s = (let d = takeWhile is_digit s in if d = [] then None else Some (d, dropWhile is_digit s))"

fun num_int :: "string \<Rightarrow> (string \<times> string) option" where
  "num_int [] = None"
| "num_int (c # s) = (if c = CHR ''0'' then Some ([c], s) else digits1 (c # s))"

fun num_frac :: "string \<Rightarrow> (string \<times> string) option" where
  "num_frac (c # s) =
     (if c = CHR ''.'' then map_option (map_prod ((#) c) id) (digits1 s) else Some ([], c # s))"
| "num_frac [] = Some ([], [])"

fun num_sign :: "string \<Rightarrow> string \<times> string" where
  "num_sign (c # s) = (if c = CHR ''+'' \<or> c = CHR ''-'' then ([c], s) else ([], c # s))"
| "num_sign [] = ([], [])"

fun num_exp :: "string \<Rightarrow> (string \<times> string) option" where
  "num_exp (c # s) =
     (if c = CHR ''e'' \<or> c = CHR ''E'' then
        (case num_sign s of (g, r) \<Rightarrow> map_option (map_prod ((@) (c # g)) id) (digits1 r))
      else Some ([], c # s))"
| "num_exp [] = Some ([], [])"

definition num_abs :: "string \<Rightarrow> (string \<times> string) option" where
  "num_abs s =
     (case num_int s of None \<Rightarrow> None | Some (i, r) \<Rightarrow>
      case num_frac r of None \<Rightarrow> None | Some (f, r') \<Rightarrow>
      map_option (map_prod ((@) (i @ f)) id) (num_exp r'))"

fun number :: "string \<Rightarrow> (string \<times> string) option" where
  "number [] = None"
| "number (c # s) =
     (if c = CHR ''-'' then map_option (map_prod ((#) c) id) (num_abs s) else num_abs (c # s))"

definition literal :: "string \<Rightarrow> json \<Rightarrow> string \<Rightarrow> (json \<times> string) option" where
  "literal w v s = (if HasPrefix s w then Some (v, drop (length w) s) else None)"

lemma skip_space_length: "length (skip_space s) \<le> length s"
  by (simp add: skip_space_def length_dropWhile_le)

lemma skip_space_Cons_length: "skip_space s = c # r \<Longrightarrow> length r < length s"
  using skip_space_length[of s] by simp

text \<open>
  Values, the elements of an array after \<^verbatim>\<open>[\<close> and the members of an object after
  \<^verbatim>\<open>{\<close>.  A continuation after a comma is entered only when the parser has moved on, which
  \<open>parse_progress\<close> below shows to hold always: the test is there for the termination proof.
\<close>

function parse_value :: "string \<Rightarrow> (json \<times> string) option"
  and parse_elems :: "string \<Rightarrow> (json list \<times> string) option"
  and parse_members :: "string \<Rightarrow> ((string \<times> json) list \<times> string) option"
where
  "parse_value s =
     (case skip_space s of
        [] \<Rightarrow> None
      | c # r \<Rightarrow>
          if c = CHR ''{'' then
            (case skip_space r of
               [] \<Rightarrow> None
             | d # r' \<Rightarrow>
                 if d = CHR ''}'' then Some (JObj [], r')
                 else map_option (map_prod JObj id) (parse_members r))
          else if c = CHR ''['' then
            (case skip_space r of
               [] \<Rightarrow> None
             | d # r' \<Rightarrow>
                 if d = CHR '']'' then Some (JArr [], r')
                 else map_option (map_prod JArr id) (parse_elems r))
          else if c = dquote then map_option (map_prod JStr id) (unquote r)
          else if c = CHR ''t'' then literal ''true'' (JBool True) (c # r)
          else if c = CHR ''f'' then literal ''false'' (JBool False) (c # r)
          else if c = CHR ''n'' then literal ''null'' JNull (c # r)
          else map_option (map_prod JNum id) (number (c # r)))"
| "parse_elems s =
     (case parse_value s of
        None \<Rightarrow> None
      | Some (v, r) \<Rightarrow>
          (case skip_space r of
             [] \<Rightarrow> None
           | c # r' \<Rightarrow>
               if c = CHR '']'' then Some ([v], r')
               else if c = CHR '','' \<and> length r' < length s then
                 map_option (map_prod ((#) v) id) (parse_elems r')
               else None))"
| "parse_members s =
     (case skip_space s of
        [] \<Rightarrow> None
      | c # r \<Rightarrow>
          if c \<noteq> dquote then None
          else (case unquote r of
             None \<Rightarrow> None
           | Some (k, r1) \<Rightarrow>
               (case skip_space r1 of
                  [] \<Rightarrow> None
                | c1 # r2 \<Rightarrow>
                    if c1 \<noteq> CHR '':'' \<or> length r2 \<ge> length s then None
                    else (case parse_value r2 of
                       None \<Rightarrow> None
                     | Some (v, r3) \<Rightarrow>
                         (case skip_space r3 of
                            [] \<Rightarrow> None
                          | c3 # r4 \<Rightarrow>
                              if c3 = CHR ''}'' then Some ([(k, v)], r4)
                              else if c3 = CHR '','' \<and> length r4 < length s then
                                map_option (map_prod ((#) (k, v)) id) (parse_members r4)
                              else None)))))"
  by pat_completeness auto

termination
  by (relation "measure (\<lambda>x. case x of Inl s \<Rightarrow> 2 * length s
        | Inr (Inl s) \<Rightarrow> 2 * length s + 1 | Inr (Inr s) \<Rightarrow> 2 * length s + 1)")
    (auto dest: skip_space_Cons_length)

declare parse_value.simps [simp del] parse_elems.simps [simp del] parse_members.simps [simp del]

text \<open>\<^verbatim>\<open>json.Unmarshal\<close> up to the decoding into a Go value: one value and nothing but space after it.\<close>

definition json_parse :: "string \<Rightarrow> json option" where
  "json_parse s =
     (case parse_value s of
        Some (v, r) \<Rightarrow> if skip_space r = [] then Some v else None
      | None \<Rightarrow> None)"

section \<open>Struct fields\<close>

text \<open>
  \<^verbatim>\<open>equalFoldRight\<close> of \<^verbatim>\<open>encoding/json/fold.go\<close>: ASCII letters match in either case, and
  \<^verbatim>\<open>s\<close> and \<^verbatim>\<open>k\<close> also match U+017F and U+212A.
\<close>

definition upper :: "char \<Rightarrow> nat" where
  "upper c = (if 97 \<le> byte c \<and> byte c \<le> 122 then byte c - 32 else byte c)"

definition is_letter :: "char \<Rightarrow> bool" where
  "is_letter c \<longleftrightarrow> 65 \<le> upper c \<and> upper c \<le> 90"

fun equal_fold :: "string \<Rightarrow> string \<Rightarrow> bool" where
  "equal_fold [] t = (t = [])"
| "equal_fold (c # s) [] = False"
| "equal_fold (c # s) (d # t) =
     (if byte d < 0x80 then (c = d \<or> is_letter c \<and> upper c = upper d) \<and> equal_fold s t
      else if upper c = 83 then (case t of e # t' \<Rightarrow> byte d = 0xC5 \<and> byte e = 0xBF \<and> equal_fold s t' | [] \<Rightarrow> False)
      else if upper c = 75 then
        (case t of e # f # t' \<Rightarrow> byte d = 0xE2 \<and> byte e = 0x84 \<and> byte f = 0xAA \<and> equal_fold s t' | _ \<Rightarrow> False)
      else False)"

section \<open>The parser always moves on\<close>

lemma unquote_length: "unquote s = Some (x, r) \<Longrightarrow> length r < length s"
proof (induction s arbitrary: x r rule: length_induct)
  case (1 s)
  then have IH: "unquote t = Some (y, q) \<Longrightarrow> length t < length s \<Longrightarrow> length q < length t" for t y q
    by blast
  show ?case
  proof (cases s)
    case Nil
    with "1.prems" show ?thesis by simp
  next
    case (Cons c t)
    with "1.prems" have "r = t \<or> (\<exists>t' y. unquote t' = Some (y, r) \<and> length t' \<le> length t)"
      by (auto split: if_splits option.splits nat.splits dest!: unescape_length)
        (metis order.strict_implies_order)
    with IH Cons show ?thesis by fastforce
  qed
qed

lemma digits1_length: "digits1 s = Some (d, r) \<Longrightarrow> length r < length s"
proof -
  assume "digits1 s = Some (d, r)"
  then have "takeWhile is_digit s \<noteq> []" "r = dropWhile is_digit s"
    by (auto simp: digits1_def Let_def split: if_splits)
  then show ?thesis
    by (metis add_diff_cancel_left' length_append length_greater_0_conv takeWhile_dropWhile_id
        less_add_same_cancel2)
qed

lemma num_int_length: "num_int s = Some (d, r) \<Longrightarrow> length r < length s"
  by (cases s) (auto split: if_splits dest!: digits1_length)

lemma num_frac_length: "num_frac s = Some (d, r) \<Longrightarrow> length r \<le> length s"
  by (cases s) (auto split: if_splits dest!: digits1_length)

lemma num_sign_length: "num_sign s = (d, r) \<Longrightarrow> length r \<le> length s"
  by (cases s) (auto split: if_splits)

lemma num_exp_length: "num_exp s = Some (d, r) \<Longrightarrow> length r \<le> length s"
  by (cases s) (auto split: if_splits prod.splits dest!: digits1_length num_sign_length)

lemma num_abs_length: "num_abs s = Some (d, r) \<Longrightarrow> length r < length s"
  by (auto simp: num_abs_def split: option.splits
      dest!: num_int_length num_frac_length num_exp_length)

lemma number_length: "number s = Some (d, r) \<Longrightarrow> length r < length s"
  by (cases s) (auto split: if_splits dest!: num_abs_length)

lemma literal_length: "w \<noteq> [] \<Longrightarrow> literal w v s = Some (x, r) \<Longrightarrow> length r < length s"
  by (auto simp: literal_def HasPrefix_iff split: if_splits)

lemmas word_lengths =
  literal_length[of "''true''", simplified] literal_length[of "''false''", simplified]
  literal_length[of "''null''", simplified]

lemma parse_value_step:
  assumes "parse_value s = Some (v, r)"
  shows "length r < length s
    \<or> (\<exists>t ms. length t < length s \<and> parse_members t = Some (ms, r))
    \<or> (\<exists>t vs. length t < length s \<and> parse_elems t = Some (vs, r))"
proof -
  obtain c t where ct: "skip_space s = c # t"
    using assms by (subst (asm) parse_value.simps) (auto split: list.splits)
  have len: "length (c # t) \<le> length s" using ct skip_space_length[of s] by simp
  consider (obj) "c = CHR ''{''" | (arr) "c = CHR ''[''" | (str) "c = dquote"
    | (tok) "length r < length (c # t)"
    using assms ct
    by (subst (asm) parse_value.simps)
      (auto split: if_splits simp del: number.simps dest!: number_length word_lengths)
  then show ?thesis
  proof cases
    case obj
    with assms ct len show ?thesis
      by (subst (asm) parse_value.simps)
        (auto split: list.splits if_splits dest!: skip_space_Cons_length)
  next
    case arr
    with assms ct len show ?thesis
      by (subst (asm) parse_value.simps)
        (auto split: list.splits if_splits dest!: skip_space_Cons_length)
  next
    case str
    with assms ct len show ?thesis
      by (subst (asm) parse_value.simps) (auto simp: dquote_def dest!: unquote_length)
  qed (use len in simp)
qed

lemma parse_elems_step:
  assumes "parse_elems s = Some (vs, r)"
  shows "\<exists>v r1. parse_value s = Some (v, r1)
    \<and> (length r < length r1 \<or> (\<exists>t vs'. length t < length s \<and> parse_elems t = Some (vs', r)))"
  using assms
  by (subst (asm) parse_elems.simps)
    (auto split: list.splits if_splits option.splits dest!: skip_space_Cons_length)

lemma parse_members_step:
  assumes "parse_members s = Some (ms, r)"
  shows "\<exists>t v r1. length t < length s \<and> parse_value t = Some (v, r1)
    \<and> (length r < length r1 \<or> (\<exists>t ms'. length t < length s \<and> parse_members t = Some (ms', r)))"
proof -
  from assms obtain t v r1 c r2 where "length t < length s" "parse_value t = Some (v, r1)"
    "skip_space r1 = c # r2"
    "r = r2 \<or> (length r2 < length s \<and> (\<exists>ms'. parse_members r2 = Some (ms', r)))"
    by (subst (asm) parse_members.simps)
      (auto simp: not_le split: list.splits if_splits option.splits)
  then show ?thesis using skip_space_Cons_length by blast
qed

lemma parse_progress:
  "(\<forall>v r. parse_value s = Some (v, r) \<longrightarrow> length r < length s)
   \<and> (\<forall>vs r. parse_elems s = Some (vs, r) \<longrightarrow> length r < length s)
   \<and> (\<forall>ms r. parse_members s = Some (ms, r) \<longrightarrow> length r < length s)"
proof (induction s rule: length_induct)
  case (1 s)
  have val: "length r < length s" if "parse_value s = Some (v, r)" for v r
    using parse_value_step[OF that] "1.IH" by (meson order_less_trans)
  moreover have "length r < length s" if "parse_elems s = Some (vs, r)" for vs r
    using parse_elems_step[OF that] "1.IH" val by (meson order_less_trans)
  moreover have "length r < length s" if "parse_members s = Some (ms, r)" for ms r
    using parse_members_step[OF that] "1.IH" by (meson order_less_trans)
  ultimately show ?case by blast
qed

section \<open>Decoding what was encoded\<close>

text \<open>\<open>parses t v\<close>: the text \<open>t\<close> is read as the value \<open>v\<close>, whatever follows it.\<close>

definition parses :: "string \<Rightarrow> json \<Rightarrow> bool" where
  "parses t v \<longleftrightarrow> (\<exists>c t'. t = c # t' \<and> \<not> is_space c \<and> c \<noteq> CHR '']'')
     \<and> (\<forall>r. parse_value (t @ r) = Some (v, r))"

lemma parsesD: "parses t v \<Longrightarrow> parse_value (t @ r) = Some (v, r)"
  by (simp add: parses_def)

lemma skip_space_Cons: "\<not> is_space c \<Longrightarrow> skip_space (c # r) = c # r"
  by (simp add: skip_space_def)

lemma punctuation_not_space [simp]:
  "\<not> is_space (CHR ''{'')" "\<not> is_space (CHR ''}'')" "\<not> is_space (CHR ''['')" "\<not> is_space (CHR '']'')"
  "\<not> is_space (CHR '','')" "\<not> is_space (CHR '':'')" "\<not> is_space (CHR ''n'')" "\<not> is_space dquote"
  by (simp_all add: is_space_def dquote_def)

lemma skip_space_parses: "parses t v \<Longrightarrow> \<exists>c t'. skip_space (t @ r) = c # t' \<and> c \<noteq> CHR '']''"
  by (auto simp: parses_def skip_space_Cons)

lemma hex_val_hex_digit: "d < 16 \<Longrightarrow> hex_val (hex_digit d) = Some d"
  by (simp add: hex_val_def hex_digit_def)

lemma utf8_encode_ascii: "byte c < 0x80 \<Longrightarrow> utf8_encode (byte c) = [c]"
  by (simp add: utf8_encode_def)

lemma unquote_u00:
  assumes "byte c < 0x80"
  shows "unquote (backslash # CHR ''u'' # CHR ''0'' # CHR ''0'' # hex_digit (byte c div 16)
      # hex_digit (byte c mod 16) # t) = map_option (map_prod ((#) c) id) (unquote t)"
proof -
  have "hex_val (CHR ''0'') = Some 0" by (simp add: hex_val_def)
  moreover have "byte c div 16 < 16" "byte c mod 16 < 16" using assms by auto
  ultimately have "hex4 (CHR ''0'' # CHR ''0'' # hex_digit (byte c div 16) # hex_digit (byte c mod 16) # t)
      = Some (byte c, t)"
    by (simp add: hex_val_hex_digit)
  then show ?thesis
    using assms utf8_encode_ascii[OF assms]
    by (simp add: unescape_u_def backslash_def dquote_def) (metis append_Cons append_Nil)
qed

lemma append_single: "(@) [x] = (#) x"
  by (rule ext) simp

lemma unquote_short_escape:
  "unquote (backslash # backslash # t) = map_option (map_prod ((#) backslash) id) (unquote t)"
  "unquote (backslash # dquote # t) = map_option (map_prod ((#) dquote) id) (unquote t)"
  "unquote (backslash # CHR ''n'' # t) = map_option (map_prod ((#) (CHR 0x0A)) id) (unquote t)"
  "unquote (backslash # CHR ''r'' # t) = map_option (map_prod ((#) (CHR 0x0D)) id) (unquote t)"
  "unquote (backslash # CHR ''t'' # t) = map_option (map_prod ((#) (CHR 0x09)) id) (unquote t)"
  by (simp_all add: backslash_def dquote_def append_single)

lemma unquote_html_safe:
  "html_safe c \<Longrightarrow> byte c < 0x80 \<Longrightarrow> unquote (c # t) = map_option (map_prod ((#) c) id) (unquote t)"
  by (simp add: html_safe_def)

lemma unquote_escape_ascii:
  assumes "byte c < 0x80"
  shows "unquote (escape_ascii c @ t) = map_option (map_prod ((#) c) id) (unquote t)"
  unfolding escape_ascii_def
  using unquote_html_safe[of c t] unquote_short_escape[of t] unquote_u00[OF assms, of t] assms
  by (simp del: unquote.simps)

lemma utf8_multi_take: "utf8_multi s \<noteq> 0 \<Longrightarrow> utf8_multi (take (utf8_multi s) s) = utf8_multi s"
  by (induction s rule: utf8_multi.induct) (auto split: list.splits if_splits)

lemma unquote_multi:
  assumes "utf8_multi s = Suc n" "s = c # s'" "\<not> byte c < 0x80"
  shows "unquote (take (Suc n) s @ t) = map_option (map_prod ((@) (take (Suc n) s)) id) (unquote t)"
proof -
  let ?m = "take (Suc n) s"
  have m: "utf8_multi (?m @ t) = Suc n"
    using assms(1) utf8_multi_take[of s] utf8_multi_append[of ?m t] by simp
  have "length s \<ge> Suc n" using utf8_multi_le[of s] assms(1) by simp
  then have "length ?m = Suc n" by simp
  moreover obtain m' where m': "?m = c # m'" using assms(2) by simp
  ultimately have "drop n (m' @ t) = t" by simp
  moreover have "c \<noteq> dquote" "c \<noteq> backslash" "\<not> byte c < 0x20"
    using assms(3) by (auto simp: dquote_def backslash_def)
  ultimately show ?thesis
    using m assms(3) \<open>length ?m = Suc n\<close> by (simp add: m')
qed

lemma line_sep_bytes:
  "utf8_encode 0x2028 = [CHR 0xE2, CHR 0x80, CHR 0xA8]"
  "utf8_encode 0x2029 = [CHR 0xE2, CHR 0x80, CHR 0xA9]"
  by (simp_all add: utf8_encode_def char_of_eq_iff)

lemma unquote_line_sep:
  "unquote ((backslash # ''u2028'') @ t) = map_option (map_prod ((@) [CHR 0xE2, CHR 0x80, CHR 0xA8]) id) (unquote t)"
  "unquote ((backslash # ''u2029'') @ t) = map_option (map_prod ((@) [CHR 0xE2, CHR 0x80, CHR 0xA9]) id) (unquote t)"
  by (simp_all add: backslash_def dquote_def unescape_u_def hex_val_def line_sep_bytes)

lemma unquote_quote_body:
  "valid_utf8 s \<Longrightarrow> unquote (quote_body s @ dquote # r) = Some (s, r)"
proof (induction s rule: quote_body.induct)
  case 1
  show ?case by simp
next
  case (2 c s)
  show ?case
  proof (cases "byte c < 0x80")
    case True
    with 2 show ?thesis by (simp add: unquote_escape_ascii)
  next
    case False
    with "2.prems" obtain n where n: "utf8_multi (c # s) = Suc n" and v: "valid_utf8 (drop n s)"
      by (auto split: nat.splits)
    have IH: "unquote (quote_body (drop n s) @ dquote # r) = Some (drop n s, r)"
      by (rule "2.IH"(3)[OF False n v])
    have body: "quote_body (c # s) @ dquote # r =
        (if take (Suc n) (c # s) = [CHR 0xE2, CHR 0x80, CHR 0xA8] then backslash # ''u2028''
         else if take (Suc n) (c # s) = [CHR 0xE2, CHR 0x80, CHR 0xA9] then backslash # ''u2029''
         else take (Suc n) (c # s)) @ quote_body (drop n s) @ dquote # r"
      using False n by (simp only: quote_body.simps if_False nat.case append_assoc)
    have "unquote (quote_body (c # s) @ dquote # r) = Some (take (Suc n) (c # s) @ drop n s, r)"
      unfolding body
      using unquote_multi[OF n refl False] unquote_line_sep IH
      by (simp del: unquote.simps take_Suc_Cons append_Cons)
    then show ?thesis by simp
  qed
qed

lemma parses_json_string: "valid_utf8 s \<Longrightarrow> parses (json_string s) (JStr s)"
  unfolding parses_def json_string_def
  by (auto simp: parse_value.simps[of "_ # _"] skip_space_Cons unquote_quote_body)
    (simp_all add: dquote_def)

lemma parses_null: "parses ''null'' JNull"
  unfolding parses_def
  by (auto simp: parse_value.simps[of "_ # _"] skip_space_Cons literal_def HasPrefix_def dquote_def)

lemma parse_elems_join:
  "list_all2 parses ts vs \<Longrightarrow> ts \<noteq> [] \<Longrightarrow>
   parse_elems (join '','' ts @ CHR '']'' # r) = Some (vs, r)"
proof (induction ts arbitrary: vs rule: induct_list012)
  case 1
  then show ?case by simp
next
  case (2 x)
  then obtain v where "vs = [v]" "parses x v" by (auto simp: list_all2_Cons1)
  then show ?case
    by (simp add: parse_elems.simps[of "x @ _"] parsesD skip_space_Cons)
next
  case (3 x y ys)
  then obtain v vs' where v: "vs = v # vs'" "parses x v" and vs': "list_all2 parses (y # ys) vs'"
    by (auto simp: list_all2_Cons1)
  have "parse_elems (join '','' (y # ys) @ CHR '']'' # r) = Some (vs', r)"
    using "3.IH"(2)[OF vs'] by simp
  with v show ?case
    by (simp add: parse_elems.simps[of "x @ _"] parsesD skip_space_Cons)
qed

text \<open>Arrays and objects as the encoder writes them, from the encodings of their parts.\<close>

definition json_array :: "string list \<Rightarrow> string" where
  "json_array ts = CHR ''['' # join '','' ts @ '']''"

definition json_object :: "(string \<times> string) list \<Rightarrow> string" where
  "json_object ms = CHR ''{'' # join '','' (map (\<lambda>(k, t). json_string k @ CHR '':'' # t) ms) @ ''}''"

lemma parses_json_array:
  assumes "list_all2 parses ts vs"
  shows "parses (json_array ts) (JArr vs)"
proof (cases ts)
  case Nil
  with assms show ?thesis
    by (auto simp: parses_def json_array_def parse_value.simps[of "_ # _"] skip_space_Cons)
next
  case (Cons t ts')
  with assms obtain v where "parses t v" by (auto simp: list_all2_Cons1)
  have head: "\<exists>c q. skip_space (join '','' ts @ CHR '']'' # r) = c # q \<and> c \<noteq> CHR '']''" for r
    using skip_space_parses[OF \<open>parses t v\<close>] Cons by (cases ts') auto
  have "parse_value (CHR ''['' # join '','' ts @ CHR '']'' # r) = Some (JArr vs, r)" for r
  proof -
    from head[of r] obtain c q where "skip_space (join '','' ts @ CHR '']'' # r) = c # q" "c \<noteq> CHR '']''"
      by blast
    then show ?thesis
      using parse_elems_join[OF assms, of r] Cons
      by (subst parse_value.simps) (simp add: skip_space_Cons)
  qed
  then have "parse_value (json_array ts @ r) = Some (JArr vs, r)" for r
    by (simp add: json_array_def)
  then show ?thesis by (auto simp: parses_def json_array_def)
qed

abbreviation member_parses :: "(string \<times> string) \<Rightarrow> (string \<times> json) \<Rightarrow> bool" where
  "member_parses m kv \<equiv> fst m = fst kv \<and> valid_utf8 (fst m) \<and> parses (snd m) (snd kv)"

lemma parse_members_join:
  "list_all2 member_parses ms kvs \<Longrightarrow> ms \<noteq> [] \<Longrightarrow>
   parse_members (join '','' (map (\<lambda>(k, t). json_string k @ CHR '':'' # t) ms) @ CHR ''}'' # r)
   = Some (kvs, r)"
proof (induction ms arbitrary: kvs rule: induct_list012)
  case 1
  then show ?case by simp
next
  case (2 m)
  then obtain k t v where "kvs = [(k, v)]" "m = (k, t)" "valid_utf8 k" "parses t v"
    by (cases m) (auto simp: list_all2_Cons1)
  then show ?case
    by (simp add: parse_members.simps json_string_def skip_space_Cons unquote_quote_body parsesD)
next
  case (3 m m' ms)
  then obtain k t v kvs' where kv: "kvs = (k, v) # kvs'" "m = (k, t)" "valid_utf8 k" "parses t v"
    and rest: "list_all2 member_parses (m' # ms) kvs'"
    by (cases m) (auto simp: list_all2_Cons1)
  have "parse_members (join '','' (map (\<lambda>(k, t). json_string k @ CHR '':'' # t) (m' # ms)) @ CHR ''}'' # r)
      = Some (kvs', r)"
    using "3.IH"(2)[OF rest] by simp
  with kv show ?case
    by (simp add: parse_members.simps[of "dquote # _"] json_string_def skip_space_Cons
        unquote_quote_body parsesD)
qed

lemma json_parse_object:
  assumes "list_all2 member_parses ms kvs"
  shows "json_parse (json_object ms) = Some (JObj kvs)"
proof (cases ms)
  case Nil
  with assms show ?thesis
    by (simp add: json_parse_def json_object_def parse_value.simps[of "_ # _"] skip_space_Cons)
      (simp add: skip_space_def)
next
  case (Cons m ms')
  have "\<exists>q. join '','' (map (\<lambda>(k, t). json_string k @ CHR '':'' # t) ms) @ ''}'' = dquote # q"
    using Cons by (cases ms'; cases m) (auto simp: json_string_def)
  then obtain q where q: "join '','' (map (\<lambda>(k, t). json_string k @ CHR '':'' # t) ms) @ ''}'' = dquote # q" ..
  have "parse_members (dquote # q) = Some (kvs, [])"
    using parse_members_join[OF assms, of "[]"] Cons q by simp
  then show ?thesis
    unfolding json_parse_def json_object_def q
    by (simp add: parse_value.simps[of "_ # _"] skip_space_Cons) (simp add: skip_space_def dquote_def)
qed

end
