(* ===== verification/Status.thy ===== *)
theory Status
  imports Json
begin

text \<open>
  \<^verbatim>\<open>app/kubemci/pkg/gcp/status/loadbalancerstatus.go\<close>: the status of a load balancer, kept as
  JSON in the description of its url map (of its forwarding rules in earlier versions).
  The field \<^verbatim>\<open>Clusters\<close> is a slice because its nil and empty values are encoded differently.
\<close>

section \<open>Definitions\<close>

record LoadBalancerStatus =
  Description :: string
  LoadBalancerName :: string
  Clusters :: "string slice"
  IPAddress :: string

definition zero_status :: LoadBalancerStatus where
  "zero_status = \<lparr>Description = '''', LoadBalancerName = '''', Clusters = NilSlice, IPAddress = ''''\<rparr>"

text \<open>\<^verbatim>\<open>json.Marshal\<close> of the struct: all four fields in order; it has no error for this type.\<close>

definition Marshal_status :: "LoadBalancerStatus \<Rightarrow> go_error + string" where
  "Marshal_status s = Inr (json_object
     [(''Description'', json_string (Description s)),
      (''LoadBalancerName'', json_string (LoadBalancerName s)),
      (''Clusters'', case Clusters s of NilSlice \<Rightarrow> ''null'' | Slice cs \<Rightarrow> json_array (map json_string cs)),
      (''IPAddress'', json_string (IPAddress s))])"

text \<open>
  \<^verbatim>\<open>json.Unmarshal\<close> into the struct.  A key is matched with the field names without regard to
  case, other keys are ignored, \<^verbatim>\<open>null\<close> leaves a string as it is and makes a slice nil, a value of
  another type is an error.
\<close>

fun unmarshal_string :: "json \<Rightarrow> string \<Rightarrow> string option" where
  "unmarshal_string (JStr s) old = Some s"
| "unmarshal_string JNull old = Some old"
| "unmarshal_string _ old = None"

fun unmarshal_strings :: "json \<Rightarrow> string slice option" where
  "unmarshal_strings (JArr vs) =
     (let es = map (\<lambda>v. unmarshal_string v '''') vs
      in if None \<in> set es then None else Some (Slice (map the es)))"
| "unmarshal_strings JNull = Some NilSlice"
| "unmarshal_strings _ = None"

fun unmarshal_field :: "(string \<times> json) \<Rightarrow> LoadBalancerStatus \<Rightarrow> LoadBalancerStatus option" where
  "unmarshal_field (k, v) s =
     (if equal_fold ''Description'' k then
        map_option (\<lambda>x. s\<lparr>Description := x\<rparr>) (unmarshal_string v (Description s))
      else if equal_fold ''LoadBalancerName'' k then
        map_option (\<lambda>x. s\<lparr>LoadBalancerName := x\<rparr>) (unmarshal_string v (LoadBalancerName s))
      else if equal_fold ''Clusters'' k then
        map_option (\<lambda>x. s\<lparr>Clusters := x\<rparr>) (unmarshal_strings v)
      else if equal_fold ''IPAddress'' k then
        map_option (\<lambda>x. s\<lparr>IPAddress := x\<rparr>) (unmarshal_string v (IPAddress s))
      else Some s)"

fun unmarshal_fields :: "(string \<times> json) list \<Rightarrow> LoadBalancerStatus \<Rightarrow> LoadBalancerStatus option" where
  "unmarshal_fields [] s = Some s"
| "unmarshal_fields (m # ms) s =
     (case unmarshal_field m s of None \<Rightarrow> None | Some s' \<Rightarrow> unmarshal_fields ms s')"

definition Unmarshal_status :: "string \<Rightarrow> go_error + LoadBalancerStatus" where
  "Unmarshal_status str =
     (case json_parse str of
        Some (JObj ms) \<Rightarrow>
          (case unmarshal_fields ms zero_status of Some s \<Rightarrow> Inr s | None \<Rightarrow> Inl (LibError ''json: cannot unmarshal''))
      | Some JNull \<Rightarrow> Inr zero_status
      | Some _ \<Rightarrow> Inl (LibError ''json: cannot unmarshal'')
      | None \<Rightarrow> Inl (LibError ''json: invalid syntax''))"

definition ToString :: "LoadBalancerStatus \<Rightarrow> go_error + string" where
  "ToString s =
     (case Marshal_status s of
        Inl err \<Rightarrow> Inl (Errorf ''error %s in marshalling status description %v'' [AErr err, AStr (LoadBalancerName s)])
      | Inr jsonValue \<Rightarrow> Inr jsonValue)"

definition FromString :: "string \<Rightarrow> go_error + LoadBalancerStatus" where
  "FromString str =
     (case Unmarshal_status str of
        Inl err \<Rightarrow> Inl (Errorf ''error %s in unmarshalling string %s'' [AErr err, AStr str])
      | Inr s \<Rightarrow> Inr s)"

text \<open>
  \<^verbatim>\<open>RemoveClusters\<close> keeps a description that is not a status as it is.  The new list starts as a nil
  slice, so removing every cluster leaves nil and not an empty slice.
\<close>

definition RemoveClusters :: "string \<Rightarrow> string list \<Rightarrow> string \<times> go_error option" where
  "RemoveClusters statusStr clustersToRemove =
     (case FromString statusStr of
        Inl err \<Rightarrow> (statusStr, None)
      | Inr status \<Rightarrow>
          let newClusters = slice_of (filter (\<lambda>v. v \<notin> set clustersToRemove) (elems (Clusters status)));
              status' = status\<lparr>Clusters := newClusters\<rparr>
          in case ToString status' of
               Inl err \<Rightarrow>
                 (statusStr, Some (Errorf ''unexpected error in converting status to string. status: %s, err: %s''
                    [AStr (LoadBalancerName status'), AErr err]))
             | Inr newDesc \<Rightarrow> (newDesc, None))"

section \<open>Lemmas\<close>

definition valid_status :: "LoadBalancerStatus \<Rightarrow> bool" where
  "valid_status s \<longleftrightarrow> valid_utf8 (Description s) \<and> valid_utf8 (LoadBalancerName s)
     \<and> valid_utf8 (IPAddress s) \<and> (\<forall>c \<in> set (elems (Clusters s)). valid_utf8 c)"

definition ToString_text :: "LoadBalancerStatus \<Rightarrow> string" where
  "ToString_text s = (case ToString s of Inr t \<Rightarrow> t | Inl _ \<Rightarrow> '''')"

lemma ToString_Inr: "ToString s = Inr (ToString_text s)"
  by (simp add: ToString_text_def ToString_def Marshal_status_def)

lemma valid_utf8_fields:
  "valid_utf8 ''Description''" "valid_utf8 ''LoadBalancerName''" "valid_utf8 ''Clusters''"
  "valid_utf8 ''IPAddress''"
  by simp_all

lemma equal_fold_fields:
  "equal_fold ''Description'' ''Description''"
  "\<not> equal_fold ''Description'' ''LoadBalancerName''" "equal_fold ''LoadBalancerName'' ''LoadBalancerName''"
  "\<not> equal_fold ''Description'' ''Clusters''" "\<not> equal_fold ''LoadBalancerName'' ''Clusters''"
  "equal_fold ''Clusters'' ''Clusters''"
  "\<not> equal_fold ''Description'' ''IPAddress''" "\<not> equal_fold ''LoadBalancerName'' ''IPAddress''"
  "\<not> equal_fold ''Clusters'' ''IPAddress''" "equal_fold ''IPAddress'' ''IPAddress''"
  by (simp_all add: is_letter_def upper_def)

definition json_of_clusters :: "string slice \<Rightarrow> json" where
  "json_of_clusters cs = (case cs of NilSlice \<Rightarrow> JNull | Slice xs \<Rightarrow> JArr (map JStr xs))"

lemma unmarshal_clusters: "unmarshal_strings (json_of_clusters cs) = Some cs"
  by (cases cs) (auto simp: json_of_clusters_def comp_def)

lemma json_parse_Marshal:
  assumes "valid_status s"
  shows "json_parse (ToString_text s) = Some (JObj
     [(''Description'', JStr (Description s)), (''LoadBalancerName'', JStr (LoadBalancerName s)),
      (''Clusters'', json_of_clusters (Clusters s)), (''IPAddress'', JStr (IPAddress s))])"
proof -
  have "list_all2 parses (map json_string cs) (map JStr cs)" if "Clusters s = Slice cs" for cs
    using assms that by (auto simp: list_all2_conv_all_nth valid_status_def parses_json_string)
  then have "parses (case Clusters s of NilSlice \<Rightarrow> ''null'' | Slice cs \<Rightarrow> json_array (map json_string cs))
      (json_of_clusters (Clusters s))"
    by (auto simp: json_of_clusters_def parses_null split: slice.splits intro: parses_json_array)
  then show ?thesis
    using assms
    by (simp only: ToString_text_def ToString_def Marshal_status_def sum.case)
      (rule json_parse_object, simp add: valid_status_def parses_json_string)
qed

lemma FromString_ToString_text: "valid_status s \<Longrightarrow> FromString (ToString_text s) = Inr s"
  by (simp add: FromString_def Unmarshal_status_def json_parse_Marshal equal_fold_fields
      unmarshal_clusters zero_status_def del: equal_fold.simps)

lemma RemoveClusters_no_status: "FromString str = Inl e \<Longrightarrow> RemoveClusters str cs = (str, None)"
  by (simp add: RemoveClusters_def)

section \<open>Properties\<close>

text \<open>
  C19. The status survives being stored: decoding the text \<^verbatim>\<open>ToString\<close> makes of a status gives that
  status back, for every status whose strings are valid UTF-8, whatever characters the names
  contain (quotes, backslashes, control characters, HTML characters and line separators are
  all escaped and restored) and keeping the difference between no list and an empty list.
\<close>

theorem status_roundtrip:
  assumes "valid_status s"
  shows "\<exists>t. ToString s = Inr t \<and> FromString t = Inr s"
  using ToString_Inr FromString_ToString_text[OF assms] by blast

theorem status_roundtrip_witness:
  "\<exists>t. ToString \<lparr>Description = ''d'', LoadBalancerName = ''a<b'', Clusters = Slice [''c1'', ''c2''], IPAddress = ''10.0.0.1''\<rparr> = Inr t
     \<and> FromString t = Inr \<lparr>Description = ''d'', LoadBalancerName = ''a<b'', Clusters = Slice [''c1'', ''c2''], IPAddress = ''10.0.0.1''\<rparr>"
  by (rule status_roundtrip) (simp add: valid_status_def)

text \<open>
  \<^verbatim>\<open>RemoveClusters\<close> on the stored text of a status gives the stored text of the same
  status with exactly the given clusters taken out: the other clusters stay, in their order,
  and no other field changes.
\<close>

theorem RemoveClusters_stored_status:
  assumes "valid_status s" "ToString s = Inr t"
  shows "\<exists>t'. RemoveClusters t cs = (t', None)
    \<and> FromString t' = Inr (s\<lparr>Clusters := slice_of (filter (\<lambda>c. c \<notin> set cs) (elems (Clusters s)))\<rparr>)"
proof -
  let ?s' = "s\<lparr>Clusters := slice_of (filter (\<lambda>c. c \<notin> set cs) (elems (Clusters s)))\<rparr>"
  have "t = ToString_text s" using assms(2) ToString_Inr by simp
  then have "RemoveClusters t cs = (ToString_text ?s', None)"
    using assms(1) by (simp add: RemoveClusters_def FromString_ToString_text ToString_Inr Let_def)
  moreover have "valid_status ?s'" using assms(1) by (auto simp: valid_status_def)
  ultimately show ?thesis using FromString_ToString_text by blast
qed

theorem RemoveClusters_stored_status_witness:
  "\<exists>t'. RemoveClusters (ToString_text \<lparr>Description = ''d'', LoadBalancerName = ''lb'', Clusters = Slice [''c1'', ''c2''], IPAddress = ''ip''\<rparr>) [''c1''] = (t', None)
     \<and> FromString t' = Inr \<lparr>Description = ''d'', LoadBalancerName = ''lb'', Clusters = Slice [''c2''], IPAddress = ''ip''\<rparr>"
proof -
  let ?s = "\<lparr>Description = ''d'', LoadBalancerName = ''lb'', Clusters = Slice [''c1'', ''c2''], IPAddress = ''ip''\<rparr>"
  have "valid_status ?s" by (simp add: valid_status_def)
  from RemoveClusters_stored_status[OF this ToString_Inr, of "[''c1'']"] show ?thesis
    by (simp add: slice_of_def)
qed

end
