(* ===== verification/Namer.thy ===== *)
theory Namer
  imports Prelude
begin

text \<open>
  \<^verbatim>\<open>app/kubemci/pkg/gcp/namer/namer.go\<close>: the names of the GCP resources of a load balancer.
  A name is \<^verbatim>\<open>prefix-kind[-port]\<close>, followed by \<^verbatim>\<open>--lbName\<close> when there is a load balancer name,
  cut to 62 characters plus a final \<^verbatim>\<open>0\<close> when that is too long for GCE.  The lemmas say how long a
  name can be and when two names can be equal: this is what keeps the resources of two
  load balancers, two ports or two protocols apart.
\<close>

section \<open>Definitions\<close>

definition hcPrefix :: string where "hcPrefix = ''hc''"
definition backendPrefix :: string where "backendPrefix = ''be''"
definition urlMapPrefix :: string where "urlMapPrefix = ''um''"
definition targetHTTPProxyPrefix :: string where "targetHTTPProxyPrefix = ''tp''"
definition targetHTTPSProxyPrefix :: string where "targetHTTPSProxyPrefix = ''tps''"
definition httpForwardingRulePrefix :: string where "httpForwardingRulePrefix = ''fw''"
definition httpsForwardingRulePrefix :: string where "httpsForwardingRulePrefix = ''fws''"
definition firewallRulePrefix :: string where "firewallRulePrefix = ''fr''"
definition sslCertPrefix :: string where "sslCertPrefix = ''ssl''"
definition lbNameDelimiter :: string where "lbNameDelimiter = ''--''"
definition alphaNumericChar :: string where "alphaNumericChar = ''0''"
definition nameLenLimit :: nat where "nameLenLimit = 62"

lemmas namer_consts =
  hcPrefix_def backendPrefix_def urlMapPrefix_def targetHTTPProxyPrefix_def
  targetHTTPSProxyPrefix_def httpForwardingRulePrefix_def httpsForwardingRulePrefix_def
  firewallRulePrefix_def sslCertPrefix_def lbNameDelimiter_def alphaNumericChar_def
  nameLenLimit_def

record Namer =
  namer_prefix :: string
  namer_lbName :: string

definition NewNamer :: "string \<Rightarrow> string \<Rightarrow> Namer" where
  "NewNamer pfx lbName = \<lparr>namer_prefix = pfx, namer_lbName = lbName\<rparr>"

definition Truncate :: "string \<Rightarrow> string" where
  "Truncate key = (if length key > nameLenLimit then take nameLenLimit key @ alphaNumericChar else key)"

definition decorateName :: "Namer \<Rightarrow> string \<Rightarrow> string" where
  "decorateName n name =
     (let lbName = namer_lbName n in
      if lbName = '''' then name else Truncate (name @ lbNameDelimiter @ lbName))"

text \<open>\<^verbatim>\<open>"%v-%v"\<close> and \<^verbatim>\<open>"%v-%v-%d"\<close>.\<close>

definition kind_name :: "Namer \<Rightarrow> string \<Rightarrow> string" where
  "kind_name n kind = namer_prefix n @ ''-'' @ kind"

definition port_name :: "Namer \<Rightarrow> string \<Rightarrow> int \<Rightarrow> string" where
  "port_name n kind port = namer_prefix n @ ''-'' @ kind @ ''-'' @ show_int port"

definition HealthCheckName :: "Namer \<Rightarrow> int \<Rightarrow> string" where
  "HealthCheckName n port = decorateName n (port_name n hcPrefix port)"

definition BeServiceName :: "Namer \<Rightarrow> int \<Rightarrow> string" where
  "BeServiceName n port = decorateName n (port_name n backendPrefix port)"

definition URLMapName :: "Namer \<Rightarrow> string" where
  "URLMapName n = decorateName n (kind_name n urlMapPrefix)"

definition TargetHTTPProxyName :: "Namer \<Rightarrow> string" where
  "TargetHTTPProxyName n = decorateName n (kind_name n targetHTTPProxyPrefix)"

definition TargetHTTPSProxyName :: "Namer \<Rightarrow> string" where
  "TargetHTTPSProxyName n = decorateName n (kind_name n targetHTTPSProxyPrefix)"

definition HTTPSForwardingRuleName :: "Namer \<Rightarrow> string" where
  "HTTPSForwardingRuleName n = decorateName n (kind_name n httpsForwardingRulePrefix)"

definition HTTPForwardingRuleName :: "Namer \<Rightarrow> string" where
  "HTTPForwardingRuleName n = decorateName n (kind_name n httpForwardingRulePrefix)"

definition FirewallRuleName :: "Namer \<Rightarrow> string" where
  "FirewallRuleName n = decorateName n (kind_name n firewallRulePrefix)"

definition SSLCertName :: "Namer \<Rightarrow> string" where
  "SSLCertName n = decorateName n (kind_name n sslCertPrefix)"

lemmas name_defs =
  HealthCheckName_def BeServiceName_def URLMapName_def TargetHTTPProxyName_def
  TargetHTTPSProxyName_def HTTPSForwardingRuleName_def HTTPForwardingRuleName_def
  FirewallRuleName_def SSLCertName_def

section \<open>Lemmas\<close>

lemma length_Truncate: "length (Truncate key) \<le> 63"
  by (simp add: Truncate_def namer_consts)

lemma Truncate_short: "length key \<le> 62 \<Longrightarrow> Truncate key = key"
  by (simp add: Truncate_def namer_consts)

lemma length_decorateName: "namer_lbName n \<noteq> '''' \<Longrightarrow> length (decorateName n name) \<le> 63"
  by (simp add: decorateName_def Let_def length_Truncate)

text \<open>Truncation never touches the first 62 characters.\<close>

lemma take_Truncate: "m \<le> 62 \<Longrightarrow> take m (Truncate key) = take m key"
  by (simp add: Truncate_def namer_consts min_def)

lemma take_decorateName:
  "namer_lbName n \<noteq> '''' \<Longrightarrow> m \<le> 62 \<Longrightarrow>
   take m (decorateName n name) = take m (name @ ''--'' @ namer_lbName n)"
  by (simp add: decorateName_def Let_def take_Truncate namer_consts)

lemma decorateName_untruncated:
  "length name + length (namer_lbName n) \<le> 60 \<Longrightarrow> namer_lbName n \<noteq> '''' \<Longrightarrow>
   decorateName n name = name @ ''--'' @ namer_lbName n"
  by (simp add: decorateName_def Let_def Truncate_short namer_consts)

text \<open>
  Two names with the same load balancer differ as soon as the parts in front of the
  delimiter, closed by it, differ and are not cut.
\<close>

lemma take_delim:
  "length a \<le> j \<Longrightarrow> take (j + 2) (a @ ''--'' @ l) = a @ ''--'' @ take (j - length a) l"
  by (simp add: Suc_diff_le)

lemma decorateName_inject_name:
  assumes eq: "decorateName n a = decorateName n b"
    and len: "length a \<le> 60" "length b \<le> 60"
    and ne: "\<And>s t. a @ ''--'' @ s = b @ ''--'' @ t \<Longrightarrow> a = b"
  shows "a = b"
proof (cases "namer_lbName n = ''''")
  case True
  with eq show ?thesis by (simp add: decorateName_def)
next
  case False
  let ?m = "max (length a) (length b) + 2"
  have "?m \<le> 62" using len by simp
  with eq False have "take ?m (a @ ''--'' @ namer_lbName n) = take ?m (b @ ''--'' @ namer_lbName n)"
    by (metis take_decorateName)
  then obtain s t where "a @ ''--'' @ s = b @ ''--'' @ t"
    using take_delim[of a "max (length a) (length b)"] take_delim[of b "max (length a) (length b)"]
    by (metis max.cobounded1 max.cobounded2)
  then show ?thesis by (rule ne)
qed

lemma port_name_then_delim:
  "port_name n kind p @ ''--'' @ s = port_name n kind q @ ''--'' @ t \<Longrightarrow> p = q \<and> s = t"
  by (auto simp: port_name_def dest: show_int_then_dash)

lemma show_nat_length: "n < 10 ^ Suc k \<Longrightarrow> length (show_nat n) \<le> Suc k"
proof (induction k arbitrary: n)
  case 0
  then show ?case by (simp add: show_nat.simps[of n])
next
  case (Suc k)
  then have "n div 10 < 10 ^ Suc k" by (simp add: less_mult_imp_div_less)
  with Suc.IH show ?case by (simp add: show_nat.simps[of n])
qed

lemma show_int_port_length: "0 \<le> p \<Longrightarrow> p < 2 ^ 63 \<Longrightarrow> length (show_int p) \<le> 19"
  using show_nat_length[of "nat p" 18] by (simp add: show_int_def)

section \<open>Properties\<close>

text \<open>
  C20. Every name given to a GCP resource of a named load balancer is at most 63 characters
  long, the limit GCE has for resource names.
\<close>

theorem resource_names_fit_gce:
  assumes "namer_lbName n \<noteq> ''''"
  shows "length (HealthCheckName n p) \<le> 63 \<and> length (BeServiceName n p) \<le> 63
    \<and> length (URLMapName n) \<le> 63
    \<and> length (TargetHTTPProxyName n) \<le> 63 \<and> length (TargetHTTPSProxyName n) \<le> 63
    \<and> length (HTTPForwardingRuleName n) \<le> 63 \<and> length (HTTPSForwardingRuleName n) \<le> 63
    \<and> length (FirewallRuleName n) \<le> 63 \<and> length (SSLCertName n) \<le> 63"
  using assms by (simp add: name_defs length_decorateName)

theorem resource_names_fit_gce_witness:
  "namer_lbName (NewNamer ''mci1'' (replicate 80 (CHR ''a''))) \<noteq> ''''
   \<and> length (BeServiceName (NewNamer ''mci1'' (replicate 80 (CHR ''a''))) 30061) = 63
   \<and> length (URLMapName (NewNamer ''mci1'' (replicate 80 (CHR ''a'')))) \<le> 63"
proof -
  have h: "namer_lbName (NewNamer ''mci1'' (replicate 80 (CHR ''a''))) \<noteq> ''''"
    by (simp add: NewNamer_def)
  have "length (BeServiceName (NewNamer ''mci1'' (replicate 80 (CHR ''a''))) 30061) = 63"
    by (simp add: BeServiceName_def decorateName_def Truncate_def port_name_def NewNamer_def namer_consts)
  with h resource_names_fit_gce[OF h, of 30061] show ?thesis by blast
qed

lemma port_names_inj:
  assumes "length (namer_prefix n) \<le> 30" "0 \<le> p" "p < 2 ^ 63" "0 \<le> q" "q < 2 ^ 63" "p \<noteq> q"
  shows "HealthCheckName n p \<noteq> HealthCheckName n q \<and> BeServiceName n p \<noteq> BeServiceName n q"
proof -
  have len: "length (port_name n kind x) \<le> 60"
    if "length kind = 2" "0 \<le> x" "x < 2 ^ 63" for kind x
    using show_int_port_length[OF that(2,3)] assms(1) that(1) by (simp add: port_name_def)
  have "decorateName n (port_name n kind p) \<noteq> decorateName n (port_name n kind q)"
    if k: "length kind = 2" for kind
  proof
    assume "decorateName n (port_name n kind p) = decorateName n (port_name n kind q)"
    then have "port_name n kind p = port_name n kind q"
    proof (rule decorateName_inject_name)
      fix s t
      assume "port_name n kind p @ ''--'' @ s = port_name n kind q @ ''--'' @ t"
      from port_name_then_delim[OF this] show "port_name n kind p = port_name n kind q" by simp
    qed (rule len[OF k assms(2,3)], rule len[OF k assms(4,5)])
    with assms(6) show False by (simp add: port_name_def)
  qed
  then show ?thesis by (simp add: HealthCheckName_def BeServiceName_def namer_consts)
qed

text \<open>
  Two ports of one load balancer never share a health check or a backend service, however
  long the load balancer name is: the port is never cut off by the truncation.
\<close>

theorem port_names_distinct:
  assumes "length (namer_prefix n) \<le> 30" "0 \<le> p" "p < 2 ^ 63" "0 \<le> q" "q < 2 ^ 63" "p \<noteq> q"
  shows "HealthCheckName n p \<noteq> HealthCheckName n q \<and> BeServiceName n p \<noteq> BeServiceName n q"
  using port_names_inj[OF assms] .

theorem port_names_distinct_witness:
  "HealthCheckName (NewNamer ''mci1'' ''lb'') 80 \<noteq> HealthCheckName (NewNamer ''mci1'' ''lb'') 81
   \<and> BeServiceName (NewNamer ''mci1'' ''lb'') 80 \<noteq> BeServiceName (NewNamer ''mci1'' ''lb'') 81"
  using port_names_distinct[of "NewNamer ''mci1'' ''lb''" 80 81] by (simp add: NewNamer_def)

text \<open>
  Resources of two load balancers never collide as long as no name is truncated: with the
  same prefix, equal backend service names mean the same port and the same load balancer, and
  the same for health checks and for url maps.
\<close>

theorem load_balancer_names_distinct:
  assumes "namer_prefix n = namer_prefix m"
    and "namer_lbName n \<noteq> ''''" "namer_lbName m \<noteq> ''''"
    and "length (port_name n backendPrefix p) + length (namer_lbName n) \<le> 60"
    and "length (port_name m backendPrefix q) + length (namer_lbName m) \<le> 60"
  shows "(BeServiceName n p = BeServiceName m q \<longrightarrow> p = q \<and> n = m)
    \<and> (HealthCheckName n p = HealthCheckName m q \<longrightarrow> p = q \<and> n = m)
    \<and> (URLMapName n = URLMapName m \<longrightarrow> n = m)"
proof -
  have port: "decorateName n (port_name n kind p) = port_name n kind p @ ''--'' @ namer_lbName n"
    "decorateName m (port_name m kind q) = port_name m kind q @ ''--'' @ namer_lbName m"
    if "length kind = 2" for kind
    using assms that
    by (subst decorateName_untruncated; simp add: port_name_def namer_consts)+
  have um: "decorateName n (kind_name n urlMapPrefix) = kind_name n urlMapPrefix @ ''--'' @ namer_lbName n"
    "decorateName m (kind_name m urlMapPrefix) = kind_name m urlMapPrefix @ ''--'' @ namer_lbName m"
    using assms
    by (subst decorateName_untruncated; simp add: port_name_def kind_name_def namer_consts)+
  have same: "port_name n kind x = port_name m kind x" for kind x
    using assms(1) by (simp add: port_name_def)
  have inj: "decorateName n (port_name n kind p) = decorateName m (port_name m kind q)
      \<Longrightarrow> p = q \<and> namer_lbName n = namer_lbName m" if "length kind = 2" for kind
    using port[OF that] same port_name_then_delim by metis
  have "decorateName n (kind_name n urlMapPrefix) = decorateName m (kind_name m urlMapPrefix)
      \<Longrightarrow> namer_lbName n = namer_lbName m"
    using assms(1) unfolding um by (simp add: kind_name_def)
  then show ?thesis
    using assms(1) inj[of hcPrefix] inj[of backendPrefix] by (simp add: name_defs namer_consts)
qed

theorem load_balancer_names_distinct_witness:
  "BeServiceName (NewNamer ''mci1'' ''a'') 80 \<noteq> BeServiceName (NewNamer ''mci1'' ''b'') 80
   \<and> URLMapName (NewNamer ''mci1'' ''a'') \<noteq> URLMapName (NewNamer ''mci1'' ''b'')"
proof -
  have "length (show_int 80) = 2" by code_simp
  then show ?thesis
    using load_balancer_names_distinct[of "NewNamer ''mci1'' ''a''" "NewNamer ''mci1'' ''b''" 80 80]
    by (simp add: NewNamer_def port_name_def namer_consts)
qed

text \<open>
  Beyond that length the scheme does not separate load balancers: two load balancer names
  that agree on their first 53 characters and are longer get the same url map, target proxy and
  forwarding rule names under the prefix \<^verbatim>\<open>mci1\<close> the tool uses.
\<close>

theorem long_names_collide:
  assumes "take 53 a = take 53 b" "length a > 53" "length b > 53"
  shows "URLMapName (NewNamer ''mci1'' a) = URLMapName (NewNamer ''mci1'' b)
    \<and> TargetHTTPProxyName (NewNamer ''mci1'' a) = TargetHTTPProxyName (NewNamer ''mci1'' b)
    \<and> HTTPForwardingRuleName (NewNamer ''mci1'' a) = HTTPForwardingRuleName (NewNamer ''mci1'' b)"
proof -
  have "a \<noteq> []" "b \<noteq> []" using assms by auto
  with assms show ?thesis
    by (simp add: name_defs decorateName_def kind_name_def Truncate_def NewNamer_def namer_consts)
qed

theorem long_names_collide_witness:
  "URLMapName (NewNamer ''mci1'' (replicate 54 (CHR ''a''))) =
   URLMapName (NewNamer ''mci1'' (replicate 53 (CHR ''a'') @ ''b''))"
  using long_names_collide[of "replicate 54 (CHR ''a'')" "replicate 53 (CHR ''a'') @ ''b''"]
  by simp

lemma http_https_names_distinct:
  assumes "length (namer_prefix n) \<le> 50"
  shows "HTTPForwardingRuleName n \<noteq> HTTPSForwardingRuleName n"
    and "TargetHTTPProxyName n \<noteq> TargetHTTPSProxyName n"
proof -
  show "HTTPForwardingRuleName n \<noteq> HTTPSForwardingRuleName n"
    using decorateName_inject_name[of n "kind_name n httpForwardingRulePrefix" "kind_name n httpsForwardingRulePrefix"] assms
    by (auto simp: name_defs kind_name_def namer_consts)
  show "TargetHTTPProxyName n \<noteq> TargetHTTPSProxyName n"
    using decorateName_inject_name[of n "kind_name n targetHTTPProxyPrefix" "kind_name n targetHTTPSProxyPrefix"] assms
    by (auto simp: name_defs kind_name_def namer_consts)
qed

text \<open>A namer for the examples.\<close>

definition lb1 :: Namer where "lb1 = NewNamer ''mci1'' ''lb''"

lemma lb1_names [simp]:
  "HTTPForwardingRuleName lb1 = ''mci1-fw--lb''" "HTTPSForwardingRuleName lb1 = ''mci1-fws--lb''"
  "URLMapName lb1 = ''mci1-um--lb''" "TargetHTTPProxyName lb1 = ''mci1-tp--lb''"
  "TargetHTTPSProxyName lb1 = ''mci1-tps--lb''" "SSLCertName lb1 = ''mci1-ssl--lb''"
  "FirewallRuleName lb1 = ''mci1-fr--lb''"
  "HealthCheckName lb1 80 = ''mci1-hc-80--lb''" "BeServiceName lb1 80 = ''mci1-be-80--lb''"
  by (simp_all add: lb1_def name_defs NewNamer_def decorateName_def kind_name_def port_name_def
      Truncate_def namer_consts show_int_def show_nat.simps digits)

end
