(* ===== verification/Compute.thy ===== *)
theory Compute
  imports Complex_Main Prelude
begin

text \<open>
  The objects of the Compute Engine API that kubemci reads and writes
  (\<^verbatim>\<open>vendor/google.golang.org/api/compute/v1/compute-gen.go\<close>), with all their fields, since
  \<^verbatim>\<open>reflect.DeepEqual\<close> compares all of them.  A pointer field is an \<open>option\<close>, a slice field a
  \<open>slice\<close>; \<^verbatim>\<open>float64\<close> fields are rationals (the code only stores and compares constants in
  them).  \<open>zero_T\<close> is the zero value of the struct, from which the code's struct literals start.
  Of instances, instance groups and addresses only the fields kubemci reads are kept.
\<close>

record ServerResponse =
  HTTPStatusCode :: int
  Header :: "(string \<times> string list) list"

definition zero_ServerResponse :: ServerResponse where
  "zero_ServerResponse = \<lparr>HTTPStatusCode = 0, Header = []\<rparr>"

record HostRule =
  hr_Description :: string
  hr_Hosts :: "string slice"
  hr_PathMatcher :: string
  hr_ForceSendFields :: "string slice"
  hr_NullFields :: "string slice"

definition zero_HostRule :: HostRule where
  "zero_HostRule = \<lparr>hr_Description = '''', hr_Hosts = NilSlice, hr_PathMatcher = '''',
     hr_ForceSendFields = NilSlice, hr_NullFields = NilSlice\<rparr>"

record PathRule =
  pr_Paths :: "string slice"
  pr_Service :: string
  pr_ForceSendFields :: "string slice"
  pr_NullFields :: "string slice"

definition zero_PathRule :: PathRule where
  "zero_PathRule = \<lparr>pr_Paths = NilSlice, pr_Service = '''', pr_ForceSendFields = NilSlice,
     pr_NullFields = NilSlice\<rparr>"

record PathMatcher =
  pm_DefaultService :: string
  pm_Description :: string
  pm_Name :: string
  pm_PathRules :: "PathRule slice"
  pm_ForceSendFields :: "string slice"
  pm_NullFields :: "string slice"

definition zero_PathMatcher :: PathMatcher where
  "zero_PathMatcher = \<lparr>pm_DefaultService = '''', pm_Description = '''', pm_Name = '''',
     pm_PathRules = NilSlice, pm_ForceSendFields = NilSlice, pm_NullFields = NilSlice\<rparr>"

record UrlMapTest =
  umt_Description :: string
  umt_Host :: string
  umt_Path :: string
  umt_Service :: string
  umt_ForceSendFields :: "string slice"
  umt_NullFields :: "string slice"

definition zero_UrlMapTest :: UrlMapTest where
  "zero_UrlMapTest = \<lparr>umt_Description = '''', umt_Host = '''', umt_Path = '''',
     umt_Service = '''', umt_ForceSendFields = NilSlice, umt_NullFields = NilSlice\<rparr>"

record UrlMap =
  um_CreationTimestamp :: string
  um_DefaultService :: string
  um_Description :: string
  um_Fingerprint :: string
  um_HostRules :: "HostRule slice"
  um_Id :: nat
  um_Kind :: string
  um_Name :: string
  um_PathMatchers :: "PathMatcher slice"
  um_SelfLink :: string
  um_Tests :: "UrlMapTest slice"
  um_ServerResponse :: ServerResponse
  um_ForceSendFields :: "string slice"
  um_NullFields :: "string slice"

definition zero_UrlMap :: UrlMap where
  "zero_UrlMap = \<lparr>um_CreationTimestamp = '''', um_DefaultService = '''',
     um_Description = '''', um_Fingerprint = '''', um_HostRules = NilSlice, um_Id = 0,
     um_Kind = '''', um_Name = '''', um_PathMatchers = NilSlice, um_SelfLink = '''',
     um_Tests = NilSlice, um_ServerResponse = zero_ServerResponse, um_ForceSendFields = NilSlice,
     um_NullFields = NilSlice\<rparr>"

record ForwardingRule =
  fr_IPAddress :: string
  fr_IPProtocol :: string
  fr_BackendService :: string
  fr_CreationTimestamp :: string
  fr_Description :: string
  fr_Id :: nat
  fr_IpVersion :: string
  fr_Kind :: string
  fr_LoadBalancingScheme :: string
  fr_Name :: string
  fr_Network :: string
  fr_PortRange :: string
  fr_Ports :: "string slice"
  fr_Region :: string
  fr_SelfLink :: string
  fr_Subnetwork :: string
  fr_Target :: string
  fr_ServerResponse :: ServerResponse
  fr_ForceSendFields :: "string slice"
  fr_NullFields :: "string slice"

definition zero_ForwardingRule :: ForwardingRule where
  "zero_ForwardingRule = \<lparr>fr_IPAddress = '''', fr_IPProtocol = '''',
     fr_BackendService = '''', fr_CreationTimestamp = '''', fr_Description = '''', fr_Id = 0,
     fr_IpVersion = '''', fr_Kind = '''', fr_LoadBalancingScheme = '''', fr_Name = '''',
     fr_Network = '''', fr_PortRange = '''', fr_Ports = NilSlice, fr_Region = '''',
     fr_SelfLink = '''', fr_Subnetwork = '''', fr_Target = '''',
     fr_ServerResponse = zero_ServerResponse, fr_ForceSendFields = NilSlice,
     fr_NullFields = NilSlice\<rparr>"

record TargetHttpProxy =
  tp_CreationTimestamp :: string
  tp_Description :: string
  tp_Id :: nat
  tp_Kind :: string
  tp_Name :: string
  tp_SelfLink :: string
  tp_UrlMap :: string
  tp_ServerResponse :: ServerResponse
  tp_ForceSendFields :: "string slice"
  tp_NullFields :: "string slice"

definition zero_TargetHttpProxy :: TargetHttpProxy where
  "zero_TargetHttpProxy = \<lparr>tp_CreationTimestamp = '''', tp_Description = '''', tp_Id = 0,
     tp_Kind = '''', tp_Name = '''', tp_SelfLink = '''', tp_UrlMap = '''',
     tp_ServerResponse = zero_ServerResponse, tp_ForceSendFields = NilSlice,
     tp_NullFields = NilSlice\<rparr>"

record TargetHttpsProxy =
  tps_CreationTimestamp :: string
  tps_Description :: string
  tps_Id :: nat
  tps_Kind :: string
  tps_Name :: string
  tps_SelfLink :: string
  tps_SslCertificates :: "string slice"
  tps_UrlMap :: string
  tps_ServerResponse :: ServerResponse
  tps_ForceSendFields :: "string slice"
  tps_NullFields :: "string slice"

definition zero_TargetHttpsProxy :: TargetHttpsProxy where
  "zero_TargetHttpsProxy = \<lparr>tps_CreationTimestamp = '''', tps_Description = '''',
     tps_Id = 0, tps_Kind = '''', tps_Name = '''', tps_SelfLink = '''',
     tps_SslCertificates = NilSlice, tps_UrlMap = '''', tps_ServerResponse = zero_ServerResponse,
     tps_ForceSendFields = NilSlice, tps_NullFields = NilSlice\<rparr>"

record SslCertificate =
  sc_Certificate :: string
  sc_CreationTimestamp :: string
  sc_Description :: string
  sc_Id :: nat
  sc_Kind :: string
  sc_Name :: string
  sc_PrivateKey :: string
  sc_SelfLink :: string
  sc_ServerResponse :: ServerResponse
  sc_ForceSendFields :: "string slice"
  sc_NullFields :: "string slice"

definition zero_SslCertificate :: SslCertificate where
  "zero_SslCertificate = \<lparr>sc_Certificate = '''', sc_CreationTimestamp = '''',
     sc_Description = '''', sc_Id = 0, sc_Kind = '''', sc_Name = '''', sc_PrivateKey = '''',
     sc_SelfLink = '''', sc_ServerResponse = zero_ServerResponse, sc_ForceSendFields = NilSlice,
     sc_NullFields = NilSlice\<rparr>"

record Backend =
  bk_BalancingMode :: string
  bk_CapacityScaler :: rat
  bk_Description :: string
  bk_Group :: string
  bk_MaxConnections :: int
  bk_MaxConnectionsPerInstance :: int
  bk_MaxRate :: int
  bk_MaxRatePerInstance :: rat
  bk_MaxUtilization :: rat
  bk_ForceSendFields :: "string slice"
  bk_NullFields :: "string slice"

definition zero_Backend :: Backend where
  "zero_Backend = \<lparr>bk_BalancingMode = '''', bk_CapacityScaler = 0, bk_Description = '''',
     bk_Group = '''', bk_MaxConnections = 0, bk_MaxConnectionsPerInstance = 0, bk_MaxRate = 0,
     bk_MaxRatePerInstance = 0, bk_MaxUtilization = 0, bk_ForceSendFields = NilSlice,
     bk_NullFields = NilSlice\<rparr>"

record CacheKeyPolicy =
  ckp_IncludeHost :: bool
  ckp_IncludeProtocol :: bool
  ckp_IncludeQueryString :: bool
  ckp_QueryStringBlacklist :: "string slice"
  ckp_QueryStringWhitelist :: "string slice"
  ckp_ForceSendFields :: "string slice"
  ckp_NullFields :: "string slice"

definition zero_CacheKeyPolicy :: CacheKeyPolicy where
  "zero_CacheKeyPolicy = \<lparr>ckp_IncludeHost = False, ckp_IncludeProtocol = False,
     ckp_IncludeQueryString = False, ckp_QueryStringBlacklist = NilSlice,
     ckp_QueryStringWhitelist = NilSlice, ckp_ForceSendFields = NilSlice,
     ckp_NullFields = NilSlice\<rparr>"

record BackendServiceCdnPolicy =
  cdn_CacheKeyPolicy :: "CacheKeyPolicy option"
  cdn_ForceSendFields :: "string slice"
  cdn_NullFields :: "string slice"

definition zero_BackendServiceCdnPolicy :: BackendServiceCdnPolicy where
  "zero_BackendServiceCdnPolicy = \<lparr>cdn_CacheKeyPolicy = None,
     cdn_ForceSendFields = NilSlice, cdn_NullFields = NilSlice\<rparr>"

record ConnectionDraining =
  cd_DrainingTimeoutSec :: int
  cd_ForceSendFields :: "string slice"
  cd_NullFields :: "string slice"

definition zero_ConnectionDraining :: ConnectionDraining where
  "zero_ConnectionDraining = \<lparr>cd_DrainingTimeoutSec = 0, cd_ForceSendFields = NilSlice,
     cd_NullFields = NilSlice\<rparr>"

record BackendServiceIAP =
  iap_Enabled :: bool
  iap_Oauth2ClientId :: string
  iap_Oauth2ClientSecret :: string
  iap_Oauth2ClientSecretSha256 :: string
  iap_ForceSendFields :: "string slice"
  iap_NullFields :: "string slice"

definition zero_BackendServiceIAP :: BackendServiceIAP where
  "zero_BackendServiceIAP = \<lparr>iap_Enabled = False, iap_Oauth2ClientId = '''',
     iap_Oauth2ClientSecret = '''', iap_Oauth2ClientSecretSha256 = '''',
     iap_ForceSendFields = NilSlice, iap_NullFields = NilSlice\<rparr>"

record BackendService =
  be_AffinityCookieTtlSec :: int
  be_Backends :: "Backend slice"
  be_CdnPolicy :: "BackendServiceCdnPolicy option"
  be_ConnectionDraining :: "ConnectionDraining option"
  be_CreationTimestamp :: string
  be_Description :: string
  be_EnableCDN :: bool
  be_Fingerprint :: string
  be_HealthChecks :: "string slice"
  be_Iap :: "BackendServiceIAP option"
  be_Id :: nat
  be_Kind :: string
  be_LoadBalancingScheme :: string
  be_Name :: string
  be_Port :: int
  be_PortName :: string
  be_Protocol :: string
  be_Region :: string
  be_SelfLink :: string
  be_SessionAffinity :: string
  be_TimeoutSec :: int
  be_ServerResponse :: ServerResponse
  be_ForceSendFields :: "string slice"
  be_NullFields :: "string slice"

definition zero_BackendService :: BackendService where
  "zero_BackendService = \<lparr>be_AffinityCookieTtlSec = 0, be_Backends = NilSlice,
     be_CdnPolicy = None, be_ConnectionDraining = None, be_CreationTimestamp = '''',
     be_Description = '''', be_EnableCDN = False, be_Fingerprint = '''',
     be_HealthChecks = NilSlice, be_Iap = None, be_Id = 0, be_Kind = '''',
     be_LoadBalancingScheme = '''', be_Name = '''', be_Port = 0, be_PortName = '''',
     be_Protocol = '''', be_Region = '''', be_SelfLink = '''', be_SessionAffinity = '''',
     be_TimeoutSec = 0, be_ServerResponse = zero_ServerResponse, be_ForceSendFields = NilSlice,
     be_NullFields = NilSlice\<rparr>"

record HTTPHealthCheck =
  hhc_Host :: string
  hhc_Port :: int
  hhc_PortName :: string
  hhc_ProxyHeader :: string
  hhc_RequestPath :: string
  hhc_ForceSendFields :: "string slice"
  hhc_NullFields :: "string slice"

definition zero_HTTPHealthCheck :: HTTPHealthCheck where
  "zero_HTTPHealthCheck = \<lparr>hhc_Host = '''', hhc_Port = 0, hhc_PortName = '''',
     hhc_ProxyHeader = '''', hhc_RequestPath = '''', hhc_ForceSendFields = NilSlice,
     hhc_NullFields = NilSlice\<rparr>"

record HTTPSHealthCheck =
  hshc_Host :: string
  hshc_Port :: int
  hshc_PortName :: string
  hshc_ProxyHeader :: string
  hshc_RequestPath :: string
  hshc_ForceSendFields :: "string slice"
  hshc_NullFields :: "string slice"

definition zero_HTTPSHealthCheck :: HTTPSHealthCheck where
  "zero_HTTPSHealthCheck = \<lparr>hshc_Host = '''', hshc_Port = 0, hshc_PortName = '''',
     hshc_ProxyHeader = '''', hshc_RequestPath = '''', hshc_ForceSendFields = NilSlice,
     hshc_NullFields = NilSlice\<rparr>"

record SSLHealthCheck =
  slhc_Port :: int
  slhc_PortName :: string
  slhc_ProxyHeader :: string
  slhc_Request :: string
  slhc_Response :: string
  slhc_ForceSendFields :: "string slice"
  slhc_NullFields :: "string slice"

definition zero_SSLHealthCheck :: SSLHealthCheck where
  "zero_SSLHealthCheck = \<lparr>slhc_Port = 0, slhc_PortName = '''', slhc_ProxyHeader = '''',
     slhc_Request = '''', slhc_Response = '''', slhc_ForceSendFields = NilSlice,
     slhc_NullFields = NilSlice\<rparr>"

record TCPHealthCheck =
  thc_Port :: int
  thc_PortName :: string
  thc_ProxyHeader :: string
  thc_Request :: string
  thc_Response :: string
  thc_ForceSendFields :: "string slice"
  thc_NullFields :: "string slice"

definition zero_TCPHealthCheck :: TCPHealthCheck where
  "zero_TCPHealthCheck = \<lparr>thc_Port = 0, thc_PortName = '''', thc_ProxyHeader = '''',
     thc_Request = '''', thc_Response = '''', thc_ForceSendFields = NilSlice,
     thc_NullFields = NilSlice\<rparr>"

record HealthCheck =
  hc_CheckIntervalSec :: int
  hc_CreationTimestamp :: string
  hc_Description :: string
  hc_HealthyThreshold :: int
  hc_HttpHealthCheck :: "HTTPHealthCheck option"
  hc_HttpsHealthCheck :: "HTTPSHealthCheck option"
  hc_Id :: nat
  hc_Kind :: string
  hc_Name :: string
  hc_SelfLink :: string
  hc_SslHealthCheck :: "SSLHealthCheck option"
  hc_TcpHealthCheck :: "TCPHealthCheck option"
  hc_TimeoutSec :: int
  hc_Type :: string
  hc_UnhealthyThreshold :: int
  hc_ServerResponse :: ServerResponse
  hc_ForceSendFields :: "string slice"
  hc_NullFields :: "string slice"

definition zero_HealthCheck :: HealthCheck where
  "zero_HealthCheck = \<lparr>hc_CheckIntervalSec = 0, hc_CreationTimestamp = '''',
     hc_Description = '''', hc_HealthyThreshold = 0, hc_HttpHealthCheck = None,
     hc_HttpsHealthCheck = None, hc_Id = 0, hc_Kind = '''', hc_Name = '''', hc_SelfLink = '''',
     hc_SslHealthCheck = None, hc_TcpHealthCheck = None, hc_TimeoutSec = 0, hc_Type = '''',
     hc_UnhealthyThreshold = 0, hc_ServerResponse = zero_ServerResponse,
     hc_ForceSendFields = NilSlice, hc_NullFields = NilSlice\<rparr>"

record FirewallAllowed =
  fwa_IPProtocol :: string
  fwa_Ports :: "string slice"
  fwa_ForceSendFields :: "string slice"
  fwa_NullFields :: "string slice"

definition zero_FirewallAllowed :: FirewallAllowed where
  "zero_FirewallAllowed = \<lparr>fwa_IPProtocol = '''', fwa_Ports = NilSlice,
     fwa_ForceSendFields = NilSlice, fwa_NullFields = NilSlice\<rparr>"

record FirewallDenied =
  fwd_IPProtocol :: string
  fwd_Ports :: "string slice"
  fwd_ForceSendFields :: "string slice"
  fwd_NullFields :: "string slice"

definition zero_FirewallDenied :: FirewallDenied where
  "zero_FirewallDenied = \<lparr>fwd_IPProtocol = '''', fwd_Ports = NilSlice,
     fwd_ForceSendFields = NilSlice, fwd_NullFields = NilSlice\<rparr>"

record Firewall =
  fw_Allowed :: "FirewallAllowed slice"
  fw_CreationTimestamp :: string
  fw_Denied :: "FirewallDenied slice"
  fw_Description :: string
  fw_DestinationRanges :: "string slice"
  fw_Direction :: string
  fw_Id :: nat
  fw_Kind :: string
  fw_Name :: string
  fw_Network :: string
  fw_Priority :: int
  fw_SelfLink :: string
  fw_SourceRanges :: "string slice"
  fw_SourceServiceAccounts :: "string slice"
  fw_SourceTags :: "string slice"
  fw_TargetServiceAccounts :: "string slice"
  fw_TargetTags :: "string slice"
  fw_ServerResponse :: ServerResponse
  fw_ForceSendFields :: "string slice"
  fw_NullFields :: "string slice"

definition zero_Firewall :: Firewall where
  "zero_Firewall = \<lparr>fw_Allowed = NilSlice, fw_CreationTimestamp = '''',
     fw_Denied = NilSlice, fw_Description = '''', fw_DestinationRanges = NilSlice,
     fw_Direction = '''', fw_Id = 0, fw_Kind = '''', fw_Name = '''', fw_Network = '''',
     fw_Priority = 0, fw_SelfLink = '''', fw_SourceRanges = NilSlice,
     fw_SourceServiceAccounts = NilSlice, fw_SourceTags = NilSlice,
     fw_TargetServiceAccounts = NilSlice, fw_TargetTags = NilSlice,
     fw_ServerResponse = zero_ServerResponse, fw_ForceSendFields = NilSlice,
     fw_NullFields = NilSlice\<rparr>"

record NamedPort =
  np_Name :: string
  np_Port :: int
  np_ForceSendFields :: "string slice"
  np_NullFields :: "string slice"

definition zero_NamedPort :: NamedPort where
  "zero_NamedPort = \<lparr>np_Name = '''', np_Port = 0, np_ForceSendFields = NilSlice,
     np_NullFields = NilSlice\<rparr>"
record Instance =
  inst_Name :: string
  inst_Zone :: string
  inst_Tags :: "string slice option"
  inst_NetworkInterfaces :: "string slice"

record InstanceGroup =
  ig_NamedPorts :: "NamedPort list"

record Address =
  addr_Name :: string
  addr_Address :: string

end
