(* ===== verification/Cloud.thy ===== *)
theory Cloud
  imports Compute
begin

text \<open>
  The Compute Engine API as kubemci sees it.  The Go interfaces through which the syncers call
  the API are records of functions over a world \<open>'w\<close>: a call takes the world and gives a
  result and the next world.  The service behind them is not part of the repository, so these
  records are parameters of every model below, and the locales of this theory state what the
  code relies on: each named object of each kind is a cell of an abstract view of the project,
  a call reads or changes its own cell only, an object that was inserted is returned as it was
  inserted except for the fields the server fills in, and a call that fails has either
  happened or not.  Every call may fail at any time.  A returned object is a value of its own, as it is
  for the HTTP client, which decodes every response into a new object.
\<close>

section \<open>Views\<close>

datatype kind =
    KForwardingRule | KUrlMap | KTargetHttpProxy | KTargetHttpsProxy | KSslCertificate
  | KBackendService | KHealthCheck | KFirewall

datatype resource =
    RForwardingRule ForwardingRule
  | RUrlMap UrlMap
  | RTargetHttpProxy TargetHttpProxy
  | RTargetHttpsProxy TargetHttpsProxy
  | RSslCertificate SslCertificate
  | RBackendService BackendService
  | RHealthCheck HealthCheck
  | RFirewall Firewall

type_synonym cell = "kind \<times> string"
type_synonym project = "cell \<Rightarrow> resource option"
type_synonym ('r, 'w) getter = "string \<Rightarrow> 'w \<Rightarrow> (go_error + 'r) \<times> 'w"
type_synonym ('a, 'w) command = "'a \<Rightarrow> 'w \<Rightarrow> go_error option \<times> 'w"

text \<open>Changing the object in a cell, if there is one.\<close>

definition modify_cell :: "cell \<Rightarrow> (resource \<Rightarrow> resource) \<Rightarrow> project \<Rightarrow> project" where
  "modify_cell c f v = (case v c of None \<Rightarrow> v | Some r \<Rightarrow> v(c \<mapsto> f r))"

lemma modify_cell_other: "c' \<noteq> c \<Longrightarrow> modify_cell c f v c' = v c'"
  by (simp add: modify_cell_def split: option.splits)

lemma modify_cell_same: "modify_cell c f v c = map_option f (v c)"
  by (simp add: modify_cell_def split: option.splits)

fun set_target :: "string \<Rightarrow> resource \<Rightarrow> resource" where
  "set_target t (RForwardingRule r) = RForwardingRule (r\<lparr>fr_Target := t\<rparr>)"
| "set_target t r = r"

fun set_url_map :: "string \<Rightarrow> resource \<Rightarrow> resource" where
  "set_url_map l (RTargetHttpProxy r) = RTargetHttpProxy (r\<lparr>tp_UrlMap := l\<rparr>)"
| "set_url_map l (RTargetHttpsProxy r) = RTargetHttpsProxy (r\<lparr>tps_UrlMap := l\<rparr>)"
| "set_url_map l r = r"

section \<open>The interface of ingress-gce to the load balancer resources\<close>

record 'w LoadBalancers =
  GetGlobalForwardingRule :: "(ForwardingRule, 'w) getter"
  CreateGlobalForwardingRule :: "(ForwardingRule, 'w) command"
  DeleteGlobalForwardingRule :: "(string, 'w) command"
  SetProxyForGlobalForwardingRule :: "string \<Rightarrow> string \<Rightarrow> 'w \<Rightarrow> go_error option \<times> 'w"
  ListGlobalForwardingRules :: "'w \<Rightarrow> (go_error + ForwardingRule slice) \<times> 'w"
  GetUrlMap :: "(UrlMap, 'w) getter"
  CreateUrlMap :: "(UrlMap, 'w) command"
  UpdateUrlMap :: "(UrlMap, 'w) command"
  DeleteUrlMap :: "(string, 'w) command"
  ListUrlMaps :: "'w \<Rightarrow> (go_error + UrlMap slice) \<times> 'w"
  GetTargetHttpProxy :: "(TargetHttpProxy, 'w) getter"
  CreateTargetHttpProxy :: "(TargetHttpProxy, 'w) command"
  DeleteTargetHttpProxy :: "(string, 'w) command"
  SetUrlMapForTargetHttpProxy :: "TargetHttpProxy \<Rightarrow> UrlMap \<Rightarrow> 'w \<Rightarrow> go_error option \<times> 'w"
  GetTargetHttpsProxy :: "(TargetHttpsProxy, 'w) getter"
  CreateTargetHttpsProxy :: "(TargetHttpsProxy, 'w) command"
  DeleteTargetHttpsProxy :: "(string, 'w) command"
  SetUrlMapForTargetHttpsProxy :: "TargetHttpsProxy \<Rightarrow> UrlMap \<Rightarrow> 'w \<Rightarrow> go_error option \<times> 'w"
  GetSslCertificate :: "(SslCertificate, 'w) getter"
  CreateSslCertificate :: "SslCertificate \<Rightarrow> 'w \<Rightarrow> (go_error + SslCertificate) \<times> 'w"
  DeleteSslCertificate :: "(string, 'w) command"
  GetGlobalAddress :: "(Address, 'w) getter"

text \<open>The error of a call that also returns a value.\<close>

definition err_of :: "go_error + 'a \<Rightarrow> go_error option" where
  "err_of x = (case x of Inl e \<Rightarrow> Some e | Inr _ \<Rightarrow> None)"

definition create_err :: "('a \<Rightarrow> 'w \<Rightarrow> (go_error + 'b) \<times> 'w) \<Rightarrow> ('a, 'w) command" where
  "create_err create r w = (case create r w of (x, w') \<Rightarrow> (err_of x, w'))"

section \<open>What the server returns for an inserted object\<close>

definition fr_input :: "ForwardingRule \<Rightarrow> ForwardingRule" where
  "fr_input r = r\<lparr>fr_CreationTimestamp := '''', fr_Id := 0, fr_Kind := '''', fr_SelfLink := '''',
     fr_ServerResponse := zero_ServerResponse\<rparr>"

text \<open>An empty address is replaced by an address the server picks.\<close>

definition fr_stored :: "ForwardingRule \<Rightarrow> ForwardingRule \<Rightarrow> bool" where
  "fr_stored d r \<longleftrightarrow> fr_Name r = fr_Name d
     \<and> (if fr_IPAddress d = '''' then (\<exists>ip. fr_input r = fr_input (d\<lparr>fr_IPAddress := ip\<rparr>))
        else fr_input r = fr_input d)"

text \<open>
  Url maps come back with a fingerprint; a list that is empty may come back as nil, because
  empty lists are not transmitted.
\<close>

definition um_input :: "UrlMap \<Rightarrow> UrlMap" where
  "um_input m = m\<lparr>um_CreationTimestamp := '''', um_Kind := '''', um_Id := 0, um_SelfLink := '''',
     um_ServerResponse := zero_ServerResponse, um_Fingerprint := ''''\<rparr>"

definition nil_if_empty :: "'a slice \<Rightarrow> 'a slice" where
  "nil_if_empty s = slice_of (elems s)"

definition pm_transmitted :: "PathMatcher \<Rightarrow> PathMatcher" where
  "pm_transmitted p = p\<lparr>pm_PathRules := nil_if_empty (pm_PathRules p)\<rparr>"

definition um_transmitted :: "UrlMap \<Rightarrow> UrlMap" where
  "um_transmitted m = m\<lparr>um_HostRules := nil_if_empty (um_HostRules m),
     um_PathMatchers := slice_of (map pm_transmitted (elems (um_PathMatchers m)))\<rparr>"

definition um_stored :: "UrlMap \<Rightarrow> UrlMap \<Rightarrow> bool" where
  "um_stored d r \<longleftrightarrow> um_Name r = um_Name d
     \<and> (um_input r = um_input d \<or> um_input r = um_transmitted (um_input d))"

definition tp_input :: "TargetHttpProxy \<Rightarrow> TargetHttpProxy" where
  "tp_input r = r\<lparr>tp_CreationTimestamp := '''', tp_Id := 0, tp_Kind := '''', tp_SelfLink := '''',
     tp_ServerResponse := zero_ServerResponse\<rparr>"

definition tp_stored :: "TargetHttpProxy \<Rightarrow> TargetHttpProxy \<Rightarrow> bool" where
  "tp_stored d r \<longleftrightarrow> tp_Name r = tp_Name d \<and> tp_input r = tp_input d"

definition tps_input :: "TargetHttpsProxy \<Rightarrow> TargetHttpsProxy" where
  "tps_input r = r\<lparr>tps_CreationTimestamp := '''', tps_Id := 0, tps_Kind := '''', tps_SelfLink := '''',
     tps_ServerResponse := zero_ServerResponse\<rparr>"

definition tps_stored :: "TargetHttpsProxy \<Rightarrow> TargetHttpsProxy \<Rightarrow> bool" where
  "tps_stored d r \<longleftrightarrow> tps_Name r = tps_Name d \<and> tps_input r = tps_input d"

text \<open>The private key of a certificate is never returned.\<close>

definition sc_stored :: "SslCertificate \<Rightarrow> SslCertificate \<Rightarrow> bool" where
  "sc_stored d r \<longleftrightarrow> sc_Name r = sc_Name d \<and> sc_Certificate r = sc_Certificate d
     \<and> sc_Description r = sc_Description d"

text \<open>
  A lookup either finds the object or fails with \<^verbatim>\<open>404\<close>.  The syncers treat every failed lookup as
  if the object did not exist, so what they achieve depends on this.
\<close>

definition found_or_404 :: "('r, 'w) getter \<Rightarrow> string \<Rightarrow> 'w \<Rightarrow> bool" where
  "found_or_404 get n w =
     (case fst (get n w) of Inl e \<Rightarrow> IsHTTPErrorCode (Some e) StatusNotFound | Inr _ \<Rightarrow> True)"

lemma found_or_404D: "found_or_404 get n w \<Longrightarrow> get n w = (Inl e, w') \<Longrightarrow> IsHTTPErrorCode (Some e) StatusNotFound"
  by (simp add: found_or_404_def)

section \<open>The laws of one kind of resource\<close>

locale resource_base =
  fixes view :: "'w \<Rightarrow> project"
    and K :: kind
    and R :: "'r \<Rightarrow> resource"
    and rname :: "'r \<Rightarrow> string"
    and stored :: "'r \<Rightarrow> 'r \<Rightarrow> bool"
    and get :: "('r, 'w) getter"
    and create :: "('r, 'w) command"
    and delete :: "(string, 'w) command"
  assumes R_inject: "R r = R r' \<Longrightarrow> r = r'"
    and get_view: "get n w = (x, w') \<Longrightarrow> view w' = view w"
    and get_value: "get n w = (Inr r, w') \<Longrightarrow> view w (K, n) = Some (R r)"
    and get_not_found: "get n w = (Inl e, w') \<Longrightarrow> IsHTTPErrorCode (Some e) StatusNotFound \<Longrightarrow>
          view w (K, n) = None"
    and create_absent: "create r w = (None, w') \<Longrightarrow> view w (K, rname r) = None \<Longrightarrow>
          \<exists>r'. stored r r' \<and> view w' = (view w)((K, rname r) \<mapsto> R r')"
    and create_effect: "create r w = (eo, w') \<Longrightarrow>
          view w' = view w \<or> (\<exists>r'. stored r r' \<and> view w' = (view w)((K, rname r) \<mapsto> R r'))"
    and delete_ok: "delete n w = (None, w') \<Longrightarrow> view w' = (view w)((K, n) := None)"
    and delete_not_found: "delete n w = (Some e, w') \<Longrightarrow> IsHTTPErrorCode (Some e) StatusNotFound \<Longrightarrow>
          view w (K, n) = None \<and> view w' = view w"
    and delete_effect: "delete n w = (eo, w') \<Longrightarrow>
          view w' = view w \<or> view w' = (view w)((K, n) := None)"
begin

text \<open>Consequences every syncer uses.\<close>

lemma get_present: "get n w = (x, w') \<Longrightarrow> found_or_404 get n w \<Longrightarrow> view w (K, n) = Some (R r) \<Longrightarrow> x = Inr r"
  using get_value[of n w _ w'] get_not_found[of n w _ w'] found_or_404D[of get n w _ w']
  by (cases x) (auto dest: R_inject)

lemma create_frame: "create r w = (e, w') \<Longrightarrow> c \<noteq> (K, rname r) \<Longrightarrow> view w' c = view w c"
  using create_effect[of r w e w'] by auto

lemma create_absent_keeps:
  "create r w = (e, w') \<Longrightarrow> view w (K, rname r) = None \<Longrightarrow> view w c = Some x \<Longrightarrow> view w' c = Some x"
  using create_frame[of r w e w' c] by (cases "c = (K, rname r)") auto

lemma delete_frame: "delete n w = (e, w') \<Longrightarrow> c \<noteq> (K, n) \<Longrightarrow> view w' c = view w c"
  using delete_effect[of n w e w'] by auto

lemma delete_ignoring_not_found:
  "delete n w = (e, w') \<Longrightarrow> IgnoreHTTPNotFound e = None \<Longrightarrow> view w' = (view w)((K, n) := None)"
  using delete_ok[of n w w'] delete_not_found[of n w _ w']
  by (cases e) (auto simp: IgnoreHTTPNotFound_def fun_upd_idem split: if_splits)

lemma create_then_get:
  assumes "create r w = (None, w1)" "view w (K, rname r) = None" "get (rname r) w1 = (Inr x, w2)"
  shows "stored r x \<and> view w2 = (view w)((K, rname r) \<mapsto> R x)"
proof -
  obtain r' where r': "stored r r'" "view w1 = (view w)((K, rname r) \<mapsto> R r')"
    using create_absent[OF assms(1,2)] by blast
  have "view w1 (K, rname r) = Some (R x)" using get_value[OF assms(3)] by simp
  with r' have "x = r'" by (auto dest: R_inject)
  with r' get_view[OF assms(3)] show ?thesis by simp
qed

end

text \<open>
  The load balancer resources moreover never replace an existing object on insertion, and an object is
  found under its own name.
\<close>

locale resource_api = resource_base +
  assumes create_present: "create r w = (eo, w') \<Longrightarrow> view w (K, rname r) \<noteq> None \<Longrightarrow> view w' = view w"
    and get_named: "get n w = (Inr r, w') \<Longrightarrow> rname r = n"
begin

lemma get_ok: "get n w = (Inr r, w') \<Longrightarrow> view w (K, n) = Some (R r) \<and> rname r = n"
  using get_value get_named by blast

lemma create_keeps: "create r w = (e, w') \<Longrightarrow> view w c = Some x \<Longrightarrow> view w' c = Some x"
  using create_absent_keeps[of r w e w' c x] create_present[of r w e w'] by (cases "view w (K, rname r)") auto

end

section \<open>The laws of the load balancer interface\<close>

locale lb_api =
  fixes view :: "'w \<Rightarrow> project"
    and P :: "'w LoadBalancers"
  assumes fr_laws: "resource_api view KForwardingRule RForwardingRule fr_Name fr_stored
        (GetGlobalForwardingRule P) (CreateGlobalForwardingRule P) (DeleteGlobalForwardingRule P)"
    and um_laws: "resource_api view KUrlMap RUrlMap um_Name um_stored
        (GetUrlMap P) (CreateUrlMap P) (DeleteUrlMap P)"
    and tp_laws: "resource_api view KTargetHttpProxy RTargetHttpProxy tp_Name tp_stored
        (GetTargetHttpProxy P) (CreateTargetHttpProxy P) (DeleteTargetHttpProxy P)"
    and tps_laws: "resource_api view KTargetHttpsProxy RTargetHttpsProxy tps_Name tps_stored
        (GetTargetHttpsProxy P) (CreateTargetHttpsProxy P) (DeleteTargetHttpsProxy P)"
    and sc_laws: "resource_api view KSslCertificate RSslCertificate sc_Name sc_stored
        (GetSslCertificate P) (create_err (CreateSslCertificate P)) (DeleteSslCertificate P)"
    and set_proxy_ok: "SetProxyForGlobalForwardingRule P n t w = (None, w') \<Longrightarrow>
          view w' = modify_cell (KForwardingRule, n) (set_target t) (view w)"
    and set_proxy_effect: "SetProxyForGlobalForwardingRule P n t w = (e, w') \<Longrightarrow>
          view w' = view w \<or> view w' = modify_cell (KForwardingRule, n) (set_target t) (view w)"
    and um_update_ok: "UpdateUrlMap P m w = (None, w') \<Longrightarrow>
          \<exists>r. um_stored m r \<and> view w' = (view w)((KUrlMap, um_Name m) \<mapsto> RUrlMap r)"
    and um_update_effect: "UpdateUrlMap P m w = (e, w') \<Longrightarrow>
          view w' = view w \<or> (\<exists>r. um_stored m r \<and> view w' = (view w)((KUrlMap, um_Name m) \<mapsto> RUrlMap r))"
    and tp_set_ok: "SetUrlMapForTargetHttpProxy P tp m w = (None, w') \<Longrightarrow>
          view w' = modify_cell (KTargetHttpProxy, tp_Name tp) (set_url_map (um_SelfLink m)) (view w)"
    and tp_set_effect: "SetUrlMapForTargetHttpProxy P tp m w = (e, w') \<Longrightarrow>
          view w' = view w
          \<or> view w' = modify_cell (KTargetHttpProxy, tp_Name tp) (set_url_map (um_SelfLink m)) (view w)"
    and tps_set_ok: "SetUrlMapForTargetHttpsProxy P tps m w = (None, w') \<Longrightarrow>
          view w' = modify_cell (KTargetHttpsProxy, tps_Name tps) (set_url_map (um_SelfLink m)) (view w)"
    and tps_set_effect: "SetUrlMapForTargetHttpsProxy P tps m w = (e, w') \<Longrightarrow>
          view w' = view w
          \<or> view w' = modify_cell (KTargetHttpsProxy, tps_Name tps) (set_url_map (um_SelfLink m)) (view w)"
    and fr_list_view: "ListGlobalForwardingRules P w = (x, w') \<Longrightarrow> view w' = view w"
    and um_list_view: "ListUrlMaps P w = (y, w') \<Longrightarrow> view w' = view w"
    and address_view: "GetGlobalAddress P n w = (a, w') \<Longrightarrow> view w' = view w"

sublocale lb_api \<subseteq> fr: resource_api view KForwardingRule RForwardingRule fr_Name fr_stored
    "GetGlobalForwardingRule P" "CreateGlobalForwardingRule P" "DeleteGlobalForwardingRule P"
  by (rule fr_laws)

sublocale lb_api \<subseteq> um: resource_api view KUrlMap RUrlMap um_Name um_stored
    "GetUrlMap P" "CreateUrlMap P" "DeleteUrlMap P"
  by (rule um_laws)

sublocale lb_api \<subseteq> tp: resource_api view KTargetHttpProxy RTargetHttpProxy tp_Name tp_stored
    "GetTargetHttpProxy P" "CreateTargetHttpProxy P" "DeleteTargetHttpProxy P"
  by (rule tp_laws)

sublocale lb_api \<subseteq> tps: resource_api view KTargetHttpsProxy RTargetHttpsProxy tps_Name tps_stored
    "GetTargetHttpsProxy P" "CreateTargetHttpsProxy P" "DeleteTargetHttpsProxy P"
  by (rule tps_laws)

sublocale lb_api \<subseteq> sc: resource_api view KSslCertificate RSslCertificate sc_Name sc_stored
    "GetSslCertificate P" "create_err (CreateSslCertificate P)" "DeleteSslCertificate P"
  by (rule sc_laws)

end
