(* ===== verification/Ensure.thy ===== *)
theory Ensure
  imports Cloud
begin

text \<open>
  The pattern most syncers of kubemci follow to bring one resource into its desired state: look it up;
  return its link (or the object) when it matches; update it under \<^verbatim>\<open>--force\<close> and refuse otherwise; create it when the lookup
  failed; and after a change look it up again for its link.  The syncers repeat this code; each
  of them is translated by itself and shown equal to \<open>ensure_link\<close>, whose laws are proved here
  once.
\<close>

definition then_link :: "('r, 'w) getter \<Rightarrow> ('r \<Rightarrow> 'l) \<Rightarrow> string \<Rightarrow> go_error option \<times> 'w \<Rightarrow> (go_error + 'l) \<times> 'w" where
  "then_link get link n = (\<lambda>(eo, w).
     case eo of
       Some e \<Rightarrow> (Inl e, w)
     | None \<Rightarrow> (case get n w of (Inl e, w1) \<Rightarrow> (Inl e, w1) | (Inr r, w1) \<Rightarrow> (Inr (link r), w1)))"

definition ensure_link ::
    "('r, 'w) getter \<Rightarrow> ('r, 'w) command \<Rightarrow> ('r, 'w) command \<Rightarrow> ('r \<Rightarrow> 'r \<Rightarrow> bool) \<Rightarrow> ('r \<Rightarrow> 'l) \<Rightarrow>
     go_error \<Rightarrow> string \<Rightarrow> 'r \<Rightarrow> bool \<Rightarrow> 'w \<Rightarrow> (go_error + 'l) \<times> 'w" where
  "ensure_link get create update matches link refusal n d force w =
     (case get n w of
        (Inr ex, w1) \<Rightarrow>
          if matches d ex then (Inr (link ex), w1)
          else if force then then_link get link n (update d w1)
          else (Inl refusal, w1)
      | (Inl e, w1) \<Rightarrow> then_link get link n (create d w1))"

text \<open>What an update must do: \<open>updated d old new\<close> relates the desired, the old and the new object.\<close>

locale ensure_api = resource_base view K R rname stored get create delete
  for view :: "'w \<Rightarrow> project" and K :: kind and R :: "'r \<Rightarrow> resource" and rname :: "'r \<Rightarrow> string"
    and stored :: "'r \<Rightarrow> 'r \<Rightarrow> bool" and get :: "('r, 'w) getter" and create :: "('r, 'w) command"
    and delete :: "(string, 'w) command" +
  fixes update :: "('r, 'w) command"
    and matches :: "'r \<Rightarrow> 'r \<Rightarrow> bool"
    and updated :: "'r \<Rightarrow> 'r \<Rightarrow> 'r \<Rightarrow> bool"
    and link :: "'r \<Rightarrow> 'l"
  assumes update_frame: "update d w = (eo, w') \<Longrightarrow> c \<noteq> (K, rname d) \<Longrightarrow> view w' c = view w c"
    and update_ok: "update d w = (None, w') \<Longrightarrow> view w (K, rname d) = Some (R old) \<Longrightarrow>
          \<exists>new. updated d old new \<and> view w' = (view w)((K, rname d) \<mapsto> R new)"
begin

lemma then_link_view: "then_link get link n (eo, w) = (x, w') \<Longrightarrow> view w' = view w"
  by (auto simp: then_link_def dest: get_view split: option.splits prod.splits sum.splits)

lemma then_link_ok:
  "then_link get link n (eo, w) = (Inr l, w') \<Longrightarrow>
   \<exists>r. eo = None \<and> view w (K, n) = Some (R r) \<and> l = link r \<and> view w' = view w"
  by (frule then_link_view) (auto simp: then_link_def dest!: get_value split: option.splits prod.splits sum.splits)

lemma ensure_link_cases:
  assumes "ensure_link get create update matches link refusal n d force w = (x, w')"
  obtains (same) ex where "get n w = (Inr ex, w')" "matches d ex" "x = Inr (link ex)"
  | (refused) ex where "get n w = (Inr ex, w')" "\<not> matches d ex" "\<not> force" "x = Inl refusal"
  | (update) ex w1 eo w2 where "get n w = (Inr ex, w1)" "\<not> matches d ex" "force"
      "update d w1 = (eo, w2)" "then_link get link n (eo, w2) = (x, w')"
  | (create) e w1 eo w2 where "get n w = (Inl e, w1)" "create d w1 = (eo, w2)"
      "then_link get link n (eo, w2) = (x, w')"
proof -
  obtain y w1 where g: "get n w = (y, w1)" by fastforce
  show ?thesis
  proof (cases y)
    case (Inl e)
    obtain eo w2 where "create d w1 = (eo, w2)" by fastforce
    with assms g Inl show ?thesis by (intro create[of e w1 eo w2]) (simp_all add: ensure_link_def)
  next
    case (Inr ex)
    obtain eo w2 where "update d w1 = (eo, w2)" by fastforce
    with assms g Inr same[of ex] refused[of ex] update[of ex w1 eo w2] show ?thesis
      by (auto simp: ensure_link_def split: if_splits)
  qed
qed

lemma ensure_link_frame:
  assumes "ensure_link get create update matches link refusal (rname d) d force w = (x, w')" "c \<noteq> (K, rname d)"
  shows "view w' c = view w c"
  using assms(1)
proof (cases rule: ensure_link_cases)
  case (update ex w1 eo w2)
  with get_view[OF update(1)] update_frame[OF update(4) assms(2)] then_link_view[OF update(5)] show ?thesis by simp
next
  case (create e w1 eo w2)
  with get_view[OF create(1)] create_frame[OF create(2) assms(2)] then_link_view[OF create(3)] show ?thesis by simp
qed (simp_all add: get_view)

text \<open>
  Without \<^verbatim>\<open>--force\<close> nothing that exists is lost, if insertions never replace an object or the lookup
  does not fail for another reason than \<^verbatim>\<open>404\<close>.
\<close>

lemma ensure_link_keeps:
  assumes "ensure_link get create update matches link refusal (rname d) d False w = (x, w')" "view w c = Some y"
    and "found_or_404 get (rname d) w \<or> (\<forall>r w eo w'. create r w = (eo, w') \<longrightarrow> view w (K, rname r) \<noteq> None \<longrightarrow> view w' = view w)"
  shows "view w' c = Some y"
  using assms(1)
proof (cases rule: ensure_link_cases)
  case (create e w1 eo w2)
  have "view w1 (K, rname d) = None \<or> view w2 = view w1"
    using assms(3) get_not_found[OF create(1)] found_or_404D[of get "rname d" w e w1] create(1) get_view[OF create(1)] create(2) by metis
  then have "view w2 c = Some y"
    using create_absent_keeps[OF create(2), of c y] get_view[OF create(1)] assms(2) by auto
  then show ?thesis using then_link_view[OF create(3)] by simp
qed (use assms(2) in \<open>auto simp: get_view\<close>)

text \<open>A success: the object matched and nothing changed, or it was updated, or it was created.\<close>

lemma ensure_link_ok:
  assumes "ensure_link get create update matches link refusal (rname d) d force w = (Inr l, w')"
    and "found_or_404 get (rname d) w"
  obtains r where "view w' = (view w)((K, rname d) \<mapsto> R r)" "l = link r"
    "(view w (K, rname d) = Some (R r) \<and> matches d r) \<or> (view w (K, rname d) = None \<and> stored d r)
     \<or> (\<exists>old. view w (K, rname d) = Some (R old) \<and> \<not> matches d old \<and> force \<and> updated d old r)"
  using assms(1)
proof (cases rule: ensure_link_cases)
  case (same ex)
  with get_value[OF same(1)] get_view[OF same(1)] that[of ex] show ?thesis by (simp add: fun_upd_idem)
next
  case (update ex w1 eo w2)
  from then_link_ok[OF update(5)] obtain r where r: "eo = None" "view w2 (K, rname d) = Some (R r)" "l = link r"
    "view w' = view w2" by blast
  have ex: "view w1 (K, rname d) = Some (R ex)" using get_value[OF update(1)] get_view[OF update(1)] by simp
  from update_ok[OF update(4)[unfolded r(1)] ex] r(2) have
    new: "updated d ex r" "view w2 = (view w1)((K, rname d) \<mapsto> R r)" by (auto dest: R_inject)
  show ?thesis using that[of r] new r ex update(2,3) get_view[OF update(1)] by auto
next
  case (create e w1 eo w2)
  from then_link_ok[OF create(3)] obtain r where r: "eo = None" "view w2 (K, rname d) = Some (R r)" "l = link r"
    "view w' = view w2" by blast
  have "view w (K, rname d) = None" using get_not_found[OF create(1) found_or_404D[OF assms(2) create(1)]] .
  with create_absent[OF create(2)[unfolded r(1)]] get_view[OF create(1)] r(2) have
    "stored d r" "view w2 = (view w)((K, rname d) \<mapsto> R r)" by (auto dest: R_inject)
  then show ?thesis using that[of r] r \<open>view w (K, rname d) = None\<close> by simp
qed simp

end

end
