(* ===== verification/Providers.thy ===== *)
theory Providers
  imports Ensure
begin

text \<open>
  The interfaces of ingress-gce through which kubemci reaches health checks, backend services and
  firewalls, and the laws it relies on.  Unlike the load balancer resources these have an update call
  that replaces the object.
\<close>

section \<open>What the server returns\<close>

definition hc_input :: "HealthCheck \<Rightarrow> HealthCheck" where
  "hc_input h = h\<lparr>hc_CreationTimestamp := '''', hc_Id := 0, hc_SelfLink := '''', hc_ServerResponse := zero_ServerResponse\<rparr>"

text \<open>The lists of field names that steer the JSON encoding are not part of the transmitted object.\<close>

definition hc_transmitted :: "HealthCheck \<Rightarrow> HealthCheck" where
  "hc_transmitted h = h\<lparr>hc_ServerResponse := zero_ServerResponse, hc_ForceSendFields := NilSlice, hc_NullFields := NilSlice,
     hc_HttpHealthCheck := map_option (\<lambda>x. x\<lparr>hhc_ForceSendFields := NilSlice, hhc_NullFields := NilSlice\<rparr>) (hc_HttpHealthCheck h),
     hc_HttpsHealthCheck := map_option (\<lambda>x. x\<lparr>hshc_ForceSendFields := NilSlice, hshc_NullFields := NilSlice\<rparr>) (hc_HttpsHealthCheck h),
     hc_SslHealthCheck := map_option (\<lambda>x. x\<lparr>slhc_ForceSendFields := NilSlice, slhc_NullFields := NilSlice\<rparr>) (hc_SslHealthCheck h),
     hc_TcpHealthCheck := map_option (\<lambda>x. x\<lparr>thc_ForceSendFields := NilSlice, thc_NullFields := NilSlice\<rparr>) (hc_TcpHealthCheck h)\<rparr>"

definition hc_stored :: "HealthCheck \<Rightarrow> HealthCheck \<Rightarrow> bool" where
  "hc_stored d r \<longleftrightarrow> hc_Name r = hc_Name d \<and> hc_input r = hc_input (hc_transmitted d)"

text \<open>Reading a backend service with protocol \<^verbatim>\<open>HTTP2\<close> through this version of the API gives an empty protocol.\<close>

definition be_returned :: "BackendService \<Rightarrow> BackendService" where
  "be_returned b = (if be_Protocol b = ''HTTP2'' then b\<lparr>be_Protocol := ''''\<rparr> else b)"

definition be_input :: "BackendService \<Rightarrow> BackendService" where
  "be_input b = b\<lparr>be_CreationTimestamp := '''', be_Fingerprint := '''', be_Id := 0, be_SelfLink := '''',
     be_ServerResponse := zero_ServerResponse\<rparr>"

definition be_stored :: "BackendService \<Rightarrow> BackendService \<Rightarrow> bool" where
  "be_stored d r \<longleftrightarrow> be_Name r = be_Name d \<and> be_input r = be_input (be_returned d)"

text \<open>Firewalls come back with a default priority; empty lists come back as nil.\<close>

definition fw_input :: "Firewall \<Rightarrow> Firewall" where
  "fw_input f = f\<lparr>fw_CreationTimestamp := '''', fw_Id := 0, fw_Kind := '''', fw_SelfLink := '''',
     fw_ServerResponse := zero_ServerResponse, fw_Priority := (if fw_Priority f = 1000 then 0 else fw_Priority f)\<rparr>"

definition fw_transmitted :: "Firewall \<Rightarrow> Firewall" where
  "fw_transmitted f = f\<lparr>
     fw_Allowed := slice_of (map (\<lambda>a. a\<lparr>fwa_Ports := slice_of (elems (fwa_Ports a)), fwa_ForceSendFields := NilSlice,
       fwa_NullFields := NilSlice\<rparr>) (elems (fw_Allowed f))),
     fw_Denied := slice_of (map (\<lambda>a. a\<lparr>fwd_Ports := slice_of (elems (fwd_Ports a)), fwd_ForceSendFields := NilSlice,
       fwd_NullFields := NilSlice\<rparr>) (elems (fw_Denied f))),
     fw_DestinationRanges := slice_of (elems (fw_DestinationRanges f)), fw_SourceRanges := slice_of (elems (fw_SourceRanges f)),
     fw_SourceServiceAccounts := slice_of (elems (fw_SourceServiceAccounts f)),
     fw_SourceTags := slice_of (elems (fw_SourceTags f)),
     fw_TargetServiceAccounts := slice_of (elems (fw_TargetServiceAccounts f)),
     fw_TargetTags := slice_of (elems (fw_TargetTags f)), fw_ServerResponse := zero_ServerResponse,
     fw_ForceSendFields := NilSlice, fw_NullFields := NilSlice\<rparr>"

definition fw_stored :: "Firewall \<Rightarrow> Firewall \<Rightarrow> bool" where
  "fw_stored d r \<longleftrightarrow> fw_Name r = fw_Name d \<and> fw_input r = fw_input (fw_transmitted d)"

section \<open>The interfaces\<close>

record 'w HealthCheckProvider =
  GetHealthCheck :: "(HealthCheck, 'w) getter"
  CreateHealthCheck :: "(HealthCheck, 'w) command"
  UpdateHealthCheck :: "(HealthCheck, 'w) command"
  DeleteHealthCheck :: "(string, 'w) command"

record 'w BackendServices =
  GetGlobalBackendService :: "(BackendService, 'w) getter"
  CreateGlobalBackendService :: "(BackendService, 'w) command"
  UpdateGlobalBackendService :: "(BackendService, 'w) command"
  DeleteGlobalBackendService :: "(string, 'w) command"

record 'w FirewallProvider =
  GetFirewall :: "(Firewall, 'w) getter"
  CreateFirewall :: "(Firewall, 'w) command"
  UpdateFirewall :: "(Firewall, 'w) command"
  DeleteFirewall :: "(string, 'w) command"

section \<open>The laws of a kind of resource with an update call\<close>

text \<open>Deleting a list of objects one after the other, ignoring those that do not exist.\<close>

fun delete_each :: "(string, 'w) command \<Rightarrow> string list \<Rightarrow> 'w \<Rightarrow> go_error list \<times> 'w" where
  "delete_each del [] w = ([], w)"
| "delete_each del (n # ns) w =
     (case del n w of
        (e, w1) \<Rightarrow> (case delete_each del ns w1 of
           (es, w2) \<Rightarrow> ((case IgnoreHTTPNotFound e of None \<Rightarrow> es | Some e' \<Rightarrow> e' # es), w2)))"

locale provider_api = resource_base view K R rname stored get create delete
  for view :: "'w \<Rightarrow> project" and K :: kind and R :: "'r \<Rightarrow> resource" and rname :: "'r \<Rightarrow> string"
    and stored :: "'r \<Rightarrow> 'r \<Rightarrow> bool" and get :: "('r, 'w) getter" and create :: "('r, 'w) command"
    and delete :: "(string, 'w) command" +
  fixes update :: "('r, 'w) command"
  assumes update_stores: "update d w = (None, w') \<Longrightarrow> \<exists>r. stored d r \<and> view w' = (view w)((K, rname d) \<mapsto> R r)"
    and update_effect: "update d w = (eo, w') \<Longrightarrow>
          view w' = view w \<or> (\<exists>r. stored d r \<and> view w' = (view w)((K, rname d) \<mapsto> R r))"
begin

lemma update_other_cells: "update d w = (eo, w') \<Longrightarrow> c \<noteq> (K, rname d) \<Longrightarrow> view w' c = view w c"
  using update_effect[of d w eo w'] by auto

lemma update_then_get:
  assumes "update d w = (None, w1)" "get (rname d) w1 = (Inr x, w2)"
  shows "stored d x \<and> view w2 = (view w)((K, rname d) \<mapsto> R x)"
proof -
  obtain r where r: "stored d r" "view w1 = (view w)((K, rname d) \<mapsto> R r)" using update_stores[OF assms(1)] by blast
  have "x = r" using get_value[OF assms(2)] r(2) by (auto dest: R_inject)
  with r get_view[OF assms(2)] show ?thesis by simp
qed

lemma delete_each_frame: "delete_each delete ns w = (es, w') \<Longrightarrow> c \<notin> Pair K ` set ns \<Longrightarrow> view w' c = view w c"
proof (induction ns arbitrary: w es)
  case (Cons n ns)
  obtain e w1 where d: "delete n w = (e, w1)" by fastforce
  obtain es' where "delete_each delete ns w1 = (es', w')" using Cons.prems(1) d by (auto split: prod.splits)
  with Cons.IH[OF this] Cons.prems(2) delete_frame[OF d, of c] show ?case by auto
qed simp

lemma delete_each_ok: "delete_each delete ns w = ([], w') \<Longrightarrow> n \<in> set ns \<Longrightarrow> view w' (K, n) = None"
proof (induction ns arbitrary: w)
  case (Cons m ns)
  obtain e w1 where d: "delete m w = (e, w1)" by fastforce
  with Cons.prems(1) have rest: "IgnoreHTTPNotFound e = None" "delete_each delete ns w1 = ([], w')"
    by (auto split: prod.splits option.splits)
  show ?case
  proof (cases "n \<in> set ns")
    case False
    with Cons.prems(2) have "n = m" by simp
    moreover have "view w' (K, n) = view w1 (K, n)" using delete_each_frame[OF rest(2)] False by auto
    ultimately show ?thesis using delete_ignoring_not_found[OF d rest(1)] by simp
  qed (use Cons.IH[OF rest(2)] in simp)
qed simp

end

sublocale provider_api \<subseteq> ensure_api view K R rname stored get create delete update matches "\<lambda>d old new. stored d new" link
  for matches link
  by unfold_locales (simp add: update_other_cells, simp add: update_stores)

locale hc_api =
  fixes view :: "'w \<Rightarrow> project"
    and H :: "'w HealthCheckProvider"
  assumes hc_laws: "provider_api view KHealthCheck RHealthCheck hc_Name hc_stored
        (GetHealthCheck H) (CreateHealthCheck H) (DeleteHealthCheck H) (UpdateHealthCheck H)"

sublocale hc_api \<subseteq> hc: provider_api view KHealthCheck RHealthCheck hc_Name hc_stored
    "GetHealthCheck H" "CreateHealthCheck H" "DeleteHealthCheck H" "UpdateHealthCheck H"
  by (rule hc_laws)

locale be_api =
  fixes view :: "'w \<Rightarrow> project"
    and B :: "'w BackendServices"
  assumes be_laws: "provider_api view KBackendService RBackendService be_Name be_stored
        (GetGlobalBackendService B) (CreateGlobalBackendService B) (DeleteGlobalBackendService B) (UpdateGlobalBackendService B)"
    and be_named: "GetGlobalBackendService B n w = (Inr b, w') \<Longrightarrow> be_Name b = n"
sublocale be_api \<subseteq> be: provider_api view KBackendService RBackendService be_Name be_stored
    "GetGlobalBackendService B" "CreateGlobalBackendService B" "DeleteGlobalBackendService B" "UpdateGlobalBackendService B"
  by (rule be_laws)

locale fw_api =
  fixes view :: "'w \<Rightarrow> project"
    and F :: "'w FirewallProvider"
  assumes fw_laws: "provider_api view KFirewall RFirewall fw_Name fw_stored
        (GetFirewall F) (CreateFirewall F) (DeleteFirewall F) (UpdateFirewall F)"

sublocale fw_api \<subseteq> fw: provider_api view KFirewall RFirewall fw_Name fw_stored
    "GetFirewall F" "CreateFirewall F" "DeleteFirewall F" "UpdateFirewall F"
  by (rule fw_laws)

end
