(* ===== verification/FakeLoadBalancers.thy ===== *)
theory FakeLoadBalancers
  imports Providers
begin

text \<open>
  The in-memory cloud the repository's own tests run against,
  \<^verbatim>\<open>vendor/k8s.io/ingress-gce/pkg/loadbalancers/fakes.go\<close>, as an implementation of the interface
  \<^verbatim>\<open>LoadBalancers\<close>.  It shows that the laws of locale \<open>lb_api\<close> can be met, and it is the
  cloud on which the concrete examples of the development run.  The state \<open>FakeCloud\<close> also
  holds the stores of the fakes for backend services, health checks and firewalls (theory
  \<open>FakeProviders\<close>).  Objects are stored and returned by value.
\<close>

section \<open>Definitions\<close>

record FakeCloud =
  f_Fw :: "ForwardingRule slice"
  f_Um :: "UrlMap slice"
  f_Tp :: "TargetHttpProxy slice"
  f_Tps :: "TargetHttpsProxy slice"
  f_IP :: "Address slice"
  f_Certs :: "SslCertificate slice"
  f_calls :: "string list"
  f_testIP :: int
  f_backendServices :: "BackendService gomap"
  f_generic :: "HealthCheck gomap"
  f_firewalls :: "Firewall gomap"
  f_fwReadOnly :: bool

definition NewFakeLoadBalancers :: FakeCloud where
  "NewFakeLoadBalancers = \<lparr>f_Fw = Slice [], f_Um = NilSlice, f_Tp = NilSlice, f_Tps = NilSlice,
     f_IP = NilSlice, f_Certs = NilSlice, f_calls = [], f_testIP = 0, f_backendServices = [],
     f_generic = [], f_firewalls = [], f_fwReadOnly = False\<rparr>"

definition log_call :: "string \<Rightarrow> FakeCloud \<Rightarrow> FakeCloud" where
  "log_call c f = f\<lparr>f_calls := f_calls f @ [c]\<rparr>"

text \<open>The loops the methods of the fake share: the first object with a name, and all others.\<close>

definition first_named :: "('r \<Rightarrow> string) \<Rightarrow> string \<Rightarrow> 'r list \<Rightarrow> go_error + 'r" where
  "first_named rname n rs =
     (case find (\<lambda>r. rname r = n) rs of Some r \<Rightarrow> Inr r | None \<Rightarrow> Inl FakeGoogleAPINotFoundErr)"

definition without :: "('r \<Rightarrow> string) \<Rightarrow> string \<Rightarrow> 'r list \<Rightarrow> 'r list" where
  "without rname n rs = filter (\<lambda>r. rname r \<noteq> n) rs"

definition deletion_error :: "'r list \<Rightarrow> 'r list \<Rightarrow> go_error option" where
  "deletion_error old new = (if length old = length new then Some FakeGoogleAPINotFoundErr else None)"

definition update_named :: "('r \<Rightarrow> string) \<Rightarrow> string \<Rightarrow> ('r \<Rightarrow> 'r) \<Rightarrow> 'r slice \<Rightarrow> 'r slice" where
  "update_named rname n g s =
     (case s of NilSlice \<Rightarrow> NilSlice | Slice rs \<Rightarrow> Slice (map (\<lambda>r. if rname r = n then g r else r) rs))"

fun replace_first :: "('r \<Rightarrow> string) \<Rightarrow> 'r \<Rightarrow> 'r list \<Rightarrow> 'r list option" where
  "replace_first rname x [] = None"
| "replace_first rname x (r # rs) =
     (if rname r = rname x then Some (x # rs) else map_option (Cons r) (replace_first rname x rs))"

subsection \<open>Forwarding rules\<close>

definition fake_GetGlobalForwardingRule :: "(ForwardingRule, FakeCloud) getter" where
  "fake_GetGlobalForwardingRule name f =
     (first_named fr_Name name (elems (f_Fw f)), log_call ''GetGlobalForwardingRule'' f)"

definition fake_ListGlobalForwardingRules :: "FakeCloud \<Rightarrow> (go_error + ForwardingRule slice) \<times> FakeCloud" where
  "fake_ListGlobalForwardingRules f = (Inr (f_Fw f), f)"

definition testIP_ip :: "int \<Rightarrow> string \<times> int" where
  "testIP_ip start = (''0.0.0.'' @ show_int (start + 1), start + 1)"

definition fake_CreateGlobalForwardingRule :: "(ForwardingRule, FakeCloud) command" where
  "fake_CreateGlobalForwardingRule rule f0 =
     (let f = log_call ''CreateGlobalForwardingRule'' f0;
          (ip, start) = (if fr_IPAddress rule = '''' then testIP_ip (f_testIP f)
                         else (fr_IPAddress rule, f_testIP f));
          rule = rule\<lparr>fr_IPAddress := ip, fr_SelfLink := fr_Name rule\<rparr>
      in (None, f\<lparr>f_testIP := start, f_Fw := Slice (elems (f_Fw f) @ [rule])\<rparr>))"

definition fake_SetProxyForGlobalForwardingRule ::
    "string \<Rightarrow> string \<Rightarrow> FakeCloud \<Rightarrow> go_error option \<times> FakeCloud" where
  "fake_SetProxyForGlobalForwardingRule forwardingRuleName proxyLink f0 =
     (let f = log_call ''SetProxyForGlobalForwardingRule'' f0
      in (None, f\<lparr>f_Fw := update_named fr_Name forwardingRuleName (\<lambda>r. r\<lparr>fr_Target := proxyLink\<rparr>) (f_Fw f)\<rparr>))"

definition fake_DeleteGlobalForwardingRule :: "(string, FakeCloud) command" where
  "fake_DeleteGlobalForwardingRule name f0 =
     (let f = log_call ''DeleteGlobalForwardingRule'' f0;
          fw = without fr_Name name (elems (f_Fw f))
      in case deletion_error (elems (f_Fw f)) fw of
           Some e \<Rightarrow> (Some e, f)
         | None \<Rightarrow> (None, f\<lparr>f_Fw := Slice fw\<rparr>))"

subsection \<open>Url maps\<close>

definition fake_GetUrlMap :: "(UrlMap, FakeCloud) getter" where
  "fake_GetUrlMap name f = (first_named um_Name name (elems (f_Um f)), log_call ''GetUrlMap'' f)"

definition fake_CreateUrlMap :: "(UrlMap, FakeCloud) command" where
  "fake_CreateUrlMap urlMap f0 =
     (let f = log_call ''CreateUrlMap'' f0
      in (None, f\<lparr>f_Um := Slice (elems (f_Um f) @ [urlMap\<lparr>um_SelfLink := um_Name urlMap\<rparr>])\<rparr>))"

definition fake_UpdateUrlMap :: "(UrlMap, FakeCloud) command" where
  "fake_UpdateUrlMap urlMap f0 =
     (let f = log_call ''UpdateUrlMap'' f0
      in case replace_first um_Name urlMap (elems (f_Um f)) of
           Some ms \<Rightarrow> (None, f\<lparr>f_Um := Slice ms\<rparr>)
         | None \<Rightarrow> (Some FakeGoogleAPINotFoundErr, f))"

definition fake_DeleteUrlMap :: "(string, FakeCloud) command" where
  "fake_DeleteUrlMap name f0 =
     (let f = log_call ''DeleteUrlMap'' f0;
          um = without um_Name name (elems (f_Um f))
      in case deletion_error (elems (f_Um f)) um of
           Some e \<Rightarrow> (Some e, f)
         | None \<Rightarrow> (None, f\<lparr>f_Um := Slice um\<rparr>))"

definition fake_ListUrlMaps :: "FakeCloud \<Rightarrow> (go_error + UrlMap slice) \<times> FakeCloud" where
  "fake_ListUrlMaps f = (Inr (f_Um f), log_call ''ListUrlMaps'' f)"

subsection \<open>Target proxies\<close>

definition fake_GetTargetHttpProxy :: "(TargetHttpProxy, FakeCloud) getter" where
  "fake_GetTargetHttpProxy name f =
     (first_named tp_Name name (elems (f_Tp f)), log_call ''GetTargetHttpProxy'' f)"

definition fake_CreateTargetHttpProxy :: "(TargetHttpProxy, FakeCloud) command" where
  "fake_CreateTargetHttpProxy proxy f0 =
     (let f = log_call ''CreateTargetHttpProxy'' f0
      in (None, f\<lparr>f_Tp := Slice (elems (f_Tp f) @ [proxy\<lparr>tp_SelfLink := tp_Name proxy\<rparr>])\<rparr>))"

definition fake_DeleteTargetHttpProxy :: "(string, FakeCloud) command" where
  "fake_DeleteTargetHttpProxy name f0 =
     (let f = log_call ''DeleteTargetHttpProxy'' f0;
          tp = without tp_Name name (elems (f_Tp f))
      in case deletion_error (elems (f_Tp f)) tp of
           Some e \<Rightarrow> (Some e, f)
         | None \<Rightarrow> (None, f\<lparr>f_Tp := Slice tp\<rparr>))"

definition fake_SetUrlMapForTargetHttpProxy ::
    "TargetHttpProxy \<Rightarrow> UrlMap \<Rightarrow> FakeCloud \<Rightarrow> go_error option \<times> FakeCloud" where
  "fake_SetUrlMapForTargetHttpProxy proxy urlMap f0 =
     (let f = log_call ''SetUrlMapForTargetHttpProxy'' f0
      in (None, f\<lparr>f_Tp := update_named tp_Name (tp_Name proxy) (\<lambda>r. r\<lparr>tp_UrlMap := um_SelfLink urlMap\<rparr>) (f_Tp f)\<rparr>))"

definition fake_GetTargetHttpsProxy :: "(TargetHttpsProxy, FakeCloud) getter" where
  "fake_GetTargetHttpsProxy name f =
     (first_named tps_Name name (elems (f_Tps f)), log_call ''GetTargetHttpsProxy'' f)"

definition fake_CreateTargetHttpsProxy :: "(TargetHttpsProxy, FakeCloud) command" where
  "fake_CreateTargetHttpsProxy proxy f0 =
     (let f = log_call ''CreateTargetHttpsProxy'' f0
      in (None, f\<lparr>f_Tps := Slice (elems (f_Tps f) @ [proxy\<lparr>tps_SelfLink := tps_Name proxy\<rparr>])\<rparr>))"

definition fake_DeleteTargetHttpsProxy :: "(string, FakeCloud) command" where
  "fake_DeleteTargetHttpsProxy name f0 =
     (let f = log_call ''DeleteTargetHttpsProxy'' f0;
          tp = without tps_Name name (elems (f_Tps f))
      in case deletion_error (elems (f_Tps f)) tp of
           Some e \<Rightarrow> (Some e, f)
         | None \<Rightarrow> (None, f\<lparr>f_Tps := Slice tp\<rparr>))"

definition fake_SetUrlMapForTargetHttpsProxy ::
    "TargetHttpsProxy \<Rightarrow> UrlMap \<Rightarrow> FakeCloud \<Rightarrow> go_error option \<times> FakeCloud" where
  "fake_SetUrlMapForTargetHttpsProxy proxy urlMap f0 =
     (let f = log_call ''SetUrlMapForTargetHttpsProxy'' f0
      in (None, f\<lparr>f_Tps := update_named tps_Name (tps_Name proxy) (\<lambda>r. r\<lparr>tps_UrlMap := um_SelfLink urlMap\<rparr>) (f_Tps f)\<rparr>))"

subsection \<open>Certificates and addresses\<close>

definition fake_GetSslCertificate :: "(SslCertificate, FakeCloud) getter" where
  "fake_GetSslCertificate name f =
     (first_named sc_Name name (elems (f_Certs f)), log_call ''GetSslCertificate'' f)"

definition fake_CreateSslCertificate :: "SslCertificate \<Rightarrow> FakeCloud \<Rightarrow> (go_error + SslCertificate) \<times> FakeCloud" where
  "fake_CreateSslCertificate cert f0 =
     (let f = log_call ''CreateSslCertificate'' f0;
          cert = cert\<lparr>sc_SelfLink := sc_Name cert\<rparr>
      in (Inr cert, f\<lparr>f_Certs := Slice (elems (f_Certs f) @ [cert])\<rparr>))"

definition fake_DeleteSslCertificate :: "(string, FakeCloud) command" where
  "fake_DeleteSslCertificate name f0 =
     (let f = log_call ''DeleteSslCertificate'' f0;
          certs = without sc_Name name (elems (f_Certs f))
      in case deletion_error (elems (f_Certs f)) certs of
           Some e \<Rightarrow> (Some e, f)
         | None \<Rightarrow> (None, f\<lparr>f_Certs := Slice certs\<rparr>))"

definition fake_ReserveGlobalAddress :: "(Address, FakeCloud) command" where
  "fake_ReserveGlobalAddress addr f0 =
     (let f = log_call ''ReserveGlobalAddress'' f0
      in (None, f\<lparr>f_IP := Slice (elems (f_IP f) @ [addr])\<rparr>))"

definition fake_GetGlobalAddress :: "(Address, FakeCloud) getter" where
  "fake_GetGlobalAddress name f =
     (first_named addr_Name name (elems (f_IP f)), log_call ''GetGlobalAddress'' f)"

definition fake_lb :: "FakeCloud LoadBalancers" where
  "fake_lb = \<lparr>
     GetGlobalForwardingRule = fake_GetGlobalForwardingRule,
     CreateGlobalForwardingRule = fake_CreateGlobalForwardingRule,
     DeleteGlobalForwardingRule = fake_DeleteGlobalForwardingRule,
     SetProxyForGlobalForwardingRule = fake_SetProxyForGlobalForwardingRule,
     ListGlobalForwardingRules = fake_ListGlobalForwardingRules,
     GetUrlMap = fake_GetUrlMap, CreateUrlMap = fake_CreateUrlMap, UpdateUrlMap = fake_UpdateUrlMap,
     DeleteUrlMap = fake_DeleteUrlMap, ListUrlMaps = fake_ListUrlMaps,
     GetTargetHttpProxy = fake_GetTargetHttpProxy, CreateTargetHttpProxy = fake_CreateTargetHttpProxy,
     DeleteTargetHttpProxy = fake_DeleteTargetHttpProxy,
     SetUrlMapForTargetHttpProxy = fake_SetUrlMapForTargetHttpProxy,
     GetTargetHttpsProxy = fake_GetTargetHttpsProxy, CreateTargetHttpsProxy = fake_CreateTargetHttpsProxy,
     DeleteTargetHttpsProxy = fake_DeleteTargetHttpsProxy,
     SetUrlMapForTargetHttpsProxy = fake_SetUrlMapForTargetHttpsProxy,
     GetSslCertificate = fake_GetSslCertificate, CreateSslCertificate = fake_CreateSslCertificate,
     DeleteSslCertificate = fake_DeleteSslCertificate, GetGlobalAddress = fake_GetGlobalAddress\<rparr>"

section \<open>The objects of the fake as a view of the project\<close>

definition named :: "('r \<Rightarrow> string) \<Rightarrow> string \<Rightarrow> 'r slice \<Rightarrow> 'r option" where
  "named rname n s = find (\<lambda>r. rname r = n) (elems s)"

fun fake_view :: "FakeCloud \<Rightarrow> project" where
  "fake_view f (KForwardingRule, n) = map_option RForwardingRule (named fr_Name n (f_Fw f))"
| "fake_view f (KUrlMap, n) = map_option RUrlMap (named um_Name n (f_Um f))"
| "fake_view f (KTargetHttpProxy, n) = map_option RTargetHttpProxy (named tp_Name n (f_Tp f))"
| "fake_view f (KTargetHttpsProxy, n) = map_option RTargetHttpsProxy (named tps_Name n (f_Tps f))"
| "fake_view f (KSslCertificate, n) = map_option RSslCertificate (named sc_Name n (f_Certs f))"
| "fake_view f (KBackendService, n) =
     (case map_of (f_backendServices f) n of
        Some b \<Rightarrow> if be_Name b = n then Some (RBackendService (be_returned b)) else None
      | None \<Rightarrow> None)"
| "fake_view f (KHealthCheck, n) = map_option (RHealthCheck \<circ> hc_transmitted) (map_of (f_generic f) n)"
| "fake_view f (KFirewall, n) = map_option RFirewall (map_of (f_firewalls f) n)"

text \<open>A kind of object kept in a list of the fake obeys the laws of \<open>resource_api\<close>.\<close>

locale list_store =
  fixes view :: "'w \<Rightarrow> project"
    and K :: kind
    and R :: "'r \<Rightarrow> resource"
    and rname :: "'r \<Rightarrow> string"
    and stored :: "'r \<Rightarrow> 'r \<Rightarrow> bool"
    and get :: "('r, 'w) getter"
    and create :: "('r, 'w) command"
    and delete :: "(string, 'w) command"
    and store :: "'w \<Rightarrow> 'r slice"
    and filled :: "'w \<Rightarrow> 'r \<Rightarrow> 'r"
  assumes R_inj: "R r = R r' \<Longrightarrow> r = r'"
    and view_store: "view w (K, n) = map_option R (named rname n (store w))"
    and filled_stored: "stored r (filled w r)" "rname (filled w r) = rname r"
    and get_result: "fst (get n w) = first_named rname n (elems (store w))"
    and get_state: "view (snd (get n w)) = view w"
    and create_result: "fst (create r w) = None"
    and create_state: "store (snd (create r w)) = Slice (elems (store w) @ [filled w r])"
      "k \<noteq> K \<Longrightarrow> view (snd (create r w)) (k, n) = view w (k, n)"
    and delete_result: "fst (delete n w) = deletion_error (elems (store w)) (without rname n (elems (store w)))"
    and delete_state: "elems (store (snd (delete n w))) = without rname n (elems (store w))"
      "k \<noteq> K \<Longrightarrow> view (snd (delete n w)) (k, m) = view w (k, m)"
begin

lemma named_absent: "find (\<lambda>r. rname r = n) rs = None \<longleftrightarrow> n \<notin> rname ` set rs"
  by (auto simp: find_None_iff)

lemma find_append_one:
  "find P (xs @ [x]) = (case find P xs of None \<Rightarrow> if P x then Some x else None | Some y \<Rightarrow> Some y)"
  by (induction xs) auto

lemma find_without: "find (\<lambda>r. rname r = n) (without rname m rs) =
    (if n = m then None else find (\<lambda>r. rname r = n) rs)"
  by (induction rs) (auto simp: without_def)

lemma create_view: "view (snd (create r w)) =
    (if view w (K, rname r) = None then (view w)((K, rname r) \<mapsto> R (filled w r)) else view w)"
proof
  fix c :: cell
  obtain k n where c: "c = (k, n)" by (cases c)
  show "view (snd (create r w)) c =
      (if view w (K, rname r) = None then (view w)((K, rname r) \<mapsto> R (filled w r)) else view w) c"
    using filled_stored(2)[of w r]
    by (cases "k = K") (auto simp: c view_store named_def create_state find_append_one split: option.splits)
qed

lemma delete_view: "view (snd (delete n w)) = (view w)((K, n) := None)"
proof
  fix c :: cell
  obtain k m where c: "c = (k, m)" by (cases c)
  show "view (snd (delete n w)) c = ((view w)((K, n) := None)) c"
    by (cases "k = K") (auto simp: c view_store named_def delete_state find_without)
qed

lemma deletion_error_iff:
  "deletion_error rs (without rname n rs) = None \<longleftrightarrow> n \<in> rname ` set rs"
  "deletion_error rs (without rname n rs) = Some e \<longleftrightarrow> e = FakeGoogleAPINotFoundErr \<and> n \<notin> rname ` set rs"
proof -
  have "length rs = length (filter (\<lambda>r. rname r \<noteq> n) rs) \<longleftrightarrow> n \<notin> rname ` set rs"
    using length_filter_same[of "\<lambda>r. rname r \<noteq> n" rs] by auto
  then show "deletion_error rs (without rname n rs) = None \<longleftrightarrow> n \<in> rname ` set rs"
    "deletion_error rs (without rname n rs) = Some e \<longleftrightarrow> e = FakeGoogleAPINotFoundErr \<and> n \<notin> rname ` set rs"
    by (auto simp: deletion_error_def without_def)
qed

end

sublocale list_store \<subseteq> resource_api view K R rname stored get create delete
proof
  show "view w' = view w" if "get n w = (x, w')" for n w x w'
    using get_state[of n w] that by simp
  show "view w (K, n) = Some (R r)" if "get n w = (Inr r, w')" for n w r w'
    using get_result[of n w] that
    by (auto simp: first_named_def view_store named_def split: option.splits)
  show "rname r = n" if "get n w = (Inr r, w')" for n w r w'
    using get_result[of n w] that by (auto simp: first_named_def dest!: find_SomeD split: option.splits)
  show "view w (K, n) = None" if "get n w = (Inl e, w')" for n w e w'
    using get_result[of n w] that
    by (auto simp: first_named_def view_store named_def split: option.splits)
  show "\<exists>r'. stored r r' \<and> view w' = (view w)((K, rname r) \<mapsto> R r')"
    if "create r w = (None, w')" "view w (K, rname r) = None" for r w w'
    using create_view[of r w] that filled_stored(1)[of r w] by auto
  show "view w' = view w \<or> (\<exists>r'. stored r r' \<and> view w' = (view w)((K, rname r) \<mapsto> R r'))"
    if "create r w = (eo, w')" for r w eo w'
    using create_view[of r w] that filled_stored(1)[of r w] by auto
  show "view w' = view w" if "create r w = (eo, w')" "view w (K, rname r) \<noteq> None" for r w eo w'
    using create_view[of r w] that by auto
  show "view w' = (view w)((K, n) := None)" if "delete n w = (None, w')" for n w w'
    using delete_view[of n w] that by simp
  show "view w (K, n) = None \<and> view w' = view w" if "delete n w = (Some e, w')" for n w e w'
  proof -
    have "n \<notin> rname ` set (elems (store w))"
      using delete_result[of n w, symmetric] that by (simp add: deletion_error_iff)
    then have "view w (K, n) = None" by (simp add: view_store named_def named_absent)
    with delete_view[of n w] that show ?thesis by (simp add: fun_upd_idem)
  qed
  show "view w' = view w \<or> view w' = (view w)((K, n) := None)" if "delete n w = (eo, w')" for n w eo w'
    using delete_view[of n w] that by simp
qed (rule R_inj)

section \<open>The fake meets the laws\<close>

lemma fake_view_log_call [simp]: "fake_view (log_call c f) = fake_view f"
proof
  fix c' show "fake_view (log_call c f) c' = fake_view f c'"
    by (cases "(f, c')" rule: fake_view.cases) (simp_all add: log_call_def)
qed

lemma log_call_stores [simp]:
  "f_Fw (log_call c f) = f_Fw f" "f_Um (log_call c f) = f_Um f" "f_Tp (log_call c f) = f_Tp f"
  "f_Tps (log_call c f) = f_Tps f" "f_Certs (log_call c f) = f_Certs f" "f_IP (log_call c f) = f_IP f"
  "f_testIP (log_call c f) = f_testIP f" "f_backendServices (log_call c f) = f_backendServices f"
  "f_generic (log_call c f) = f_generic f" "f_firewalls (log_call c f) = f_firewalls f"
  by (simp_all add: log_call_def)

lemma fake_view_other_kinds:
  "k \<noteq> KForwardingRule \<Longrightarrow> fake_view (f\<lparr>f_Fw := a\<rparr>) (k, n) = fake_view f (k, n)"
  "k \<noteq> KUrlMap \<Longrightarrow> fake_view (f\<lparr>f_Um := b\<rparr>) (k, n) = fake_view f (k, n)"
  "k \<noteq> KTargetHttpProxy \<Longrightarrow> fake_view (f\<lparr>f_Tp := c\<rparr>) (k, n) = fake_view f (k, n)"
  "k \<noteq> KTargetHttpsProxy \<Longrightarrow> fake_view (f\<lparr>f_Tps := d\<rparr>) (k, n) = fake_view f (k, n)"
  "k \<noteq> KSslCertificate \<Longrightarrow> fake_view (f\<lparr>f_Certs := e\<rparr>) (k, n) = fake_view f (k, n)"
  "fake_view (f\<lparr>f_testIP := i\<rparr>) (k, n) = fake_view f (k, n)"
  by (cases k; simp)+

lemma without_same: "deletion_error rs (without rname n rs) = Some e \<Longrightarrow> without rname n rs = rs"
  using length_filter_same[of "\<lambda>r. rname r \<noteq> n" rs]
  by (simp add: deletion_error_def without_def filter_id_conv split: if_splits)

lemmas fake_ops =
  fake_GetGlobalForwardingRule_def fake_CreateGlobalForwardingRule_def fake_DeleteGlobalForwardingRule_def
  fake_SetProxyForGlobalForwardingRule_def fake_ListGlobalForwardingRules_def
  fake_GetUrlMap_def fake_CreateUrlMap_def fake_UpdateUrlMap_def fake_DeleteUrlMap_def fake_ListUrlMaps_def
  fake_GetTargetHttpProxy_def fake_CreateTargetHttpProxy_def fake_DeleteTargetHttpProxy_def
  fake_SetUrlMapForTargetHttpProxy_def
  fake_GetTargetHttpsProxy_def fake_CreateTargetHttpsProxy_def fake_DeleteTargetHttpsProxy_def
  fake_SetUrlMapForTargetHttpsProxy_def
  fake_GetSslCertificate_def fake_CreateSslCertificate_def fake_DeleteSslCertificate_def
  fake_GetGlobalAddress_def

lemmas fake_sims = fake_ops fake_view_other_kinds

definition fr_filled :: "FakeCloud \<Rightarrow> ForwardingRule \<Rightarrow> ForwardingRule" where
  "fr_filled f r = r\<lparr>fr_IPAddress := (if fr_IPAddress r = '''' then fst (testIP_ip (f_testIP f)) else fr_IPAddress r),
     fr_SelfLink := fr_Name r\<rparr>"

interpretation fake_fr: list_store fake_view KForwardingRule RForwardingRule fr_Name fr_stored
    fake_GetGlobalForwardingRule fake_CreateGlobalForwardingRule fake_DeleteGlobalForwardingRule f_Fw fr_filled
  by unfold_locales
    (auto simp: fake_sims fr_filled_def fr_stored_def fr_input_def testIP_ip_def Let_def
      dest: without_same split: prod.splits option.splits)

interpretation fake_um: list_store fake_view KUrlMap RUrlMap um_Name um_stored
    fake_GetUrlMap fake_CreateUrlMap fake_DeleteUrlMap f_Um "\<lambda>f m. m\<lparr>um_SelfLink := um_Name m\<rparr>"
  by unfold_locales
    (auto simp: fake_sims um_stored_def um_input_def Let_def dest: without_same split: option.splits)

interpretation fake_tp: list_store fake_view KTargetHttpProxy RTargetHttpProxy tp_Name tp_stored
    fake_GetTargetHttpProxy fake_CreateTargetHttpProxy fake_DeleteTargetHttpProxy f_Tp
    "\<lambda>f p. p\<lparr>tp_SelfLink := tp_Name p\<rparr>"
  by unfold_locales
    (auto simp: fake_sims tp_stored_def tp_input_def Let_def dest: without_same split: option.splits)

interpretation fake_tps: list_store fake_view KTargetHttpsProxy RTargetHttpsProxy tps_Name tps_stored
    fake_GetTargetHttpsProxy fake_CreateTargetHttpsProxy fake_DeleteTargetHttpsProxy f_Tps
    "\<lambda>f p. p\<lparr>tps_SelfLink := tps_Name p\<rparr>"
  by unfold_locales
    (auto simp: fake_sims tps_stored_def tps_input_def Let_def dest: without_same split: option.splits)

interpretation fake_sc: list_store fake_view KSslCertificate RSslCertificate sc_Name sc_stored
    fake_GetSslCertificate "create_err fake_CreateSslCertificate" fake_DeleteSslCertificate f_Certs
    "\<lambda>f p. p\<lparr>sc_SelfLink := sc_Name p\<rparr>"
  by unfold_locales
    (auto simp: fake_sims sc_stored_def create_err_def err_of_def Let_def dest: without_same split: option.splits)

lemma elems_update_named: "elems (update_named rname n g s) = map (\<lambda>r. if rname r = n then g r else r) (elems s)"
  by (cases s) (simp_all add: update_named_def)

lemma named_update_named:
  assumes "\<And>r. rname (g r) = rname r"
  shows "named rname m (update_named rname n g s) =
    (if m = n then map_option g (named rname m s) else named rname m s)"
proof -
  have "find (\<lambda>r. rname r = m) (map (\<lambda>r. if rname r = n then g r else r) rs) =
    (if m = n then map_option g (find (\<lambda>r. rname r = m) rs) else find (\<lambda>r. rname r = m) rs)" for rs
    by (induction rs) (auto simp: assms)
  then show ?thesis by (simp add: named_def elems_update_named)
qed

lemma replace_first_named:
  "replace_first rname x rs = Some rs' \<Longrightarrow>
     named rname n (Slice rs') = (if n = rname x then Some x else named rname n (Slice rs))"
proof (induction rs arbitrary: rs')
  case (Cons r rs)
  then show ?case by (auto simp: named_def split: if_splits)
qed simp

lemma named_elems: "named rname n (Slice (elems s)) = named rname n s"
  by (simp add: named_def)

lemma modify_cell_eqI:
  assumes "\<And>c. c \<noteq> c0 \<Longrightarrow> v' c = v c" "v' c0 = map_option g (v c0)"
  shows "v' = modify_cell c0 g v"
proof
  fix c show "v' c = modify_cell c0 g v c"
    by (cases "c = c0") (simp_all add: assms modify_cell_other modify_cell_same)
qed

lemma fake_SetProxy_view:
  "fake_view (snd (fake_SetProxyForGlobalForwardingRule n t f)) =
     modify_cell (KForwardingRule, n) (set_target t) (fake_view f)"
proof (rule modify_cell_eqI)
  fix c :: cell assume "c \<noteq> (KForwardingRule, n)"
  then show "fake_view (snd (fake_SetProxyForGlobalForwardingRule n t f)) c = fake_view f c"
    by (cases "fst c = KForwardingRule"; cases c) (auto simp: fake_sims Let_def named_update_named)
qed (simp add: fake_ops Let_def named_update_named option.map_comp comp_def)

lemma fake_SetUrlMap_http_view:
  "fake_view (snd (fake_SetUrlMapForTargetHttpProxy p m f)) =
     modify_cell (KTargetHttpProxy, tp_Name p) (set_url_map (um_SelfLink m)) (fake_view f)"
proof (rule modify_cell_eqI)
  fix c :: cell assume "c \<noteq> (KTargetHttpProxy, tp_Name p)"
  then show "fake_view (snd (fake_SetUrlMapForTargetHttpProxy p m f)) c = fake_view f c"
    by (cases "fst c = KTargetHttpProxy"; cases c) (auto simp: fake_sims Let_def named_update_named)
qed (simp add: fake_ops Let_def named_update_named option.map_comp comp_def)

lemma fake_SetUrlMap_https_view:
  "fake_view (snd (fake_SetUrlMapForTargetHttpsProxy p m f)) =
     modify_cell (KTargetHttpsProxy, tps_Name p) (set_url_map (um_SelfLink m)) (fake_view f)"
proof (rule modify_cell_eqI)
  fix c :: cell assume "c \<noteq> (KTargetHttpsProxy, tps_Name p)"
  then show "fake_view (snd (fake_SetUrlMapForTargetHttpsProxy p m f)) c = fake_view f c"
    by (cases "fst c = KTargetHttpsProxy"; cases c) (auto simp: fake_sims Let_def named_update_named)
qed (simp add: fake_ops Let_def named_update_named option.map_comp comp_def)

lemma fake_UpdateUrlMap_view:
  assumes "fake_UpdateUrlMap m f = (eo, f')"
  shows "fake_view f' = (if eo = None then (fake_view f)((KUrlMap, um_Name m) \<mapsto> RUrlMap m) else fake_view f)"
proof
  fix c :: cell
  obtain k n where c: "c = (k, n)" by (cases c)
  show "fake_view f' c = (if eo = None then (fake_view f)((KUrlMap, um_Name m) \<mapsto> RUrlMap m) else fake_view f) c"
    using assms
    by (cases "k = KUrlMap")
      (auto simp: c fake_sims Let_def replace_first_named named_elems split: option.splits)
qed

lemma um_stored_refl [simp]: "um_stored m m"
  by (simp add: um_stored_def)

lemma fake_lb_methods [simp]:
  "GetGlobalForwardingRule fake_lb = fake_GetGlobalForwardingRule"
  "CreateGlobalForwardingRule fake_lb = fake_CreateGlobalForwardingRule"
  "DeleteGlobalForwardingRule fake_lb = fake_DeleteGlobalForwardingRule"
  "SetProxyForGlobalForwardingRule fake_lb = fake_SetProxyForGlobalForwardingRule"
  "ListGlobalForwardingRules fake_lb = fake_ListGlobalForwardingRules"
  "GetUrlMap fake_lb = fake_GetUrlMap" "CreateUrlMap fake_lb = fake_CreateUrlMap"
  "UpdateUrlMap fake_lb = fake_UpdateUrlMap" "DeleteUrlMap fake_lb = fake_DeleteUrlMap"
  "ListUrlMaps fake_lb = fake_ListUrlMaps"
  "GetTargetHttpProxy fake_lb = fake_GetTargetHttpProxy"
  "CreateTargetHttpProxy fake_lb = fake_CreateTargetHttpProxy"
  "DeleteTargetHttpProxy fake_lb = fake_DeleteTargetHttpProxy"
  "SetUrlMapForTargetHttpProxy fake_lb = fake_SetUrlMapForTargetHttpProxy"
  "GetTargetHttpsProxy fake_lb = fake_GetTargetHttpsProxy"
  "CreateTargetHttpsProxy fake_lb = fake_CreateTargetHttpsProxy"
  "DeleteTargetHttpsProxy fake_lb = fake_DeleteTargetHttpsProxy"
  "SetUrlMapForTargetHttpsProxy fake_lb = fake_SetUrlMapForTargetHttpsProxy"
  "GetSslCertificate fake_lb = fake_GetSslCertificate"
  "CreateSslCertificate fake_lb = fake_CreateSslCertificate"
  "DeleteSslCertificate fake_lb = fake_DeleteSslCertificate"
  "GetGlobalAddress fake_lb = fake_GetGlobalAddress"
  by (simp_all add: fake_lb_def)

interpretation fake: lb_api fake_view fake_lb
proof (rule lb_api.intro, unfold fake_lb_methods)
  show "\<exists>r. um_stored m r \<and> fake_view f' = (fake_view f)((KUrlMap, um_Name m) \<mapsto> RUrlMap r)"
    if "fake_UpdateUrlMap m f = (None, f')" for m f f'
    using fake_UpdateUrlMap_view[OF that] by (metis um_stored_refl)
  show "fake_view f' = fake_view f
      \<or> (\<exists>r. um_stored m r \<and> fake_view f' = (fake_view f)((KUrlMap, um_Name m) \<mapsto> RUrlMap r))"
    if "fake_UpdateUrlMap m f = (eo, f')" for m f eo f'
    using fake_UpdateUrlMap_view[OF that] by (metis um_stored_refl)
  show "fake_view f' = modify_cell (KForwardingRule, n) (set_target t) (fake_view f)"
    if "fake_SetProxyForGlobalForwardingRule n t f = (None, f')" for n t f f'
    using fake_SetProxy_view[of n t f] that by simp
  show "fake_view f' = fake_view f \<or> fake_view f' = modify_cell (KForwardingRule, n) (set_target t) (fake_view f)"
    if "fake_SetProxyForGlobalForwardingRule n t f = (eo, f')" for n t f eo f'
    using fake_SetProxy_view[of n t f] that by simp
  show "fake_view f' = modify_cell (KTargetHttpProxy, tp_Name p) (set_url_map (um_SelfLink m)) (fake_view f)"
    if "fake_SetUrlMapForTargetHttpProxy p m f = (None, f')" for p m f f'
    using fake_SetUrlMap_http_view[of p m f] that by simp
  show "fake_view f' = fake_view f \<or>
      fake_view f' = modify_cell (KTargetHttpProxy, tp_Name p) (set_url_map (um_SelfLink m)) (fake_view f)"
    if "fake_SetUrlMapForTargetHttpProxy p m f = (eo, f')" for p m f eo f'
    using fake_SetUrlMap_http_view[of p m f] that by simp
  show "fake_view f' = modify_cell (KTargetHttpsProxy, tps_Name p) (set_url_map (um_SelfLink m)) (fake_view f)"
    if "fake_SetUrlMapForTargetHttpsProxy p m f = (None, f')" for p m f f'
    using fake_SetUrlMap_https_view[of p m f] that by simp
  show "fake_view f' = fake_view f \<or>
      fake_view f' = modify_cell (KTargetHttpsProxy, tps_Name p) (set_url_map (um_SelfLink m)) (fake_view f)"
    if "fake_SetUrlMapForTargetHttpsProxy p m f = (eo, f')" for p m f eo f'
    using fake_SetUrlMap_https_view[of p m f] that by simp
  show "fake_view f' = fake_view f" if "fake_ListGlobalForwardingRules f = (x, f')" for f x f'
    using that by (simp add: fake_ops)
  show "fake_view f' = fake_view f" if "fake_ListUrlMaps f = (x, f')" for f x f'
    using that by (auto simp: fake_ops)
  show "fake_view f' = fake_view f" if "fake_GetGlobalAddress n f = (x, f')" for n f x f'
    using that by (auto simp: fake_ops)
qed (rule fake_fr.resource_api_axioms fake_um.resource_api_axioms fake_tp.resource_api_axioms
    fake_tps.resource_api_axioms fake_sc.resource_api_axioms)+

end
