(* ===== verification/ForwardingRule.thy ===== *)
theory ForwardingRule
  imports Namer Status FakeLoadBalancers
begin

text \<open>
  \<^verbatim>\<open>app/kubemci/pkg/gcp/forwardingrule/forwardingrulesyncer.go\<close>: the global forwarding rules of a
  load balancer.  The syncer is its namer \<open>s\<close> and the cloud \<open>frp\<close>, the two fields of the
  struct \<^verbatim>\<open>Syncer\<close>.
\<close>

section \<open>Definitions\<close>

definition httpDefaultPortRange :: string where "httpDefaultPortRange = ''80-80''"
definition httpsDefaultPortRange :: string where "httpsDefaultPortRange = ''443-443''"

definition desiredForwardingRule ::
    "string \<Rightarrow> string \<Rightarrow> string \<Rightarrow> string \<Rightarrow> string \<Rightarrow> string \<Rightarrow> go_error + ForwardingRule" where
  "desiredForwardingRule lbName ipAddress targetProxyLink portRange httpProtocol name =
     Inr (zero_ForwardingRule\<lparr>
       fr_Name := name,
       fr_Description := httpProtocol @ '' forwarding rule for kubernetes multicluster loadbalancer '' @ lbName,
       fr_IPAddress := ipAddress,
       fr_Target := targetProxyLink,
       fr_PortRange := portRange,
       fr_IPProtocol := ''TCP'',
       fr_LoadBalancingScheme := ''EXTERNAL''\<rparr>)"

text \<open>\<^verbatim>\<open>forwardingRuleMatches\<close> clears the fields the server sets in the rule it was given as existing.\<close>

definition clearServerFields :: "ForwardingRule \<Rightarrow> ForwardingRule" where
  "clearServerFields existingFR = existingFR\<lparr>fr_CreationTimestamp := '''', fr_Id := 0, fr_Kind := '''',
     fr_SelfLink := '''', fr_ServerResponse := zero_ServerResponse\<rparr>"

definition forwardingRuleMatches :: "ForwardingRule \<Rightarrow> ForwardingRule \<Rightarrow> bool" where
  "forwardingRuleMatches desiredFR existingFR \<longleftrightarrow> clearServerFields existingFR = desiredFR"

definition createForwardingRule :: "'w LoadBalancers \<Rightarrow> (ForwardingRule, 'w) command" where
  "createForwardingRule frp desiredFR w = CreateGlobalForwardingRule frp desiredFR w"

definition updateForwardingRule ::
    "'w LoadBalancers \<Rightarrow> ForwardingRule \<Rightarrow> ForwardingRule \<Rightarrow> 'w \<Rightarrow> go_error option \<times> 'w" where
  "updateForwardingRule frp existingFR desiredFR w =
     (let name = fr_Name desiredFR in
      if fr_IPAddress existingFR \<noteq> fr_IPAddress desiredFR \<or> fr_PortRange existingFR \<noteq> fr_PortRange desiredFR \<or>
         fr_IPProtocol existingFR \<noteq> fr_IPProtocol desiredFR \<or> fr_Description existingFR \<noteq> fr_Description desiredFR
      then (case DeleteGlobalForwardingRule frp name w of
              (err, w1) \<Rightarrow>
                (case IgnoreHTTPNotFound err of
                   Some e \<Rightarrow> (Some (Errorf ''error in deleting existing forwarding rule %s: %s'' [AStr name, AErr e]), w1)
                 | None \<Rightarrow> createForwardingRule frp desiredFR w1))
      else SetProxyForGlobalForwardingRule frp name (fr_Target desiredFR) w)"

definition ensureForwardingRule ::
    "'w LoadBalancers \<Rightarrow> string \<Rightarrow> string \<Rightarrow> string \<Rightarrow> string \<Rightarrow> string \<Rightarrow> string \<Rightarrow> bool \<Rightarrow>
     'w \<Rightarrow> go_error option \<times> 'w" where
  "ensureForwardingRule frp lbName ipAddress targetProxyLink portRange httpProtocol name forceUpdate w =
     (case desiredForwardingRule lbName ipAddress targetProxyLink portRange httpProtocol name of
        Inl err \<Rightarrow> (Some err, w)
      | Inr desiredFR \<Rightarrow>
          (case GetGlobalForwardingRule frp name w of
             (Inr existingFR, w1) \<Rightarrow>
               if forwardingRuleMatches desiredFR existingFR then (None, w1)
               else if forceUpdate then updateForwardingRule frp (clearServerFields existingFR) desiredFR w1
               else (Some (Errorf ''Will not overwrite Forwarding Rule without --force'' []), w1)
           | (Inl err, w1) \<Rightarrow> createForwardingRule frp desiredFR w1))"

definition EnsureHTTPForwardingRule ::
    "Namer \<Rightarrow> 'w LoadBalancers \<Rightarrow> string \<Rightarrow> string \<Rightarrow> string \<Rightarrow> bool \<Rightarrow> 'w \<Rightarrow> go_error option \<times> 'w" where
  "EnsureHTTPForwardingRule s frp lbName ipAddress targetProxyLink forceUpdate =
     ensureForwardingRule frp lbName ipAddress targetProxyLink httpDefaultPortRange ''http''
       (HTTPForwardingRuleName s) forceUpdate"

definition EnsureHTTPSForwardingRule ::
    "Namer \<Rightarrow> 'w LoadBalancers \<Rightarrow> string \<Rightarrow> string \<Rightarrow> string \<Rightarrow> bool \<Rightarrow> 'w \<Rightarrow> go_error option \<times> 'w" where
  "EnsureHTTPSForwardingRule s frp lbName ipAddress targetProxyLink forceUpdate =
     ensureForwardingRule frp lbName ipAddress targetProxyLink httpsDefaultPortRange ''https''
       (HTTPSForwardingRuleName s) forceUpdate"

text \<open>One of the two parts of \<^verbatim>\<open>DeleteForwardingRules\<close>, which differ in the name and the message.\<close>

definition deleteOneRule ::
    "'w LoadBalancers \<Rightarrow> string \<Rightarrow> string \<Rightarrow> go_error option \<Rightarrow> 'w \<Rightarrow> go_error option \<times> 'w" where
  "deleteOneRule frp msg name err w =
     (case DeleteGlobalForwardingRule frp name w of
        (None, w1) \<Rightarrow> (err, w1)
      | (Some httpErr, w1) \<Rightarrow>
          if IsHTTPErrorCode (Some httpErr) StatusNotFound then (err, w1)
          else (multierror_Append err [Errorf msg [AErr httpErr, AStr name]], w1))"

definition DeleteForwardingRules :: "Namer \<Rightarrow> 'w LoadBalancers \<Rightarrow> 'w \<Rightarrow> go_error option \<times> 'w" where
  "DeleteForwardingRules s frp w =
     (case deleteOneRule frp ''error %s in deleting HTTP forwarding rule %s'' (HTTPForwardingRuleName s) None w of
        (err, w1) \<Rightarrow>
          deleteOneRule frp ''error %s in deleting HTTPS forwarding rule %s'' (HTTPSForwardingRuleName s) err w1)"

definition fr_getStatus :: "ForwardingRule \<Rightarrow> go_error + LoadBalancerStatus" where
  "fr_getStatus fr =
     (case FromString (fr_Description fr) of
        Inl err \<Rightarrow> Inl (Errorf ''error in parsing forwarding rule description %s. Cannot determine status without it'' [AErr err])
      | Inr status \<Rightarrow> Inr status)"

definition fr_GetLoadBalancerStatus ::
    "Namer \<Rightarrow> 'w LoadBalancers \<Rightarrow> string \<Rightarrow> 'w \<Rightarrow> (go_error + LoadBalancerStatus) \<times> 'w" where
  "fr_GetLoadBalancerStatus s frp lbName w =
     (case GetGlobalForwardingRule frp (HTTPForwardingRuleName s) w of
        (Inr httpFr, w1) \<Rightarrow> (fr_getStatus httpFr, w1)
      | (Inl httpErr, w1) \<Rightarrow>
          (case GetGlobalForwardingRule frp (HTTPSForwardingRuleName s) w1 of
             (Inr httpsFr, w2) \<Rightarrow> (fr_getStatus httpsFr, w2)
           | (Inl httpsErr, w2) \<Rightarrow>
               if IsHTTPErrorCode (Some httpErr) StatusNotFound \<and> IsHTTPErrorCode (Some httpsErr) StatusNotFound
               then (Inl httpErr, w2)
               else (Inl (Errorf ''error in fetching http forwarding rule: %s, error in fetching https forwarding rule: %s. Cannot determine status without forwarding rule''
                       [AErr httpErr, AErr httpsErr]), w2)))"

text \<open>The loop of \<^verbatim>\<open>ListLoadBalancerStatuses\<close>, with the set \<^verbatim>\<open>lbsSeen\<close> of names already listed.\<close>

fun fr_listLoop :: "string list \<Rightarrow> ForwardingRule list \<Rightarrow> LoadBalancerStatus list" where
  "fr_listLoop lbsSeen [] = []"
| "fr_listLoop lbsSeen (item # items) =
     (if HasPrefix (fr_Name item) ''mci1'' then
        (case FromString (fr_Description item) of
           Inl decodeErr \<Rightarrow> fr_listLoop lbsSeen items
         | Inr lbStatus \<Rightarrow>
             if LoadBalancerName lbStatus \<in> set lbsSeen then fr_listLoop lbsSeen items
             else lbStatus # fr_listLoop (LoadBalancerName lbStatus # lbsSeen) items)
      else fr_listLoop lbsSeen items)"

definition fr_ListLoadBalancerStatuses ::
    "'w LoadBalancers \<Rightarrow> 'w \<Rightarrow> (LoadBalancerStatus list \<times> go_error option) \<times> 'w" where
  "fr_ListLoadBalancerStatuses frp w =
     (case ListGlobalForwardingRules frp w of
        (Inl err, w1) \<Rightarrow> (([], Some (Errorf ''Error getting global forwarding rules: %s'' [AErr err])), w1)
      | (Inr NilSlice, w1) \<Rightarrow> (([], Some (Errorf ''Unexpected nil from ListGlobalForwardingRules'' [])), w1)
      | (Inr (Slice rules), w1) \<Rightarrow> ((fr_listLoop [] rules, None), w1))"

definition canIgnoreStatusUpdateError :: "go_error option \<Rightarrow> bool" where
  "canIgnoreStatusUpdateError err \<longleftrightarrow> err = None \<or> IsHTTPErrorCode err StatusNotFound"

text \<open>
  \<^verbatim>\<open>desiredFR := existingFR\<close> copies the pointer, so the assignment to the description changes the
  existing rule as well: the returned rule is also what the caller sees as \<^verbatim>\<open>existingFR\<close> afterwards.
\<close>

definition desiredForwardingRuleWithoutClusters ::
    "ForwardingRule \<Rightarrow> string list \<Rightarrow> go_error + ForwardingRule" where
  "desiredForwardingRuleWithoutClusters existingFR clustersToRemove =
     (case RemoveClusters (fr_Description existingFR) clustersToRemove of
        (_, Some err) \<Rightarrow>
          Inl (Errorf ''unexpected error in updating status to remove clusters on forwarding rule %s: %s''
            [AStr (fr_Name existingFR), AErr err])
      | (newStatusStr, None) \<Rightarrow> Inr (existingFR\<lparr>fr_Description := newStatusStr\<rparr>))"

definition fr_removeClustersFromStatus ::
    "'w LoadBalancers \<Rightarrow> string \<Rightarrow> string list \<Rightarrow> 'w \<Rightarrow> go_error option \<times> 'w" where
  "fr_removeClustersFromStatus frp name clusters w =
     (case GetGlobalForwardingRule frp name w of
        (Inl err, w1) \<Rightarrow>
          if IsHTTPErrorCode (Some err) StatusNotFound then (Some err, w1)
          else (Some (Errorf ''error in fetching existing forwarding rule %s: %s'' [AStr name, AErr err]), w1)
      | (Inr existingFR, w1) \<Rightarrow>
          (case desiredForwardingRuleWithoutClusters existingFR clusters of
             Inl err \<Rightarrow> (Some err, w1)
           | Inr desiredFR \<Rightarrow>
               let existingFR = desiredFR \<comment> \<open>the same object\<close>
               in updateForwardingRule frp existingFR desiredFR w1))"

definition fr_RemoveClustersFromStatus ::
    "Namer \<Rightarrow> 'w LoadBalancers \<Rightarrow> string list \<Rightarrow> 'w \<Rightarrow> go_error option \<times> 'w" where
  "fr_RemoveClustersFromStatus s frp clusters w =
     (case fr_removeClustersFromStatus frp (HTTPSForwardingRuleName s) clusters w of
        (httpsErr, w1) \<Rightarrow>
          (case fr_removeClustersFromStatus frp (HTTPForwardingRuleName s) clusters w1 of
             (httpErr, w2) \<Rightarrow>
               (if IsHTTPErrorCode httpErr StatusNotFound \<and> IsHTTPErrorCode httpsErr StatusNotFound then httpErr
                else if canIgnoreStatusUpdateError httpErr \<and> canIgnoreStatusUpdateError httpsErr then None
                else if canIgnoreStatusUpdateError httpsErr then httpErr
                else if canIgnoreStatusUpdateError httpErr then httpsErr
                else Some (Errorf ''errors in updating both http and https forwarding rules, http rule error: %s, https rule error: %s''
                       [AErr (the httpErr), AErr (the httpsErr)]), w2)))"

section \<open>Lemmas\<close>

text \<open>What a request for a rule asks of the rule it leaves behind.\<close>

definition rule_serves :: "ForwardingRule \<Rightarrow> ForwardingRule \<Rightarrow> bool" where
  "rule_serves d r \<longleftrightarrow> fr_Name r = fr_Name d \<and> fr_Description r = fr_Description d
     \<and> (fr_IPAddress d \<noteq> '''' \<longrightarrow> fr_IPAddress r = fr_IPAddress d) \<and> fr_PortRange r = fr_PortRange d
     \<and> fr_IPProtocol r = fr_IPProtocol d \<and> fr_Target r = fr_Target d"

lemma clearServerFields_input: "clearServerFields = fr_input"
  by (simp add: fun_eq_iff clearServerFields_def fr_input_def)

lemma fr_input_fields [simp]:
  "fr_Name (fr_input r) = fr_Name r" "fr_Description (fr_input r) = fr_Description r"
  "fr_IPAddress (fr_input r) = fr_IPAddress r" "fr_PortRange (fr_input r) = fr_PortRange r"
  "fr_IPProtocol (fr_input r) = fr_IPProtocol r" "fr_Target (fr_input r) = fr_Target r"
  by (simp_all add: fr_input_def)

lemma fr_input_serves: "fr_input r = fr_input d \<Longrightarrow> rule_serves d r"
  unfolding rule_serves_def by (metis fr_input_fields)

lemma stored_serves:
  assumes "fr_stored d r" shows "rule_serves d r"
proof (cases "fr_IPAddress d = ''''")
  case True
  with assms obtain ip where "fr_input r = fr_input (d\<lparr>fr_IPAddress := ip\<rparr>)"
    by (auto simp: fr_stored_def)
  then have "rule_serves (d\<lparr>fr_IPAddress := ip\<rparr>) r" by (rule fr_input_serves)
  with True show ?thesis by (simp add: rule_serves_def)
qed (use assms fr_input_serves in \<open>auto simp: fr_stored_def\<close>)

lemma matches_serves: "forwardingRuleMatches d r \<Longrightarrow> rule_serves d r"
  unfolding forwardingRuleMatches_def clearServerFields_input rule_serves_def by (metis fr_input_fields)

text \<open>A desired rule is in the form a lookup is reduced to before it is compared.\<close>

lemma desired_rule:
  assumes "desiredForwardingRule lb ip link pr proto n = Inr d"
  shows "fr_Name d = n" "fr_IPAddress d = ip" "fr_Target d = link" "fr_PortRange d = pr"
    "fr_IPProtocol d = ''TCP''"
    "fr_Description d = proto @ '' forwarding rule for kubernetes multicluster loadbalancer '' @ lb"
    "fr_input d = d"
  using assms by (auto simp: desiredForwardingRule_def zero_ForwardingRule_def fr_input_def)

lemma desired_rule_exists: "\<exists>d. desiredForwardingRule lb ip link pr proto n = Inr d"
  by (simp add: desiredForwardingRule_def)

context lb_api
begin

lemma updateForwardingRule_frame:
  assumes "updateForwardingRule P ex d w = (e, w')" "c \<noteq> (KForwardingRule, fr_Name d)"
  shows "view w' c = view w c"
proof (cases "fr_IPAddress ex \<noteq> fr_IPAddress d \<or> fr_PortRange ex \<noteq> fr_PortRange d \<or>
         fr_IPProtocol ex \<noteq> fr_IPProtocol d \<or> fr_Description ex \<noteq> fr_Description d")
  case True
  obtain e1 w1 where del: "DeleteGlobalForwardingRule P (fr_Name d) w = (e1, w1)" by fastforce
  have "view w1 c = view w c" using fr.delete_frame[OF del assms(2)] .
  moreover have "w' = w1 \<or> CreateGlobalForwardingRule P d w1 = (e, w')"
    using assms(1) True del
    by (auto simp: updateForwardingRule_def createForwardingRule_def split: option.splits)
  ultimately show ?thesis using fr.create_frame[of d w1 e w' c] assms(2) by auto
next
  case False
  then have "SetProxyForGlobalForwardingRule P (fr_Name d) (fr_Target d) w = (e, w')"
    using assms(1) by (auto simp: updateForwardingRule_def)
  from set_proxy_effect[OF this] show ?thesis using assms(2) by (auto simp: modify_cell_other)
qed

lemma updateForwardingRule_ok:
  assumes "updateForwardingRule P (fr_input ex) d w = (None, w')"
    and "view w (KForwardingRule, fr_Name d) = Some (RForwardingRule ex)" "fr_Name ex = fr_Name d"
  shows "\<exists>r. view w' (KForwardingRule, fr_Name d) = Some (RForwardingRule r) \<and> rule_serves d r"
proof (cases "fr_IPAddress ex \<noteq> fr_IPAddress d \<or> fr_PortRange ex \<noteq> fr_PortRange d \<or>
         fr_IPProtocol ex \<noteq> fr_IPProtocol d \<or> fr_Description ex \<noteq> fr_Description d")
  case True
  obtain e1 w1 where del: "DeleteGlobalForwardingRule P (fr_Name d) w = (e1, w1)" by fastforce
  with assms(1) True have ok: "IgnoreHTTPNotFound e1 = None" "CreateGlobalForwardingRule P d w1 = (None, w')"
    by (auto simp: updateForwardingRule_def createForwardingRule_def split: option.splits)
  from fr.delete_ignoring_not_found[OF del ok(1)] have "view w1 (KForwardingRule, fr_Name d) = None" by simp
  from fr.create_absent[OF ok(2) this] show ?thesis using stored_serves by auto
next
  case False
  then have "SetProxyForGlobalForwardingRule P (fr_Name d) (fr_Target d) w = (None, w')"
    using assms(1) by (auto simp: updateForwardingRule_def)
  from set_proxy_ok[OF this] assms(2,3) False show ?thesis
    by (auto simp: modify_cell_same rule_serves_def)
qed

lemma ensureForwardingRule_cases:
  assumes "ensureForwardingRule P lb ip link pr proto n force w = (e, w')"
  obtains d w1 where "desiredForwardingRule lb ip link pr proto n = Inr d" "view w1 = view w"
    "(\<exists>ex. GetGlobalForwardingRule P n w = (Inr ex, w1) \<and> forwardingRuleMatches d ex \<and> e = None \<and> w' = w1)
     \<or> (\<exists>ex. GetGlobalForwardingRule P n w = (Inr ex, w1) \<and> \<not> forwardingRuleMatches d ex \<and> force
          \<and> updateForwardingRule P (fr_input ex) d w1 = (e, w'))
     \<or> (\<not> force \<and> e \<noteq> None \<and> w' = w1)
     \<or> (\<exists>err. GetGlobalForwardingRule P n w = (Inl err, w1) \<and> CreateGlobalForwardingRule P d w1 = (e, w'))"
proof -
  obtain d where d: "desiredForwardingRule lb ip link pr proto n = Inr d"
    using desired_rule_exists by blast
  obtain x w1 where g: "GetGlobalForwardingRule P n w = (x, w1)" by fastforce
  show ?thesis
    using that[OF d fr.get_view[OF g]] assms d g
    by (auto simp: ensureForwardingRule_def createForwardingRule_def clearServerFields_input
        split: sum.splits if_splits)
qed

lemma ensureForwardingRule_frame:
  assumes "ensureForwardingRule P lb ip link pr proto n force w = (e, w')" "c \<noteq> (KForwardingRule, n)"
  shows "view w' c = view w c"
  by (rule ensureForwardingRule_cases[OF assms(1)])
    (use assms(2) in \<open>auto simp: desired_rule(1) updateForwardingRule_frame fr.create_frame\<close>)

lemma ensureForwardingRule_no_force:
  assumes "ensureForwardingRule P lb ip link pr proto n False w = (e, w')" "view w c = Some x"
  shows "view w' c = Some x"
proof (rule ensureForwardingRule_cases[OF assms(1)])
  fix d w1
  assume w1: "view w1 = view w" and
    "(\<exists>ex. GetGlobalForwardingRule P n w = (Inr ex, w1) \<and> forwardingRuleMatches d ex \<and> e = None \<and> w' = w1)
     \<or> (\<exists>ex. GetGlobalForwardingRule P n w = (Inr ex, w1) \<and> \<not> forwardingRuleMatches d ex \<and> False
          \<and> updateForwardingRule P (fr_input ex) d w1 = (e, w'))
     \<or> (\<not> False \<and> e \<noteq> None \<and> w' = w1)
     \<or> (\<exists>err. GetGlobalForwardingRule P n w = (Inl err, w1) \<and> CreateGlobalForwardingRule P d w1 = (e, w'))"
  then have "w' = w1 \<or> CreateGlobalForwardingRule P d w1 = (e, w')" by blast
  then show ?thesis using fr.create_keeps[of d w1 e w' c x] assms(2) w1 by auto
qed

lemma ensureForwardingRule_ok:
  assumes "ensureForwardingRule P lb ip link pr proto n force w = (None, w')"
    and "found_or_404 (GetGlobalForwardingRule P) n w"
    and "desiredForwardingRule lb ip link pr proto n = Inr d"
  shows "\<exists>r. view w' (KForwardingRule, n) = Some (RForwardingRule r) \<and> rule_serves d r"
proof -
  obtain w1 where w1: "view w1 = view w" and
    "(\<exists>ex. GetGlobalForwardingRule P n w = (Inr ex, w1) \<and> forwardingRuleMatches d ex \<and> w' = w1)
     \<or> (\<exists>ex. GetGlobalForwardingRule P n w = (Inr ex, w1) \<and> updateForwardingRule P (fr_input ex) d w1 = (None, w'))
     \<or> (\<exists>err. GetGlobalForwardingRule P n w = (Inl err, w1) \<and> CreateGlobalForwardingRule P d w1 = (None, w'))"
    (is "?a \<or> ?b \<or> ?c")
    using ensureForwardingRule_cases[OF assms(1)] assms(3) by (metis sum.inject(2))
  then consider ?a | ?b | ?c by blast
  then show ?thesis
  proof cases
    case 1
    then obtain ex where "GetGlobalForwardingRule P n w = (Inr ex, w1)" "forwardingRuleMatches d ex" "w' = w1"
      by blast
    with fr.get_ok[OF this(1)] w1 show ?thesis using matches_serves by auto
  next
    case 2
    then obtain ex where ex: "GetGlobalForwardingRule P n w = (Inr ex, w1)"
      "updateForwardingRule P (fr_input ex) d w1 = (None, w')" by blast
    from fr.get_ok[OF ex(1)] updateForwardingRule_ok[OF ex(2)] show ?thesis
      by (simp add: w1 desired_rule(1)[OF assms(3)])
  next
    case 3
    then obtain err where err: "GetGlobalForwardingRule P n w = (Inl err, w1)"
      "CreateGlobalForwardingRule P d w1 = (None, w')" by blast
    from fr.get_not_found[OF err(1) found_or_404D[OF assms(2) err(1)]] fr.create_absent[OF err(2)] show ?thesis
      using stored_serves by (auto simp: w1 desired_rule(1)[OF assms(3)])
  qed
qed

lemmas get_rule_view = fr.get_view

lemma ensureForwardingRule_again:
  assumes "ensureForwardingRule P lb ip link pr proto n force w = (None, w')" "ip \<noteq> ''''"
    and "view w (KForwardingRule, n) = None" "GetGlobalForwardingRule P n w' = (Inr r, w2)"
  shows "ensureForwardingRule P lb ip link pr proto n force' w' = (None, w2)"
proof -
  obtain d where d: "desiredForwardingRule lb ip link pr proto n = Inr d"
    using desired_rule_exists by blast
  obtain w1 where w1: "view w1 = view w" and
    "w' = w1 \<or> (\<exists>ex. GetGlobalForwardingRule P n w = (Inr ex, w1))
      \<or> CreateGlobalForwardingRule P d w1 = (None, w')"
    using ensureForwardingRule_cases[OF assms(1)] d by (metis sum.inject(2))
  moreover have "w' \<noteq> w1" using fr.get_ok[OF assms(4)] w1 assms(3) by auto
  ultimately have create: "CreateGlobalForwardingRule P d w1 = (None, w')"
    using fr.get_ok assms(3) by fastforce
  have "view w1 (KForwardingRule, fr_Name d) = None" using w1 assms(3) desired_rule(1)[OF d] by simp
  from fr.create_then_get[OF create this] assms(4) have "fr_stored d r"
    by (simp add: desired_rule(1)[OF d])
  then have "fr_input r = d" using desired_rule[OF d] assms(2) by (simp add: fr_stored_def)
  then show ?thesis
    using d assms(4)
    by (simp add: ensureForwardingRule_def forwardingRuleMatches_def clearServerFields_input)
qed

end

context lb_api
begin

lemma deleteOneRule_effect:
  assumes "deleteOneRule P msg n err w = (e, w')"
  shows "view w' = view w \<or> view w' = (view w)((KForwardingRule, n) := None)"
    and "e = None \<Longrightarrow> err = None \<and> view w' = (view w)((KForwardingRule, n) := None)"
    and "err \<noteq> None \<Longrightarrow> e \<noteq> None"
proof -
  obtain e1 where del: "DeleteGlobalForwardingRule P n w = (e1, w')"
    and e: "e = (if e1 = None \<or> IsHTTPErrorCode e1 StatusNotFound then err
                 else multierror_Append err [Errorf msg [AErr (the e1), AStr n]])"
    using assms by (auto simp: deleteOneRule_def split: prod.splits option.splits if_splits)
  show "view w' = view w \<or> view w' = (view w)((KForwardingRule, n) := None)"
    using fr.delete_effect[OF del] .
  show "err = None \<and> view w' = (view w)((KForwardingRule, n) := None)" if "e = None"
    using e that fr.delete_ignoring_not_found[OF del]
    by (auto simp: IgnoreHTTPNotFound_None split: if_splits)
  show "e \<noteq> None" if "err \<noteq> None"
    using e that multierror_Append_not_None(1)[of err "[Errorf msg [AErr (the e1), AStr n]]"] by presburger
qed

lemma DeleteForwardingRules_split:
  assumes "DeleteForwardingRules s P w = (e, w')"
  obtains e1 w1 where
    "deleteOneRule P ''error %s in deleting HTTP forwarding rule %s'' (HTTPForwardingRuleName s) None w = (e1, w1)"
    "deleteOneRule P ''error %s in deleting HTTPS forwarding rule %s'' (HTTPSForwardingRuleName s) e1 w1 = (e, w')"
  using assms by (auto simp: DeleteForwardingRules_def split: prod.splits)

lemma DeleteForwardingRules_ok:
  assumes "DeleteForwardingRules s P w = (None, w')"
  shows "view w' = (view w)((KForwardingRule, HTTPForwardingRuleName s) := None,
                            (KForwardingRule, HTTPSForwardingRuleName s) := None)"
proof (rule DeleteForwardingRules_split[OF assms])
  fix e1 w1
  assume http: "deleteOneRule P ''error %s in deleting HTTP forwarding rule %s'' (HTTPForwardingRuleName s) None w = (e1, w1)"
    and https: "deleteOneRule P ''error %s in deleting HTTPS forwarding rule %s'' (HTTPSForwardingRuleName s) e1 w1 = (None, w')"
  from deleteOneRule_effect(2)[OF https] deleteOneRule_effect(2)[OF http] show ?thesis by simp
qed

lemma DeleteForwardingRules_frame:
  assumes "DeleteForwardingRules s P w = (e, w')"
    and "c \<notin> {(KForwardingRule, HTTPForwardingRuleName s), (KForwardingRule, HTTPSForwardingRuleName s)}"
  shows "view w' c = view w c"
  by (rule DeleteForwardingRules_split[OF assms(1)])
    (use assms(2) in \<open>auto dest!: deleteOneRule_effect(1)\<close>)

lemma removeClusters_rule_view:
  assumes "fr_removeClustersFromStatus P n cs w = (e, w')"
  shows "view w' = view w"
proof -
  obtain x w1 where g: "GetGlobalForwardingRule P n w = (x, w1)" by fastforce
  note w1 = fr.get_view[OF g]
  show ?thesis
  proof (cases x)
    case (Inl err)
    with assms g w1 show ?thesis by (auto simp: fr_removeClustersFromStatus_def split: if_splits)
  next
    case (Inr ex)
    with assms g consider (same) "w' = w1"
      | (update) str where "updateForwardingRule P (ex\<lparr>fr_Description := str\<rparr>) (ex\<lparr>fr_Description := str\<rparr>) w1 = (e, w')"
      by (auto simp: fr_removeClustersFromStatus_def desiredForwardingRuleWithoutClusters_def Let_def
          split: sum.splits prod.splits option.splits)
    then show ?thesis
    proof cases
      case update
      then have set: "SetProxyForGlobalForwardingRule P (fr_Name ex) (fr_Target ex) w1 = (e, w')"
        by (simp add: updateForwardingRule_def)
      have "modify_cell (KForwardingRule, n) (set_target (fr_Target ex)) (view w) = view w"
        using fr.get_ok[OF g[unfolded Inr]] by (auto simp: modify_cell_def fun_eq_iff)
      with set_proxy_effect[OF set] fr.get_ok[OF g[unfolded Inr]] w1 show ?thesis by auto
    qed (use w1 in simp)
  qed
qed

lemma RemoveClusters_rules_view:
  assumes "fr_RemoveClustersFromStatus s P cs w = (e, w')"
  shows "view w' = view w"
  using assms unfolding fr_RemoveClustersFromStatus_def
  by (auto split: prod.splits dest!: removeClusters_rule_view)

lemma fr_GetLoadBalancerStatus_view:
  assumes "fr_GetLoadBalancerStatus s P lb w = (x, w')"
  shows "view w' = view w"
  using assms unfolding fr_GetLoadBalancerStatus_def
  by (auto split: prod.splits sum.splits if_splits dest!: fr.get_view)

end

text \<open>The rules that are listed: the first decodable rule of each load balancer name.\<close>

lemma fr_listLoop_names:
  "distinct (map LoadBalancerName (fr_listLoop seen rs))
   \<and> set (map LoadBalancerName (fr_listLoop seen rs)) =
     {LoadBalancerName st | st r. r \<in> set rs \<and> HasPrefix (fr_Name r) ''mci1'' \<and> FromString (fr_Description r) = Inr st}
     - set seen"
  (is "?D seen rs \<and> ?L seen rs = ?N rs - set seen")
proof (induction rs arbitrary: seen)
  case (Cons r rs)
  have step: "?N (r # rs) = {LoadBalancerName st | st. HasPrefix (fr_Name r) ''mci1'' \<and> FromString (fr_Description r) = Inr st} \<union> ?N rs"
    by auto
  show ?case
  proof (cases "HasPrefix (fr_Name r) ''mci1''")
    case True
    show ?thesis
    proof (cases "FromString (fr_Description r)")
      case (Inr st)
      with True Cons[of seen] Cons[of "LoadBalancerName st # seen"] show ?thesis
        unfolding step by auto
    qed (use True Cons[of seen] step in auto)
  qed (use Cons[of seen] step in auto)
qed simp

lemma fr_listLoop_from_rule:
  "st \<in> set (fr_listLoop seen rs) \<Longrightarrow>
   \<exists>r \<in> set rs. HasPrefix (fr_Name r) ''mci1'' \<and> FromString (fr_Description r) = Inr st"
  by (induction seen rs rule: fr_listLoop.induct) (auto split: if_splits sum.splits)

section \<open>Properties\<close>

text \<open>
  Without \<^verbatim>\<open>--force\<close> nothing that exists is lost: whatever the state of the project and whichever
  calls fail, ensuring a forwarding rule leaves every object of the project that was there before
  exactly as it was.
\<close>

theorem ensure_rule_without_force_keeps_everything:
  assumes "lb_api view P"
    and "ensureForwardingRule P lbName ip link portRange proto name False w = (e, w')" "view w c = Some x"
  shows "view w' c = Some x"
  using lb_api.ensureForwardingRule_no_force[OF assms] .

theorem ensure_rule_without_force_keeps_everything_witness:
  "fake_view (snd (ensureForwardingRule fake_lb ''lb'' ''ip'' ''tp'' ''80-80'' ''http'' ''fw'' False
      (NewFakeLoadBalancers\<lparr>f_Fw := Slice [zero_ForwardingRule\<lparr>fr_Name := ''fw''\<rparr>]\<rparr>))) (KForwardingRule, ''fw'')
   = Some (RForwardingRule (zero_ForwardingRule\<lparr>fr_Name := ''fw''\<rparr>))"
  by (rule ensure_rule_without_force_keeps_everything[OF fake.lb_api_axioms surjective_pairing])
    (simp add: named_def zero_ForwardingRule_def)

text \<open>
  When ensuring a rule succeeds, with or without \<^verbatim>\<open>--force\<close>, the rule of that name carries the
  requested description, port range, protocol and target, and the requested address if there was one;
  nothing else in the project changed.  The lookup must not have failed for a reason other than
  \<^verbatim>\<open>404\<close>, a case the code treats as if the rule did not exist.
\<close>

theorem ensure_rule_success:
  assumes "lb_api view P"
    and "EnsureHTTPSForwardingRule s P lbName ip link force w = (None, w')"
    and "found_or_404 (GetGlobalForwardingRule P) (HTTPSForwardingRuleName s) w"
  shows "\<exists>r. view w' = (view w)((KForwardingRule, HTTPSForwardingRuleName s) \<mapsto> RForwardingRule r)
    \<and> fr_Name r = HTTPSForwardingRuleName s
    \<and> fr_Description r = ''https forwarding rule for kubernetes multicluster loadbalancer '' @ lbName
    \<and> fr_PortRange r = ''443-443'' \<and> fr_IPProtocol r = ''TCP'' \<and> fr_Target r = link
    \<and> (ip \<noteq> '''' \<longrightarrow> fr_IPAddress r = ip)"
proof -
  let ?n = "HTTPSForwardingRuleName s"
  obtain d where d: "desiredForwardingRule lbName ip link httpsDefaultPortRange ''https'' ?n = Inr d"
    using desired_rule_exists by blast
  note run = assms(2)[unfolded EnsureHTTPSForwardingRule_def]
  obtain r where r: "view w' (KForwardingRule, ?n) = Some (RForwardingRule r)" "rule_serves d r"
    using lb_api.ensureForwardingRule_ok[OF assms(1) run assms(3) d] by blast
  moreover have "view w' = (view w)((KForwardingRule, ?n) \<mapsto> RForwardingRule r)"
    using lb_api.ensureForwardingRule_frame[OF assms(1) run] r(1) by (auto simp: fun_eq_iff)
  ultimately show ?thesis
    using desired_rule[OF d] by (auto simp: rule_serves_def httpsDefaultPortRange_def)
qed

theorem ensure_rule_success_witness:
  "\<exists>f'. EnsureHTTPSForwardingRule lb1 fake_lb ''lb'' ''1.2.3.4'' ''tp'' True
      (NewFakeLoadBalancers\<lparr>f_Fw := Slice [zero_ForwardingRule\<lparr>fr_Name := ''mci1-fws--lb''\<rparr>]\<rparr>) = (None, f')
    \<and> (\<exists>r. fake_view f' (KForwardingRule, ''mci1-fws--lb'') = Some (RForwardingRule r)
        \<and> fr_IPAddress r = ''1.2.3.4'' \<and> fr_Target r = ''tp'')"
proof -
  let ?f = "NewFakeLoadBalancers\<lparr>f_Fw := Slice [zero_ForwardingRule\<lparr>fr_Name := ''mci1-fws--lb''\<rparr>]\<rparr>"
  let ?run = "EnsureHTTPSForwardingRule lb1 fake_lb ''lb'' ''1.2.3.4'' ''tp'' True ?f"
  have "fst ?run = None"
    by (simp add: EnsureHTTPSForwardingRule_def ensureForwardingRule_def desiredForwardingRule_def fake_ops
        first_named_def zero_ForwardingRule_def forwardingRuleMatches_def clearServerFields_def
        updateForwardingRule_def deletion_error_def without_def IgnoreHTTPNotFound_def createForwardingRule_def
        Let_def)
  then have run: "?run = (None, snd ?run)" by (simp add: prod_eq_iff)
  have "found_or_404 (GetGlobalForwardingRule fake_lb) (HTTPSForwardingRuleName lb1) ?f"
    by (simp add: found_or_404_def fake_ops first_named_def zero_ForwardingRule_def)
  from ensure_rule_success[OF fake.lb_api_axioms run this] obtain r where
    "fake_view (snd ?run) = (fake_view ?f)((KForwardingRule, ''mci1-fws--lb'') \<mapsto> RForwardingRule r)"
    "fr_IPAddress r = ''1.2.3.4''" "fr_Target r = ''tp''" by auto
  then have "\<exists>r. fake_view (snd ?run) (KForwardingRule, ''mci1-fws--lb'') = Some (RForwardingRule r)
        \<and> fr_IPAddress r = ''1.2.3.4'' \<and> fr_Target r = ''tp''" by (simp del: fake_view.simps)
  with run show ?thesis by blast
qed

text \<open>
  Creating is repeatable: once a rule has been created for an address, running the same command
  again finds the rule it wants and returns without an error and without any change, with or without
  \<^verbatim>\<open>--force\<close>.
\<close>

theorem ensure_rule_idempotent:
  assumes "lb_api view P" "ip \<noteq> ''''"
    and "EnsureHTTPForwardingRule s P lbName ip link force w = (None, w')"
    and "view w (KForwardingRule, HTTPForwardingRuleName s) = None"
    and "GetGlobalForwardingRule P (HTTPForwardingRuleName s) w' = (Inr r, w2)"
  shows "EnsureHTTPForwardingRule s P lbName ip link force' w' = (None, w2) \<and> view w2 = view w'"
  using lb_api.ensureForwardingRule_again[OF assms(1) assms(3)[unfolded EnsureHTTPForwardingRule_def] assms(2,4,5)]
    lb_api.get_rule_view[OF assms(1,5)]
  by (simp add: EnsureHTTPForwardingRule_def)

theorem ensure_rule_idempotent_witness:
  "\<exists>f' f2. EnsureHTTPForwardingRule lb1 fake_lb ''lb'' ''1.2.3.4'' ''tp'' False NewFakeLoadBalancers = (None, f')
     \<and> EnsureHTTPForwardingRule lb1 fake_lb ''lb'' ''1.2.3.4'' ''tp'' False f' = (None, f2) \<and> fake_view f2 = fake_view f'"
proof -
  let ?run = "EnsureHTTPForwardingRule lb1 fake_lb ''lb'' ''1.2.3.4'' ''tp'' False NewFakeLoadBalancers"
  note ev = EnsureHTTPForwardingRule_def ensureForwardingRule_def desiredForwardingRule_def fake_ops
    first_named_def zero_ForwardingRule_def createForwardingRule_def NewFakeLoadBalancers_def Let_def
  have "fst ?run = None" by (simp add: ev)
  then have run: "?run = (None, snd ?run)" by (simp add: prod_eq_iff)
  have absent: "fake_view NewFakeLoadBalancers (KForwardingRule, HTTPForwardingRuleName lb1) = None"
    by (simp add: NewFakeLoadBalancers_def named_def)
  obtain r f2 where "GetGlobalForwardingRule fake_lb (HTTPForwardingRuleName lb1) (snd ?run) = (Inr r, f2)"
    by (simp add: ev)
  from ensure_rule_idempotent[OF fake.lb_api_axioms _ run absent this] run show ?thesis by blast
qed

text \<open>
  When \<^verbatim>\<open>DeleteForwardingRules\<close> reports success, both rules of the load balancer are gone and nothing
  else in the project has changed; when it reports errors, it still touched nothing but these two rules.
\<close>

theorem delete_rules_exact:
  assumes "lb_api view P" "DeleteForwardingRules s P w = (e, w')"
  shows "(e = None \<longrightarrow> view w' = (view w)((KForwardingRule, HTTPForwardingRuleName s) := None,
                                          (KForwardingRule, HTTPSForwardingRuleName s) := None))
    \<and> (\<forall>c. c \<notin> {(KForwardingRule, HTTPForwardingRuleName s), (KForwardingRule, HTTPSForwardingRuleName s)} \<longrightarrow>
      view w' c = view w c)"
  using lb_api.DeleteForwardingRules_ok[OF assms(1)] lb_api.DeleteForwardingRules_frame[OF assms] assms(2)
  by blast

theorem delete_rules_exact_witness:
  "\<exists>f'. DeleteForwardingRules lb1 fake_lb
        (NewFakeLoadBalancers\<lparr>f_Fw := Slice [zero_ForwardingRule\<lparr>fr_Name := ''mci1-fw--lb''\<rparr>]\<rparr>) = (None, f')
     \<and> fake_view f' (KForwardingRule, ''mci1-fw--lb'') = None"
proof -
  let ?f = "NewFakeLoadBalancers\<lparr>f_Fw := Slice [zero_ForwardingRule\<lparr>fr_Name := ''mci1-fw--lb''\<rparr>]\<rparr>"
  let ?run = "DeleteForwardingRules lb1 fake_lb ?f"
  have "fst ?run = None"
    by (simp add: DeleteForwardingRules_def deleteOneRule_def fake_ops without_def deletion_error_def
        zero_ForwardingRule_def FakeGoogleAPINotFoundErr_def Let_def)
  then have run: "?run = (None, snd ?run)" by (simp add: prod_eq_iff)
  then have "fake_view (snd ?run) (KForwardingRule, ''mci1-fw--lb'') = None"
    using delete_rules_exact[OF fake.lb_api_axioms run] by (simp del: fake_view.simps)
  with run show ?thesis by blast
qed



text \<open>
  \<^verbatim>\<open>ListLoadBalancerStatuses\<close> lists every load balancer that has a decodable status on one of its
  \<^verbatim>\<open>mci1\<close> rules, exactly once, even when it has two such rules.
\<close>

theorem list_statuses_once:
  assumes "ListGlobalForwardingRules P w = (Inr (Slice rules), w1)"
  shows "\<exists>sts. fr_ListLoadBalancerStatuses P w = ((sts, None), w1)
    \<and> distinct (map LoadBalancerName sts)
    \<and> set (map LoadBalancerName sts) = {LoadBalancerName st | st r.
         r \<in> set rules \<and> HasPrefix (fr_Name r) ''mci1'' \<and> FromString (fr_Description r) = Inr st}
    \<and> (\<forall>st \<in> set sts. \<exists>r \<in> set rules. FromString (fr_Description r) = Inr st)"
  using assms fr_listLoop_names[of "[]" rules] fr_listLoop_from_rule[of _ "[]" rules]
  by (intro exI[of _ "fr_listLoop [] rules"]) (simp add: fr_ListLoadBalancerStatuses_def, blast)

theorem list_statuses_once_witness:
  "\<exists>sts. fr_ListLoadBalancerStatuses fake_lb
       (NewFakeLoadBalancers\<lparr>f_Fw := Slice [zero_ForwardingRule\<lparr>fr_Name := ''mci1-fw--lb''\<rparr>]\<rparr>) =
     ((sts, None), NewFakeLoadBalancers\<lparr>f_Fw := Slice [zero_ForwardingRule\<lparr>fr_Name := ''mci1-fw--lb''\<rparr>]\<rparr>)
     \<and> distinct (map LoadBalancerName sts)"
proof -
  let ?f = "NewFakeLoadBalancers\<lparr>f_Fw := Slice [zero_ForwardingRule\<lparr>fr_Name := ''mci1-fw--lb''\<rparr>]\<rparr>"
  have "ListGlobalForwardingRules fake_lb ?f = (Inr (Slice [zero_ForwardingRule\<lparr>fr_Name := ''mci1-fw--lb''\<rparr>]), ?f)"
    by (simp add: fake_ops)
  from list_statuses_once[OF this] show ?thesis by blast
qed

end
