(* ===== verification/Md5.thy ===== *)
theory Md5
  imports Prelude "HOL-Library.Word"
begin

text \<open>
  MD5 (RFC 1321) and the hexadecimal encoding, as \<^verbatim>\<open>crypto/md5\<close> and \<^verbatim>\<open>encoding/hex\<close> of the Go
  library compute them.  kubemci names the path matcher of a host by the digest of the host.
\<close>

unbundle bit_operations_syntax

section \<open>Definitions\<close>

type_synonym word32 = "32 word"

definition md5_K :: "word32 list" where
  "md5_K = [
     3614090360, 3905402710, 606105819, 3250441966, 4118548399, 1200080426, 2821735955, 4249261313,
     1770035416, 2336552879, 4294925233, 2304563134, 1804603682, 4254626195, 2792965006, 1236535329,
     4129170786, 3225465664, 643717713, 3921069994, 3593408605, 38016083, 3634488961, 3889429448,
     568446438, 3275163606, 4107603335, 1163531501, 2850285829, 4243563512, 1735328473, 2368359562,
     4294588738, 2272392833, 1839030562, 4259657740, 2763975236, 1272893353, 4139469664, 3200236656,
     681279174, 3936430074, 3572445317, 76029189, 3654602809, 3873151461, 530742520, 3299628645,
     4096336452, 1126891415, 2878612391, 4237533241, 1700485571, 2399980690, 4293915773, 2240044497,
     1873313359, 4264355552, 2734768916, 1309151649, 4149444226, 3174756917, 718787259, 3951481745]"

definition md5_shift :: "nat \<Rightarrow> nat" where
  "md5_shift i =
     (if i < 16 then [7, 12, 17, 22] ! (i mod 4)
      else if i < 32 then [5, 9, 14, 20] ! (i mod 4)
      else if i < 48 then [4, 11, 16, 23] ! (i mod 4)
      else [6, 10, 15, 21] ! (i mod 4))"

definition rotl32 :: "nat \<Rightarrow> word32 \<Rightarrow> word32" where
  "rotl32 s x = push_bit s x OR drop_bit (32 - s) x"

type_synonym md5_state = "word32 \<times> word32 \<times> word32 \<times> word32"

text \<open>One of the 64 steps: the round function, the message word and the rotation.\<close>

definition md5_step :: "word32 list \<Rightarrow> nat \<Rightarrow> md5_state \<Rightarrow> md5_state" where
  "md5_step m i = (\<lambda>(a, b, c, d).
     let f = (if i < 16 then (b AND c) OR (NOT b AND d)
              else if i < 32 then (d AND b) OR (NOT d AND c)
              else if i < 48 then b XOR (c XOR d)
              else c XOR (b OR NOT d));
         g = (if i < 16 then i else if i < 32 then (5 * i + 1) mod 16
              else if i < 48 then (3 * i + 5) mod 16 else (7 * i) mod 16)
     in (d, b + rotl32 (md5_shift i) (f + a + md5_K ! i + m ! g), b, c))"

definition md5_block :: "word32 list \<Rightarrow> md5_state \<Rightarrow> md5_state" where
  "md5_block m s =
     (case (s, fold (md5_step m) [0..<64] s) of
        ((a, b, c, d), (a', b', c', d')) \<Rightarrow> (a + a', b + b', c + c', d + d'))"

fun word_le :: "nat list \<Rightarrow> nat" where
  "word_le [] = 0"
| "word_le (b # bs) = b + 256 * word_le bs"

fun bytes_le :: "nat \<Rightarrow> nat \<Rightarrow> nat list" where
  "bytes_le 0 n = []"
| "bytes_le (Suc k) n = n mod 256 # bytes_le k (n div 256)"

fun chunks :: "nat \<Rightarrow> nat \<Rightarrow> 'a list \<Rightarrow> 'a list list" where
  "chunks 0 k xs = []"
| "chunks (Suc n) k xs = take k xs # chunks n k (drop k xs)"

definition md5_pad :: "nat list \<Rightarrow> nat list" where
  "md5_pad bs = bs @ [128] @ replicate ((119 - length bs mod 64) mod 64) 0
     @ bytes_le 8 (8 * length bs mod 2 ^ 64)"

definition md5_init :: md5_state where
  "md5_init = (0x67452301, 0xefcdab89, 0x98badcfe, 0x10325476)"

definition md5 :: "nat list \<Rightarrow> nat list" where
  "md5 bs =
     (let p = md5_pad bs;
          blocks = map (\<lambda>c. map (of_nat \<circ> word_le) (chunks 16 4 c)) (chunks (length p div 64) 64 p)
      in case fold md5_block blocks md5_init of
           (a, b, c, d) \<Rightarrow> concat (map (bytes_le 4 \<circ> unat) [a, b, c, d]))"

definition hex_char :: "nat \<Rightarrow> char" where
  "hex_char d = (if d < 10 then char_of (48 + d) else char_of (87 + d))"

definition hex_EncodeToString :: "nat list \<Rightarrow> string" where
  "hex_EncodeToString bs = concat (map (\<lambda>b. [hex_char (b div 16), hex_char (b mod 16)]) bs)"

definition md5_hex :: "string \<Rightarrow> string" where
  "md5_hex s = hex_EncodeToString (md5 (map of_char s))"

section \<open>Lemmas\<close>

lemma length_bytes_le [simp]: "length (bytes_le k n) = k"
  by (induction k n rule: bytes_le.induct) simp_all

lemma length_md5: "length (md5 bs) = 16"
  by (simp add: md5_def Let_def split: prod.splits)

lemma length_md5_hex: "length (md5_hex s) = 32"
proof -
  have "length (hex_EncodeToString bs) = 2 * length bs" for bs
    by (induction bs) (simp_all add: hex_EncodeToString_def)
  then show ?thesis by (simp add: md5_hex_def length_md5)
qed

text \<open>The padded message is a whole number of 64-byte blocks, so no input is dropped.\<close>

lemma md5_pad_blocks: "length (md5_pad bs) mod 64 = 0"
proof -
  have "(r + 9 + (119 - r) mod 64) mod 64 = (0::nat)" if "r < 64" for r
  proof (cases "r \<le> 55")
    case True
    have "(119 - r) mod 64 = ((55 - r) + 64) mod 64" using True by simp
    also have "\<dots> = 55 - r" by simp
    finally show ?thesis using True by simp
  next
    case False
    with that show ?thesis by simp
  qed
  from this[of "length bs mod 64"] have "(length bs mod 64 + (9 + (119 - length bs mod 64) mod 64)) mod 64 = 0"
    by (simp add: add.assoc)
  then have "(length bs + (9 + (119 - length bs mod 64) mod 64)) mod 64 = 0"
    by (simp only: mod_add_left_eq)
  then show ?thesis by (simp add: md5_pad_def add.commute add.left_commute)
qed

end
