(* ===== verification/KubeTypes.thy ===== *)
theory KubeTypes
  imports Compute
begin

text \<open>
  The Kubernetes objects kubemci reads (\<^verbatim>\<open>k8s.io/api\<close>): the ingress and its parts, with the fields the
  code looks at, and the service port of \<^verbatim>\<open>ingress-gce\<close>.  The label and annotation maps of
  \<^verbatim>\<open>ObjectMeta\<close> are association lists, nil being the empty one: the code never tells them apart.
\<close>

record IntOrString =
  ios_Type :: int
  ios_IntVal :: int
  ios_StrVal :: string

definition IntType :: int where "IntType = 0"
definition StringType :: int where "StringType = 1"

definition FromInt :: "int \<Rightarrow> IntOrString" where
  "FromInt i = \<lparr>ios_Type = IntType, ios_IntVal = i, ios_StrVal = ''''\<rparr>"

text \<open>\<^verbatim>\<open>IntOrString.String\<close>.\<close>

definition ios_String :: "IntOrString \<Rightarrow> string" where
  "ios_String p = (if ios_Type p = StringType then ios_StrVal p else show_int (ios_IntVal p))"

record IngressBackend =
  ib_ServiceName :: string
  ib_ServicePort :: IntOrString

record HTTPIngressPath =
  ip_Path :: string
  ip_Backend :: IngressBackend

text \<open>\<open>ir_HTTP\<close> is the pointer to the list of paths of the rule.\<close>

record IngressRule =
  ir_Host :: string
  ir_HTTP :: "HTTPIngressPath slice option"

record IngressTLS =
  tls_Hosts :: "string slice"
  tls_SecretName :: string

record IngressSpec =
  is_Backend :: "IngressBackend option"
  is_TLS :: "IngressTLS slice"
  is_Rules :: "IngressRule slice"

record ObjectMeta =
  om_Name :: string
  om_Namespace :: string
  om_Labels :: "string gomap"
  om_Annotations :: "string gomap"

record Ingress =
  ing_ObjectMeta :: ObjectMeta
  ing_Spec :: IngressSpec

definition ing_Name :: "Ingress \<Rightarrow> string" where "ing_Name ing = om_Name (ing_ObjectMeta ing)"
definition ing_Namespace :: "Ingress \<Rightarrow> string" where "ing_Namespace ing = om_Namespace (ing_ObjectMeta ing)"
definition ing_Annotations :: "Ingress \<Rightarrow> string gomap" where
  "ing_Annotations ing = om_Annotations (ing_ObjectMeta ing)"

text \<open>\<^verbatim>\<open>ingressbe.ServicePort\<close>; \<open>sp_Namespace\<close> and \<open>sp_Name\<close> are its \<^verbatim>\<open>SvcName\<close>.\<close>

record ServicePort =
  sp_Namespace :: string
  sp_Name :: string
  sp_SvcPort :: IntOrString
  sp_NodePort :: int
  sp_Protocol :: string
  sp_SvcTargetPort :: string
  sp_NEGEnabled :: bool

definition zero_ServicePort :: ServicePort where
  "zero_ServicePort = \<lparr>sp_Namespace = '''', sp_Name = '''', sp_SvcPort = FromInt 0, sp_NodePort = 0,
     sp_Protocol = '''', sp_SvcTargetPort = '''', sp_NEGEnabled = False\<rparr>"

text \<open>\<^verbatim>\<open>NamespacedName.String\<close> joins the parts with a slash and is never empty.\<close>

definition NamespacedName_String :: "string \<Rightarrow> string \<Rightarrow> string" where
  "NamespacedName_String ns name = ns @ ''/'' @ name"

definition sp_Description :: "ServicePort \<Rightarrow> string" where
  "sp_Description sp =
     (if NamespacedName_String (sp_Namespace sp) (sp_Name sp) = '''' \<or> ios_String (sp_SvcPort sp) = '''' then ''''
      else ''{'' @ [CHR 0x22] @ ''kubernetes.io/service-name'' @ [CHR 0x22] @ '':'' @ [CHR 0x22]
        @ NamespacedName_String (sp_Namespace sp) (sp_Name sp) @ [CHR 0x22] @ '','' @ [CHR 0x22]
        @ ''kubernetes.io/service-port'' @ [CHR 0x22] @ '':'' @ [CHR 0x22]
        @ ios_String (sp_SvcPort sp) @ [CHR 0x22] @ ''}'')"

text \<open>\<^verbatim>\<open>BackendServicesMap\<close>, from the name of the Kubernetes service.\<close>

type_synonym BackendServicesMap = "BackendService gomap"

end
