(* ===== verification/UrlMap.thy ===== *)
theory UrlMap
  imports Namer Status Md5 KubeTypes FakeLoadBalancers
begin

text \<open>
  \<^verbatim>\<open>app/kubemci/pkg/gcp/urlmap/urlmapsyncer.go\<close>: the url map of a load balancer, made from the
  ingress and carrying the status of the load balancer in its description.  The two \<^verbatim>\<open>range\<close> loops over
  the nested map of hosts and paths visit it in the order \<open>ord\<close> gives.
\<close>

section \<open>Definitions\<close>

definition hostRulePrefix :: string where "hostRulePrefix = ''host''"
definition DefaultHost :: string where "DefaultHost = ''*''"
definition DefaultPath :: string where "DefaultPath = ''/*''"
definition DefaultBackendKey :: string where "DefaultBackendKey = ''DefaultBackend''"

type_synonym GCEURLMap = "BackendService gomap gomap"

definition PutDefaultBackend :: "GCEURLMap \<Rightarrow> BackendService \<Rightarrow> GCEURLMap" where
  "PutDefaultBackend g d = AList.update DefaultBackendKey [(DefaultBackendKey, d)] g"

definition GetDefaultBackend :: "GCEURLMap \<Rightarrow> BackendService option \<times> GCEURLMap" where
  "GetDefaultBackend g =
     (case map_of g DefaultBackendKey of
        Some h \<Rightarrow> (map_of h DefaultBackendKey, AList.delete DefaultBackendKey g)
      | None \<Rightarrow> (None, g))"

definition getNameForPathMatcher :: "string \<Rightarrow> string" where
  "getNameForPathMatcher hostRule = hostRulePrefix @ md5_hex hostRule"

definition getBackendService ::
    "IngressBackend option \<Rightarrow> string \<Rightarrow> BackendServicesMap \<Rightarrow> go_error + BackendService" where
  "getBackendService be ns beMap =
     (case be of
        None \<Rightarrow> Inl (Errorf ''unexpected: received nil ingress backend'' [])
      | Some b \<Rightarrow>
          (case map_of beMap (ib_ServiceName b) of
             None \<Rightarrow> Inl (Errorf ''unexpected: No backend service found for service: %s, must have been an error in ensuring backend services''
                       [AStr (ib_ServiceName b)])
           | Some backendService \<Rightarrow> Inr backendService))"

text \<open>The loops over the paths of a rule and over the rules.\<close>

fun pathsLoop ::
    "string \<Rightarrow> BackendServicesMap \<Rightarrow> HTTPIngressPath list \<Rightarrow> BackendService gomap \<Rightarrow> go_error option \<Rightarrow>
     BackendService gomap \<times> go_error option" where
  "pathsLoop ns beMap [] pathToBackend err = (pathToBackend, err)"
| "pathsLoop ns beMap (p # ps) pathToBackend err =
     (case getBackendService (Some (ip_Backend p)) ns beMap of
        Inl beErr \<Rightarrow> pathsLoop ns beMap ps pathToBackend (multierror_Append err [beErr])
      | Inr backend \<Rightarrow>
          let path = (if ip_Path p = '''' then DefaultPath else ip_Path p)
          in pathsLoop ns beMap ps (AList.update path backend pathToBackend) err)"

fun rulesLoop ::
    "string \<Rightarrow> BackendServicesMap \<Rightarrow> IngressRule list \<Rightarrow> GCEURLMap \<Rightarrow> go_error option \<Rightarrow>
     GCEURLMap \<times> go_error option" where
  "rulesLoop ns beMap [] hostPathBackend err = (hostPathBackend, err)"
| "rulesLoop ns beMap (rule # rules) hostPathBackend err =
     (case ir_HTTP rule of
        None \<Rightarrow> rulesLoop ns beMap rules hostPathBackend err
      | Some paths \<Rightarrow>
          let (pathToBackend, err) = pathsLoop ns beMap (elems paths) [] err;
              host = (if ir_Host rule = '''' then DefaultHost else ir_Host rule)
          in rulesLoop ns beMap rules (AList.update host pathToBackend hostPathBackend) err)"

definition ingToURLMap :: "Ingress \<Rightarrow> BackendServicesMap \<Rightarrow> GCEURLMap \<times> go_error option" where
  "ingToURLMap ing beMap =
     (case rulesLoop (ing_Namespace ing) beMap (elems (is_Rules (ing_Spec ing))) [] None of
        (hostPathBackend, err) \<Rightarrow>
          if is_Backend (ing_Spec ing) = None then
            ([], multierror_Append err [Errorf ''unexpected: ing.spec.backend is nil. Multicluster ingress needs a user specified default backend'' []])
          else (case getBackendService (is_Backend (ing_Spec ing)) (ing_Namespace ing) beMap of
             Inl beErr \<Rightarrow> ([], multierror_Append err [beErr])
           | Inr defaultBackend \<Rightarrow> (PutDefaultBackend hostPathBackend defaultBackend, err)))"

text \<open>\<^verbatim>\<open>sort.Strings\<close> sorts in place: nil stays nil.\<close>

fun sort_Strings :: "string slice \<Rightarrow> string slice" where
  "sort_Strings NilSlice = NilSlice"
| "sort_Strings (Slice xs) = Slice (sort xs)"

definition desiredStatusString :: "string \<Rightarrow> string \<Rightarrow> string \<Rightarrow> string slice \<Rightarrow> go_error + string" where
  "desiredStatusString lbName resourceName ipAddress clusters =
     (case ToString \<lparr>Description = resourceName @ '' for kubernetes multicluster loadbalancer '' @ lbName,
              LoadBalancerName = lbName, Clusters = sort_Strings clusters, IPAddress = ipAddress\<rparr> of
        Inl err \<Rightarrow> Inl (Errorf ''unexpected error in converting status to string: %s'' [AErr err])
      | Inr desc \<Rightarrow> Inr desc)"

text \<open>What the two nested loops append for one host.\<close>

definition hostRuleFor :: "string \<Rightarrow> HostRule" where
  "hostRuleFor hostname = zero_HostRule\<lparr>hr_Hosts := Slice [hostname], hr_PathMatcher := getNameForPathMatcher hostname\<rparr>"

definition pathRuleFor :: "string \<times> BackendService \<Rightarrow> PathRule" where
  "pathRuleFor eb = zero_PathRule\<lparr>pr_Paths := Slice [fst eb], pr_Service := be_SelfLink (snd eb)\<rparr>"

definition pathMatcherFor :: "range_order \<Rightarrow> string \<Rightarrow> string \<times> BackendService gomap \<Rightarrow> PathMatcher" where
  "pathMatcherFor ord defaultService he =
     zero_PathMatcher\<lparr>pm_Name := getNameForPathMatcher (fst he), pm_DefaultService := defaultService,
       pm_PathRules := Slice (map pathRuleFor (range_entries ord (''paths of '' @ fst he) (snd he)))\<rparr>"

definition desiredURLMap ::
    "Namer \<Rightarrow> range_order \<Rightarrow> string \<Rightarrow> string \<Rightarrow> string slice \<Rightarrow> Ingress \<Rightarrow> BackendServicesMap \<Rightarrow>
     (go_error + UrlMap) outcome" where
  "desiredURLMap s ord lbName ipAddress clusters ing beMap =
     (case desiredStatusString lbName ''URL map'' ipAddress clusters of
        Inl err \<Rightarrow> Returns (Inl err)
      | Inr desc \<Rightarrow>
          (case ingToURLMap ing beMap of
             (_, Some err) \<Rightarrow> Returns (Inl err)
           | (gceMap, None) \<Rightarrow>
               (case GetDefaultBackend gceMap of
                  (None, _) \<Rightarrow> Panics
                | (Some d, gceMap) \<Rightarrow>
                    let um = zero_UrlMap\<lparr>um_Name := URLMapName s, um_Description := desc,
                               um_DefaultService := be_SelfLink d\<rparr>
                    in Returns (Inr (
                         if gceMap = [] then um
                         else let hosts = range_entries ord ''hosts'' gceMap
                              in um\<lparr>um_HostRules := Slice (map (hostRuleFor \<circ> fst) hosts),
                                    um_PathMatchers := Slice (map (pathMatcherFor ord (be_SelfLink d)) hosts)\<rparr>)))))"

definition clearUrlMapOutput :: "UrlMap \<Rightarrow> UrlMap" where
  "clearUrlMapOutput existingUM = existingUM\<lparr>um_CreationTimestamp := '''', um_Kind := '''', um_Id := 0,
     um_SelfLink := '''', um_ServerResponse := zero_ServerResponse\<rparr>"

definition urlMapMatches :: "UrlMap \<Rightarrow> UrlMap \<Rightarrow> bool" where
  "urlMapMatches desiredUM existingUM \<longleftrightarrow> clearUrlMapOutput existingUM = desiredUM"

definition updateURLMap :: "'w LoadBalancers \<Rightarrow> UrlMap \<Rightarrow> 'w \<Rightarrow> (go_error + string) \<times> 'w" where
  "updateURLMap ump desiredUM w =
     (case UpdateUrlMap ump desiredUM w of
        (Some err, w1) \<Rightarrow> (Inl err, w1)
      | (None, w1) \<Rightarrow>
          (case GetUrlMap ump (um_Name desiredUM) w1 of
             (Inl err, w2) \<Rightarrow> (Inl err, w2)
           | (Inr um, w2) \<Rightarrow> (Inr (um_SelfLink um), w2)))"

definition createURLMap :: "'w LoadBalancers \<Rightarrow> UrlMap \<Rightarrow> 'w \<Rightarrow> (go_error + string) \<times> 'w" where
  "createURLMap ump desiredUM w =
     (case CreateUrlMap ump desiredUM w of
        (Some err, w1) \<Rightarrow> (Inl err, w1)
      | (None, w1) \<Rightarrow>
          (case GetUrlMap ump (um_Name desiredUM) w1 of
             (Inl err, w2) \<Rightarrow> (Inl err, w2)
           | (Inr um, w2) \<Rightarrow> (Inr (um_SelfLink um), w2)))"

definition EnsureURLMap ::
    "Namer \<Rightarrow> 'w LoadBalancers \<Rightarrow> range_order \<Rightarrow> string \<Rightarrow> string \<Rightarrow> string slice \<Rightarrow> Ingress \<Rightarrow>
     BackendServicesMap \<Rightarrow> bool \<Rightarrow> 'w \<Rightarrow> ((go_error + string) \<times> 'w) outcome" where
  "EnsureURLMap s ump ord lbName ipAddress clusters ing beMap forceUpdate w =
     (case desiredURLMap s ord lbName ipAddress clusters ing beMap of
        Panics \<Rightarrow> Panics
      | Returns (Inl err) \<Rightarrow> Returns (Inl (Errorf ''error %s in computing desired url map'' [AErr err]), w)
      | Returns (Inr desiredUM) \<Rightarrow> Returns
          (case GetUrlMap ump (um_Name desiredUM) w of
             (Inr existingUM, w1) \<Rightarrow>
               let desiredUM = desiredUM\<lparr>um_Fingerprint := um_Fingerprint existingUM\<rparr>
               in if urlMapMatches desiredUM existingUM then (Inr (um_SelfLink existingUM), w1)
                  else if forceUpdate then updateURLMap ump desiredUM w1
                  else (Inl (Errorf ''will not overwrite URL Map without --force'' []), w1)
           | (Inl err, w1) \<Rightarrow> createURLMap ump desiredUM w1))"

definition um_DeleteURLMap :: "Namer \<Rightarrow> 'w LoadBalancers \<Rightarrow> 'w \<Rightarrow> go_error option \<times> 'w" where
  "um_DeleteURLMap s ump w =
     (case DeleteUrlMap ump (URLMapName s) w of
        (Some err, w1) \<Rightarrow> if IsHTTPErrorCode (Some err) StatusNotFound then (None, w1) else (Some err, w1)
      | (None, w1) \<Rightarrow> (None, w1))"

definition um_getStatus :: "UrlMap \<Rightarrow> go_error + LoadBalancerStatus" where
  "um_getStatus um =
     (case FromString (um_Description um) of
        Inl err \<Rightarrow> Inl (Errorf ''error in parsing url map description %s. Cannot determine status without it'' [AErr err])
      | Inr status \<Rightarrow> Inr status)"

definition um_GetLoadBalancerStatus ::
    "Namer \<Rightarrow> 'w LoadBalancers \<Rightarrow> string \<Rightarrow> 'w \<Rightarrow> (go_error + LoadBalancerStatus) \<times> 'w" where
  "um_GetLoadBalancerStatus s ump lbName w =
     (case GetUrlMap ump (URLMapName s) w of
        (Inr um, w1) \<Rightarrow> (um_getStatus um, w1)
      | (Inl err, w1) \<Rightarrow>
          if IsHTTPErrorCode (Some err) StatusNotFound then (Inl err, w1)
          else (Inl (Errorf ''error in fetching url map: %s. Cannot determine status without url map'' [AErr err]), w1))"

fun um_listLoop :: "UrlMap list \<Rightarrow> LoadBalancerStatus list" where
  "um_listLoop [] = []"
| "um_listLoop (item # items) =
     (if HasPrefix (um_Name item) ''mci1'' then
        (case FromString (um_Description item) of
           Inl decodeErr \<Rightarrow> um_listLoop items
         | Inr lbStatus \<Rightarrow> lbStatus # um_listLoop items)
      else um_listLoop items)"

definition um_ListLoadBalancerStatuses ::
    "'w LoadBalancers \<Rightarrow> 'w \<Rightarrow> (LoadBalancerStatus list \<times> go_error option) \<times> 'w" where
  "um_ListLoadBalancerStatuses ump w =
     (case ListUrlMaps ump w of
        (Inl err, w1) \<Rightarrow> (([], Some (Errorf ''Error getting url maps: %s'' [AErr err])), w1)
      | (Inr maps, w1) \<Rightarrow> ((um_listLoop (elems maps), None), w1))"

definition desiredURLMapWithoutClusters :: "UrlMap \<Rightarrow> string list \<Rightarrow> go_error + UrlMap" where
  "desiredURLMapWithoutClusters existingUM clustersToRemove =
     (case RemoveClusters (um_Description existingUM) clustersToRemove of
        (_, Some err) \<Rightarrow>
          Inl (Errorf ''unexpected error in updating status to remove clusters on url map %s: %s''
            [AStr (um_Name existingUM), AErr err])
      | (newStatusStr, None) \<Rightarrow> Inr (existingUM\<lparr>um_Description := newStatusStr\<rparr>))"

definition um_RemoveClustersFromStatus ::
    "Namer \<Rightarrow> 'w LoadBalancers \<Rightarrow> string list \<Rightarrow> 'w \<Rightarrow> go_error option \<times> 'w" where
  "um_RemoveClustersFromStatus s ump clusters w =
     (let name = URLMapName s in
      case GetUrlMap ump name w of
        (Inl err, w1) \<Rightarrow>
          if IsHTTPErrorCode (Some err) StatusNotFound then (Some err, w1)
          else (Some (Errorf ''error in fetching existing url map %s: %s'' [AStr name, AErr err]), w1)
      | (Inr existingUM, w1) \<Rightarrow>
          (case desiredURLMapWithoutClusters existingUM clusters of
             Inl err \<Rightarrow> (Some err, w1)
           | Inr desiredUM \<Rightarrow>
               (case updateURLMap ump desiredUM w1 of (r, w2) \<Rightarrow> (err_of r, w2))))"

section \<open>The routing an ingress asks for\<close>

text \<open>
  The rule of a host is the last \<^verbatim>\<open>http\<close> rule for it, the backend of a path the last one the rule
  names for it; everything else goes to the default backend.
\<close>

definition rule_host :: "IngressRule \<Rightarrow> string" where
  "rule_host r = (if ir_Host r = '''' then DefaultHost else ir_Host r)"

definition path_expr :: "HTTPIngressPath \<Rightarrow> string" where
  "path_expr p = (if ip_Path p = '''' then DefaultPath else ip_Path p)"

definition last_rule :: "IngressRule list \<Rightarrow> string \<Rightarrow> IngressRule option" where
  "last_rule rules host = find (\<lambda>r. ir_HTTP r \<noteq> None \<and> rule_host r = host) (rev rules)"

definition host_paths :: "Ingress \<Rightarrow> string \<Rightarrow> HTTPIngressPath list option" where
  "host_paths ing host =
     map_option (elems \<circ> the \<circ> ir_HTTP) (last_rule (elems (is_Rules (ing_Spec ing))) host)"

definition path_backend :: "HTTPIngressPath list \<Rightarrow> string \<Rightarrow> IngressBackend option" where
  "path_backend ps path = map_option ip_Backend (find (\<lambda>p. path_expr p = path) (rev ps))"

definition routed_backend :: "Ingress \<Rightarrow> string \<Rightarrow> string \<Rightarrow> IngressBackend option" where
  "routed_backend ing host path =
     (case host_paths ing host of
        None \<Rightarrow> is_Backend (ing_Spec ing)
      | Some ps \<Rightarrow> (case path_backend ps path of None \<Rightarrow> is_Backend (ing_Spec ing) | Some b \<Rightarrow> Some b))"

text \<open>The service a url map sends a host and path expression to.\<close>

definition um_lookup :: "UrlMap \<Rightarrow> string \<Rightarrow> string \<Rightarrow> string" where
  "um_lookup um host path =
     (case find (\<lambda>hr. host \<in> set (elems (hr_Hosts hr))) (elems (um_HostRules um)) of
        None \<Rightarrow> um_DefaultService um
      | Some hr \<Rightarrow>
          (case find (\<lambda>pm. pm_Name pm = hr_PathMatcher hr) (elems (um_PathMatchers um)) of
             None \<Rightarrow> um_DefaultService um
           | Some pm \<Rightarrow>
               (case find (\<lambda>pr. path \<in> set (elems (pr_Paths pr))) (elems (pm_PathRules pm)) of
                  None \<Rightarrow> pm_DefaultService pm
                | Some pr \<Rightarrow> pr_Service pr)))"

section \<open>Lemmas\<close>

lemma getBackendService_Inr:
  "getBackendService be ns beMap = Inr b \<longleftrightarrow> (\<exists>x. be = Some x \<and> map_of beMap (ib_ServiceName x) = Some b)"
  by (auto simp: getBackendService_def split: option.splits)

lemma pathsLoop_ok:
  assumes "pathsLoop ns beMap ps m err = (m', None)" "distinct (map fst m)"
  shows "err = None \<and> distinct (map fst m')
    \<and> (\<forall>path. map_of m' path =
        (case path_backend ps path of None \<Rightarrow> map_of m path | Some b \<Rightarrow> map_of beMap (ib_ServiceName b)))"
  using assms
proof (induction ps arbitrary: m err)
  case (Cons p ps)
  show ?case
  proof (cases "getBackendService (Some (ip_Backend p)) ns beMap")
    case (Inl e)
    with Cons.prems Cons.IH[of m "multierror_Append err [e]"] show ?thesis by simp
  next
    case (Inr b)
    then have b: "map_of beMap (ib_ServiceName (ip_Backend p)) = Some b" by (simp add: getBackendService_Inr)
    have m': "pathsLoop ns beMap ps (AList.update (path_expr p) b m) err = (m', None)"
      using Cons.prems(1) Inr by (simp add: path_expr_def Let_def)
    from Cons.IH[OF m' distinct_update[OF Cons.prems(2)]] b show ?thesis
      by (auto simp: path_backend_def find_append update_conv' split: option.splits)
  qed
qed (simp add: path_backend_def)

lemma pathsLoop_found:
  assumes "pathsLoop ns beMap ps m err = (m', None)" "path_backend ps path = Some b"
  shows "map_of beMap (ib_ServiceName b) \<noteq> None"
proof -
  have "err = None \<and> (\<forall>p \<in> set ps. map_of beMap (ib_ServiceName (ip_Backend p)) \<noteq> None)"
    using assms(1)
  proof (induction ps arbitrary: m err)
    case (Cons p ps)
    then show ?case
      using Cons.IH[of m "multierror_Append err [e]" for e]
      by (auto simp: getBackendService_def Let_def split: sum.splits option.splits)
  qed simp
  moreover from assms(2) have "\<exists>p \<in> set ps. b = ip_Backend p"
    by (auto simp: path_backend_def dest!: find_SomeD)
  ultimately show ?thesis by auto
qed

lemma last_rule_Cons:
  "last_rule (r # rules) host =
     (case last_rule rules host of
        Some r' \<Rightarrow> Some r'
      | None \<Rightarrow> if ir_HTTP r \<noteq> None \<and> rule_host r = host then Some r else None)"
  by (simp add: last_rule_def find_append split: option.splits)

lemma last_rule_Nil [simp]: "last_rule [] host = None"
  by (simp add: last_rule_def)

lemma rulesLoop_ok:
  assumes "rulesLoop ns beMap rules g err = (g', None)" "distinct (map fst g)"
  shows "err = None \<and> distinct (map fst g')
    \<and> (last_rule rules host = None \<longrightarrow> map_of g' host = map_of g host)
    \<and> (\<forall>r. last_rule rules host = Some r \<longrightarrow>
         (\<exists>m. map_of g' host = Some m \<and> pathsLoop ns beMap (elems (the (ir_HTTP r))) [] None = (m, None)))"
  using assms
proof (induction rules arbitrary: g err)
  case (Cons r rules)
  show ?case
  proof (cases "ir_HTTP r")
    case None
    with Cons.prems Cons.IH[of g err] show ?thesis
      by (cases "last_rule rules host") (simp_all add: last_rule_Cons del: map_of_eq_Some_iff)
  next
    case (Some ps)
    obtain m err1 where m: "pathsLoop ns beMap (elems ps) [] err = (m, err1)" by fastforce
    have g': "rulesLoop ns beMap rules (AList.update (rule_host r) m g) err1 = (g', None)"
      using Cons.prems(1) Some m by (simp add: rule_host_def Let_def)
    note IH = Cons.IH[OF g' distinct_update[OF Cons.prems(2)]]
    then have "err1 = None" by simp
    with pathsLoop_ok[of ns beMap "elems ps" "[]" err m] m have "err = None" by simp
    with IH m Some \<open>err1 = None\<close> show ?thesis
      by (cases "last_rule rules host") (auto simp: last_rule_Cons update_conv' simp del: map_of_eq_Some_iff)
  qed
qed simp

lemma ingToURLMap_ok:
  assumes "ingToURLMap ing beMap = (g, None)"
  obtains d dsvc h where "is_Backend (ing_Spec ing) = Some d" "map_of beMap (ib_ServiceName d) = Some dsvc"
    "g = PutDefaultBackend h dsvc" "distinct (map fst h)"
    "\<And>host. host_paths ing host = None \<Longrightarrow> map_of h host = None"
    "\<And>host ps. host_paths ing host = Some ps \<Longrightarrow>
       \<exists>m. map_of h host = Some m \<and> pathsLoop (ing_Namespace ing) beMap ps [] None = (m, None)"
proof -
  obtain h err where h: "rulesLoop (ing_Namespace ing) beMap (elems (is_Rules (ing_Spec ing))) [] None = (h, err)"
    by fastforce
  then obtain dsvc where d: "getBackendService (is_Backend (ing_Spec ing)) (ing_Namespace ing) beMap = Inr dsvc"
    "g = PutDefaultBackend h dsvc" "err = None"
    using assms by (auto simp: ingToURLMap_def split: if_splits sum.splits)
  from d(1) obtain b where b: "is_Backend (ing_Spec ing) = Some b" "map_of beMap (ib_ServiceName b) = Some dsvc"
    by (auto simp: getBackendService_Inr)
  from rulesLoop_ok[OF h[unfolded d(3)]] show ?thesis
    by (intro that[OF b d(2)]) (auto simp: host_paths_def simp del: map_of_eq_Some_iff)
qed

text \<open>The default backend that was put is what is taken out again, so the code never dereferences nil.\<close>

lemma GetDefaultBackend_Put:
  "distinct (map fst h) \<Longrightarrow> \<exists>h'. GetDefaultBackend (PutDefaultBackend h d) = (Some d, h')
     \<and> distinct (map fst h') \<and> map_of h' = (map_of h)(DefaultBackendKey := None)"
  by (auto simp: GetDefaultBackend_def PutDefaultBackend_def update_conv' distinct_delete delete_conv'
      distinct_update map_of_delete_aux' restrict_map_def fun_eq_iff)

lemma desiredURLMap_no_panic: "desiredURLMap s ord lbName ip clusters ing beMap \<noteq> Panics"
proof (cases "ingToURLMap ing beMap")
  case (Pair g err)
  show ?thesis
  proof (cases err)
    case None
    with Pair obtain h dsvc where "g = PutDefaultBackend h dsvc" "distinct (map fst h)"
      by (metis ingToURLMap_ok)
    with GetDefaultBackend_Put[of h dsvc] Pair None show ?thesis
      by (auto simp: desiredURLMap_def Let_def split: sum.splits)
  qed (use Pair in \<open>auto simp: desiredURLMap_def split: sum.splits\<close>)
qed

text \<open>What a computed url map consists of.\<close>

lemma desiredURLMap_ok:
  assumes "desiredURLMap s ord lbName ip clusters ing beMap = Returns (Inr um)"
  obtains d dsvc h desc where
    "is_Backend (ing_Spec ing) = Some d" "map_of beMap (ib_ServiceName d) = Some dsvc"
    "desiredStatusString lbName ''URL map'' ip clusters = Inr desc"
    "distinct (map fst h)" "map_of h DefaultBackendKey = None"
    "\<And>host. host \<noteq> DefaultBackendKey \<Longrightarrow> host_paths ing host = None \<Longrightarrow> map_of h host = None"
    "\<And>host ps. host \<noteq> DefaultBackendKey \<Longrightarrow> host_paths ing host = Some ps \<Longrightarrow>
       \<exists>m. map_of h host = Some m \<and> pathsLoop (ing_Namespace ing) beMap ps [] None = (m, None)"
    "um = zero_UrlMap\<lparr>um_Name := URLMapName s, um_Description := desc, um_DefaultService := be_SelfLink dsvc,
       um_HostRules := (if h = [] then NilSlice else Slice (map (hostRuleFor \<circ> fst) (range_entries ord ''hosts'' h))),
       um_PathMatchers := (if h = [] then NilSlice
         else Slice (map (pathMatcherFor ord (be_SelfLink dsvc)) (range_entries ord ''hosts'' h)))\<rparr>"
proof -
  obtain desc where desc: "desiredStatusString lbName ''URL map'' ip clusters = Inr desc"
    using assms by (auto simp: desiredURLMap_def split: sum.splits)
  obtain g where g: "ingToURLMap ing beMap = (g, None)"
    using assms desc by (auto simp: desiredURLMap_def split: prod.splits option.splits)
  from ingToURLMap_ok[OF g] obtain d dsvc h0 where h0: "is_Backend (ing_Spec ing) = Some d"
    "map_of beMap (ib_ServiceName d) = Some dsvc" "g = PutDefaultBackend h0 dsvc" "distinct (map fst h0)"
    "\<And>host. host_paths ing host = None \<Longrightarrow> map_of h0 host = None"
    "\<And>host ps. host_paths ing host = Some ps \<Longrightarrow>
       \<exists>m. map_of h0 host = Some m \<and> pathsLoop (ing_Namespace ing) beMap ps [] None = (m, None)" by metis
  obtain h where h: "GetDefaultBackend g = (Some dsvc, h)" "distinct (map fst h)"
    "map_of h = (map_of h0)(DefaultBackendKey := None)"
    using GetDefaultBackend_Put[OF h0(4), of dsvc] h0(3) by auto
  show ?thesis
  proof (rule that[OF h0(1,2) desc h(2)])
    show "map_of h DefaultBackendKey = None" using h(3) by simp
    show "map_of h host = None" if "host \<noteq> DefaultBackendKey" "host_paths ing host = None" for host
      using h0(5)[OF that(2)] h(3) that(1) by simp
    show "\<exists>m. map_of h host = Some m \<and> pathsLoop (ing_Namespace ing) beMap ps [] None = (m, None)"
      if "host \<noteq> DefaultBackendKey" "host_paths ing host = Some ps" for host ps
      using h0(6)[OF that(2)] h(3) that(1) by simp
  qed (use assms desc g h in \<open>auto simp: desiredURLMap_def Let_def zero_UrlMap_def\<close>)
qed

lemma um_lookup_host:
  assumes "range_ok ord" "distinct (map fst h)" "h \<noteq> []"
    and "inj_on getNameForPathMatcher (insert host (set (map fst h)))"
    and "um_HostRules um = Slice (map (hostRuleFor \<circ> fst) (range_entries ord site h))"
    and "um_PathMatchers um = Slice (map (pathMatcherFor ord svc) (range_entries ord site h))"
    and "um_DefaultService um = svc"
  shows "um_lookup um host path =
    (case map_of h host of None \<Rightarrow> svc
     | Some m \<Rightarrow> (case map_of (range_entries ord (''paths of '' @ host) m) path of
                    None \<Rightarrow> svc | Some b \<Rightarrow> be_SelfLink b))"
proof -
  let ?es = "range_entries ord site h"
  have keys: "map_of ?es = map_of h" using map_of_range_entries[OF assms(1,2)] .
  have hosts: "(\<lambda>hr. host \<in> set (elems (hr_Hosts hr))) \<circ> (hostRuleFor \<circ> fst)
      = (\<lambda>e. fst e = host)" by (auto simp: hostRuleFor_def zero_HostRule_def)
  have rules: "(\<lambda>pr. path \<in> set (elems (pr_Paths pr))) \<circ> pathRuleFor = (\<lambda>e. fst e = path)"
    by (auto simp: pathRuleFor_def zero_PathRule_def)
  have names: "find ((\<lambda>pm. pm_Name pm = getNameForPathMatcher host) \<circ> pathMatcherFor ord svc) ?es
      = find (\<lambda>e. fst e = host) ?es"
  proof (rule find_cong[OF refl])
    fix e assume "e \<in> set ?es"
    then have "fst e \<in> set (map fst h)" using set_range_entries[OF assms(1,2)] by (auto simp: rev_image_eqI)
    then show "((\<lambda>pm. pm_Name pm = getNameForPathMatcher host) \<circ> pathMatcherFor ord svc) e = (fst e = host)"
      using inj_onD[OF assms(4), of "fst e" host] by (auto simp: pathMatcherFor_def zero_PathMatcher_def)
  qed
  show ?thesis
    using names
    by (auto simp: um_lookup_def assms(5-7) find_map hosts rules find_key keys hostRuleFor_def zero_HostRule_def
        pathMatcherFor_def zero_PathMatcher_def pathRuleFor_def zero_PathRule_def
        simp del: map_of_eq_Some_iff split: option.splits)
qed

definition ingress_hosts :: "Ingress \<Rightarrow> string set" where
  "ingress_hosts ing = rule_host ` set (elems (is_Rules (ing_Spec ing)))"

lemma host_paths_ingress_hosts: "host_paths ing host = Some ps \<Longrightarrow> host \<in> ingress_hosts ing"
  by (auto simp: host_paths_def last_rule_def ingress_hosts_def dest!: find_SomeD)

lemma desiredURLMap_routes:
  assumes "range_ok ord" "desiredURLMap s ord lbName ip clusters ing beMap = Returns (Inr um)"
    and "host \<noteq> DefaultBackendKey" "inj_on getNameForPathMatcher (insert host (ingress_hosts ing))"
  shows "\<exists>b svc. routed_backend ing host path = Some b \<and> map_of beMap (ib_ServiceName b) = Some svc
    \<and> um_lookup um host path = be_SelfLink svc"
  using assms(2)
proof (rule desiredURLMap_ok)
  fix d dsvc h desc
  assume default: "is_Backend (ing_Spec ing) = Some d" "map_of beMap (ib_ServiceName d) = Some dsvc"
    and h: "distinct (map fst h)" "map_of h DefaultBackendKey = None"
    and none: "\<And>host. host \<noteq> DefaultBackendKey \<Longrightarrow> host_paths ing host = None \<Longrightarrow> map_of h host = None"
    and some: "\<And>host ps. host \<noteq> DefaultBackendKey \<Longrightarrow> host_paths ing host = Some ps \<Longrightarrow>
       \<exists>m. map_of h host = Some m \<and> pathsLoop (ing_Namespace ing) beMap ps [] None = (m, None)"
    and um: "um = zero_UrlMap\<lparr>um_Name := URLMapName s, um_Description := desc, um_DefaultService := be_SelfLink dsvc,
       um_HostRules := (if h = [] then NilSlice else Slice (map (hostRuleFor \<circ> fst) (range_entries ord ''hosts'' h))),
       um_PathMatchers := (if h = [] then NilSlice
         else Slice (map (pathMatcherFor ord (be_SelfLink dsvc)) (range_entries ord ''hosts'' h)))\<rparr>"
  have keys: "set (map fst h) \<subseteq> ingress_hosts ing"
  proof
    fix k assume "k \<in> set (map fst h)"
    then have "map_of h k \<noteq> None" by (auto simp: map_of_eq_None_iff)
    then show "k \<in> ingress_hosts ing"
      using none[of k] h(2) host_paths_ingress_hosts by (cases "k = DefaultBackendKey") fastforce+
  qed
  have inj: "inj_on getNameForPathMatcher (insert host (set (map fst h)))"
    using assms(4) by (rule inj_on_subset) (use keys in auto)
  have lookup: "um_lookup um host path = (case map_of h host of None \<Rightarrow> be_SelfLink dsvc
     | Some m \<Rightarrow> (case map_of (range_entries ord (''paths of '' @ host) m) path of
                    None \<Rightarrow> be_SelfLink dsvc | Some b \<Rightarrow> be_SelfLink b))"
  proof (cases "h = []")
    case False
    then show ?thesis by (intro um_lookup_host[OF assms(1) h(1) False inj]) (simp_all add: um zero_UrlMap_def)
  qed (simp add: um um_lookup_def zero_UrlMap_def)
  show ?thesis
  proof (cases "host_paths ing host")
    case None
    with none[OF assms(3)] lookup default show ?thesis by (auto simp: routed_backend_def)
  next
    case (Some ps)
    from some[OF assms(3) this] obtain m where m: "map_of h host = Some m"
      "pathsLoop (ing_Namespace ing) beMap ps [] None = (m, None)" by blast
    from pathsLoop_ok[OF m(2)] have pm: "distinct (map fst m)"
      "map_of m path = (case path_backend ps path of None \<Rightarrow> None | Some b \<Rightarrow> map_of beMap (ib_ServiceName b))"
      by (simp_all cong: option.case_cong)
    have sub: "path_backend ps path = Some b \<Longrightarrow> map_of beMap (ib_ServiceName b) \<noteq> None" for b
      using pathsLoop_found[OF m(2)] by blast
    show ?thesis
      using lookup m(1) pm default Some sub
      by (cases "path_backend ps path")
        (auto simp: routed_backend_def map_of_range_entries[OF assms(1)] simp del: map_of_eq_Some_iff)
  qed
qed

text \<open>The operations on the cloud.\<close>

lemma clearUrlMapOutput_fields [simp]:
  "um_Description (clearUrlMapOutput m) = um_Description m"
  "um_Fingerprint (clearUrlMapOutput m) = um_Fingerprint m"
  by (simp_all add: clearUrlMapOutput_def)

lemma um_stored_description: "um_stored d r \<Longrightarrow> um_Description r = um_Description d"
  by (auto simp: um_stored_def um_input_def um_transmitted_def dest!: arg_cong[of _ _ um_Description])

lemma desiredURLMap_name:
  "desiredURLMap s ord lbName ip clusters ing beMap = Returns (Inr um) \<Longrightarrow> um_Name um = URLMapName s"
  by (erule desiredURLMap_ok) (simp add: zero_UrlMap_def)

lemma desiredURLMap_description:
  assumes "desiredURLMap s ord lbName ip clusters ing beMap = Returns (Inr um)"
  shows "um_Description um = ToString_text \<lparr>Description = ''URL map for kubernetes multicluster loadbalancer '' @ lbName,
      LoadBalancerName = lbName, Clusters = sort_Strings clusters, IPAddress = ip\<rparr>"
  using assms
  by (rule desiredURLMap_ok) (auto simp: desiredStatusString_def ToString_Inr zero_UrlMap_def)

context lb_api
begin

lemma updateURLMap_effect:
  assumes "updateURLMap P d w = (x, w')"
  shows "view w' = view w \<or> (\<exists>r. um_stored d r \<and> view w' = (view w)((KUrlMap, um_Name d) \<mapsto> RUrlMap r))"
    and "x = Inr l \<Longrightarrow> \<exists>r. um_stored d r \<and> l = um_SelfLink r \<and> view w' = (view w)((KUrlMap, um_Name d) \<mapsto> RUrlMap r)"
proof -
  obtain e w1 where up: "UpdateUrlMap P d w = (e, w1)" by fastforce
  have w1: "view w' = view w1"
    using assms up by (auto simp: updateURLMap_def split: option.splits prod.splits sum.splits dest: um.get_view)
  show "view w' = view w \<or> (\<exists>r. um_stored d r \<and> view w' = (view w)((KUrlMap, um_Name d) \<mapsto> RUrlMap r))"
    using um_update_effect[OF up] w1 by simp
  assume "x = Inr l"
  with assms up obtain r where r: "e = None" "GetUrlMap P (um_Name d) w1 = (Inr r, w')" "l = um_SelfLink r"
    by (auto simp: updateURLMap_def split: option.splits prod.splits sum.splits)
  from um_update_ok[OF up[unfolded r(1)]] um.get_ok[OF r(2)] r(3) w1
  show "\<exists>r. um_stored d r \<and> l = um_SelfLink r \<and> view w' = (view w)((KUrlMap, um_Name d) \<mapsto> RUrlMap r)"
    by auto
qed

lemma createURLMap_effect:
  assumes "createURLMap P d w = (x, w')"
  shows "view w' = view w \<or> (\<exists>r. um_stored d r \<and> view w' = (view w)((KUrlMap, um_Name d) \<mapsto> RUrlMap r))"
    and "view w c = Some y \<Longrightarrow> view w' c = Some y"
    and "x = Inr l \<Longrightarrow> view w (KUrlMap, um_Name d) = None \<Longrightarrow>
      \<exists>r. um_stored d r \<and> l = um_SelfLink r \<and> view w' = (view w)((KUrlMap, um_Name d) \<mapsto> RUrlMap r)"
proof -
  obtain e w1 where cr: "CreateUrlMap P d w = (e, w1)" by fastforce
  have w1: "view w' = view w1"
    using assms cr by (auto simp: createURLMap_def split: option.splits prod.splits sum.splits dest: um.get_view)
  show "view w' = view w \<or> (\<exists>r. um_stored d r \<and> view w' = (view w)((KUrlMap, um_Name d) \<mapsto> RUrlMap r))"
    using um.create_effect[OF cr] w1 by simp
  show "view w' c = Some y" if "view w c = Some y" using um.create_keeps[OF cr that] w1 by simp
  assume "x = Inr l" and absent: "view w (KUrlMap, um_Name d) = None"
  with assms cr obtain r where r: "e = None" "GetUrlMap P (um_Name d) w1 = (Inr r, w')" "l = um_SelfLink r"
    by (auto simp: createURLMap_def split: option.splits prod.splits sum.splits)
  from um.create_then_get[OF cr[unfolded r(1)] absent r(2)] r(3)
  show "\<exists>r. um_stored d r \<and> l = um_SelfLink r \<and> view w' = (view w)((KUrlMap, um_Name d) \<mapsto> RUrlMap r)"
    by auto
qed

lemma EnsureURLMap_cases:
  assumes "EnsureURLMap s P ord lbName ip clusters ing beMap force w = Returns (x, w')"
  obtains (error) e where "x = Inl e" "w' = w"
  | (same) d ex where "desiredURLMap s ord lbName ip clusters ing beMap = Returns (Inr d)"
      "GetUrlMap P (URLMapName s) w = (Inr ex, w')"
      "clearUrlMapOutput ex = d\<lparr>um_Fingerprint := um_Fingerprint ex\<rparr>" "x = Inr (um_SelfLink ex)"
  | (refused) e ex where "x = Inl e" "\<not> force" "GetUrlMap P (URLMapName s) w = (Inr ex, w')"
  | (update) d ex w1 where "desiredURLMap s ord lbName ip clusters ing beMap = Returns (Inr d)" "force"
      "GetUrlMap P (URLMapName s) w = (Inr ex, w1)"
      "updateURLMap P (d\<lparr>um_Fingerprint := um_Fingerprint ex\<rparr>) w1 = (x, w')"
  | (create) d e w1 where "desiredURLMap s ord lbName ip clusters ing beMap = Returns (Inr d)"
      "GetUrlMap P (URLMapName s) w = (Inl e, w1)" "createURLMap P d w1 = (x, w')"
proof -
  consider e where "desiredURLMap s ord lbName ip clusters ing beMap = Returns (Inl e)"
    | d where "desiredURLMap s ord lbName ip clusters ing beMap = Returns (Inr d)"
    using assms by (auto simp: EnsureURLMap_def split: outcome.splits sum.splits)
  then show ?thesis
  proof cases
    case 1
    with assms error show ?thesis by (auto simp: EnsureURLMap_def)
  next
    case (2 d)
    obtain y w1 where g: "GetUrlMap P (URLMapName s) w = (y, w1)" by fastforce
    show ?thesis
    proof (cases y)
      case (Inl e)
      with assms 2 g show ?thesis
        by (intro create[of d e w1]) (simp_all add: EnsureURLMap_def desiredURLMap_name[OF 2])
    next
      case (Inr ex)
      with assms 2 g show ?thesis
        using same[of d ex] refused[of _ ex] update[of d ex w1]
        by (auto simp: EnsureURLMap_def desiredURLMap_name[OF 2] urlMapMatches_def Let_def split: if_splits)
    qed
  qed
qed

end

text \<open>A url map that comes back from the server routes like the one that was sent.\<close>

lemma um_lookup_cong:
  "um_HostRules m = um_HostRules m' \<Longrightarrow> um_PathMatchers m = um_PathMatchers m' \<Longrightarrow>
   um_DefaultService m = um_DefaultService m' \<Longrightarrow> um_lookup m = um_lookup m'"
  unfolding um_lookup_def fun_eq_iff by (simp cong: option.case_cong)

lemma um_lookup_input: "um_lookup (um_input m) = um_lookup m"
  by (rule um_lookup_cong) (simp_all add: um_input_def)

lemma um_lookup_transmitted: "um_lookup (um_transmitted m) = um_lookup m"
proof (intro ext)
  fix host path
  have pm: "(\<lambda>pm. pm_Name pm = n) \<circ> pm_transmitted = (\<lambda>pm. pm_Name pm = n)" for n
    by (auto simp: pm_transmitted_def)
  show "um_lookup (um_transmitted m) host path = um_lookup m host path"
    by (simp add: um_lookup_def um_transmitted_def nil_if_empty_def find_map pm pm_transmitted_def
        option.case_eq_if option.map_sel)
qed

lemma um_stored_lookup: "um_stored d r \<Longrightarrow> um_lookup r = um_lookup d"
  unfolding um_stored_def by (metis um_lookup_input um_lookup_transmitted)

lemma um_lookup_fingerprint: "um_lookup (m\<lparr>um_Fingerprint := f\<rparr>) = um_lookup m"
  by (rule um_lookup_cong) simp_all

lemma um_lookup_clear: "um_lookup (clearUrlMapOutput m) = um_lookup m"
  by (rule um_lookup_cong) (simp_all add: clearUrlMapOutput_def)

context lb_api
begin

lemma EnsureURLMap_keeps:
  assumes "EnsureURLMap s P ord lbName ip clusters ing beMap False w = Returns (x, w')" "view w c = Some y"
  shows "view w' c = Some y"
  using assms(1)
proof (cases rule: EnsureURLMap_cases)
  case (create d e w1)
  with um.get_view createURLMap_effect(2)[of d w1 x w' c y] assms(2) show ?thesis by auto
qed (use assms(2) um.get_view in auto)

lemma EnsureURLMap_frame:
  assumes "EnsureURLMap s P ord lbName ip clusters ing beMap force w = Returns (x, w')" "c \<noteq> (KUrlMap, URLMapName s)"
  shows "view w' c = view w c"
  using assms(1)
proof (cases rule: EnsureURLMap_cases)
  case (update d ex w1)
  from updateURLMap_effect(1)[OF update(4)] um.get_view[OF update(3)] desiredURLMap_name[OF update(1)] assms(2)
  show ?thesis by auto
next
  case (create d e w1)
  from createURLMap_effect(1)[OF create(3)] um.get_view[OF create(2)] desiredURLMap_name[OF create(1)] assms(2)
  show ?thesis by auto
qed (use um.get_view in auto)

lemma EnsureURLMap_ok:
  assumes "EnsureURLMap s P ord lbName ip clusters ing beMap force w = Returns (Inr link, w')"
    and "found_or_404 (GetUrlMap P) (URLMapName s) w"
  obtains d um where "desiredURLMap s ord lbName ip clusters ing beMap = Returns (Inr d)"
    "view w' = (view w)((KUrlMap, URLMapName s) \<mapsto> RUrlMap um)" "link = um_SelfLink um"
    "um_Description um = um_Description d" "um_lookup um = um_lookup d"
  using assms(1)
proof (cases rule: EnsureURLMap_cases)
  case (same d ex)
  have "um_Description ex = um_Description d" "um_lookup ex = um_lookup d"
    using arg_cong[OF same(3), of um_Description] arg_cong[OF same(3), of um_lookup]
    by (simp_all add: um_lookup_clear um_lookup_fingerprint)
  moreover have "view w' = (view w)((KUrlMap, URLMapName s) \<mapsto> RUrlMap ex)"
    using um.get_ok[OF same(2)] um.get_view[OF same(2)] by (simp add: fun_upd_idem)
  ultimately show ?thesis using that same by blast
next
  case (update d ex w1)
  from updateURLMap_effect(2)[OF update(4) refl] obtain r where
    r: "um_stored (d\<lparr>um_Fingerprint := um_Fingerprint ex\<rparr>) r" "link = um_SelfLink r"
      "view w' = (view w1)((KUrlMap, um_Name d) \<mapsto> RUrlMap r)" by auto
  from that[OF update(1), of r] r um.get_view[OF update(3)] desiredURLMap_name[OF update(1)]
    um_stored_description[OF r(1)] um_stored_lookup[OF r(1)] show ?thesis
    by (simp add: um_lookup_fingerprint)
next
  case (create d e w1)
  have "view w1 (KUrlMap, um_Name d) = None"
    using um.get_not_found[OF create(2) found_or_404D[OF assms(2) create(2)]] um.get_view[OF create(2)]
      desiredURLMap_name[OF create(1)] by simp
  from createURLMap_effect(3)[OF create(3) refl this] obtain r where
    r: "um_stored d r" "link = um_SelfLink r" "view w' = (view w1)((KUrlMap, um_Name d) \<mapsto> RUrlMap r)" by auto
  from that[OF create(1), of r] r um.get_view[OF create(2)] desiredURLMap_name[OF create(1)]
    um_stored_description[OF r(1)] um_stored_lookup[OF r(1)] show ?thesis by simp
qed auto

lemmas get_url_map = um.get_present

lemma DeleteURLMap_effect:
  assumes "um_DeleteURLMap s P w = (e, w')"
  shows "e = None \<Longrightarrow> view w' = (view w)((KUrlMap, URLMapName s) := None)"
    and "c \<noteq> (KUrlMap, URLMapName s) \<Longrightarrow> view w' c = view w c"
proof -
  obtain e1 where del: "DeleteUrlMap P (URLMapName s) w = (e1, w')" "e = IgnoreHTTPNotFound e1"
    using assms by (auto simp: um_DeleteURLMap_def IgnoreHTTPNotFound_def split: prod.splits option.splits if_splits)
  show "e = None \<Longrightarrow> view w' = (view w)((KUrlMap, URLMapName s) := None)"
    using um.delete_ignoring_not_found[OF del(1)] del(2) by simp
  show "c \<noteq> (KUrlMap, URLMapName s) \<Longrightarrow> view w' c = view w c" using um.delete_frame[OF del(1)] by simp
qed

lemma um_RemoveClusters_ok:
  assumes "um_RemoveClustersFromStatus s P cs w = (None, w')"
    and "view w (KUrlMap, URLMapName s) = Some (RUrlMap m)"
  obtains r str where "RemoveClusters (um_Description m) cs = (str, None)"
    "um_stored (m\<lparr>um_Description := str\<rparr>) r" "view w' = (view w)((KUrlMap, URLMapName s) \<mapsto> RUrlMap r)"
proof -
  obtain ex w1 where g: "GetUrlMap P (URLMapName s) w = (Inr ex, w1)"
    using assms(1) by (auto simp: um_RemoveClustersFromStatus_def Let_def split: prod.splits sum.splits if_splits)
  have ex: "ex = m" "um_Name m = URLMapName s" using um.get_ok[OF g] assms(2) by (auto dest: um.R_inject)
  obtain str l where str: "RemoveClusters (um_Description m) cs = (str, None)"
    "updateURLMap P (m\<lparr>um_Description := str\<rparr>) w1 = (Inr l, w')"
    using assms(1) g ex
    by (auto simp: um_RemoveClustersFromStatus_def desiredURLMapWithoutClusters_def err_of_def
        split: prod.splits sum.splits option.splits)
  from updateURLMap_effect(2)[OF str(2) refl] that[OF str(1)] um.get_view[OF g] ex show ?thesis by auto
qed

lemma um_RemoveClusters_frame:
  assumes "um_RemoveClustersFromStatus s P cs w = (e, w')" "c \<noteq> (KUrlMap, URLMapName s)"
  shows "view w' c = view w c"
proof -
  obtain x w1 where g: "GetUrlMap P (URLMapName s) w = (x, w1)" by fastforce
  show ?thesis
  proof (cases "w' = w1")
    case False
    with assms(1) g obtain ex str l where ex: "x = Inr ex" "updateURLMap P (ex\<lparr>um_Description := str\<rparr>) w1 = (l, w')"
      by (auto simp: um_RemoveClustersFromStatus_def desiredURLMapWithoutClusters_def err_of_def Let_def
          split: prod.splits sum.splits option.splits if_splits)
    from updateURLMap_effect(1)[OF ex(2)] um.get_view[OF g] um.get_ok[OF g[unfolded ex(1)]] assms(2)
    show ?thesis by auto
  qed (use um.get_view[OF g] in simp)
qed

end

section \<open>Properties\<close>

text \<open>
  C18. The url map sends traffic where the ingress says.  After a successful \<^verbatim>\<open>EnsureURLMap\<close>, whatever order
  the map iterations took, the url map in the project sends every host and path expression to the backend
  service of the backend the ingress names: the last rule of the host, in it the last path, and the default
  backend where there is none.  (Two hosts of the ingress must not have the same MD5 digest, and
  \<^verbatim>\<open>DefaultBackend\<close>, the key the code reserves, is not a host.)
\<close>

theorem ensured_url_map_routes:
  assumes "lb_api view P" "range_ok ord"
    and "EnsureURLMap s P ord lbName ip clusters ing beMap force w = Returns (Inr link, w')"
    and "found_or_404 (GetUrlMap P) (URLMapName s) w"
    and "host \<noteq> DefaultBackendKey" "inj_on getNameForPathMatcher (insert host (ingress_hosts ing))"
  shows "\<exists>um b svc. view w' = (view w)((KUrlMap, URLMapName s) \<mapsto> RUrlMap um) \<and> link = um_SelfLink um
    \<and> routed_backend ing host path = Some b \<and> map_of beMap (ib_ServiceName b) = Some svc
    \<and> um_lookup um host path = be_SelfLink svc"
proof (rule lb_api.EnsureURLMap_ok[OF assms(1,3,4)])
  fix d um
  assume d: "desiredURLMap s ord lbName ip clusters ing beMap = Returns (Inr d)"
    and um: "view w' = (view w)((KUrlMap, URLMapName s) \<mapsto> RUrlMap um)" "link = um_SelfLink um"
      "um_lookup um = um_lookup d"
  from desiredURLMap_routes[OF assms(2) d assms(5,6), of path] um show ?thesis by auto
qed

text \<open>An ingress and its backend services for the examples.\<close>

definition shop_backend :: "string \<Rightarrow> IngressBackend" where
  "shop_backend svc = \<lparr>ib_ServiceName = svc, ib_ServicePort = FromInt 80\<rparr>"

definition shop_rule :: "string \<Rightarrow> string \<Rightarrow> IngressRule" where
  "shop_rule host svc = \<lparr>ir_Host = host, ir_HTTP = Some (Slice [\<lparr>ip_Path = ''/x'', ip_Backend = shop_backend svc\<rparr>])\<rparr>"

definition shop :: "IngressRule list \<Rightarrow> Ingress" where
  "shop rules = \<lparr>ing_ObjectMeta = \<lparr>om_Name = ''shop'', om_Namespace = ''default'', om_Labels = [], om_Annotations = []\<rparr>,
     ing_Spec = \<lparr>is_Backend = Some (shop_backend ''svc''), is_TLS = NilSlice, is_Rules = Slice rules\<rparr>\<rparr>"

definition shop_services :: BackendServicesMap where
  "shop_services = [(''svc'', zero_BackendService\<lparr>be_SelfLink := ''be-default''\<rparr>),
                    (''cart'', zero_BackendService\<lparr>be_SelfLink := ''be-cart''\<rparr>)]"

lemmas shop_defs = shop_def shop_rule_def shop_backend_def shop_services_def

lemmas ensure_um_eval = EnsureURLMap_def desiredURLMap_def desiredStatusString_def ToString_Inr ingToURLMap_def
  getBackendService_def PutDefaultBackend_def GetDefaultBackend_def DefaultBackendKey_def DefaultHost_def DefaultPath_def
  range_entries_def in_order_def reversed_def List.map_filter_simps createURLMap_def updateURLMap_def fake_ops
  first_named_def zero_UrlMap_def NewFakeLoadBalancers_def Let_def

theorem ensured_url_map_routes_witness:
  "\<exists>link f' um b svc. EnsureURLMap lb1 fake_lb in_order ''lb'' ''ip'' (Slice [''c'']) (shop [shop_rule ''h'' ''cart'']) shop_services
       False NewFakeLoadBalancers = Returns (Inr link, f')
     \<and> fake_view f' = (fake_view NewFakeLoadBalancers)((KUrlMap, ''mci1-um--lb'') \<mapsto> RUrlMap um)
     \<and> routed_backend (shop [shop_rule ''h'' ''cart'']) ''h'' ''/x'' = Some b
     \<and> map_of shop_services (ib_ServiceName b) = Some svc \<and> um_lookup um ''h'' ''/x'' = be_SelfLink svc"
proof -
  let ?run = "EnsureURLMap lb1 fake_lb in_order ''lb'' ''ip'' (Slice [''c'']) (shop [shop_rule ''h'' ''cart'']) shop_services
       False NewFakeLoadBalancers"
  obtain link f' where run: "?run = Returns (Inr link, f')"
    by (simp add: ensure_um_eval shop_defs)
  have f404: "found_or_404 (GetUrlMap fake_lb) (URLMapName lb1) NewFakeLoadBalancers"
    by (simp add: found_or_404_def fake_ops first_named_def NewFakeLoadBalancers_def FakeGoogleAPINotFoundErr_def)
  have "inj_on getNameForPathMatcher (insert ''h'' (ingress_hosts (shop [shop_rule ''h'' ''cart''])))"
    by (simp add: ingress_hosts_def shop_defs rule_host_def)
  from ensured_url_map_routes[OF fake.lb_api_axioms range_ok_in_order run f404 _ this, of "''/x''"] run
  show ?thesis by (simp add: DefaultBackendKey_def) blast
qed

text \<open>
  The status of the load balancer can be read back: after a successful \<^verbatim>\<open>EnsureURLMap\<close> the url map of the
  project decodes to the name, the address and the sorted list of clusters the command was given (all valid
  UTF-8).
\<close>

theorem ensured_url_map_status:
  assumes "lb_api view P"
    and "EnsureURLMap s P ord lbName ip clusters ing beMap force w = Returns (Inr link, w')"
    and "found_or_404 (GetUrlMap P) (URLMapName s) w"
    and "valid_utf8 lbName" "valid_utf8 ip" "\<forall>c \<in> set (elems clusters). valid_utf8 c"
    and "um_GetLoadBalancerStatus s P lbName w' = (res, w2)" "found_or_404 (GetUrlMap P) (URLMapName s) w'"
  shows "res = Inr \<lparr>Description = ''URL map for kubernetes multicluster loadbalancer '' @ lbName,
      LoadBalancerName = lbName, Clusters = sort_Strings clusters, IPAddress = ip\<rparr>"
proof (rule lb_api.EnsureURLMap_ok[OF assms(1-3)])
  fix d um
  assume d: "desiredURLMap s ord lbName ip clusters ing beMap = Returns (Inr d)"
    and um: "view w' = (view w)((KUrlMap, URLMapName s) \<mapsto> RUrlMap um)" "um_Description um = um_Description d"
  let ?st = "\<lparr>Description = ''URL map for kubernetes multicluster loadbalancer '' @ lbName,
      LoadBalancerName = lbName, Clusters = sort_Strings clusters, IPAddress = ip\<rparr>"
  have "valid_status ?st"
    using assms(4-6) by (cases clusters) (auto simp: valid_status_def)
  then have st: "um_getStatus um = Inr ?st"
    using um(2) desiredURLMap_description[OF d] by (simp add: um_getStatus_def FromString_ToString_text)
  obtain x w3 where g: "GetUrlMap P (URLMapName s) w' = (x, w3)" by fastforce
  have "view w' (KUrlMap, URLMapName s) = Some (RUrlMap um)" using um(1) by simp
  from lb_api.get_url_map[OF assms(1) g assms(8) this] g assms(7) st show ?thesis
    by (simp add: um_GetLoadBalancerStatus_def)
qed

theorem ensured_url_map_status_witness:
  "\<exists>link f' f2. EnsureURLMap lb1 fake_lb in_order ''lb'' ''ip'' (Slice [''c2'', ''c1'']) (shop [shop_rule ''h'' ''cart'']) shop_services
       False NewFakeLoadBalancers = Returns (Inr link, f')
     \<and> um_GetLoadBalancerStatus lb1 fake_lb ''lb'' f' =
       (Inr \<lparr>Description = ''URL map for kubernetes multicluster loadbalancer lb'',
          LoadBalancerName = ''lb'', Clusters = Slice [''c1'', ''c2''], IPAddress = ''ip''\<rparr>, f2)"
proof -
  let ?run = "EnsureURLMap lb1 fake_lb in_order ''lb'' ''ip'' (Slice [''c2'', ''c1'']) (shop [shop_rule ''h'' ''cart'']) shop_services
       False NewFakeLoadBalancers"
  obtain link f' where run: "?run = Returns (Inr link, f')" by (simp add: ensure_um_eval shop_defs)
  have f404: "found_or_404 (GetUrlMap fake_lb) (URLMapName lb1) f" for f
    by (simp add: found_or_404_def fake_ops first_named_def FakeGoogleAPINotFoundErr_def split: option.splits)
  obtain res f2 where get: "um_GetLoadBalancerStatus lb1 fake_lb ''lb'' f' = (res, f2)" by fastforce
  have "sort_Strings (Slice [''c2'', ''c1'']) = Slice [''c1'', ''c2'']" by (simp add: less_char_def)
  with ensured_url_map_status[OF fake.lb_api_axioms run f404 _ _ _ get f404] run get show ?thesis by simp
qed

text \<open>
  Without \<^verbatim>\<open>--force\<close>, \<^verbatim>\<open>EnsureURLMap\<close> leaves every object that exists exactly as it was; with it, only the
  url map of this load balancer can change; and it never dereferences a missing default backend.
\<close>

theorem ensure_url_map_safe:
  assumes "lb_api view P"
  shows "\<exists>x w'. EnsureURLMap s P ord lbName ip clusters ing beMap force w = Returns (x, w')
    \<and> (\<forall>c. c \<noteq> (KUrlMap, URLMapName s) \<longrightarrow> view w' c = view w c)
    \<and> (\<not> force \<longrightarrow> (\<forall>c y. view w c = Some y \<longrightarrow> view w' c = Some y))"
proof -
  have "EnsureURLMap s P ord lbName ip clusters ing beMap force w \<noteq> Panics"
    using desiredURLMap_no_panic[of s ord lbName ip clusters ing beMap]
    by (auto simp: EnsureURLMap_def split: outcome.splits sum.splits)
  then obtain x w' where run: "EnsureURLMap s P ord lbName ip clusters ing beMap force w = Returns (x, w')"
    by (metis outcome.exhaust surj_pair)
  with lb_api.EnsureURLMap_frame[OF assms run] lb_api.EnsureURLMap_keeps[OF assms, of s ord lbName ip clusters ing beMap w x w']
  show ?thesis by (cases force) auto
qed

theorem ensure_url_map_safe_witness:
  "\<exists>x f'. EnsureURLMap lb1 fake_lb in_order ''lb'' ''ip'' (Slice [''c'']) (shop []) shop_services False
       (NewFakeLoadBalancers\<lparr>f_Um := Slice [zero_UrlMap\<lparr>um_Name := ''mci1-um--lb''\<rparr>]\<rparr>) = Returns (x, f')
     \<and> fake_view f' (KUrlMap, ''mci1-um--lb'') = Some (RUrlMap (zero_UrlMap\<lparr>um_Name := ''mci1-um--lb''\<rparr>))"
proof -
  let ?f = "NewFakeLoadBalancers\<lparr>f_Um := Slice [zero_UrlMap\<lparr>um_Name := ''mci1-um--lb''\<rparr>]\<rparr>"
  have "fake_view ?f (KUrlMap, ''mci1-um--lb'') = Some (RUrlMap (zero_UrlMap\<lparr>um_Name := ''mci1-um--lb''\<rparr>))"
    by (simp add: named_def zero_UrlMap_def)
  with ensure_url_map_safe[OF fake.lb_api_axioms, of lb1 in_order "''lb''" "''ip''" "Slice [''c'']" "shop []" shop_services False ?f]
  show ?thesis by blast
qed

lemma RemoveClusters_url_map:
  assumes "lb_api view P" "um_RemoveClustersFromStatus s P cs w = (None, w')"
    and "view w (KUrlMap, URLMapName s) = Some (RUrlMap m)" "valid_status st" "ToString st = Inr (um_Description m)"
  shows "\<exists>r. view w' = (view w)((KUrlMap, URLMapName s) \<mapsto> RUrlMap r) \<and> um_lookup r = um_lookup m
    \<and> um_getStatus r = Inr (st\<lparr>Clusters := slice_of (filter (\<lambda>c. c \<notin> set cs) (elems (Clusters st)))\<rparr>)"
proof (rule lb_api.um_RemoveClusters_ok[OF assms(1-3)])
  fix r str
  assume str: "RemoveClusters (um_Description m) cs = (str, None)" "um_stored (m\<lparr>um_Description := str\<rparr>) r"
    "view w' = (view w)((KUrlMap, URLMapName s) \<mapsto> RUrlMap r)"
  let ?st = "st\<lparr>Clusters := slice_of (filter (\<lambda>c. c \<notin> set cs) (elems (Clusters st)))\<rparr>"
  have "str = ToString_text ?st" "valid_status ?st"
    using str(1) assms(4,5)
    by (auto simp: ToString_Inr RemoveClusters_def FromString_ToString_text Let_def valid_status_def dest!: sym[of _ "um_Description m"])
  then have "um_getStatus r = Inr ?st"
    using um_stored_description[OF str(2)] by (simp add: um_getStatus_def FromString_ToString_text)
  moreover have "um_lookup r = um_lookup m"
    using um_stored_lookup[OF str(2)] um_lookup_cong[of "m\<lparr>um_Description := str\<rparr>" m] by simp
  ultimately show ?thesis using str(3) by blast
qed

text \<open>
  \<^verbatim>\<open>RemoveClustersFromStatus\<close> of the url map syncer takes exactly the given clusters out of the status on
  the url map: when it succeeds the map still routes as before, its status lists the other clusters in their
  order with the same name and address, and nothing else in the project has changed.
\<close>

theorem remove_clusters_from_url_map:
  assumes "lb_api view P" "um_RemoveClustersFromStatus s P cs w = (None, w')"
    and "view w (KUrlMap, URLMapName s) = Some (RUrlMap m)" "valid_status st" "ToString st = Inr (um_Description m)"
  shows "\<exists>r. view w' = (view w)((KUrlMap, URLMapName s) \<mapsto> RUrlMap r) \<and> um_lookup r = um_lookup m
    \<and> um_getStatus r = Inr (st\<lparr>Clusters := slice_of (filter (\<lambda>c. c \<notin> set cs) (elems (Clusters st)))\<rparr>)"
  using RemoveClusters_url_map[OF assms] .

theorem remove_clusters_from_url_map_witness:
  "\<exists>f' r. um_RemoveClustersFromStatus lb1 fake_lb [''c1'']
       (NewFakeLoadBalancers\<lparr>f_Um := Slice [zero_UrlMap\<lparr>um_Name := ''mci1-um--lb'',
          um_Description := ToString_text (zero_status\<lparr>Clusters := Slice [''c1'', ''c2'']\<rparr>)\<rparr>]\<rparr>) = (None, f')
     \<and> fake_view f' (KUrlMap, ''mci1-um--lb'') = Some (RUrlMap r)
     \<and> um_getStatus r = Inr (zero_status\<lparr>Clusters := Slice [''c2'']\<rparr>)"
proof -
  define st where "st = zero_status\<lparr>Clusters := Slice [''c1'', ''c2'']\<rparr>"
  define m where "m = zero_UrlMap\<lparr>um_Name := ''mci1-um--lb'', um_Description := ToString_text st\<rparr>"
  define f where "f = NewFakeLoadBalancers\<lparr>f_Um := Slice [m]\<rparr>"
  have v: "valid_status st" by (simp add: valid_status_def zero_status_def st_def)
  have "fst (um_RemoveClustersFromStatus lb1 fake_lb [''c1''] f) = None"
    by (simp add: um_RemoveClustersFromStatus_def fake_ops first_named_def desiredURLMapWithoutClusters_def
        RemoveClusters_def FromString_ToString_text[OF v] ToString_Inr zero_UrlMap_def updateURLMap_def err_of_def
        Let_def f_def m_def)
  then obtain f' where run: "um_RemoveClustersFromStatus lb1 fake_lb [''c1''] f = (None, f')"
    by (metis prod.collapse)
  have m: "fake_view f (KUrlMap, URLMapName lb1) = Some (RUrlMap m)"
    by (simp add: named_def zero_UrlMap_def f_def m_def)
  have desc: "ToString st = Inr (um_Description m)" by (simp add: ToString_Inr m_def)
  obtain r where "fake_view f' (KUrlMap, URLMapName lb1) = Some (RUrlMap r)"
    "um_getStatus r = Inr (st\<lparr>Clusters := slice_of (filter (\<lambda>c. c \<notin> set [''c1'']) (elems (Clusters st)))\<rparr>)"
    using remove_clusters_from_url_map[OF fake.lb_api_axioms run m v desc] by (auto simp del: fake_view.simps)
  then have "fake_view f' (KUrlMap, ''mci1-um--lb'') = Some (RUrlMap r)"
    "um_getStatus r = Inr (zero_status\<lparr>Clusters := Slice [''c2'']\<rparr>)"
    by (simp_all add: st_def slice_of_def del: fake_view.simps)
  with run show ?thesis unfolding f_def m_def st_def by blast
qed


end
