(* ===== verification/TargetProxy.thy ===== *)
theory TargetProxy
  imports Namer Ensure FakeLoadBalancers
begin

text \<open>
  \<^verbatim>\<open>app/kubemci/pkg/gcp/targetproxy/targetproxysyncer.go\<close>: the target HTTP and HTTPS proxies of a
  load balancer.
\<close>

section \<open>Definitions\<close>

definition desiredHTTPTargetProxy :: "Namer \<Rightarrow> string \<Rightarrow> string \<Rightarrow> TargetHttpProxy" where
  "desiredHTTPTargetProxy s lbName umLink =
     zero_TargetHttpProxy\<lparr>tp_Name := TargetHTTPProxyName s,
       tp_Description := ''Target http proxy for kubernetes multicluster loadbalancer '' @ lbName,
       tp_UrlMap := umLink\<rparr>"

definition targetHTTPProxyMatches :: "TargetHttpProxy \<Rightarrow> TargetHttpProxy \<Rightarrow> bool" where
  "targetHTTPProxyMatches desiredHTTPProxy existingHTTPProxy \<longleftrightarrow>
     existingHTTPProxy\<lparr>tp_CreationTimestamp := '''', tp_Id := 0, tp_Kind := '''', tp_SelfLink := '''',
       tp_ServerResponse := zero_ServerResponse\<rparr> = desiredHTTPProxy"

definition createHTTPTargetProxy :: "'w LoadBalancers \<Rightarrow> TargetHttpProxy \<Rightarrow> 'w \<Rightarrow> (go_error + string) \<times> 'w" where
  "createHTTPTargetProxy tpp desiredHTTPProxy w =
     (case CreateTargetHttpProxy tpp desiredHTTPProxy w of
        (Some err, w1) \<Rightarrow> (Inl err, w1)
      | (None, w1) \<Rightarrow>
          (case GetTargetHttpProxy tpp (tp_Name desiredHTTPProxy) w1 of
             (Inl err, w2) \<Rightarrow> (Inl err, w2)
           | (Inr existing, w2) \<Rightarrow> (Inr (tp_SelfLink existing), w2)))"

definition updateHTTPTargetProxy :: "'w LoadBalancers \<Rightarrow> TargetHttpProxy \<Rightarrow> 'w \<Rightarrow> (go_error + string) \<times> 'w" where
  "updateHTTPTargetProxy tpp desiredHTTPProxy w =
     (let urlMap = zero_UrlMap\<lparr>um_SelfLink := tp_UrlMap desiredHTTPProxy\<rparr>
      in case SetUrlMapForTargetHttpProxy tpp desiredHTTPProxy urlMap w of
           (Some err, w1) \<Rightarrow> (Inl err, w1)
         | (None, w1) \<Rightarrow>
             (case GetTargetHttpProxy tpp (tp_Name desiredHTTPProxy) w1 of
                (Inl err, w2) \<Rightarrow> (Inl err, w2)
              | (Inr existing, w2) \<Rightarrow> (Inr (tp_SelfLink existing), w2)))"

definition ensureHTTPProxy ::
    "Namer \<Rightarrow> 'w LoadBalancers \<Rightarrow> string \<Rightarrow> string \<Rightarrow> bool \<Rightarrow> 'w \<Rightarrow> (go_error + string) \<times> 'w" where
  "ensureHTTPProxy s tpp lbName umLink forceUpdate w =
     (let desiredHTTPProxy = desiredHTTPTargetProxy s lbName umLink
      in case GetTargetHttpProxy tpp (tp_Name desiredHTTPProxy) w of
           (Inr existingHTTPProxy, w1) \<Rightarrow>
             if targetHTTPProxyMatches desiredHTTPProxy existingHTTPProxy then (Inr (tp_SelfLink existingHTTPProxy), w1)
             else if forceUpdate then updateHTTPTargetProxy tpp desiredHTTPProxy w1
             else (Inl (Errorf ''Will not overwrite Target HTTP Proxy without --force'' []), w1)
         | (Inl err, w1) \<Rightarrow> createHTTPTargetProxy tpp desiredHTTPProxy w1)"

text \<open>The exported methods return the link together with a wrapped error.\<close>

definition wrap_proxy_error :: "string \<Rightarrow> (go_error + string) \<times> 'w \<Rightarrow> (string \<times> go_error option) \<times> 'w" where
  "wrap_proxy_error msg = (\<lambda>(x, w).
     case x of
       Inl proxyErr \<Rightarrow> (('''', multierror_Append None [Errorf msg [AErr proxyErr]]), w)
     | Inr tpLink \<Rightarrow> ((tpLink, None), w))"

definition EnsureHTTPTargetProxy ::
    "Namer \<Rightarrow> 'w LoadBalancers \<Rightarrow> string \<Rightarrow> string \<Rightarrow> bool \<Rightarrow> 'w \<Rightarrow> (string \<times> go_error option) \<times> 'w" where
  "EnsureHTTPTargetProxy s tpp lbName umLink forceUpdate w =
     wrap_proxy_error ''Error in ensuring http target proxy: %s'' (ensureHTTPProxy s tpp lbName umLink forceUpdate w)"

definition desiredHTTPSTargetProxy :: "Namer \<Rightarrow> string \<Rightarrow> string \<Rightarrow> string \<Rightarrow> TargetHttpsProxy" where
  "desiredHTTPSTargetProxy s lbName umLink certLink =
     zero_TargetHttpsProxy\<lparr>tps_Name := TargetHTTPSProxyName s,
       tps_Description := ''Target https proxy for kubernetes multicluster loadbalancer '' @ lbName,
       tps_UrlMap := umLink, tps_SslCertificates := Slice [certLink]\<rparr>"

definition targetHTTPSProxyMatches :: "TargetHttpsProxy \<Rightarrow> TargetHttpsProxy \<Rightarrow> bool" where
  "targetHTTPSProxyMatches desiredHTTPSProxy existingHTTPSProxy \<longleftrightarrow>
     existingHTTPSProxy\<lparr>tps_CreationTimestamp := '''', tps_Id := 0, tps_Kind := '''', tps_SelfLink := '''',
       tps_ServerResponse := zero_ServerResponse\<rparr> = desiredHTTPSProxy"

definition createHTTPSTargetProxy :: "'w LoadBalancers \<Rightarrow> TargetHttpsProxy \<Rightarrow> 'w \<Rightarrow> (go_error + string) \<times> 'w" where
  "createHTTPSTargetProxy tpp desiredHTTPSProxy w =
     (case CreateTargetHttpsProxy tpp desiredHTTPSProxy w of
        (Some err, w1) \<Rightarrow> (Inl err, w1)
      | (None, w1) \<Rightarrow>
          (case GetTargetHttpsProxy tpp (tps_Name desiredHTTPSProxy) w1 of
             (Inl err, w2) \<Rightarrow> (Inl err, w2)
           | (Inr existing, w2) \<Rightarrow> (Inr (tps_SelfLink existing), w2)))"

definition updateHTTPSTargetProxy :: "'w LoadBalancers \<Rightarrow> TargetHttpsProxy \<Rightarrow> 'w \<Rightarrow> (go_error + string) \<times> 'w" where
  "updateHTTPSTargetProxy tpp desiredHTTPSProxy w =
     (case SetUrlMapForTargetHttpsProxy tpp desiredHTTPSProxy
             (zero_UrlMap\<lparr>um_SelfLink := tps_UrlMap desiredHTTPSProxy\<rparr>) w of
        (Some err, w1) \<Rightarrow> (Inl err, w1)
      | (None, w1) \<Rightarrow>
          (case GetTargetHttpsProxy tpp (tps_Name desiredHTTPSProxy) w1 of
             (Inl err, w2) \<Rightarrow> (Inl err, w2)
           | (Inr existing, w2) \<Rightarrow> (Inr (tps_SelfLink existing), w2)))"

definition ensureHTTPSProxy ::
    "Namer \<Rightarrow> 'w LoadBalancers \<Rightarrow> string \<Rightarrow> string \<Rightarrow> string \<Rightarrow> bool \<Rightarrow> 'w \<Rightarrow> (go_error + string) \<times> 'w" where
  "ensureHTTPSProxy s tpp lbName umLink certLink forceUpdate w =
     (let desiredHTTPSProxy = desiredHTTPSTargetProxy s lbName umLink certLink
      in case GetTargetHttpsProxy tpp (tps_Name desiredHTTPSProxy) w of
           (Inr existingHTTPSProxy, w1) \<Rightarrow>
             if targetHTTPSProxyMatches desiredHTTPSProxy existingHTTPSProxy then (Inr (tps_SelfLink existingHTTPSProxy), w1)
             else if forceUpdate then updateHTTPSTargetProxy tpp desiredHTTPSProxy w1
             else (Inl (Errorf ''Will not overwrite Target HTTPS Proxy without --force'' []), w1)
         | (Inl err, w1) \<Rightarrow> createHTTPSTargetProxy tpp desiredHTTPSProxy w1)"

definition EnsureHTTPSTargetProxy ::
    "Namer \<Rightarrow> 'w LoadBalancers \<Rightarrow> string \<Rightarrow> string \<Rightarrow> string \<Rightarrow> bool \<Rightarrow> 'w \<Rightarrow> (string \<times> go_error option) \<times> 'w" where
  "EnsureHTTPSTargetProxy s tpp lbName umLink certLink forceUpdate w =
     wrap_proxy_error ''Error in ensuring https target proxy: %s''
       (ensureHTTPSProxy s tpp lbName umLink certLink forceUpdate w)"

definition DeleteTargetProxies :: "Namer \<Rightarrow> 'w LoadBalancers \<Rightarrow> 'w \<Rightarrow> go_error option \<times> 'w" where
  "DeleteTargetProxies s tpp w =
     (let httpName = TargetHTTPProxyName s; httpsName = TargetHTTPSProxyName s in
      case DeleteTargetHttpProxy tpp httpName w of
        (httpErr, w1) \<Rightarrow>
          let err = (case httpErr of
               None \<Rightarrow> None
             | Some e \<Rightarrow> if IsHTTPErrorCode httpErr StatusNotFound then None
                         else multierror_Append None [Errorf ''error in deleting target HTTP proxy %s: %s'' [AStr httpName, AErr e]])
          in (case DeleteTargetHttpsProxy tpp httpsName w1 of
                (httpsErr, w2) \<Rightarrow>
                  (case httpsErr of
                     None \<Rightarrow> err
                   | Some e \<Rightarrow> if IsHTTPErrorCode httpsErr StatusNotFound then err
                               else multierror_Append err [Errorf ''error in deleting target HTTPS proxy %s: %s'' [AStr httpsName, AErr e]],
                   w2)))"

section \<open>Lemmas\<close>

definition set_um_http :: "'w LoadBalancers \<Rightarrow> (TargetHttpProxy, 'w) command" where
  "set_um_http tpp d = SetUrlMapForTargetHttpProxy tpp d (zero_UrlMap\<lparr>um_SelfLink := tp_UrlMap d\<rparr>)"

definition set_um_https :: "'w LoadBalancers \<Rightarrow> (TargetHttpsProxy, 'w) command" where
  "set_um_https tpp d = SetUrlMapForTargetHttpsProxy tpp d (zero_UrlMap\<lparr>um_SelfLink := tps_UrlMap d\<rparr>)"

lemma ensureHTTPProxy_pattern:
  "ensureHTTPProxy s tpp lbName umLink force w =
     ensure_link (GetTargetHttpProxy tpp) (CreateTargetHttpProxy tpp) (set_um_http tpp) targetHTTPProxyMatches tp_SelfLink
       (Errorf ''Will not overwrite Target HTTP Proxy without --force'' [])
       (TargetHTTPProxyName s) (desiredHTTPTargetProxy s lbName umLink) force w"
  by (auto simp: ensureHTTPProxy_def ensure_link_def then_link_def createHTTPTargetProxy_def updateHTTPTargetProxy_def
      set_um_http_def desiredHTTPTargetProxy_def zero_TargetHttpProxy_def Let_def split: prod.splits sum.splits option.splits)

lemma ensureHTTPSProxy_pattern:
  "ensureHTTPSProxy s tpp lbName umLink certLink force w =
     ensure_link (GetTargetHttpsProxy tpp) (CreateTargetHttpsProxy tpp) (set_um_https tpp) targetHTTPSProxyMatches tps_SelfLink
       (Errorf ''Will not overwrite Target HTTPS Proxy without --force'' [])
       (TargetHTTPSProxyName s) (desiredHTTPSTargetProxy s lbName umLink certLink) force w"
  by (auto simp: ensureHTTPSProxy_def ensure_link_def then_link_def createHTTPSTargetProxy_def updateHTTPSTargetProxy_def
      set_um_https_def desiredHTTPSTargetProxy_def zero_TargetHttpsProxy_def Let_def split: prod.splits sum.splits option.splits)

sublocale lb_api \<subseteq> tpe: ensure_api view KTargetHttpProxy RTargetHttpProxy tp_Name tp_stored
    "GetTargetHttpProxy P" "CreateTargetHttpProxy P" "DeleteTargetHttpProxy P"
    "set_um_http P" targetHTTPProxyMatches "\<lambda>d old new. new = old\<lparr>tp_UrlMap := tp_UrlMap d\<rparr>" tp_SelfLink
proof
  show "view w' c = view w c" if "set_um_http P d w = (eo, w')" "c \<noteq> (KTargetHttpProxy, tp_Name d)" for d w eo w' c
    using tp_set_effect[OF that(1)[unfolded set_um_http_def]] that(2) by (auto simp: modify_cell_other)
  show "\<exists>new. new = old\<lparr>tp_UrlMap := tp_UrlMap d\<rparr> \<and> view w' = (view w)((KTargetHttpProxy, tp_Name d) \<mapsto> RTargetHttpProxy new)"
    if "set_um_http P d w = (None, w')" "view w (KTargetHttpProxy, tp_Name d) = Some (RTargetHttpProxy old)" for d w w' old
    using tp_set_ok[OF that(1)[unfolded set_um_http_def]] that(2) by (simp add: modify_cell_def zero_UrlMap_def)
qed

sublocale lb_api \<subseteq> tpse: ensure_api view KTargetHttpsProxy RTargetHttpsProxy tps_Name tps_stored
    "GetTargetHttpsProxy P" "CreateTargetHttpsProxy P" "DeleteTargetHttpsProxy P"
    "set_um_https P" targetHTTPSProxyMatches "\<lambda>d old new. new = old\<lparr>tps_UrlMap := tps_UrlMap d\<rparr>" tps_SelfLink
proof
  show "view w' c = view w c" if "set_um_https P d w = (eo, w')" "c \<noteq> (KTargetHttpsProxy, tps_Name d)" for d w eo w' c
    using tps_set_effect[OF that(1)[unfolded set_um_https_def]] that(2) by (auto simp: modify_cell_other)
  show "\<exists>new. new = old\<lparr>tps_UrlMap := tps_UrlMap d\<rparr> \<and> view w' = (view w)((KTargetHttpsProxy, tps_Name d) \<mapsto> RTargetHttpsProxy new)"
    if "set_um_https P d w = (None, w')" "view w (KTargetHttpsProxy, tps_Name d) = Some (RTargetHttpsProxy old)" for d w w' old
    using tps_set_ok[OF that(1)[unfolded set_um_https_def]] that(2) by (simp add: modify_cell_def zero_UrlMap_def)
qed

lemma tp_serves:
  "targetHTTPProxyMatches d r \<or> tp_stored d r \<Longrightarrow> tp_UrlMap r = tp_UrlMap d"
  by (auto simp: targetHTTPProxyMatches_def tp_stored_def tp_input_def dest!: arg_cong[of _ _ tp_UrlMap])

lemma tps_serves:
  assumes "targetHTTPSProxyMatches d r \<or> tps_stored d r"
  shows "tps_UrlMap r = tps_UrlMap d" "tps_SslCertificates r = tps_SslCertificates d"
  using assms
  by (auto simp: targetHTTPSProxyMatches_def tps_stored_def tps_input_def
      dest!: arg_cong[of "_\<lparr>tps_Name := _\<rparr>" _ tps_UrlMap]
      dest: arg_cong[of _ _ tps_UrlMap] arg_cong[of _ _ tps_SslCertificates])

lemma desired_proxy_fields [simp]:
  "tp_Name (desiredHTTPTargetProxy s lb um) = TargetHTTPProxyName s"
  "tp_UrlMap (desiredHTTPTargetProxy s lb um) = um"
  "tps_Name (desiredHTTPSTargetProxy s lb um cert) = TargetHTTPSProxyName s"
  "tps_UrlMap (desiredHTTPSTargetProxy s lb um cert) = um"
  "tps_SslCertificates (desiredHTTPSTargetProxy s lb um cert) = Slice [cert]"
  by (simp_all add: desiredHTTPTargetProxy_def desiredHTTPSTargetProxy_def zero_TargetHttpProxy_def zero_TargetHttpsProxy_def)

lemma wrap_proxy_error_ok: "wrap_proxy_error msg p = ((l, None), w') \<longleftrightarrow> p = (Inr l, w')"
  by (auto simp: wrap_proxy_error_def split: prod.splits sum.splits)

lemma wrap_proxy_error_state: "snd (wrap_proxy_error msg p) = snd p"
  by (auto simp: wrap_proxy_error_def split: prod.splits sum.splits)

context lb_api
begin

lemma ensureHTTPProxy_ok:
  assumes "ensureHTTPProxy s P lb um force w = (Inr l, w')"
    "found_or_404 (GetTargetHttpProxy P) (TargetHTTPProxyName s) w"
  shows "\<exists>r. view w' = (view w)((KTargetHttpProxy, TargetHTTPProxyName s) \<mapsto> RTargetHttpProxy r)
    \<and> l = tp_SelfLink r \<and> tp_UrlMap r = um"
proof -
  let ?d = "desiredHTTPTargetProxy s lb um"
  have "ensure_link (GetTargetHttpProxy P) (CreateTargetHttpProxy P) (set_um_http P) targetHTTPProxyMatches tp_SelfLink
       (Errorf ''Will not overwrite Target HTTP Proxy without --force'' []) (tp_Name ?d) ?d force w = (Inr l, w')"
    using assms(1) by (simp add: ensureHTTPProxy_pattern)
  then obtain r where r: "view w' = (view w)((KTargetHttpProxy, TargetHTTPProxyName s) \<mapsto> RTargetHttpProxy r)" "l = tp_SelfLink r"
    "targetHTTPProxyMatches ?d r \<or> tp_stored ?d r \<or> (\<exists>old. r = old\<lparr>tp_UrlMap := um\<rparr>)"
    by (rule tpe.ensure_link_ok) (use assms(2) in auto)
  then have "tp_UrlMap r = um" using tp_serves[of ?d r] by auto
  with r show ?thesis by blast
qed

lemma ensureHTTPSProxy_created:
  assumes "ensureHTTPSProxy s P lb um cert False w = (Inr l, w')"
    "found_or_404 (GetTargetHttpsProxy P) (TargetHTTPSProxyName s) w"
  shows "\<exists>r. view w' = (view w)((KTargetHttpsProxy, TargetHTTPSProxyName s) \<mapsto> RTargetHttpsProxy r) \<and> l = tps_SelfLink r
    \<and> (targetHTTPSProxyMatches (desiredHTTPSTargetProxy s lb um cert) r \<or> tps_stored (desiredHTTPSTargetProxy s lb um cert) r)"
proof -
  let ?d = "desiredHTTPSTargetProxy s lb um cert"
  have "ensure_link (GetTargetHttpsProxy P) (CreateTargetHttpsProxy P) (set_um_https P) targetHTTPSProxyMatches tps_SelfLink
       (Errorf ''Will not overwrite Target HTTPS Proxy without --force'' []) (tps_Name ?d) ?d False w = (Inr l, w')"
    using assms(1) by (simp add: ensureHTTPSProxy_pattern)
  then obtain r where "view w' = (view w)((KTargetHttpsProxy, TargetHTTPSProxyName s) \<mapsto> RTargetHttpsProxy r)"
    "l = tps_SelfLink r" "targetHTTPSProxyMatches ?d r \<or> tps_stored ?d r"
    by (rule tpse.ensure_link_ok) (use assms(2) in auto)
  then show ?thesis by blast
qed

lemma ensureHTTPSProxy_updated:
  assumes "ensureHTTPSProxy s P lb um cert True w = (Inr l, w')"
    and "view w (KTargetHttpsProxy, TargetHTTPSProxyName s) = Some (RTargetHttpsProxy old)"
    and "\<not> targetHTTPSProxyMatches (desiredHTTPSTargetProxy s lb um cert) old"
    and "found_or_404 (GetTargetHttpsProxy P) (TargetHTTPSProxyName s) w"
  shows "view w' = (view w)((KTargetHttpsProxy, TargetHTTPSProxyName s) \<mapsto> RTargetHttpsProxy (old\<lparr>tps_UrlMap := um\<rparr>))"
proof (rule tpse.ensure_link_ok[where d = "desiredHTTPSTargetProxy s lb um cert"])
  show "ensure_link (GetTargetHttpsProxy P) (CreateTargetHttpsProxy P) (set_um_https P) targetHTTPSProxyMatches tps_SelfLink
       (Errorf ''Will not overwrite Target HTTPS Proxy without --force'' [])
       (tps_Name (desiredHTTPSTargetProxy s lb um cert)) (desiredHTTPSTargetProxy s lb um cert) True w = (Inr l, w')"
    using assms(1) by (simp add: ensureHTTPSProxy_pattern)
qed (use assms(2-4) in auto)

lemma ensure_proxies_keep:
  assumes "view w c = Some x"
  shows "ensureHTTPProxy s P lb um False w = (y, w') \<Longrightarrow> view w' c = Some x"
    and "ensureHTTPSProxy s P lb um cert False w = (y, w') \<Longrightarrow> view w' c = Some x"
  using tpe.ensure_link_keeps[of _ "desiredHTTPTargetProxy s lb um" w y w' c x]
    tpse.ensure_link_keeps[of _ "desiredHTTPSTargetProxy s lb um cert" w y w' c x] assms
    tp.create_present tps.create_present
  by (auto simp: ensureHTTPProxy_pattern ensureHTTPSProxy_pattern)

lemma DeleteTargetProxies_effect:
  assumes "DeleteTargetProxies s P w = (e, w')"
  shows "e = None \<Longrightarrow> view w' = (view w)((KTargetHttpProxy, TargetHTTPProxyName s) := None,
                                         (KTargetHttpsProxy, TargetHTTPSProxyName s) := None)"
    and "c \<notin> {(KTargetHttpProxy, TargetHTTPProxyName s), (KTargetHttpsProxy, TargetHTTPSProxyName s)} \<Longrightarrow>
      view w' c = view w c"
proof -
  obtain e1 w1 e2 where d1: "DeleteTargetHttpProxy P (TargetHTTPProxyName s) w = (e1, w1)"
    and d2: "DeleteTargetHttpsProxy P (TargetHTTPSProxyName s) w1 = (e2, w')"
    and e: "e = None \<longrightarrow> IgnoreHTTPNotFound e1 = None \<and> IgnoreHTTPNotFound e2 = None"
    using assms
    by (auto simp: DeleteTargetProxies_def Let_def IgnoreHTTPNotFound_def split: prod.splits option.splits if_splits)
  show "e = None \<Longrightarrow> view w' = (view w)((KTargetHttpProxy, TargetHTTPProxyName s) := None,
                                         (KTargetHttpsProxy, TargetHTTPSProxyName s) := None)"
    using tp.delete_ignoring_not_found[OF d1] tps.delete_ignoring_not_found[OF d2] e by simp
  show "view w' c = view w c"
    if "c \<notin> {(KTargetHttpProxy, TargetHTTPProxyName s), (KTargetHttpsProxy, TargetHTTPSProxyName s)}"
    using tp.delete_frame[OF d1, of c] tps.delete_frame[OF d2, of c] that by simp
qed

end

section \<open>Properties\<close>

text \<open>
  A successful \<^verbatim>\<open>EnsureHTTPTargetProxy\<close> leaves a proxy in the project that serves the given url map and whose
  link is the one returned; nothing else has changed.
\<close>

theorem ensure_http_proxy_success:
  assumes "lb_api view P" "EnsureHTTPTargetProxy s P lbName umLink force w = ((link, None), w')"
    and "found_or_404 (GetTargetHttpProxy P) (TargetHTTPProxyName s) w"
  shows "\<exists>r. view w' = (view w)((KTargetHttpProxy, TargetHTTPProxyName s) \<mapsto> RTargetHttpProxy r)
    \<and> link = tp_SelfLink r \<and> tp_UrlMap r = umLink"
  using lb_api.ensureHTTPProxy_ok[OF assms(1) _ assms(3)] assms(2)
  by (simp add: EnsureHTTPTargetProxy_def wrap_proxy_error_ok)

text \<open>An existing proxy for the examples.\<close>

definition old_http_proxy :: TargetHttpProxy where
  "old_http_proxy = zero_TargetHttpProxy\<lparr>tp_Name := ''mci1-tp--lb'', tp_UrlMap := ''old''\<rparr>"

definition old_https_proxy :: TargetHttpsProxy where
  "old_https_proxy = zero_TargetHttpsProxy\<lparr>tps_Name := ''mci1-tps--lb'', tps_UrlMap := ''old'',
     tps_SslCertificates := Slice [''old-cert'']\<rparr>"

definition old_cloud :: FakeCloud where
  "old_cloud = NewFakeLoadBalancers\<lparr>f_Tp := Slice [old_http_proxy], f_Tps := Slice [old_https_proxy]\<rparr>"

lemmas proxy_eval = ensureHTTPProxy_def ensureHTTPSProxy_def desiredHTTPTargetProxy_def desiredHTTPSTargetProxy_def
  updateHTTPTargetProxy_def updateHTTPSTargetProxy_def targetHTTPProxyMatches_def targetHTTPSProxyMatches_def
  fake_ops first_named_def update_named_def old_cloud_def old_http_proxy_def old_https_proxy_def
  zero_TargetHttpProxy_def zero_TargetHttpsProxy_def Let_def

lemma old_cloud_proxies:
  "fake_view old_cloud (KTargetHttpProxy, ''mci1-tp--lb'') = Some (RTargetHttpProxy old_http_proxy)"
  "fake_view old_cloud (KTargetHttpsProxy, ''mci1-tps--lb'') = Some (RTargetHttpsProxy old_https_proxy)"
  by (simp_all add: old_cloud_def named_def old_http_proxy_def old_https_proxy_def
      zero_TargetHttpProxy_def zero_TargetHttpsProxy_def)

lemma fake_found_or_404 [simp]:
  "found_or_404 fake_GetTargetHttpProxy n f" "found_or_404 fake_GetTargetHttpsProxy n f"
  "found_or_404 fake_GetSslCertificate n f"
  by (simp_all add: found_or_404_def fake_ops first_named_def FakeGoogleAPINotFoundErr_def split: option.splits)

theorem ensure_http_proxy_success_witness:
  "\<exists>link f' r. EnsureHTTPTargetProxy lb1 fake_lb ''lb'' ''um'' True old_cloud = ((link, None), f')
     \<and> fake_view f' (KTargetHttpProxy, ''mci1-tp--lb'') = Some (RTargetHttpProxy r) \<and> tp_UrlMap r = ''um''"
proof -
  obtain link f' where run: "EnsureHTTPTargetProxy lb1 fake_lb ''lb'' ''um'' True old_cloud = ((link, None), f')"
    by (simp add: EnsureHTTPTargetProxy_def wrap_proxy_error_ok proxy_eval)
  with ensure_http_proxy_success[OF fake.lb_api_axioms run] show ?thesis
    by (auto simp del: fake_view.simps)
qed

text \<open>
  C31. A forced update of the HTTPS proxy does not install the new certificate.  Whenever the existing proxy
  carries other certificates than the requested one, \<^verbatim>\<open>EnsureHTTPSTargetProxy\<close> with \<^verbatim>\<open>--force\<close> reports success,
  sets the url map, and leaves the old certificates in place: only the url map is ever updated.
\<close>

theorem forced_https_update_keeps_old_certificate:
  assumes "lb_api view P" "EnsureHTTPSTargetProxy s P lbName umLink certLink True w = ((link, None), w')"
    and "found_or_404 (GetTargetHttpsProxy P) (TargetHTTPSProxyName s) w"
    and "view w (KTargetHttpsProxy, TargetHTTPSProxyName s) = Some (RTargetHttpsProxy old)"
    and "tps_SslCertificates old \<noteq> Slice [certLink]"
  shows "view w' = (view w)((KTargetHttpsProxy, TargetHTTPSProxyName s) \<mapsto> RTargetHttpsProxy (old\<lparr>tps_UrlMap := umLink\<rparr>))
    \<and> tps_SslCertificates (old\<lparr>tps_UrlMap := umLink\<rparr>) \<noteq> Slice [certLink]"
proof -
  have run: "ensureHTTPSProxy s P lbName umLink certLink True w = (Inr link, w')"
    using assms(2) by (simp add: EnsureHTTPSTargetProxy_def wrap_proxy_error_ok)
  have "\<not> targetHTTPSProxyMatches (desiredHTTPSTargetProxy s lbName umLink certLink) old"
    using tps_serves(2)[of _ old] assms(5) by fastforce
  then show ?thesis
    using lb_api.ensureHTTPSProxy_updated[OF assms(1) run assms(4) _ assms(3)] assms(5) by simp
qed

theorem forced_https_update_keeps_old_certificate_witness:
  "\<exists>link f'. EnsureHTTPSTargetProxy lb1 fake_lb ''lb'' ''um'' ''new-cert'' True old_cloud = ((link, None), f')
     \<and> fake_view f' (KTargetHttpsProxy, ''mci1-tps--lb'') = Some (RTargetHttpsProxy (old_https_proxy\<lparr>tps_UrlMap := ''um''\<rparr>))"
proof -
  obtain link f' where run: "EnsureHTTPSTargetProxy lb1 fake_lb ''lb'' ''um'' ''new-cert'' True old_cloud = ((link, None), f')"
    by (simp add: EnsureHTTPSTargetProxy_def wrap_proxy_error_ok proxy_eval)
  have old: "tps_SslCertificates old_https_proxy \<noteq> Slice [''new-cert'']"
    by (simp add: old_https_proxy_def zero_TargetHttpsProxy_def)
  have "fake_view old_cloud (KTargetHttpsProxy, TargetHTTPSProxyName lb1) = Some (RTargetHttpsProxy old_https_proxy)"
    using old_cloud_proxies(2) by (simp del: fake_view.simps)
  from forced_https_update_keeps_old_certificate[OF fake.lb_api_axioms run _ this old] run show ?thesis
    by (auto simp del: fake_view.simps)
qed

text \<open>
  Without \<^verbatim>\<open>--force\<close>, \<^verbatim>\<open>EnsureHTTPSTargetProxy\<close> changes or removes no object of the project, and when it succeeds
  the proxy in the project has exactly the requested url map and certificate.
\<close>

theorem ensure_https_proxy_without_force:
  assumes "lb_api view P" "EnsureHTTPSTargetProxy s P lbName umLink certLink False w = ((link, err), w')"
    and "found_or_404 (GetTargetHttpsProxy P) (TargetHTTPSProxyName s) w"
  shows "(\<forall>c x. view w c = Some x \<longrightarrow> view w' c = Some x)
    \<and> (err = None \<longrightarrow> (\<exists>r. view w' (KTargetHttpsProxy, TargetHTTPSProxyName s) = Some (RTargetHttpsProxy r)
         \<and> link = tps_SelfLink r \<and> tps_UrlMap r = umLink \<and> tps_SslCertificates r = Slice [certLink]))"
proof -
  let ?d = "desiredHTTPSTargetProxy s lbName umLink certLink"
  obtain x where run: "ensureHTTPSProxy s P lbName umLink certLink False w = (x, w')"
    using assms(2) wrap_proxy_error_state[of _ "ensureHTTPSProxy s P lbName umLink certLink False w"]
    by (metis EnsureHTTPSTargetProxy_def prod.collapse snd_conv)
  have "\<exists>r. view w' (KTargetHttpsProxy, TargetHTTPSProxyName s) = Some (RTargetHttpsProxy r)
         \<and> link = tps_SelfLink r \<and> tps_UrlMap r = umLink \<and> tps_SslCertificates r = Slice [certLink]" if "err = None"
  proof -
    have "ensureHTTPSProxy s P lbName umLink certLink False w = (Inr link, w')"
      using assms(2) that by (simp add: EnsureHTTPSTargetProxy_def wrap_proxy_error_ok)
    then obtain r where r: "view w' = (view w)((KTargetHttpsProxy, TargetHTTPSProxyName s) \<mapsto> RTargetHttpsProxy r)"
      "link = tps_SelfLink r" "targetHTTPSProxyMatches ?d r \<or> tps_stored ?d r"
      using lb_api.ensureHTTPSProxy_created[OF assms(1) _ assms(3)] by blast
    with tps_serves[OF r(3)] show ?thesis by simp
  qed
  with lb_api.ensure_proxies_keep(2)[OF assms(1) _ run] show ?thesis by blast
qed

theorem ensure_https_proxy_without_force_witness:
  "\<exists>link f' r. EnsureHTTPSTargetProxy lb1 fake_lb ''lb'' ''um'' ''cert'' False NewFakeLoadBalancers = ((link, None), f')
     \<and> fake_view f' (KTargetHttpsProxy, ''mci1-tps--lb'') = Some (RTargetHttpsProxy r) \<and> tps_SslCertificates r = Slice [''cert'']"
proof -
  obtain link f' where run: "EnsureHTTPSTargetProxy lb1 fake_lb ''lb'' ''um'' ''cert'' False NewFakeLoadBalancers = ((link, None), f')"
    by (simp add: EnsureHTTPSTargetProxy_def wrap_proxy_error_ok proxy_eval createHTTPSTargetProxy_def NewFakeLoadBalancers_def)
  from ensure_https_proxy_without_force[OF fake.lb_api_axioms run] run show ?thesis
    by (auto simp del: fake_view.simps)
qed

text \<open>
  A successful \<^verbatim>\<open>DeleteTargetProxies\<close> removes exactly the two proxies of the load balancer; in any
  case it touches nothing else.
\<close>

theorem delete_proxies_exact:
  assumes "lb_api view P" "DeleteTargetProxies s P w = (e, w')"
  shows "(e = None \<longrightarrow> view w' = (view w)((KTargetHttpProxy, TargetHTTPProxyName s) := None,
                                         (KTargetHttpsProxy, TargetHTTPSProxyName s) := None))
    \<and> (\<forall>c. c \<notin> {(KTargetHttpProxy, TargetHTTPProxyName s), (KTargetHttpsProxy, TargetHTTPSProxyName s)} \<longrightarrow>
      view w' c = view w c)"
  using lb_api.DeleteTargetProxies_effect[OF assms] by blast

theorem delete_proxies_exact_witness:
  "\<exists>f'. DeleteTargetProxies lb1 fake_lb old_cloud = (None, f')
     \<and> fake_view f' (KTargetHttpProxy, ''mci1-tp--lb'') = None \<and> fake_view f' (KTargetHttpsProxy, ''mci1-tps--lb'') = None"
proof -
  obtain f' where run: "DeleteTargetProxies lb1 fake_lb old_cloud = (None, f')"
    by (simp add: DeleteTargetProxies_def proxy_eval without_def deletion_error_def)
  from delete_proxies_exact[OF fake.lb_api_axioms run] run show ?thesis
    by (auto simp del: fake_view.simps)
qed

end
