(* ===== verification/KubeClient.thy ===== *)
theory KubeClient
  imports KubeTypes
begin

text \<open>
  The client of one cluster (\<^verbatim>\<open>kubernetes.Interface\<close>), reduced to the calls kubemci makes, over a world
  \<open>'w\<close>; the objects of the core API it returns; and the annotation readers of
  \<^verbatim>\<open>vendor/k8s.io/ingress-gce/pkg/annotations/ingress.go\<close> and the secret loader of
  \<^verbatim>\<open>vendor/k8s.io/ingress-gce/pkg/tls/tls.go\<close>.
\<close>

section \<open>Objects\<close>

record SvcPort =
  svp_Name :: string
  svp_Port :: int
  svp_NodePort :: int

record Service =
  svc_Annotations :: "string gomap"
  svc_Selector :: "string gomap"
  svc_Ports :: "SvcPort list"

record HTTPGetAction =
  hga_Path :: string
  hga_Port :: IntOrString
  hga_Host :: string
  hga_Scheme :: string
  hga_HTTPHeaders :: "(string \<times> string) list"

record Probe =
  pb_HTTPGet :: "HTTPGetAction option"
  pb_TimeoutSeconds :: int
  pb_PeriodSeconds :: int

record ContainerPort =
  cp_Name :: string
  cp_ContainerPort :: int

record Container =
  ct_ReadinessProbe :: "Probe option"
  ct_Ports :: "ContainerPort list"

record Pod =
  pod_Containers :: "Container list"

section \<open>The client\<close>

record 'w KubeClient =
  GetSecret :: "string \<Rightarrow> string \<Rightarrow> 'w \<Rightarrow> (go_error + string gomap) \<times> 'w"
  GetService :: "string \<Rightarrow> string \<Rightarrow> 'w \<Rightarrow> (go_error + Service) \<times> 'w"
  ListPods :: "string \<Rightarrow> string gomap \<Rightarrow> 'w \<Rightarrow> (go_error + Pod list) \<times> 'w"
  GetIngress :: "string \<Rightarrow> string \<Rightarrow> 'w \<Rightarrow> (go_error + Ingress) \<times> 'w"
  CreateIngress :: "string \<Rightarrow> Ingress \<Rightarrow> 'w \<Rightarrow> go_error option \<times> 'w"
  UpdateIngress :: "string \<Rightarrow> Ingress \<Rightarrow> 'w \<Rightarrow> go_error option \<times> 'w"
  DeleteIngress :: "string \<Rightarrow> string \<Rightarrow> 'w \<Rightarrow> go_error option \<times> 'w"
  ServerVersion :: "'w \<Rightarrow> (go_error + string) \<times> 'w"

text \<open>\<^verbatim>\<open>errors.IsNotFound\<close> of the API machinery.\<close>

fun IsNotFound :: "go_error option \<Rightarrow> bool" where
  "IsNotFound (Some (KubeStatus reason)) = (reason = ''NotFound'')"
| "IsNotFound _ = False"

section \<open>Annotations of an ingress\<close>

definition AllowHTTPKey :: string where "AllowHTTPKey = ''kubernetes.io/ingress.allow-http''"
definition StaticIPNameKey :: string where "StaticIPNameKey = ''kubernetes.io/ingress.global-static-ip-name''"
definition PreSharedCertKey :: string where "PreSharedCertKey = ''ingress.gcp.kubernetes.io/pre-shared-cert''"
definition IngressClassKey :: string where "IngressClassKey = ''kubernetes.io/ingress.class''"
definition GceMultiIngressClass :: string where "GceMultiIngressClass = ''gce-multi-cluster''"
definition InstanceGroupsAnnotationKey :: string where
  "InstanceGroupsAnnotationKey = ''ingress.gcp.kubernetes.io/instance-groups''"

definition AllowHTTP :: "Ingress \<Rightarrow> bool" where
  "AllowHTTP ing =
     (case map_of (ing_Annotations ing) AllowHTTPKey of
        None \<Rightarrow> True
      | Some v \<Rightarrow> (case ParseBool v of None \<Rightarrow> True | Some b \<Rightarrow> b))"

definition annotation :: "Ingress \<Rightarrow> string \<Rightarrow> string" where
  "annotation ing key = (case map_of (ing_Annotations ing) key of None \<Rightarrow> '''' | Some v \<Rightarrow> v)"

definition UseNamedTLS :: "Ingress \<Rightarrow> string" where "UseNamedTLS ing = annotation ing PreSharedCertKey"
definition StaticIPName :: "Ingress \<Rightarrow> string" where "StaticIPName ing = annotation ing StaticIPNameKey"
definition IngressClass :: "Ingress \<Rightarrow> string" where "IngressClass ing = annotation ing IngressClassKey"

section \<open>Certificates from secrets\<close>

record TLSCerts =
  tlsc_Key :: string
  tlsc_Cert :: string

text \<open>The result \<open>Inr None\<close> is \<^verbatim>\<open>nil, nil\<close>: the ingress has no TLS section.\<close>

definition tls_Load :: "'w KubeClient \<Rightarrow> Ingress \<Rightarrow> 'w \<Rightarrow> (go_error + TLSCerts option) \<times> 'w" where
  "tls_Load client ing w =
     (case elems (is_TLS (ing_Spec ing)) of
        [] \<Rightarrow> (Inr None, w)
      | tls # _ \<Rightarrow>
          let secretName = tls_SecretName tls
          in (case GetSecret client (ing_Namespace ing) secretName w of
                (Inl err, w1) \<Rightarrow> (Inl err, w1)
              | (Inr data, w1) \<Rightarrow>
                  (case map_of data ''tls.crt'' of
                     None \<Rightarrow> (Inl (Errorf ''secret %v has no %q'' [AStr secretName, AStr ''tls.crt'']), w1)
                   | Some cert \<Rightarrow>
                       (case map_of data ''tls.key'' of
                          None \<Rightarrow> (Inl (Errorf ''secret %v has no %q'' [AStr secretName, AStr ''tls.key'']), w1)
                        | Some key \<Rightarrow> (Inr (Some \<lparr>tlsc_Key = key, tlsc_Cert = cert\<rparr>), w1)))))"

text \<open>A client whose calls do not touch the Google Cloud project.\<close>

definition outside :: "('w \<Rightarrow> 'v) \<Rightarrow> 'w KubeClient \<Rightarrow> bool" where
  "outside view client \<longleftrightarrow>
     (\<forall>ns n w. view (snd (GetSecret client ns n w)) = view w)
   \<and> (\<forall>ns n w. view (snd (GetService client ns n w)) = view w)
   \<and> (\<forall>ns l w. view (snd (ListPods client ns l w)) = view w)
   \<and> (\<forall>ns n w. view (snd (GetIngress client ns n w)) = view w)
   \<and> (\<forall>ns ing w. view (snd (CreateIngress client ns ing w)) = view w)
   \<and> (\<forall>ns ing w. view (snd (UpdateIngress client ns ing w)) = view w)
   \<and> (\<forall>ns n w. view (snd (DeleteIngress client ns n w)) = view w)
   \<and> (\<forall>w. view (snd (ServerVersion client w)) = view w)"

lemma tls_Load_view: "outside view client \<Longrightarrow> view (snd (tls_Load client ing w)) = view w"
proof -
  assume "outside view client"
  then have "view w1 = view w" if "GetSecret client ns n w = (x, w1)" for ns n w x w1
    using that unfolding outside_def by (metis snd_conv)
  then show ?thesis
    by (auto simp: tls_Load_def Let_def split: list.splits prod.splits sum.splits option.splits)
qed

end
