(* ===== verification/SslCert.thy ===== *)
theory SslCert
  imports Namer Ensure KubeClient FakeLoadBalancers
begin

text \<open>
  \<^verbatim>\<open>app/kubemci/pkg/gcp/sslcert/sslcertsyncer.go\<close>: the SSL certificate of a load balancer, either one the
  user has created in the project and names in an annotation, or one made from a Kubernetes secret.
\<close>

section \<open>Definitions\<close>

definition ensurePreSharedSSLCert :: "'w LoadBalancers \<Rightarrow> Ingress \<Rightarrow> 'w \<Rightarrow> (go_error + string) \<times> 'w" where
  "ensurePreSharedSSLCert scp ing w =
     (let certName = UseNamedTLS ing in
      if certName = '''' then
        (Inl (Errorf ''unexpected empty value for %s annotation'' [AStr PreSharedCertKey]), w)
      else (case GetSslCertificate scp certName w of
              (Inl err, w1) \<Rightarrow> (Inl err, w1)
            | (Inr cert, w1) \<Rightarrow> (Inr (sc_SelfLink cert), w1)))"

definition desiredSSLCert ::
    "Namer \<Rightarrow> string \<Rightarrow> Ingress \<Rightarrow> 'w KubeClient \<Rightarrow> 'w \<Rightarrow> (go_error + SslCertificate) \<times> 'w" where
  "desiredSSLCert s lbName ing client w =
     (case tls_Load client ing w of
        (Inl err, w1) \<Rightarrow>
          (Inl (Errorf ''Error in fetching certs for ing %s/%s: %s'' [AStr (ing_Namespace ing), AStr (ing_Name ing), AErr err]), w1)
      | (Inr None, w1) \<Rightarrow>
          (Inl (Errorf ''could not fetch certs for ing %s/%s'' [AStr (ing_Namespace ing), AStr (ing_Name ing)]), w1)
      | (Inr (Some cert), w1) \<Rightarrow>
          (Inr (zero_SslCertificate\<lparr>sc_Name := SSLCertName s,
             sc_Description := ''SSL cert for kubernetes multicluster loadbalancer '' @ lbName,
             sc_Certificate := tlsc_Cert cert, sc_PrivateKey := tlsc_Key cert\<rparr>), w1))"

definition sslCertMatches :: "SslCertificate \<Rightarrow> SslCertificate \<Rightarrow> bool" where
  "sslCertMatches desiredCert existingCert \<longleftrightarrow> sc_Certificate existingCert = sc_Certificate desiredCert"

definition createSSLCert :: "'w LoadBalancers \<Rightarrow> SslCertificate \<Rightarrow> 'w \<Rightarrow> (go_error + string) \<times> 'w" where
  "createSSLCert scp desiredCert w =
     (case CreateSslCertificate scp desiredCert w of
        (Inl err, w1) \<Rightarrow> (Inl err, w1)
      | (Inr _, w1) \<Rightarrow>
          (case GetSslCertificate scp (sc_Name desiredCert) w1 of
             (Inl err, w2) \<Rightarrow> (Inl err, w2)
           | (Inr sc, w2) \<Rightarrow> (Inr (sc_SelfLink sc), w2)))"

definition updateSSLCert :: "'w LoadBalancers \<Rightarrow> SslCertificate \<Rightarrow> 'w \<Rightarrow> (go_error + string) \<times> 'w" where
  "updateSSLCert scp desiredCert w =
     (let name = sc_Name desiredCert in
      case DeleteSslCertificate scp name w of
        (Some err, w1) \<Rightarrow> (Inl (Errorf ''error in deleting ssl cert %s: %s'' [AStr name, AErr err]), w1)
      | (None, w1) \<Rightarrow>
          (case CreateSslCertificate scp desiredCert w1 of
             (Inl err, w2) \<Rightarrow> (Inl (Errorf ''error in creating ssl cert %s: %s'' [AStr name, AErr err]), w2)
           | (Inr _, w2) \<Rightarrow>
               (case GetSslCertificate scp name w2 of
                  (Inl err, w3) \<Rightarrow> (Inl err, w3)
                | (Inr sc, w3) \<Rightarrow> (Inr (sc_SelfLink sc), w3))))"

definition ensureSecretSSLCert ::
    "Namer \<Rightarrow> 'w LoadBalancers \<Rightarrow> string \<Rightarrow> Ingress \<Rightarrow> 'w KubeClient \<Rightarrow> bool \<Rightarrow> 'w \<Rightarrow> (go_error + string) \<times> 'w" where
  "ensureSecretSSLCert s scp lbName ing client forceUpdate w =
     (case desiredSSLCert s lbName ing client w of
        (Inl err, w1) \<Rightarrow> (Inl (Errorf ''error %s in computing desired ssl cert'' [AErr err]), w1)
      | (Inr desiredCert, w1) \<Rightarrow>
          (case GetSslCertificate scp (sc_Name desiredCert) w1 of
             (Inr existingCert, w2) \<Rightarrow>
               if sslCertMatches desiredCert existingCert then (Inr (sc_SelfLink existingCert), w2)
               else if forceUpdate then updateSSLCert scp desiredCert w2
               else (Inl (Errorf ''will not overwrite SSL cert without --force'' []), w2)
           | (Inl err, w2) \<Rightarrow> createSSLCert scp desiredCert w2))"

definition EnsureSSLCert ::
    "Namer \<Rightarrow> 'w LoadBalancers \<Rightarrow> string \<Rightarrow> Ingress \<Rightarrow> 'w KubeClient \<Rightarrow> bool \<Rightarrow> 'w \<Rightarrow> (go_error + string) \<times> 'w" where
  "EnsureSSLCert s scp lbName ing client forceUpdate w =
     (if UseNamedTLS ing \<noteq> '''' then ensurePreSharedSSLCert scp ing w
      else ensureSecretSSLCert s scp lbName ing client forceUpdate w)"

definition DeleteSSLCert :: "Namer \<Rightarrow> 'w LoadBalancers \<Rightarrow> 'w \<Rightarrow> go_error option \<times> 'w" where
  "DeleteSSLCert s scp w =
     (case DeleteSslCertificate scp (SSLCertName s) w of
        (Some err, w1) \<Rightarrow> if IsHTTPErrorCode (Some err) StatusNotFound then (None, w1) else (Some err, w1)
      | (None, w1) \<Rightarrow> (None, w1))"

section \<open>Lemmas\<close>

text \<open>The update of a certificate is a deletion, whose errors are not ignored, and a creation.\<close>

definition replace_cert :: "'w LoadBalancers \<Rightarrow> (SslCertificate, 'w) command" where
  "replace_cert scp d w =
     (case DeleteSslCertificate scp (sc_Name d) w of
        (Some err, w1) \<Rightarrow> (Some (Errorf ''error in deleting ssl cert %s: %s'' [AStr (sc_Name d), AErr err]), w1)
      | (None, w1) \<Rightarrow>
          (case CreateSslCertificate scp d w1 of
             (Inl err, w2) \<Rightarrow> (Some (Errorf ''error in creating ssl cert %s: %s'' [AStr (sc_Name d), AErr err]), w2)
           | (Inr _, w2) \<Rightarrow> (None, w2)))"

lemma ensureSecretSSLCert_pattern:
  "desiredSSLCert s lbName ing client w = (Inr d, w1) \<Longrightarrow>
   ensureSecretSSLCert s scp lbName ing client force w =
     ensure_link (GetSslCertificate scp) (create_err (CreateSslCertificate scp)) (replace_cert scp) sslCertMatches sc_SelfLink
       (Errorf ''will not overwrite SSL cert without --force'' []) (sc_Name d) d force w1"
  by (auto simp: ensureSecretSSLCert_def ensure_link_def then_link_def createSSLCert_def updateSSLCert_def
      replace_cert_def create_err_def err_of_def Let_def split: prod.splits sum.splits option.splits)

sublocale lb_api \<subseteq> sce: ensure_api view KSslCertificate RSslCertificate sc_Name sc_stored
    "GetSslCertificate P" "create_err (CreateSslCertificate P)" "DeleteSslCertificate P"
    "replace_cert P" sslCertMatches "\<lambda>d old new. sc_stored d new" sc_SelfLink
proof
  show "view w' c = view w c" if "replace_cert P d w = (eo, w')" "c \<noteq> (KSslCertificate, sc_Name d)" for d w eo w' c
  proof -
    obtain e1 w1 where d1: "DeleteSslCertificate P (sc_Name d) w = (e1, w1)" by fastforce
    obtain e2 w2 where d2: "create_err (CreateSslCertificate P) d w1 = (e2, w2)" by fastforce
    have "w' = w1 \<or> w' = w2"
      using that(1) d1 d2 by (auto simp: replace_cert_def create_err_def split: option.splits prod.splits sum.splits)
    with sc.delete_frame[OF d1 that(2)] sc.create_frame[OF d2 that(2)] show ?thesis by auto
  qed
  show "\<exists>new. sc_stored d new \<and> view w' = (view w)((KSslCertificate, sc_Name d) \<mapsto> RSslCertificate new)"
    if ok: "replace_cert P d w = (None, w')" for d w w'
  proof -
    obtain w1 where d1: "DeleteSslCertificate P (sc_Name d) w = (None, w1)"
      and d2: "create_err (CreateSslCertificate P) d w1 = (None, w')"
      using ok by (auto simp: replace_cert_def create_err_def err_of_def split: option.splits prod.splits sum.splits)
    from sc.delete_ok[OF d1] sc.create_absent[OF d2] show ?thesis by auto
  qed
qed

lemma desiredSSLCert_ok:
  assumes "desiredSSLCert s lbName ing client w = (Inr d, w1)"
  shows "sc_Name d = SSLCertName s"
    and "\<exists>cert. tls_Load client ing w = (Inr (Some cert), w1) \<and> sc_Certificate d = tlsc_Cert cert \<and> sc_PrivateKey d = tlsc_Key cert"
  using assms by (auto simp: desiredSSLCert_def zero_SslCertificate_def split: prod.splits sum.splits option.splits)

lemma desiredSSLCert_view:
  assumes "outside view client" "desiredSSLCert s lbName ing client w = (x, w1)"
  shows "view w1 = view w"
  using tls_Load_view[OF assms(1), of ing w] assms(2)
  by (auto simp: desiredSSLCert_def split: prod.splits sum.splits option.splits)

context lb_api
begin

lemma PreShared_view:
  assumes "ensurePreSharedSSLCert P ing w = (x, w')"
  shows "view w' = view w"
    and "x = Inr l \<Longrightarrow> \<exists>c. view w (KSslCertificate, UseNamedTLS ing) = Some (RSslCertificate c) \<and> l = sc_SelfLink c"
proof -
  show "view w' = view w"
    using assms by (auto simp: ensurePreSharedSSLCert_def Let_def dest: sc.get_view split: if_splits prod.splits sum.splits)
  show "\<exists>c. view w (KSslCertificate, UseNamedTLS ing) = Some (RSslCertificate c) \<and> l = sc_SelfLink c" if "x = Inr l"
    using assms that
    by (auto simp: ensurePreSharedSSLCert_def Let_def dest!: sc.get_ok split: if_splits prod.splits sum.splits)
qed

lemma ensureSecret_keeps:
  assumes "outside view client" "ensureSecretSSLCert s P lbName ing client False w = (x, w')" "view w c = Some y"
  shows "view w' c = Some y"
proof -
  obtain z w1 where d: "desiredSSLCert s lbName ing client w = (z, w1)" by fastforce
  note w1 = desiredSSLCert_view[OF assms(1) d]
  show ?thesis
  proof (cases z)
    case (Inl e)
    with assms(2,3) d w1 show ?thesis by (auto simp: ensureSecretSSLCert_def)
  next
    case (Inr d')
    with sce.ensure_link_keeps[of _ d' w1 x w' c y] ensureSecretSSLCert_pattern[OF d[unfolded Inr], of P False] assms(2,3) w1
      sc.create_present
    show ?thesis by auto
  qed
qed

lemma ensureSecret_ok:
  assumes "outside view client" "ensureSecretSSLCert s P lbName ing client force w = (Inr l, w')"
    and "tls_Load client ing w = (y, w1)" "found_or_404 (GetSslCertificate P) (SSLCertName s) w1"
  shows "\<exists>cert r. y = Inr (Some cert)
    \<and> view w' = (view w)((KSslCertificate, SSLCertName s) \<mapsto> RSslCertificate r) \<and> l = sc_SelfLink r
    \<and> sc_Certificate r = tlsc_Cert cert"
proof -
  obtain d where d: "desiredSSLCert s lbName ing client w = (Inr d, w1)"
    using assms(2,3) by (auto simp: ensureSecretSSLCert_def desiredSSLCert_def split: prod.splits sum.splits option.splits)
  from desiredSSLCert_ok(2)[OF d] assms(3) obtain cert where
    cert: "y = Inr (Some cert)" "sc_Certificate d = tlsc_Cert cert" by auto
  note run = assms(2)[unfolded ensureSecretSSLCert_pattern[OF d]]
  obtain r where r: "view w' = (view w1)((KSslCertificate, sc_Name d) \<mapsto> RSslCertificate r)" "l = sc_SelfLink r"
    "sslCertMatches d r \<or> sc_stored d r"
    by (rule sce.ensure_link_ok[OF run]) (use assms(4) desiredSSLCert_ok(1)[OF d] in auto)
  then have "sc_Certificate r = sc_Certificate d" by (auto simp: sslCertMatches_def sc_stored_def)
  with r cert desiredSSLCert_ok(1)[OF d] desiredSSLCert_view[OF assms(1) d] show ?thesis by auto
qed

lemma DeleteSSLCert_effect:
  assumes "DeleteSSLCert s P w = (e, w')"
  shows "e = None \<Longrightarrow> view w' = (view w)((KSslCertificate, SSLCertName s) := None)"
    and "c \<noteq> (KSslCertificate, SSLCertName s) \<Longrightarrow> view w' c = view w c"
proof -
  obtain e1 where del: "DeleteSslCertificate P (SSLCertName s) w = (e1, w')" "e = IgnoreHTTPNotFound e1"
    using assms by (auto simp: DeleteSSLCert_def IgnoreHTTPNotFound_def split: prod.splits option.splits if_splits)
  show "e = None \<Longrightarrow> view w' = (view w)((KSslCertificate, SSLCertName s) := None)"
    using sc.delete_ignoring_not_found[OF del(1)] del(2) by simp
  show "c \<noteq> (KSslCertificate, SSLCertName s) \<Longrightarrow> view w' c = view w c" using sc.delete_frame[OF del(1)] by simp
qed

end

section \<open>Properties\<close>

text \<open>
  With a pre-shared certificate, \<^verbatim>\<open>EnsureSSLCert\<close> never writes: the project is unchanged whatever happens,
  and the link it returns is that of the certificate the annotation names.
\<close>

theorem pre_shared_cert_is_read_only:
  assumes "lb_api view P" "UseNamedTLS ing \<noteq> ''''" "EnsureSSLCert s P lbName ing client force w = (x, w')"
  shows "view w' = view w \<and>
    (\<forall>link. x = Inr link \<longrightarrow> (\<exists>c. view w (KSslCertificate, UseNamedTLS ing) = Some (RSslCertificate c) \<and> link = sc_SelfLink c))"
  using lb_api.PreShared_view[OF assms(1), of ing w x w'] assms(2,3) by (simp add: EnsureSSLCert_def)

text \<open>An ingress with a certificate in a secret or in an annotation, and a client, for the examples.\<close>

definition tls_ingress :: "string gomap \<Rightarrow> Ingress" where
  "tls_ingress anns = \<lparr>ing_ObjectMeta = \<lparr>om_Name = ''i'', om_Namespace = ''ns'', om_Labels = [], om_Annotations = anns\<rparr>,
     ing_Spec = \<lparr>is_Backend = None, is_TLS = Slice [\<lparr>tls_Hosts = NilSlice, tls_SecretName = ''s''\<rparr>], is_Rules = NilSlice\<rparr>\<rparr>"

definition secret_client :: "'w KubeClient" where
  "secret_client = \<lparr>GetSecret = (\<lambda>ns n w. (Inr [(''tls.crt'', ''CERT''), (''tls.key'', ''KEY'')], w)),
     GetService = (\<lambda>ns n w. (Inl (KubeStatus ''NotFound''), w)), ListPods = (\<lambda>ns l w. (Inr [], w)),
     GetIngress = (\<lambda>ns n w. (Inl (KubeStatus ''NotFound''), w)), CreateIngress = (\<lambda>ns i w. (None, w)),
     UpdateIngress = (\<lambda>ns i w. (None, w)), DeleteIngress = (\<lambda>ns n w. (None, w)), ServerVersion = (\<lambda>w. (Inr ''v1.9.3'', w))\<rparr>"

lemma secret_client_outside: "outside view secret_client"
  by (simp add: outside_def secret_client_def)

theorem pre_shared_cert_is_read_only_witness:
  "\<exists>link f'. EnsureSSLCert lb1 fake_lb ''lb'' (tls_ingress [(PreSharedCertKey, ''c'')]) secret_client True
       (NewFakeLoadBalancers\<lparr>f_Certs := Slice [zero_SslCertificate\<lparr>sc_Name := ''c'', sc_SelfLink := ''link''\<rparr>]\<rparr>) = (Inr link, f')
     \<and> fake_view f' = fake_view (NewFakeLoadBalancers\<lparr>f_Certs := Slice [zero_SslCertificate\<lparr>sc_Name := ''c'', sc_SelfLink := ''link''\<rparr>]\<rparr>)"
proof -
  let ?f = "NewFakeLoadBalancers\<lparr>f_Certs := Slice [zero_SslCertificate\<lparr>sc_Name := ''c'', sc_SelfLink := ''link''\<rparr>]\<rparr>"
  have named: "UseNamedTLS (tls_ingress [(PreSharedCertKey, ''c'')]) = ''c''"
    by (simp add: UseNamedTLS_def annotation_def ing_Annotations_def tls_ingress_def)
  then obtain link f' where run: "EnsureSSLCert lb1 fake_lb ''lb'' (tls_ingress [(PreSharedCertKey, ''c'')]) secret_client True ?f = (Inr link, f')"
    by (simp add: EnsureSSLCert_def ensurePreSharedSSLCert_def fake_ops first_named_def zero_SslCertificate_def)
  from pre_shared_cert_is_read_only[OF fake.lb_api_axioms _ run] run named show ?thesis by simp
qed

text \<open>
  With a secret, a successful \<^verbatim>\<open>EnsureSSLCert\<close> leaves a certificate of the load balancer in the project whose
  text is the \<^verbatim>\<open>tls.crt\<close> of the secret, returns its link, and changes nothing else; without \<^verbatim>\<open>--force\<close> no existing
  object is changed or removed, whatever it returns.
\<close>

theorem secret_cert_ensured:
  assumes "lb_api view P" "outside view client" "UseNamedTLS ing = ''''"
    and "EnsureSSLCert s P lbName ing client force w = (x, w')"
    and "tls_Load client ing w = (y, w1)" "found_or_404 (GetSslCertificate P) (SSLCertName s) w1"
  shows "(\<forall>link. x = Inr link \<longrightarrow> (\<exists>cert r. y = Inr (Some cert)
      \<and> view w' = (view w)((KSslCertificate, SSLCertName s) \<mapsto> RSslCertificate r) \<and> link = sc_SelfLink r
      \<and> sc_Certificate r = tlsc_Cert cert))
    \<and> (\<not> force \<longrightarrow> (\<forall>c z. view w c = Some z \<longrightarrow> view w' c = Some z))"
proof -
  have run: "ensureSecretSSLCert s P lbName ing client force w = (x, w')"
    using assms(3,4) by (simp add: EnsureSSLCert_def)
  have "view w' c = Some z" if "\<not> force" "view w c = Some z" for c z
    using lb_api.ensureSecret_keeps[OF assms(1,2) _ that(2)] run that(1) by simp
  then show ?thesis using lb_api.ensureSecret_ok[OF assms(1,2) _ assms(5,6)] run by blast
qed

theorem secret_cert_ensured_witness:
  "\<exists>link f' r. EnsureSSLCert lb1 fake_lb ''lb'' (tls_ingress []) secret_client False NewFakeLoadBalancers = (Inr link, f')
     \<and> fake_view f' (KSslCertificate, ''mci1-ssl--lb'') = Some (RSslCertificate r) \<and> sc_Certificate r = ''CERT''"
proof -
  have unnamed: "UseNamedTLS (tls_ingress []) = ''''"
    by (simp add: UseNamedTLS_def annotation_def ing_Annotations_def tls_ingress_def)
  have load: "tls_Load secret_client (tls_ingress []) w = (Inr (Some \<lparr>tlsc_Key = ''KEY'', tlsc_Cert = ''CERT''\<rparr>), w)" for w
    by (simp add: tls_Load_def tls_ingress_def secret_client_def)
  obtain link f' where run: "EnsureSSLCert lb1 fake_lb ''lb'' (tls_ingress []) secret_client False NewFakeLoadBalancers = (Inr link, f')"
    by (simp add: EnsureSSLCert_def unnamed ensureSecretSSLCert_def desiredSSLCert_def load fake_ops first_named_def
        createSSLCert_def zero_SslCertificate_def NewFakeLoadBalancers_def Let_def)
  have "found_or_404 (GetSslCertificate fake_lb) (SSLCertName lb1) NewFakeLoadBalancers"
    by (simp add: found_or_404_def fake_ops first_named_def NewFakeLoadBalancers_def FakeGoogleAPINotFoundErr_def)
  from secret_cert_ensured[OF fake.lb_api_axioms secret_client_outside unnamed run load this] run show ?thesis
    by (auto simp del: fake_view.simps)
qed

end
