(* ===== verification/KubeUtils.thy ===== *)
theory KubeUtils
  imports KubeClient Json
begin

text \<open>
  \<^verbatim>\<open>app/kubemci/pkg/kubeutils/utils.go\<close>: node ports and readiness probes of services, equivalence of
  objects in different clusters, contexts and clients; with \<^verbatim>\<open>ApplicationProtocols\<close> of
  \<^verbatim>\<open>vendor/k8s.io/ingress-gce/pkg/annotations/service.go\<close>.  Running \<^verbatim>\<open>kubectl\<close> and building a client are
  parameters.
\<close>

section \<open>Application protocols of a service\<close>

definition ServiceApplicationProtocolKey :: string where
  "ServiceApplicationProtocolKey = ''service.alpha.kubernetes.io/app-protocols''"

text \<open>
  Decoding into a map of strings: a value that is not a string leaves the empty string and an error
  that is reported after the values have been checked.
\<close>

definition proto_of :: "json \<Rightarrow> string" where
  "proto_of v = (case v of JStr s \<Rightarrow> s | _ \<Rightarrow> '''')"

definition is_string_or_null :: "json \<Rightarrow> bool" where
  "is_string_or_null v = (case v of JStr s \<Rightarrow> True | JNull \<Rightarrow> True | _ \<Rightarrow> False)"

definition unmarshal_protos :: "string \<Rightarrow> string gomap \<times> go_error option" where
  "unmarshal_protos val =
     (case json_parse val of
        None \<Rightarrow> ([], Some (LibError ''json: invalid syntax''))
      | Some JNull \<Rightarrow> ([], None)
      | Some (JObj ms) \<Rightarrow>
          (fold (\<lambda>(k, v) m. AList.update k (proto_of v) m) ms [],
           if \<forall>kv \<in> set ms. is_string_or_null (snd kv) then None else Some (LibError ''json: cannot unmarshal''))
      | Some _ \<Rightarrow> ([], Some (LibError ''json: cannot unmarshal'')))"

definition ProtocolHTTP :: string where "ProtocolHTTP = ''HTTP''"
definition ProtocolHTTPS :: string where "ProtocolHTTPS = ''HTTPS''"
definition ProtocolHTTP2 :: string where "ProtocolHTTP2 = ''HTTP2''"

text \<open>The feature flag for HTTP2 is on and nothing in kubemci turns it off.\<close>

definition ApplicationProtocols :: "range_order \<Rightarrow> Service \<Rightarrow> go_error + string gomap" where
  "ApplicationProtocols ord svc =
     (case map_of (svc_Annotations svc) ServiceApplicationProtocolKey of
        None \<Rightarrow> Inr []
      | Some val \<Rightarrow>
          (case unmarshal_protos val of
             (portToProtos, err) \<Rightarrow>
               (case find (\<lambda>kv. snd kv \<notin> {ProtocolHTTP, ProtocolHTTPS, ProtocolHTTP2}) (range_entries ord ''protocols'' portToProtos) of
                  Some kv \<Rightarrow> Inl (Errorf ''invalid port application protocol: %v'' [AStr (snd kv)])
                | None \<Rightarrow> (case err of Some e \<Rightarrow> Inl e | None \<Rightarrow> Inr portToProtos))))"

section \<open>Node ports\<close>

definition empty_Service :: Service where
  "empty_Service = \<lparr>svc_Annotations = [], svc_Selector = [], svc_Ports = []\<rparr>"

text \<open>
  The error of the lookup is overwritten before it is looked at; the typed client returns an empty
  service with it, in which no port is found.
\<close>

definition svc_of :: "go_error + Service \<Rightarrow> Service" where
  "svc_of r = (case r of Inr svc \<Rightarrow> svc | Inl err \<Rightarrow> empty_Service)"

definition port_matches :: "IntOrString \<Rightarrow> SvcPort \<Rightarrow> bool" where
  "port_matches sp p \<longleftrightarrow>
     (if ios_Type sp = IntType then svp_Port p = ios_IntVal sp else svp_Name p = ios_StrVal sp)"

definition GetServiceNodePort ::
    "range_order \<Rightarrow> IngressBackend \<Rightarrow> string \<Rightarrow> 'w KubeClient \<Rightarrow> 'w \<Rightarrow> (go_error + ServicePort) \<times> 'w" where
  "GetServiceNodePort ord be namespace client w =
     (case GetService client namespace (ib_ServiceName be) w of
        (r, w1) \<Rightarrow>
          let svc = svc_of r
          in ((case ApplicationProtocols ord svc of
                 Inl err \<Rightarrow> Inl err
               | Inr appProtocols \<Rightarrow>
                   (case find (port_matches (ib_ServicePort be)) (svc_Ports svc) of
                      None \<Rightarrow> Inl (Errorf ''could not find matching nodeport for backend %+v and service %s/%s. Looking for port %+v in %v''
                                [AStr namespace, AStr (ib_ServiceName be)])
                    | Some port \<Rightarrow>
                        let proto = (case map_of appProtocols (svp_Name port) of Some p \<Rightarrow> p | None \<Rightarrow> ProtocolHTTP)
                        in Inr (zero_ServicePort\<lparr>sp_NodePort := svp_NodePort port, sp_Protocol := proto,
                             sp_Namespace := namespace, sp_Name := ib_ServiceName be, sp_SvcPort := ib_ServicePort be\<rparr>))), w1))"

section \<open>Readiness probes\<close>

definition isSimpleHTTPProbe :: "Probe option \<Rightarrow> bool" where
  "isSimpleHTTPProbe probe =
     (case probe of
        None \<Rightarrow> False
      | Some p \<Rightarrow>
          (case pb_HTTPGet p of
             None \<Rightarrow> False
           | Some g \<Rightarrow> hga_Host g = '''' \<and>
               (hga_HTTPHeaders g = [] \<or>
                length (hga_HTTPHeaders g) = 1 \<and> fst (hd (hga_HTTPHeaders g)) = ''Host'')))"

definition probe_port_matches :: "ServicePort \<Rightarrow> HTTPGetAction \<Rightarrow> ContainerPort \<Rightarrow> bool" where
  "probe_port_matches port g p \<longleftrightarrow>
     (ios_Type (sp_SvcPort port) = IntType \<and> ios_IntVal (sp_SvcPort port) = cp_ContainerPort p
      \<or> ios_Type (sp_SvcPort port) = StringType \<and> ios_StrVal (sp_SvcPort port) = cp_Name p)
     \<and> (ios_Type (hga_Port g) = IntType \<and> ios_IntVal (hga_Port g) = cp_ContainerPort p
        \<or> ios_Type (hga_Port g) = StringType \<and> ios_StrVal (hga_Port g) = cp_Name p)"

definition container_probe :: "ServicePort \<Rightarrow> Container \<Rightarrow> Probe option" where
  "container_probe port c =
     (if \<not> isSimpleHTTPProbe (ct_ReadinessProbe c) then None
      else (case ct_ReadinessProbe c of
         Some probe \<Rightarrow>
           (case pb_HTTPGet probe of
              Some g \<Rightarrow>
                if sp_Protocol port \<noteq> hga_Scheme g then None
                else if \<exists>p \<in> set (ct_Ports c). probe_port_matches port g p then Some probe else None
            | None \<Rightarrow> None)
       | None \<Rightarrow> None))"

text \<open>The first container of the first pod with a probe for the port; \<open>Inr None\<close> is \<^verbatim>\<open>nil, nil\<close>.\<close>

fun first_probe :: "ServicePort \<Rightarrow> Container list \<Rightarrow> Probe option" where
  "first_probe port [] = None"
| "first_probe port (c # cs) =
     (case container_probe port c of Some probe \<Rightarrow> Some probe | None \<Rightarrow> first_probe port cs)"

definition GetProbe :: "'w KubeClient \<Rightarrow> ServicePort \<Rightarrow> 'w \<Rightarrow> (go_error + Probe option) \<times> 'w" where
  "GetProbe client port w =
     (case GetService client (sp_Namespace port) (sp_Name port) w of
        (Inl err, w1) \<Rightarrow> (Inl err, w1)
      | (Inr svc, w1) \<Rightarrow>
          (case ListPods client (sp_Namespace port) (svc_Selector svc) w1 of
             (Inl err, w2) \<Rightarrow> (Inl err, w2)
           | (Inr pods, w2) \<Rightarrow> (Inr (first_probe port (concat (map pod_Containers pods))), w2)))"

section \<open>Equivalence of objects\<close>

definition ignoreAnnotations :: "string gomap \<Rightarrow> string gomap \<Rightarrow> string gomap" where
  "ignoreAnnotations anns ign = filter (\<lambda>(k, v). map_of ign k = None) anns"

text \<open>\<^verbatim>\<open>reflect.DeepEqual\<close> on maps, up to nil and empty, which the callers do not tell apart.\<close>

definition gomap_eq :: "'v gomap \<Rightarrow> 'v gomap \<Rightarrow> bool" where
  "gomap_eq a b \<longleftrightarrow> (\<forall>k \<in> set (map fst a @ map fst b). map_of a k = map_of b k)"

definition ObjectMetaEquivalent :: "ObjectMeta \<Rightarrow> ObjectMeta \<Rightarrow> string gomap \<Rightarrow> bool" where
  "ObjectMetaEquivalent a b ignoreAnnotationKeys =
     (if om_Name a \<noteq> om_Name b then False
      else if om_Namespace a \<noteq> om_Namespace b then False
      else if \<not> gomap_eq (om_Labels a) (om_Labels b) \<and> (om_Labels a \<noteq> [] \<or> om_Labels b \<noteq> []) then False
      else let aAnnotations = ignoreAnnotations (om_Annotations a) ignoreAnnotationKeys;
               bAnnotations = ignoreAnnotations (om_Annotations b) ignoreAnnotationKeys
           in if \<not> gomap_eq aAnnotations bAnnotations \<and> (aAnnotations \<noteq> [] \<or> bAnnotations \<noteq> []) then False
              else True)"

definition ObjectMetaAndSpecEquivalent :: "Ingress \<Rightarrow> Ingress \<Rightarrow> string gomap \<Rightarrow> bool" where
  "ObjectMetaAndSpecEquivalent a b ignoreAnnotationKeys \<longleftrightarrow>
     ObjectMetaEquivalent (ing_ObjectMeta a) (ing_ObjectMeta b) ignoreAnnotationKeys \<and> ing_Spec a = ing_Spec b"

section \<open>Contexts and clients\<close>

fun split_lines :: "string \<Rightarrow> string \<Rightarrow> string list" where
  "split_lines acc [] = [rev acc]"
| "split_lines acc (c # s) = (if c = CHR 0x0A then rev acc # split_lines [] s else split_lines (c # acc) s)"

definition GetClusterContexts ::
    "(string list \<Rightarrow> 'w \<Rightarrow> (go_error + string) \<times> 'w) \<Rightarrow> string \<Rightarrow> string list \<Rightarrow> 'w \<Rightarrow> (go_error + string list) \<times> 'w" where
  "GetClusterContexts ExecuteCommand kubeconfig kubeContexts w =
     (let kubectlArgs = [''kubectl''] @ (if kubeconfig \<noteq> '''' then [''--kubeconfig='' @ kubeconfig] else []);
          contextArgs = kubectlArgs @ [''config'', ''get-contexts'', ''-o=name''] @ kubeContexts
      in case ExecuteCommand contextArgs w of
           (Inl err, w1) \<Rightarrow> (Inl (Errorf ''error in getting contexts from kubeconfig: %s'' [AErr err]), w1)
         | (Inr output, w1) \<Rightarrow> (Inr (split_lines [] output), w1))"

fun getClientsForContexts ::
    "(string \<Rightarrow> string \<Rightarrow> go_error + 'c) \<Rightarrow> string \<Rightarrow> string list \<Rightarrow> 'c gomap \<Rightarrow> go_error option \<Rightarrow> 'c gomap \<times> go_error option" where
  "getClientsForContexts getClientset kubeconfig [] clients err = (clients, err)"
| "getClientsForContexts getClientset kubeconfig (c # cs) clients err =
     (case getClientset kubeconfig c of
        Inl clientErr \<Rightarrow> getClientsForContexts getClientset kubeconfig cs clients
          (multierror_Append err [Errorf ''Error getting kubectl client interface for context %s: %s'' [AStr c, AErr clientErr]])
      | Inr client \<Rightarrow> getClientsForContexts getClientset kubeconfig cs (AList.update c client clients) err)"

definition GetClients ::
    "(string list \<Rightarrow> 'w \<Rightarrow> (go_error + string) \<times> 'w) \<Rightarrow> (string \<Rightarrow> string \<Rightarrow> go_error + 'c) \<Rightarrow>
     string \<Rightarrow> string list \<Rightarrow> 'w \<Rightarrow> ('c gomap \<times> go_error option) \<times> 'w" where
  "GetClients ExecuteCommand getClientset kubeconfig kubeContexts w =
     (case GetClusterContexts ExecuteCommand kubeconfig kubeContexts w of
        (Inl err, w1) \<Rightarrow> (([], Some err), w1)
      | (Inr contexts, w1) \<Rightarrow> (getClientsForContexts getClientset kubeconfig contexts [] None, w1))"

section \<open>Lemmas\<close>

lemma GetServiceNodePort_view: "outside view client \<Longrightarrow> view (snd (GetServiceNodePort ord be ns client w)) = view w"
  unfolding GetServiceNodePort_def outside_def by (auto simp: Let_def split: prod.splits) (metis snd_conv)

lemma GetProbe_view: "outside view client \<Longrightarrow> GetProbe client port w = (x, w') \<Longrightarrow> view w' = view w"
  unfolding GetProbe_def outside_def by (auto split: prod.splits sum.splits) (metis snd_conv)+

text \<open>A probe that is found is a simple HTTP probe with the scheme of the port.\<close>

lemma first_probe_simple:
  "first_probe port cs = Some p \<Longrightarrow> isSimpleHTTPProbe (Some p) \<and> (\<exists>g. pb_HTTPGet p = Some g \<and> hga_Scheme g = sp_Protocol port)"
  by (induction cs) (auto simp: container_probe_def split: if_splits option.splits)

lemma GetServiceNodePort_ok:
  assumes "GetServiceNodePort ord be ns client w = (Inr sp, w')"
  shows "\<exists>svc p. GetService client ns (ib_ServiceName be) w = (Inr svc, w') \<and> p \<in> set (svc_Ports svc)
    \<and> port_matches (ib_ServicePort be) p \<and> sp_NodePort sp = svp_NodePort p \<and> sp_Name sp = ib_ServiceName be
    \<and> sp_Namespace sp = ns \<and> sp_SvcPort sp = ib_ServicePort be"
  using assms
  by (auto simp: GetServiceNodePort_def svc_of_def empty_Service_def zero_ServicePort_def Let_def
      split: prod.splits sum.splits option.splits dest!: find_SomeD)

text \<open>
  A client for the examples: every service has the port 80 at node port 30301, and every pod one container listening
  on port 80 with a readiness probe for the given path.
\<close>

definition web_service :: Service where
  "web_service = \<lparr>svc_Annotations = [], svc_Selector = [(''app'', ''web'')],
     svc_Ports = [\<lparr>svp_Name = ''http'', svp_Port = 80, svp_NodePort = 30301\<rparr>]\<rparr>"

definition web_pod :: "string \<Rightarrow> Pod" where
  "web_pod path = \<lparr>pod_Containers = [\<lparr>ct_ReadinessProbe = Some \<lparr>pb_HTTPGet = Some \<lparr>hga_Path = path, hga_Port = FromInt 80,
     hga_Host = '''', hga_Scheme = ''HTTP'', hga_HTTPHeaders = []\<rparr>, pb_TimeoutSeconds = 1, pb_PeriodSeconds = 10\<rparr>,
     ct_Ports = [\<lparr>cp_Name = ''http'', cp_ContainerPort = 80\<rparr>]\<rparr>]\<rparr>"

definition web_client :: "string \<Rightarrow> 'w KubeClient" where
  "web_client path = \<lparr>GetSecret = (\<lambda>ns n w. (Inl (KubeStatus ''NotFound''), w)),
     GetService = (\<lambda>ns n w. (Inr web_service, w)), ListPods = (\<lambda>ns l w. (Inr [web_pod path], w)),
     GetIngress = (\<lambda>ns n w. (Inl (KubeStatus ''NotFound''), w)), CreateIngress = (\<lambda>ns i w. (None, w)),
     UpdateIngress = (\<lambda>ns i w. (None, w)), DeleteIngress = (\<lambda>ns n w. (None, w)), ServerVersion = (\<lambda>w. (Inr ''v1.9.3'', w))\<rparr>"

definition web_port :: ServicePort where
  "web_port = zero_ServicePort\<lparr>sp_Namespace := ''ns'', sp_Name := ''web'', sp_SvcPort := FromInt 80, sp_NodePort := 30301,
     sp_Protocol := ''HTTP''\<rparr>"

lemma web_client_outside: "outside view (web_client path)"
  by (simp add: outside_def web_client_def)

lemma web_port_fields [simp]:
  "sp_Namespace web_port = ''ns''" "sp_Name web_port = ''web''" "sp_SvcPort web_port = FromInt 80"
  "sp_NodePort web_port = 30301" "sp_Protocol web_port = ''HTTP''"
  by (simp_all add: web_port_def)

lemma web_client_probe:
  "\<exists>p g. GetProbe (web_client path) web_port w = (Inr (Some p), w) \<and> pb_HTTPGet p = Some g \<and> hga_Path g = path"
  by (simp add: GetProbe_def web_client_def web_pod_def container_probe_def isSimpleHTTPProbe_def
      probe_port_matches_def FromInt_def)

lemma web_client_node_port: "GetServiceNodePort ord \<lparr>ib_ServiceName = ''web'', ib_ServicePort = FromInt 80\<rparr> ''ns'' (web_client path) w = (Inr web_port, w)"
  by (simp add: GetServiceNodePort_def web_client_def web_service_def svc_of_def ApplicationProtocols_def port_matches_def
      FromInt_def web_port_def ProtocolHTTP_def)

definition web_ingress :: Ingress where
  "web_ingress = \<lparr>ing_ObjectMeta = \<lparr>om_Name = ''i'', om_Namespace = ''ns'', om_Labels = [], om_Annotations = []\<rparr>,
     ing_Spec = \<lparr>is_Backend = Some \<lparr>ib_ServiceName = ''web'', ib_ServicePort = FromInt 80\<rparr>, is_TLS = NilSlice, is_Rules = NilSlice\<rparr>\<rparr>"

end
