(* ===== verification/FakeProviders.thy ===== *)
theory FakeProviders
  imports FakeLoadBalancers
begin

text \<open>
  The in-memory health check, backend service and firewall providers of ingress-gce
  (\<^verbatim>\<open>healthchecks/fakes.go\<close>, \<^verbatim>\<open>backends/fakes.go\<close>, \<^verbatim>\<open>firewalls/fakes.go\<close>), which meet the laws of
  theory \<open>Providers\<close>.  The error hook of the backend service fake is not set.  The fake for
  health checks replaces an existing object on insertion.
\<close>

section \<open>Definitions\<close>

text \<open>Objects pass through their JSON encoding and back.\<close>

definition fake_GetHealthCheck :: "(HealthCheck, FakeCloud) getter" where
  "fake_GetHealthCheck name f =
     ((case map_of (f_generic f) name of
         Some hc \<Rightarrow> Inr (hc_transmitted hc)
       | None \<Rightarrow> Inl FakeGoogleAPINotFoundErr), f)"

definition fake_CreateHealthCheck :: "(HealthCheck, FakeCloud) command" where
  "fake_CreateHealthCheck hc f =
     (None, f\<lparr>f_generic := AList.update (hc_Name hc) (hc_transmitted hc) (f_generic f)\<rparr>)"

definition fake_DeleteHealthCheck :: "(string, FakeCloud) command" where
  "fake_DeleteHealthCheck name f =
     (if map_of (f_generic f) name = None then (Some FakeGoogleAPINotFoundErr, f)
      else (None, f\<lparr>f_generic := AList.delete name (f_generic f)\<rparr>))"

definition fake_UpdateHealthCheck :: "(HealthCheck, FakeCloud) command" where
  "fake_UpdateHealthCheck hc f =
     (if map_of (f_generic f) (hc_Name hc) = None then (Some FakeGoogleAPINotFoundErr, f)
      else (None, f\<lparr>f_generic := AList.update (hc_Name hc) (hc_transmitted hc) (f_generic f)\<rparr>))"

text \<open>The stored object itself loses the protocol \<^verbatim>\<open>HTTP2\<close> when it is read.\<close>

definition fake_GetGlobalBackendService :: "(BackendService, FakeCloud) getter" where
  "fake_GetGlobalBackendService name f =
     (case map_of (f_backendServices f) name of
        None \<Rightarrow> (Inl FakeGoogleAPINotFoundErr, f)
      | Some svc \<Rightarrow>
          if name = be_Name svc then
            (Inr (be_returned svc), f\<lparr>f_backendServices := AList.update name (be_returned svc) (f_backendServices f)\<rparr>)
          else (Inl FakeGoogleAPINotFoundErr, f))"

definition fake_CreateGlobalBackendService :: "(BackendService, FakeCloud) command" where
  "fake_CreateGlobalBackendService be f =
     (None, f\<lparr>f_backendServices := AList.update (be_Name be) (be\<lparr>be_SelfLink := be_Name be\<rparr>) (f_backendServices f)\<rparr>)"

definition fake_DeleteGlobalBackendService :: "(string, FakeCloud) command" where
  "fake_DeleteGlobalBackendService name f =
     (if map_of (f_backendServices f) name = None then (Some FakeGoogleAPINotFoundErr, f)
      else (None, f\<lparr>f_backendServices := AList.delete name (f_backendServices f)\<rparr>))"

definition fake_UpdateGlobalBackendService :: "(BackendService, FakeCloud) command" where
  "fake_UpdateGlobalBackendService be f =
     (None, f\<lparr>f_backendServices := AList.update (be_Name be) be (f_backendServices f)\<rparr>)"

definition fake_GetFirewall :: "(Firewall, FakeCloud) getter" where
  "fake_GetFirewall name f =
     ((case map_of (f_firewalls f) name of
         Some rule \<Rightarrow> Inr rule
       | None \<Rightarrow> Inl FakeGoogleAPINotFoundErr), f)"

definition doCreateFirewall :: "(Firewall, FakeCloud) command" where
  "doCreateFirewall fw f =
     (if map_of (f_firewalls f) (fw_Name fw) \<noteq> None then
        (Some (Errorf ''firewall rule %v already exists'' [AStr (fw_Name fw)]), f)
      else (None, f\<lparr>f_firewalls := AList.update (fw_Name fw) (fw_transmitted fw) (f_firewalls f)\<rparr>))"

definition fake_CreateFirewall :: "(Firewall, FakeCloud) command" where
  "fake_CreateFirewall fw f = (if f_fwReadOnly f then (Some FakeGoogleAPIForbiddenErr, f) else doCreateFirewall fw f)"

definition doDeleteFirewall :: "(string, FakeCloud) command" where
  "doDeleteFirewall name f =
     (if map_of (f_firewalls f) name = None then (Some FakeGoogleAPINotFoundErr, f)
      else (None, f\<lparr>f_firewalls := AList.delete name (f_firewalls f)\<rparr>))"

definition fake_DeleteFirewall :: "(string, FakeCloud) command" where
  "fake_DeleteFirewall name f = (if f_fwReadOnly f then (Some FakeGoogleAPIForbiddenErr, f) else doDeleteFirewall name f)"

definition doUpdateFirewall :: "(Firewall, FakeCloud) command" where
  "doUpdateFirewall fw f =
     (if map_of (f_firewalls f) (fw_Name fw) = None then
        (Some (Errorf ''update failed for rule %v, srcRange %v ports %+v, rule not found'' [AStr (fw_Name fw)]), f)
      else (None, f\<lparr>f_firewalls := AList.update (fw_Name fw) (fw_transmitted fw) (f_firewalls f)\<rparr>))"

definition fake_UpdateFirewall :: "(Firewall, FakeCloud) command" where
  "fake_UpdateFirewall fw f = (if f_fwReadOnly f then (Some FakeGoogleAPIForbiddenErr, f) else doUpdateFirewall fw f)"

definition fake_hc :: "FakeCloud HealthCheckProvider" where
  "fake_hc = \<lparr>GetHealthCheck = fake_GetHealthCheck, CreateHealthCheck = fake_CreateHealthCheck,
     UpdateHealthCheck = fake_UpdateHealthCheck, DeleteHealthCheck = fake_DeleteHealthCheck\<rparr>"

definition fake_be :: "FakeCloud BackendServices" where
  "fake_be = \<lparr>GetGlobalBackendService = fake_GetGlobalBackendService, CreateGlobalBackendService = fake_CreateGlobalBackendService,
     UpdateGlobalBackendService = fake_UpdateGlobalBackendService, DeleteGlobalBackendService = fake_DeleteGlobalBackendService\<rparr>"

definition fake_fw :: "FakeCloud FirewallProvider" where
  "fake_fw = \<lparr>GetFirewall = fake_GetFirewall, CreateFirewall = fake_CreateFirewall,
     UpdateFirewall = fake_UpdateFirewall, DeleteFirewall = fake_DeleteFirewall\<rparr>"

section \<open>The fakes meet the laws\<close>

lemma fake_provider_methods [simp]:
  "GetHealthCheck fake_hc = fake_GetHealthCheck" "CreateHealthCheck fake_hc = fake_CreateHealthCheck"
  "UpdateHealthCheck fake_hc = fake_UpdateHealthCheck" "DeleteHealthCheck fake_hc = fake_DeleteHealthCheck"
  "GetGlobalBackendService fake_be = fake_GetGlobalBackendService"
  "CreateGlobalBackendService fake_be = fake_CreateGlobalBackendService"
  "UpdateGlobalBackendService fake_be = fake_UpdateGlobalBackendService"
  "DeleteGlobalBackendService fake_be = fake_DeleteGlobalBackendService"
  "GetFirewall fake_fw = fake_GetFirewall" "CreateFirewall fake_fw = fake_CreateFirewall"
  "UpdateFirewall fake_fw = fake_UpdateFirewall" "DeleteFirewall fake_fw = fake_DeleteFirewall"
  by (simp_all add: fake_hc_def fake_be_def fake_fw_def)

lemmas fake_provider_ops =
  fake_GetHealthCheck_def fake_CreateHealthCheck_def fake_DeleteHealthCheck_def fake_UpdateHealthCheck_def
  fake_GetGlobalBackendService_def fake_CreateGlobalBackendService_def fake_DeleteGlobalBackendService_def
  fake_UpdateGlobalBackendService_def
  fake_GetFirewall_def fake_CreateFirewall_def fake_DeleteFirewall_def fake_UpdateFirewall_def
  doCreateFirewall_def doDeleteFirewall_def doUpdateFirewall_def

lemma hc_transmitted_idem [simp]: "hc_transmitted (hc_transmitted h) = hc_transmitted h"
  by (simp add: hc_transmitted_def option.map_comp comp_def)

lemma be_returned_idem [simp]: "be_returned (be_returned b) = be_returned b"
  by (simp add: be_returned_def)

lemma be_returned_name [simp]: "be_Name (be_returned b) = be_Name b"
  by (simp add: be_returned_def)

lemma hc_stored_transmitted: "hc_stored d (hc_transmitted d)"
  by (simp add: hc_stored_def hc_transmitted_def)

lemma fw_stored_transmitted: "fw_stored d (fw_transmitted d)"
  by (simp add: fw_stored_def fw_transmitted_def)

lemma be_stored_returned: "be_stored d (be_returned d)" "be_stored d (be_returned (d\<lparr>be_SelfLink := l\<rparr>))"
  by (simp_all add: be_stored_def be_returned_def be_input_def)

text \<open>An update of one of the three stores, in the view.\<close>

lemma view_generic_update:
  "fake_view (f\<lparr>f_generic := AList.update n h (f_generic f)\<rparr>) = (fake_view f)((KHealthCheck, n) \<mapsto> RHealthCheck (hc_transmitted h))"
  by (rule ext, rename_tac c, case_tac "(f, c)" rule: fake_view.cases) (auto simp: update_conv')

lemma view_generic_delete:
  "fake_view (f\<lparr>f_generic := AList.delete n (f_generic f)\<rparr>) = (fake_view f)((KHealthCheck, n) := None)"
  by (rule ext, rename_tac c, case_tac "(f, c)" rule: fake_view.cases) (auto simp: delete_conv')

lemma view_backends_update:
  "be_Name b = n \<Longrightarrow> fake_view (f\<lparr>f_backendServices := AList.update n b (f_backendServices f)\<rparr>)
     = (fake_view f)((KBackendService, n) \<mapsto> RBackendService (be_returned b))"
  by (rule ext, rename_tac c, case_tac "(f, c)" rule: fake_view.cases) (auto simp: update_conv')

lemma view_backends_delete:
  "fake_view (f\<lparr>f_backendServices := AList.delete n (f_backendServices f)\<rparr>) = (fake_view f)((KBackendService, n) := None)"
  by (rule ext, rename_tac c, case_tac "(f, c)" rule: fake_view.cases) (auto simp: delete_conv')

lemma view_firewalls_update:
  "fake_view (f\<lparr>f_firewalls := AList.update n b (f_firewalls f)\<rparr>) = (fake_view f)((KFirewall, n) \<mapsto> RFirewall b)"
  by (rule ext, rename_tac c, case_tac "(f, c)" rule: fake_view.cases) (auto simp: update_conv')

lemma view_firewalls_delete:
  "fake_view (f\<lparr>f_firewalls := AList.delete n (f_firewalls f)\<rparr>) = (fake_view f)((KFirewall, n) := None)"
  by (rule ext, rename_tac c, case_tac "(f, c)" rule: fake_view.cases) (auto simp: delete_conv')

lemmas view_stores = view_generic_update view_generic_delete view_backends_update view_backends_delete
  view_firewalls_update view_firewalls_delete

lemma upd_ex: "stored d x \<Longrightarrow> \<exists>r. stored d r \<and> v(c \<mapsto> R x) = v(c \<mapsto> R r)"
  by blast

interpretation fake_hcs: hc_api fake_view fake_hc
proof (rule hc_api.intro, unfold fake_provider_methods, unfold_locales)
  fix n f x f' assume "fake_GetHealthCheck n f = (x, f')"
  then show "fake_view f' = fake_view f" by (simp add: fake_provider_ops)
next
  fix n f r f' assume "fake_GetHealthCheck n f = (Inr r, f')"
  then show "fake_view f (KHealthCheck, n) = Some (RHealthCheck r)"
    by (auto simp: fake_provider_ops split: option.splits)
next
  fix n f e f' assume "fake_GetHealthCheck n f = (Inl e, f')"
  then show "fake_view f (KHealthCheck, n) = None" by (auto simp: fake_provider_ops split: option.splits)
next
  fix n f e f' assume "fake_DeleteHealthCheck n f = (Some e, f')"
  then show "fake_view f (KHealthCheck, n) = None \<and> fake_view f' = fake_view f"
    by (auto simp: fake_provider_ops split: if_splits)
qed (auto simp: fake_provider_ops view_stores split: if_splits intro!: upd_ex hc_stored_transmitted simp del: fake_view.simps)

interpretation fake_fws: fw_api fake_view fake_fw
proof (rule fw_api.intro, unfold fake_provider_methods, unfold_locales)
  fix n f x f' assume "fake_GetFirewall n f = (x, f')"
  then show "fake_view f' = fake_view f" by (simp add: fake_provider_ops)
next
  fix n f r f' assume "fake_GetFirewall n f = (Inr r, f')"
  then show "fake_view f (KFirewall, n) = Some (RFirewall r)"
    by (auto simp: fake_provider_ops split: option.splits)
next
  fix n f e f' assume "fake_GetFirewall n f = (Inl e, f')"
  then show "fake_view f (KFirewall, n) = None" by (auto simp: fake_provider_ops split: option.splits)
next
  fix n f e f' assume "fake_DeleteFirewall n f = (Some e, f')" "IsHTTPErrorCode (Some e) StatusNotFound"
  then show "fake_view f (KFirewall, n) = None \<and> fake_view f' = fake_view f"
    by (auto simp: fake_provider_ops FakeGoogleAPIForbiddenErr_def StatusNotFound_def split: if_splits)
qed (auto simp: fake_provider_ops view_stores split: if_splits intro!: upd_ex fw_stored_transmitted simp del: fake_view.simps)

lemma fake_GetGlobalBackendService_view:
  assumes "fake_GetGlobalBackendService n f = (x, f')"
  shows "fake_view f' = fake_view f"
  using assms
  by (auto simp: fake_GetGlobalBackendService_def view_stores fun_upd_idem split: option.splits if_splits)

interpretation fake_bes: be_api fake_view fake_be
proof (rule be_api.intro, unfold fake_provider_methods, unfold_locales)
  fix n f x f' assume "fake_GetGlobalBackendService n f = (x, f')"
  then show "fake_view f' = fake_view f" by (rule fake_GetGlobalBackendService_view)
next
  fix n f r f' assume "fake_GetGlobalBackendService n f = (Inr r, f')"
  then show "be_Name r = n" by (auto simp: fake_provider_ops split: option.splits if_splits)
next
  fix n f r f' assume "fake_GetGlobalBackendService n f = (Inr r, f')"
  then show "fake_view f (KBackendService, n) = Some (RBackendService r)"
    by (auto simp: fake_provider_ops split: option.splits if_splits)
next
  fix n f e f' assume "fake_GetGlobalBackendService n f = (Inl e, f')"
  then show "fake_view f (KBackendService, n) = None" by (auto simp: fake_provider_ops split: option.splits if_splits)
next
  fix n f e f' assume "fake_DeleteGlobalBackendService n f = (Some e, f')"
  then show "fake_view f (KBackendService, n) = None \<and> fake_view f' = fake_view f"
    by (auto simp: fake_provider_ops split: if_splits)
qed (auto simp: fake_provider_ops view_stores split: if_splits intro!: upd_ex be_stored_returned simp del: fake_view.simps)

lemma fake_provider_404:
  "found_or_404 fake_GetHealthCheck n f" "found_or_404 fake_GetGlobalBackendService n f" "found_or_404 fake_GetFirewall n f"
  by (simp_all add: found_or_404_def fake_provider_ops FakeGoogleAPINotFoundErr_def split: option.splits)

end
