(* ===== verification/HealthCheck.thy ===== *)
theory HealthCheck
  imports Namer KubeUtils FakeProviders
begin

text \<open>
  \<^verbatim>\<open>app/kubemci/pkg/gcp/healthcheck/healthchecksyncer.go\<close>: one health check per node port.  A map keyed by
  port number is an association list.
\<close>

section \<open>Definitions\<close>

type_synonym HealthChecksMap = "(int \<times> HealthCheck) list"

definition DefaultHealthCheckInterval :: int where "DefaultHealthCheckInterval = 60"
definition DefaultHealthyThreshold :: int where "DefaultHealthyThreshold = 1"
definition DefaultUnhealthyThreshold :: int where "DefaultUnhealthyThreshold = 10"
definition DefaultTimeout :: int where "DefaultTimeout = 60"

text \<open>The loop over the clusters; the first component of the result tells whether it returned early.\<close>

fun pathLoop ::
    "ServicePort \<Rightarrow> (string \<times> 'w KubeClient) list \<Rightarrow> string \<Rightarrow> go_error option \<Rightarrow> 'w \<Rightarrow> (bool \<times> string \<times> go_error option) \<times> 'w" where
  "pathLoop port [] path err w = ((False, path, err), w)"
| "pathLoop port ((cName, c) # cs) path err w =
     (case GetProbe c port w of
        (Inl prErr, w1) \<Rightarrow>
          pathLoop port cs path (multierror_Append err
            [Errorf ''Error %s when getting readiness probe from pods for service %s'' [AErr prErr, AStr (sp_Name port)]]) w1
      | (Inr probe, w1) \<Rightarrow>
          (case (case probe of None \<Rightarrow> None | Some p \<Rightarrow> pb_HTTPGet p) of
             None \<Rightarrow> pathLoop port cs path err w1
           | Some g \<Rightarrow>
               if path \<noteq> '''' then
                 if path \<noteq> hga_Path g then
                   ((True, path, multierror_Append err
                      [Errorf ''readiness probe path '%s' from pod spec in cluster '%s' does not match already extracted health check path '%s' ''
                         [AStr (hga_Path g), AStr cName, AStr path]]), w1)
                 else pathLoop port cs path err w1
               else pathLoop port cs (hga_Path g) err w1))"

definition getHealthCheckPath ::
    "range_order \<Rightarrow> ServicePort \<Rightarrow> 'w KubeClient gomap \<Rightarrow> 'w \<Rightarrow> (string \<times> go_error option) \<times> 'w" where
  "getHealthCheckPath ord port clients w =
     (case pathLoop port (range_entries ord ''health check path'' clients) '''' None w of
        ((early, path, err), w1) \<Rightarrow>
          ((if early then path else if HasPrefix path ''/'' then path else ''/'' @ path, err), w1))"

definition desiredHealthCheck :: "Namer \<Rightarrow> string \<Rightarrow> ServicePort \<Rightarrow> string \<Rightarrow> go_error + HealthCheck" where
  "desiredHealthCheck s lbName port path =
     (let hc = zero_HealthCheck\<lparr>hc_Name := HealthCheckName s (sp_NodePort port),
            hc_Description := ''Health check for service '' @ sp_Description port
              @ '' as part of kubernetes multicluster loadbalancer '' @ lbName,
            hc_CheckIntervalSec := DefaultHealthCheckInterval, hc_TimeoutSec := DefaultTimeout,
            hc_HealthyThreshold := DefaultHealthyThreshold, hc_UnhealthyThreshold := DefaultUnhealthyThreshold,
            hc_Type := sp_Protocol port, hc_Kind := ''compute#healthCheck''\<rparr>
      in if sp_Protocol port = ''HTTP'' then
           Inr (hc\<lparr>hc_HttpHealthCheck := Some (zero_HTTPHealthCheck\<lparr>hhc_Port := sp_NodePort port,
             hhc_RequestPath := path, hhc_ProxyHeader := ''NONE''\<rparr>)\<rparr>)
         else if sp_Protocol port = ''HTTPS'' then
           Inr (hc\<lparr>hc_HttpsHealthCheck := Some (zero_HTTPSHealthCheck\<lparr>hshc_Port := sp_NodePort port,
             hshc_RequestPath := path, hshc_ProxyHeader := ''NONE''\<rparr>)\<rparr>)
         else Inl (Errorf ''Unexpected port protocol: %s'' [AStr (sp_Protocol port)]))"

definition healthCheckMatches :: "HealthCheck \<Rightarrow> HealthCheck \<Rightarrow> bool" where
  "healthCheckMatches desiredHC existingHC \<longleftrightarrow>
     existingHC\<lparr>hc_CreationTimestamp := '''', hc_Id := 0, hc_SelfLink := '''', hc_ServerResponse := zero_ServerResponse\<rparr> = desiredHC"

definition updateHealthCheck :: "'w HealthCheckProvider \<Rightarrow> HealthCheck \<Rightarrow> 'w \<Rightarrow> (go_error + HealthCheck) \<times> 'w" where
  "updateHealthCheck hcp desiredHC w =
     (case UpdateHealthCheck hcp desiredHC w of
        (Some err, w1) \<Rightarrow> (Inl err, w1)
      | (None, w1) \<Rightarrow> GetHealthCheck hcp (hc_Name desiredHC) w1)"

definition createHealthCheck :: "'w HealthCheckProvider \<Rightarrow> HealthCheck \<Rightarrow> 'w \<Rightarrow> (go_error + HealthCheck) \<times> 'w" where
  "createHealthCheck hcp desiredHC w =
     (case CreateHealthCheck hcp desiredHC w of
        (Some err, w1) \<Rightarrow> (Inl err, w1)
      | (None, w1) \<Rightarrow> GetHealthCheck hcp (hc_Name desiredHC) w1)"

definition ensureHealthCheck ::
    "Namer \<Rightarrow> 'w HealthCheckProvider \<Rightarrow> string \<Rightarrow> ServicePort \<Rightarrow> string \<Rightarrow> bool \<Rightarrow> 'w \<Rightarrow> (go_error + HealthCheck) \<times> 'w" where
  "ensureHealthCheck s hcp lbName port path forceUpdate w =
     (case desiredHealthCheck s lbName port path of
        Inl err \<Rightarrow> (Inl (Errorf ''error %s in computing desired health check'' [AErr err]), w)
      | Inr desiredHC \<Rightarrow>
          (case GetHealthCheck hcp (hc_Name desiredHC) w of
             (Inr existingHC, w1) \<Rightarrow>
               if healthCheckMatches desiredHC existingHC then (Inr existingHC, w1)
               else if forceUpdate then updateHealthCheck hcp desiredHC w1
               else (Inl (Errorf ''will not overwrite healthcheck without --force'' []), w1)
           | (Inl err, w1) \<Rightarrow> createHealthCheck hcp desiredHC w1))"

fun ensureHealthCheckLoop ::
    "Namer \<Rightarrow> 'w HealthCheckProvider \<Rightarrow> range_order \<Rightarrow> string \<Rightarrow> 'w KubeClient gomap \<Rightarrow> bool \<Rightarrow> ServicePort list \<Rightarrow>
     HealthChecksMap \<Rightarrow> go_error option \<Rightarrow> 'w \<Rightarrow> (HealthChecksMap \<times> go_error option) \<times> 'w" where
  "ensureHealthCheckLoop s hcp ord lbName clients forceUpdate [] ensured err w = ((ensured, err), w)"
| "ensureHealthCheckLoop s hcp ord lbName clients forceUpdate (p # ps) ensured err w =
     (case getHealthCheckPath ord p clients w of
        ((path, Some pathErr), w1) \<Rightarrow>
          ensureHealthCheckLoop s hcp ord lbName clients forceUpdate ps ensured (multierror_Append err [pathErr]) w1
      | ((path, None), w1) \<Rightarrow>
          (case ensureHealthCheck s hcp lbName p path forceUpdate w1 of
             (Inl hcErr, w2) \<Rightarrow>
               ensureHealthCheckLoop s hcp ord lbName clients forceUpdate ps ensured
                 (multierror_Append err [Errorf ''Error %s in ensuring health check for port %v'' [AErr hcErr, AInt (sp_NodePort p)]]) w2
           | (Inr hc, w2) \<Rightarrow>
               ensureHealthCheckLoop s hcp ord lbName clients forceUpdate ps (AList.update (sp_NodePort p) hc ensured) err w2))"

definition EnsureHealthCheck ::
    "Namer \<Rightarrow> 'w HealthCheckProvider \<Rightarrow> range_order \<Rightarrow> string \<Rightarrow> ServicePort list \<Rightarrow> 'w KubeClient gomap \<Rightarrow> bool \<Rightarrow>
     'w \<Rightarrow> (HealthChecksMap \<times> go_error option) \<times> 'w" where
  "EnsureHealthCheck s hcp ord lbName ports clients forceUpdate w =
     ensureHealthCheckLoop s hcp ord lbName clients forceUpdate ports [] None w"

definition deleteHealthCheck :: "Namer \<Rightarrow> 'w HealthCheckProvider \<Rightarrow> ServicePort \<Rightarrow> 'w \<Rightarrow> go_error option \<times> 'w" where
  "deleteHealthCheck s hcp port w =
     (case DeleteHealthCheck hcp (HealthCheckName s (sp_NodePort port)) w of
        (Some err, w1) \<Rightarrow> if IsHTTPErrorCode (Some err) StatusNotFound then (None, w1) else (Some err, w1)
      | (None, w1) \<Rightarrow> (None, w1))"

fun deleteHealthCheckLoop ::
    "Namer \<Rightarrow> 'w HealthCheckProvider \<Rightarrow> ServicePort list \<Rightarrow> go_error option \<Rightarrow> 'w \<Rightarrow> go_error option \<times> 'w" where
  "deleteHealthCheckLoop s hcp [] err w = (err, w)"
| "deleteHealthCheckLoop s hcp (p # ps) err w =
     (case deleteHealthCheck s hcp p w of
        (Some hcErr, w1) \<Rightarrow> deleteHealthCheckLoop s hcp ps (multierror_Append err [hcErr]) w1
      | (None, w1) \<Rightarrow> deleteHealthCheckLoop s hcp ps err w1)"

definition DeleteHealthChecks :: "Namer \<Rightarrow> 'w HealthCheckProvider \<Rightarrow> ServicePort list \<Rightarrow> 'w \<Rightarrow> go_error option \<times> 'w" where
  "DeleteHealthChecks s hcp ports w = deleteHealthCheckLoop s hcp ports None w"

section \<open>Lemmas\<close>

lemma desiredHealthCheck_ok:
  assumes "desiredHealthCheck s lbName port path = Inr d"
  shows "hc_Name d = HealthCheckName s (sp_NodePort port)" "hc_input (hc_transmitted d) = d" "hc_input d = d"
  using assms
  by (auto simp: desiredHealthCheck_def Let_def hc_input_def hc_transmitted_def zero_HealthCheck_def
      zero_HTTPHealthCheck_def zero_HTTPSHealthCheck_def split: if_splits)

lemma healthCheckMatches_input: "healthCheckMatches d r \<longleftrightarrow> hc_input r = d"
  by (simp add: healthCheckMatches_def hc_input_def)

lemma ensureHealthCheck_pattern:
  assumes "desiredHealthCheck s lbName port path = Inr d"
  shows "ensureHealthCheck s H lbName port path force w =
    ensure_link (GetHealthCheck H) (CreateHealthCheck H) (UpdateHealthCheck H) healthCheckMatches id
      (Errorf ''will not overwrite healthcheck without --force'' []) (hc_Name d) d force w"
  using assms
  by (auto simp: ensureHealthCheck_def ensure_link_def then_link_def updateHealthCheck_def createHealthCheck_def
      split: prod.splits sum.splits option.splits)

lemma pathLoop_view:
  "\<forall>c \<in> set cs. outside view (snd c) \<Longrightarrow> pathLoop port cs path err w = (x, w') \<Longrightarrow> view w' = view w"
  by (induction port cs path err w rule: pathLoop.induct)
    (auto dest: GetProbe_view split: prod.splits sum.splits option.splits if_splits)

lemma getHealthCheckPath_view:
  "\<forall>c \<in> set clients. outside view (snd c) \<Longrightarrow> getHealthCheckPath ord port clients w = (x, w') \<Longrightarrow> view w' = view w"
  using range_entries_subset[of ord _ clients]
  by (auto simp: getHealthCheckPath_def split: prod.splits dest!: pathLoop_view[rotated])

lemma pathLoop_err: "pathLoop port cs path err w = ((early, p, None), w') \<Longrightarrow> err = None \<and> \<not> early"
  by (induction port cs path err w rule: pathLoop.induct)
    (auto split: prod.splits sum.splits option.splits if_splits)

lemma getHealthCheckPath_slash: "getHealthCheckPath ord port clients w = ((path, None), w') \<Longrightarrow> HasPrefix path ''/''"
  by (auto simp: getHealthCheckPath_def HasPrefix_def dest: pathLoop_err split: prod.splits if_splits)

context hc_api
begin

lemma ensureHealthCheck_frame:
  assumes "ensureHealthCheck s H lbName port path force w = (x, w')" "c \<noteq> (KHealthCheck, HealthCheckName s (sp_NodePort port))"
  shows "view w' c = view w c"
proof (cases "desiredHealthCheck s lbName port path")
  case (Inl e)
  with assms(1) show ?thesis by (simp add: ensureHealthCheck_def)
next
  case (Inr d)
  from hc.ensure_link_frame[OF assms(1)[unfolded ensureHealthCheck_pattern[OF Inr]]] assms(2) desiredHealthCheck_ok(1)[OF Inr]
  show ?thesis by simp
qed

lemma ensureHealthCheck_ok:
  assumes "ensureHealthCheck s H lbName port path force w = (Inr h, w')" "\<forall>n w. found_or_404 (GetHealthCheck H) n w"
  shows "desiredHealthCheck s lbName port path = Inr (hc_input h)
    \<and> view w' = (view w)((KHealthCheck, HealthCheckName s (sp_NodePort port)) \<mapsto> RHealthCheck h)"
proof -
  obtain d where d: "desiredHealthCheck s lbName port path = Inr d"
    using assms(1) by (auto simp: ensureHealthCheck_def split: sum.splits)
  from hc.ensure_link_ok[OF assms(1)[unfolded ensureHealthCheck_pattern[OF d]]] assms(2)
  have "view w' = (view w)((KHealthCheck, hc_Name d) \<mapsto> RHealthCheck h)" "healthCheckMatches d h \<or> hc_stored d h"
    by (metis id_apply)+
  with desiredHealthCheck_ok[OF d] d show ?thesis
    by (auto simp: healthCheckMatches_input hc_stored_def)
qed

end

lemma deleteHealthCheckLoop_each:
  "deleteHealthCheckLoop s H ps err w =
     (case delete_each (DeleteHealthCheck H) (map (\<lambda>p. HealthCheckName s (sp_NodePort p)) ps) w of
        (es, w') \<Rightarrow> (fold (\<lambda>e err. multierror_Append err [e]) es err, w'))"
  by (induction ps arbitrary: err w)
    (auto simp: deleteHealthCheck_def IgnoreHTTPNotFound_def split: prod.splits option.splits)

definition hcs_stored :: "('w \<Rightarrow> project) \<Rightarrow> Namer \<Rightarrow> string \<Rightarrow> ServicePort list \<Rightarrow> HealthChecksMap \<Rightarrow> 'w \<Rightarrow> bool" where
  "hcs_stored view s lbName ports m w \<longleftrightarrow>
     (\<forall>n h. map_of m n = Some h \<longrightarrow>
        view w (KHealthCheck, HealthCheckName s n) = Some (RHealthCheck h)
        \<and> (\<exists>p \<in> set ports. \<exists>path. sp_NodePort p = n \<and> HasPrefix path ''/'' \<and> desiredHealthCheck s lbName p path = Inr (hc_input h)))"

lemma hcs_stored_Nil [simp]: "hcs_stored view s lbName ports [] w"
  by (simp add: hcs_stored_def)

lemma hcs_stored_cong: "view w' = view w \<Longrightarrow> hcs_stored view s lbName ports m w' = hcs_stored view s lbName ports m w"
  by (simp add: hcs_stored_def)

lemma hcs_stored_update:
  assumes "hcs_stored view s lbName ports m w" "p \<in> set ports" "inj_on (HealthCheckName s) (sp_NodePort ` set ports)"
    and "HasPrefix path ''/''" "desiredHealthCheck s lbName p path = Inr (hc_input h)"
    and "view w' = (view w)((KHealthCheck, HealthCheckName s (sp_NodePort p)) \<mapsto> RHealthCheck h)"
  shows "hcs_stored view s lbName ports (AList.update (sp_NodePort p) h m) w'"
  unfolding hcs_stored_def
proof (intro allI impI)
  fix n h'
  assume *: "map_of (AList.update (sp_NodePort p) h m) n = Some h'"
  show "view w' (KHealthCheck, HealthCheckName s n) = Some (RHealthCheck h')
        \<and> (\<exists>p \<in> set ports. \<exists>path. sp_NodePort p = n \<and> HasPrefix path ''/'' \<and> desiredHealthCheck s lbName p path = Inr (hc_input h'))"
  proof (cases "n = sp_NodePort p")
    case True
    with * assms show ?thesis by (auto simp: AList.update_conv')
  next
    case False
    with * have old: "map_of m n = Some h'" by (simp add: AList.update_conv')
    with assms(1) have ex: "view w (KHealthCheck, HealthCheckName s n) = Some (RHealthCheck h')"
      "\<exists>p \<in> set ports. \<exists>path. sp_NodePort p = n \<and> HasPrefix path ''/'' \<and> desiredHealthCheck s lbName p path = Inr (hc_input h')"
      unfolding hcs_stored_def by blast+
    then have "HealthCheckName s n \<noteq> HealthCheckName s (sp_NodePort p)"
      using inj_onD[OF assms(3)] assms(2) False by blast
    with ex assms(6) show ?thesis by simp
  qed
qed

lemma ensureHealthCheckLoop_err:
  "ensureHealthCheckLoop s H ord lbName clients force ps m err w = ((m', None), w') \<Longrightarrow> err = None"
  by (induction ps arbitrary: m err w) (fastforce split: prod.splits sum.splits option.splits)+

lemma ensureHealthCheckLoop_Cons:
  assumes "ensureHealthCheckLoop s H ord lbName clients force (p # ps) m err w = ((m', None), w')"
  obtains path w1 h w2 where "getHealthCheckPath ord p clients w = ((path, None), w1)"
    "ensureHealthCheck s H lbName p path force w1 = (Inr h, w2)"
    "ensureHealthCheckLoop s H ord lbName clients force ps (AList.update (sp_NodePort p) h m) err w2 = ((m', None), w')"
  using assms that by (auto split: prod.splits sum.splits option.splits dest!: ensureHealthCheckLoop_err)

context hc_api
begin

lemma ensureHealthCheckLoop_ok:
  assumes "ensureHealthCheckLoop s H ord lbName clients force ps m err w = ((m', None), w')"
    and "\<forall>c \<in> set clients. outside view (snd c)" "\<forall>n w. found_or_404 (GetHealthCheck H) n w"
    and "inj_on (HealthCheckName s) (sp_NodePort ` set ports)" "set ps \<subseteq> set ports" "hcs_stored view s lbName ports m w"
  shows "hcs_stored view s lbName ports m' w' \<and> fst ` set m' = fst ` set m \<union> sp_NodePort ` set ps"
  using assms(1,5,6)
proof (induction ps arbitrary: m w)
  case (Cons p ps)
  from Cons.prems(1) obtain path w1 h w2 where run: "getHealthCheckPath ord p clients w = ((path, None), w1)"
    "ensureHealthCheck s H lbName p path force w1 = (Inr h, w2)"
    "ensureHealthCheckLoop s H ord lbName clients force ps (AList.update (sp_NodePort p) h m) err w2 = ((m', None), w')"
    by (rule ensureHealthCheckLoop_Cons)
  have "hcs_stored view s lbName ports m w1"
    using Cons.prems(3) hcs_stored_cong[OF getHealthCheckPath_view[OF assms(2) run(1)]] by simp
  from hcs_stored_update[OF this _ assms(4) getHealthCheckPath_slash[OF run(1)]] Cons.prems(2) ensureHealthCheck_ok[OF run(2) assms(3)]
  have "hcs_stored view s lbName ports (AList.update (sp_NodePort p) h m) w2" by simp
  from Cons.IH[OF run(3) _ this] Cons.prems(2) show ?case by (auto simp: AList.dom_update)
qed simp

lemma ensureHealthCheckLoop_frame:
  assumes "ensureHealthCheckLoop s H ord lbName clients force ps m err w = (x, w')"
    and "\<forall>c \<in> set clients. outside view (snd c)" "c \<notin> (\<lambda>p. (KHealthCheck, HealthCheckName s (sp_NodePort p))) ` set ps"
  shows "view w' c = view w c"
  using assms(1,3)
proof (induction ps arbitrary: m err w)
  case (Cons p ps)
  obtain path pe w1 where path: "getHealthCheckPath ord p clients w = ((path, pe), w1)" by (metis surj_pair)
  obtain y w2 where ens: "ensureHealthCheck s H lbName p path force w1 = (y, w2)" by fastforce
  obtain m1 err1 w3 where rest: "ensureHealthCheckLoop s H ord lbName clients force ps m1 err1 w3 = (x, w')" "w3 = w1 \<or> w3 = w2"
    using Cons.prems(1) path ens by (cases pe; cases y) auto
  from Cons.IH[OF rest(1)] rest(2) Cons.prems(2) getHealthCheckPath_view[OF assms(2) path] ensureHealthCheck_frame[OF ens, of c]
  show ?case by auto
qed simp

lemma DeleteHealthChecks_effect:
  assumes "DeleteHealthChecks s H ports w = (e, w')"
  shows "c \<notin> (\<lambda>p. (KHealthCheck, HealthCheckName s (sp_NodePort p))) ` set ports \<Longrightarrow> view w' c = view w c"
    and "e = None \<Longrightarrow> p \<in> set ports \<Longrightarrow> view w' (KHealthCheck, HealthCheckName s (sp_NodePort p)) = None"
proof -
  obtain es where run: "delete_each (DeleteHealthCheck H) (map (\<lambda>p. HealthCheckName s (sp_NodePort p)) ports) w = (es, w')"
    "e = fold (\<lambda>e err. multierror_Append err [e]) es None"
    using assms by (auto simp: DeleteHealthChecks_def deleteHealthCheckLoop_each split: prod.splits)
  show "c \<notin> (\<lambda>p. (KHealthCheck, HealthCheckName s (sp_NodePort p))) ` set ports \<Longrightarrow> view w' c = view w c"
    using hc.delete_each_frame[OF run(1), of c] by (simp add: image_image)
  show "e = None \<Longrightarrow> p \<in> set ports \<Longrightarrow> view w' (KHealthCheck, HealthCheckName s (sp_NodePort p)) = None"
    using hc.delete_each_ok[of "map (\<lambda>p. HealthCheckName s (sp_NodePort p)) ports" w w' "HealthCheckName s (sp_NodePort p)"] run
    by (simp add: fold_multierror_None)
qed

end

text \<open>The path a cluster asks for, and the form it is used in.\<close>

definition probe_path :: "'w KubeClient \<Rightarrow> ServicePort \<Rightarrow> 'w \<Rightarrow> go_error + string option" where
  "probe_path c port w =
     (case fst (GetProbe c port w) of
        Inl e \<Rightarrow> Inl e
      | Inr probe \<Rightarrow> Inr (case probe of None \<Rightarrow> None | Some p \<Rightarrow> map_option hga_Path (pb_HTTPGet p)))"

definition with_slash :: "string \<Rightarrow> string" where
  "with_slash p = (if HasPrefix p ''/'' then p else ''/'' @ p)"

lemma pathLoop_Cons:
  assumes "pathLoop port ((cName, c) # cs) path err w = ((early, p, None), w')"
  obtains q path1 w1 where "probe_path c port w = Inr q" "pathLoop port cs path1 err w1 = ((early, p, None), w')"
    "case q of None \<Rightarrow> path1 = path | Some r \<Rightarrow> path1 = r \<and> (path = '''' \<or> path = r)"
proof -
  obtain x w1 where g: "GetProbe c port w = (x, w1)" by fastforce
  show ?thesis
  proof (cases x)
    case (Inl e)
    with assms g have False by (auto dest: pathLoop_err)
    then show ?thesis ..
  next
    case (Inr probe)
    obtain q where q: "(case probe of None \<Rightarrow> None | Some p \<Rightarrow> pb_HTTPGet p) = q" by blast
    then have "probe_path c port w = Inr (map_option hga_Path q)"
      using g Inr by (auto simp: probe_path_def split: option.splits)
    with that assms g Inr q show ?thesis by (cases q) (auto split: if_splits)
  qed
qed

lemma pathLoop_agrees:
  assumes "pathLoop port cs path err w = ((early, p, None), w')"
    and "\<forall>c \<in> set cs. \<forall>w1 w2. probe_path (snd c) port w1 = probe_path (snd c) port w2"
  shows "(path \<noteq> '''' \<longrightarrow> p = path) \<and> (p = path \<or> (\<exists>c \<in> set cs. probe_path (snd c) port w0 = Inr (Some p)))
    \<and> (\<forall>c \<in> set cs. \<exists>q. probe_path (snd c) port w0 = Inr q \<and> q \<in> {None, Some '''', Some p})"
  using assms
proof (induction cs arbitrary: path w)
  case (Cons nc cs)
  obtain cName c where nc: "nc = (cName, c)" by fastforce
  from Cons.prems(1)[unfolded nc] obtain q path1 w1 where q: "probe_path c port w = Inr q"
    "pathLoop port cs path1 err w1 = ((early, p, None), w')"
    "case q of None \<Rightarrow> path1 = path | Some r \<Rightarrow> path1 = r \<and> (path = '''' \<or> path = r)"
    by (rule pathLoop_Cons)
  have "probe_path c port w0 = Inr q" using q(1) Cons.prems(2) nc by (metis list.set_intros(1) snd_conv)
  with q(3) Cons.IH[OF q(2)] Cons.prems(2) nc show ?case by (auto split: option.splits)
qed simp

lemma web_probe_path: "probe_path (web_client path) web_port w = Inr (Some path)"
  using web_client_probe[of path w] by (auto simp: probe_path_def)

lemma web_path: "getHealthCheckPath in_order web_port [(''a'', web_client ''healthz'')] w = ((''/healthz'', None), w)"
  using web_client_probe[of "''healthz''" w]
  by (auto simp: getHealthCheckPath_def range_entries_def in_order_def List.map_filter_simps HasPrefix_def)

section \<open>Properties\<close>

text \<open>
  When \<^verbatim>\<open>EnsureHealthCheck\<close> reports no error, the map it returns has exactly the node ports it was given, the health check
  under each port is the one now in the project under the port's name, and apart from the fields the server
  sets it is the desired one of such a port, with a path that starts with a slash; whatever is reported, no other object changes.
\<close>

theorem health_checks_ensured:
  assumes "hc_api view H" "\<forall>c \<in> set clients. outside view (snd c)" "\<forall>n w. found_or_404 (GetHealthCheck H) n w"
    and "inj_on (HealthCheckName s) (sp_NodePort ` set ports)"
    and "EnsureHealthCheck s H ord lbName ports clients force w = ((m, e), w')"
  shows "(e = None \<longrightarrow> fst ` set m = sp_NodePort ` set ports
      \<and> (\<forall>n h. map_of m n = Some h \<longrightarrow>
            view w' (KHealthCheck, HealthCheckName s n) = Some (RHealthCheck h)
            \<and> (\<exists>p \<in> set ports. \<exists>path. sp_NodePort p = n \<and> HasPrefix path ''/''
                 \<and> desiredHealthCheck s lbName p path = Inr (hc_input h))))
    \<and> (\<forall>c. c \<notin> (\<lambda>p. (KHealthCheck, HealthCheckName s (sp_NodePort p))) ` set ports \<longrightarrow> view w' c = view w c)"
proof -
  note run = assms(5)[unfolded EnsureHealthCheck_def]
  have "hcs_stored view s lbName ports m w' \<and> fst ` set m = sp_NodePort ` set ports" if "e = None"
    using hc_api.ensureHealthCheckLoop_ok[OF assms(1) _ assms(2-4) subset_refl hcs_stored_Nil] run that by simp
  with hc_api.ensureHealthCheckLoop_frame[OF assms(1) run assms(2)] show ?thesis
    unfolding hcs_stored_def by blast
qed

text \<open>
  \<^verbatim>\<open>DeleteHealthChecks\<close> touches nothing but the health checks of the given ports, and when it reports no error none
  of them is left.
\<close>

theorem delete_health_checks_exact:
  assumes "hc_api view H" "DeleteHealthChecks s H ports w = (e, w')"
  shows "(\<forall>c. c \<notin> (\<lambda>p. (KHealthCheck, HealthCheckName s (sp_NodePort p))) ` set ports \<longrightarrow> view w' c = view w c)
    \<and> (e = None \<longrightarrow> (\<forall>p \<in> set ports. view w' (KHealthCheck, HealthCheckName s (sp_NodePort p)) = None))"
  using hc_api.DeleteHealthChecks_effect[OF assms] by blast

text \<open>
  The path of a health check is taken from the clusters: if \<^verbatim>\<open>getHealthCheckPath\<close> reports no error then every
  cluster could be asked, every readiness probe that names a path names the same one, and the health check
  uses it with a leading slash, or uses the path \<^verbatim>\<open>/\<close> if no probe names one.
\<close>

theorem health_check_path_agrees:
  assumes "range_ok ord" "distinct (map fst clients)"
    and "\<forall>c \<in> set clients. \<forall>w1 w2. probe_path (snd c) port w1 = probe_path (snd c) port w2"
    and "getHealthCheckPath ord port clients w = ((path, None), w')"
  shows "(\<forall>c \<in> set clients. \<exists>q. probe_path (snd c) port w = Inr q \<and>
            (\<forall>r. q = Some r \<longrightarrow> r = '''' \<or> path = with_slash r))
    \<and> (path = ''/'' \<or> (\<exists>c \<in> set clients. \<exists>r. probe_path (snd c) port w = Inr (Some r) \<and> path = with_slash r))"
proof -
  obtain early p where run: "pathLoop port (range_entries ord ''health check path'' clients) '''' None w = ((early, p, None), w')"
    "path = with_slash p"
    using assms(4) by (auto simp: getHealthCheckPath_def with_slash_def split: prod.splits dest: pathLoop_err)
  note clients = set_range_entries[OF assms(1,2), of "''health check path''"]
  have "p \<noteq> '''' \<or> path = ''/''" using run(2) by (auto simp: with_slash_def HasPrefix_def)
  with pathLoop_agrees[OF run(1), of w] assms(3) show ?thesis unfolding clients run(2) by auto
qed

theorem health_checks_ensured_witness:
  "\<exists>m f'. EnsureHealthCheck lb1 fake_hc in_order ''lb'' [web_port] [(''a'', web_client ''healthz'')] False NewFakeLoadBalancers = ((m, None), f')
     \<and> fst ` set m = {30301}
     \<and> (\<forall>n h. map_of m n = Some h \<longrightarrow> fake_view f' (KHealthCheck, HealthCheckName lb1 n) = Some (RHealthCheck h))"
proof -
  obtain m f' where run: "EnsureHealthCheck lb1 fake_hc in_order ''lb'' [web_port] [(''a'', web_client ''healthz'')] False NewFakeLoadBalancers = ((m, None), f')"
    by (simp add: EnsureHealthCheck_def web_path ensureHealthCheck_def desiredHealthCheck_def createHealthCheck_def fake_provider_ops
        NewFakeLoadBalancers_def Let_def)
  have "inj_on (HealthCheckName lb1) (sp_NodePort ` set [web_port])" by simp
  note ok = health_checks_ensured[OF fake_hcs.hc_api_axioms _ _ this run]
  from ok run show ?thesis by (auto simp: web_client_outside fake_provider_404 simp del: fake_view.simps)
qed

theorem delete_health_checks_exact_witness:
  "\<exists>f'. DeleteHealthChecks lb1 fake_hc [web_port] NewFakeLoadBalancers = (None, f')
     \<and> fake_view f' (KHealthCheck, HealthCheckName lb1 30301) = None"
proof -
  obtain f' where run: "DeleteHealthChecks lb1 fake_hc [web_port] NewFakeLoadBalancers = (None, f')"
    by (simp add: DeleteHealthChecks_def deleteHealthCheck_def fake_provider_ops NewFakeLoadBalancers_def FakeGoogleAPINotFoundErr_def)
  from delete_health_checks_exact[OF fake_hcs.hc_api_axioms run] run show ?thesis by (auto simp del: fake_view.simps)
qed

theorem health_check_path_agrees_witness:
  "\<exists>path. getHealthCheckPath in_order web_port [(''a'', web_client ''healthz'')] () = ((path, None), ()) \<and> path = with_slash ''healthz''"
proof -
  have steady: "\<forall>c \<in> set [(''a'', web_client ''healthz'')]. \<forall>w1 w2 :: unit. probe_path (snd c) web_port w1 = probe_path (snd c) web_port w2"
    by simp
  from health_check_path_agrees[OF range_ok_in_order _ steady web_path[of "()"]] web_path[of "()"] web_probe_path[of "''healthz''" "()"]
  show ?thesis by auto
qed

end
