(* ===== verification/BackendService.thy ===== *)
theory BackendService
  imports HealthCheck
begin

text \<open>
  \<^verbatim>\<open>app/kubemci/pkg/gcp/backendservice/backendservicesyncer.go\<close>: one backend service per node port, with the instance groups
  of all clusters as its backends.
\<close>

section \<open>Definitions\<close>

type_synonym NamedPortsMap = "(int \<times> NamedPort) list"

text \<open>The links are sorted in place, so the caller sees them sorted too; no caller depends on their order.\<close>

definition desiredBackends :: "string list \<Rightarrow> Backend slice" where
  "desiredBackends igLinks =
     slice_of (map (\<lambda>ig. zero_Backend\<lparr>bk_Group := ig, bk_BalancingMode := ''RATE'', bk_MaxRatePerInstance := 10 ^ 14,
       bk_CapacityScaler := 1\<rparr>) (sort igLinks))"

definition desiredBackendService :: "Namer \<Rightarrow> string \<Rightarrow> ServicePort \<Rightarrow> string \<Rightarrow> string \<Rightarrow> string list \<Rightarrow> BackendService" where
  "desiredBackendService s lbName port hcLink portName igLinks =
     zero_BackendService\<lparr>be_Name := BeServiceName s (sp_NodePort port),
       be_Description := ''Backend service for service '' @ sp_Description port
         @ '' as part of kubernetes multicluster loadbalancer '' @ lbName,
       be_Protocol := sp_Protocol port, be_HealthChecks := Slice [hcLink], be_Port := sp_NodePort port,
       be_PortName := portName, be_Backends := desiredBackends igLinks,
       be_ConnectionDraining := Some zero_ConnectionDraining, be_Kind := ''compute#backendService'',
       be_LoadBalancingScheme := ''EXTERNAL'', be_SessionAffinity := ''NONE'', be_TimeoutSec := 30\<rparr>"

definition desiredBackendServiceWithoutClusters :: "BackendService \<Rightarrow> string list \<Rightarrow> BackendService" where
  "desiredBackendServiceWithoutClusters existingBE removeIGLinks =
     (let removeBackends = map bk_Group (elems (desiredBackends removeIGLinks))
      in existingBE\<lparr>be_Backends := slice_of (filter (\<lambda>v. bk_Group v \<notin> set removeBackends) (elems (be_Backends existingBE)))\<rparr>)"

text \<open>
  The operands of \<^verbatim>\<open>&&\<close> are evaluated in order: the pointers to the IAP configurations are followed only if all fields
  before them agree, and then also if just one of them is nil.
\<close>

definition iapMatches :: "BackendServiceIAP option \<Rightarrow> BackendServiceIAP option \<Rightarrow> bool outcome" where
  "iapMatches d e =
     (case (d, e) of
        (None, None) \<Rightarrow> Returns True
      | (Some a, Some b) \<Rightarrow> Returns (iap_Enabled a = iap_Enabled b \<and> iap_Oauth2ClientId a = iap_Oauth2ClientId b
          \<and> iap_Oauth2ClientSecret a = iap_Oauth2ClientSecret b)
      | _ \<Rightarrow> Panics)"

definition backendServiceMatches :: "BackendService \<Rightarrow> BackendService \<Rightarrow> bool outcome" where
  "backendServiceMatches desiredBE existingBE =
     (if be_AffinityCookieTtlSec desiredBE = be_AffinityCookieTtlSec existingBE
        \<and> be_Backends desiredBE = be_Backends existingBE
        \<and> be_CdnPolicy desiredBE = be_CdnPolicy existingBE
        \<and> be_ConnectionDraining desiredBE = be_ConnectionDraining existingBE
        \<and> be_Description desiredBE = be_Description existingBE
        \<and> be_EnableCDN desiredBE = be_EnableCDN existingBE
        \<and> be_HealthChecks desiredBE = be_HealthChecks existingBE
      then map_returned (\<lambda>iap. iap
        \<and> be_LoadBalancingScheme desiredBE = be_LoadBalancingScheme existingBE
        \<and> be_Name desiredBE = be_Name existingBE
        \<and> be_Port desiredBE = be_Port existingBE
        \<and> be_PortName desiredBE = be_PortName existingBE
        \<and> be_Protocol desiredBE = be_Protocol existingBE
        \<and> be_SessionAffinity desiredBE = be_SessionAffinity existingBE
        \<and> be_TimeoutSec desiredBE = be_TimeoutSec existingBE) (iapMatches (be_Iap desiredBE) (be_Iap existingBE))
      else Returns False)"

definition updateBackendService :: "'w BackendServices \<Rightarrow> BackendService \<Rightarrow> 'w \<Rightarrow> (go_error + BackendService) \<times> 'w" where
  "updateBackendService bsp desiredBE w =
     (case UpdateGlobalBackendService bsp desiredBE w of
        (Some err, w1) \<Rightarrow> (Inl err, w1)
      | (None, w1) \<Rightarrow> GetGlobalBackendService bsp (be_Name desiredBE) w1)"

definition createBackendService :: "'w BackendServices \<Rightarrow> BackendService \<Rightarrow> 'w \<Rightarrow> (go_error + BackendService) \<times> 'w" where
  "createBackendService bsp desiredBE w =
     (case CreateGlobalBackendService bsp desiredBE w of
        (Some err, w1) \<Rightarrow> (Inl err, w1)
      | (None, w1) \<Rightarrow> GetGlobalBackendService bsp (be_Name desiredBE) w1)"

definition ensureBackendService ::
    "Namer \<Rightarrow> 'w BackendServices \<Rightarrow> string \<Rightarrow> ServicePort \<Rightarrow> HealthCheck option \<Rightarrow> NamedPort option \<Rightarrow> string list \<Rightarrow> bool \<Rightarrow>
     'w \<Rightarrow> ((go_error + BackendService) \<times> 'w) outcome" where
  "ensureBackendService s bsp lbName port hc np igLinks forceUpdate w =
     (case hc of
        None \<Rightarrow> Returns (Inl (Errorf ''missing health check probably due to an error in creating health check. Cannot create backend service without health chech link'' []), w)
      | Some h \<Rightarrow>
          if hc_SelfLink h = '''' then Returns (Inl (Errorf ''missing self link in health check %s'' [AStr (hc_Name h)]), w)
          else (case np of
             None \<Rightarrow> Returns (Inl (Errorf ''missing corresponding named port on the instance group'' []), w)
           | Some n \<Rightarrow>
               let desiredBE = desiredBackendService s lbName port (hc_SelfLink h) (np_Name n) igLinks
               in (case GetGlobalBackendService bsp (be_Name desiredBE) w of
                     (Inr existingBE, w1) \<Rightarrow>
                       (case backendServiceMatches desiredBE existingBE of
                          Panics \<Rightarrow> Panics
                        | Returns True \<Rightarrow> Returns (Inr existingBE, w1)
                        | Returns False \<Rightarrow>
                            if forceUpdate then
                              Returns (updateBackendService bsp (desiredBE\<lparr>be_Fingerprint := be_Fingerprint existingBE\<rparr>) w1)
                            else Returns (Inl (Errorf ''will not overwrite BackendService without --force'' []), w1))
                   | (Inl err, w1) \<Rightarrow> Returns (createBackendService bsp desiredBE w1))))"

fun ensureBackendServiceLoop ::
    "Namer \<Rightarrow> 'w BackendServices \<Rightarrow> string \<Rightarrow> HealthChecksMap \<Rightarrow> NamedPortsMap \<Rightarrow> string list \<Rightarrow> bool \<Rightarrow> ServicePort list \<Rightarrow>
     BackendServicesMap \<Rightarrow> go_error option \<Rightarrow> 'w \<Rightarrow> ((BackendServicesMap \<times> go_error option) \<times> 'w) outcome" where
  "ensureBackendServiceLoop s bsp lbName hcMap npMap igLinks forceUpdate [] ensured err w = Returns ((ensured, err), w)"
| "ensureBackendServiceLoop s bsp lbName hcMap npMap igLinks forceUpdate (p # ps) ensured err w =
     (case ensureBackendService s bsp lbName p (map_of hcMap (sp_NodePort p)) (map_of npMap (sp_NodePort p)) igLinks forceUpdate w of
        Panics \<Rightarrow> Panics
      | Returns (Inl beErr, w1) \<Rightarrow>
          ensureBackendServiceLoop s bsp lbName hcMap npMap igLinks forceUpdate ps ensured
            (multierror_Append err [Errorf ''Error %s in ensuring backend service for port %v'' [AErr beErr, AInt (sp_NodePort p)]]) w1
      | Returns (Inr be, w1) \<Rightarrow>
          ensureBackendServiceLoop s bsp lbName hcMap npMap igLinks forceUpdate ps (AList.update (sp_Name p) be ensured) err w1)"

definition EnsureBackendService ::
    "Namer \<Rightarrow> 'w BackendServices \<Rightarrow> string \<Rightarrow> ServicePort list \<Rightarrow> HealthChecksMap \<Rightarrow> NamedPortsMap \<Rightarrow> string list \<Rightarrow> bool \<Rightarrow>
     'w \<Rightarrow> ((BackendServicesMap \<times> go_error option) \<times> 'w) outcome" where
  "EnsureBackendService s bsp lbName ports hcMap npMap igLinks forceUpdate w =
     ensureBackendServiceLoop s bsp lbName hcMap npMap igLinks forceUpdate ports [] None w"

definition deleteBackendService :: "Namer \<Rightarrow> 'w BackendServices \<Rightarrow> ServicePort \<Rightarrow> 'w \<Rightarrow> go_error option \<times> 'w" where
  "deleteBackendService s bsp port w =
     (case DeleteGlobalBackendService bsp (BeServiceName s (sp_NodePort port)) w of
        (Some err, w1) \<Rightarrow> if IsHTTPErrorCode (Some err) StatusNotFound then (None, w1) else (Some err, w1)
      | (None, w1) \<Rightarrow> (None, w1))"

fun deleteBackendServiceLoop ::
    "Namer \<Rightarrow> 'w BackendServices \<Rightarrow> ServicePort list \<Rightarrow> go_error option \<Rightarrow> 'w \<Rightarrow> go_error option \<times> 'w" where
  "deleteBackendServiceLoop s bsp [] err w = (err, w)"
| "deleteBackendServiceLoop s bsp (p # ps) err w =
     (case deleteBackendService s bsp p w of
        (Some beErr, w1) \<Rightarrow> deleteBackendServiceLoop s bsp ps (multierror_Append err [beErr]) w1
      | (None, w1) \<Rightarrow> deleteBackendServiceLoop s bsp ps err w1)"

definition DeleteBackendServices :: "Namer \<Rightarrow> 'w BackendServices \<Rightarrow> ServicePort list \<Rightarrow> 'w \<Rightarrow> go_error option \<times> 'w" where
  "DeleteBackendServices s bsp ports w = deleteBackendServiceLoop s bsp ports None w"

definition removeFromClusters :: "Namer \<Rightarrow> 'w BackendServices \<Rightarrow> ServicePort \<Rightarrow> string list \<Rightarrow> 'w \<Rightarrow> go_error option \<times> 'w" where
  "removeFromClusters s bsp port removeIGLinks w =
     (let name = BeServiceName s (sp_NodePort port)
      in case GetGlobalBackendService bsp name w of
           (Inl err, w1) \<Rightarrow> (Some (Errorf ''error in fetching existing backend service %s: %s'' [AStr name, AErr err]), w1)
         | (Inr existingBE, w1) \<Rightarrow>
             (case updateBackendService bsp (desiredBackendServiceWithoutClusters existingBE removeIGLinks) w1 of
                (Inl err, w2) \<Rightarrow> (Some err, w2)
              | (Inr be, w2) \<Rightarrow> (None, w2)))"

fun removeFromClustersLoop ::
    "Namer \<Rightarrow> 'w BackendServices \<Rightarrow> string list \<Rightarrow> ServicePort list \<Rightarrow> go_error option \<Rightarrow> 'w \<Rightarrow> go_error option \<times> 'w" where
  "removeFromClustersLoop s bsp removeIGLinks [] err w = (err, w)"
| "removeFromClustersLoop s bsp removeIGLinks (p # ps) err w =
     (case removeFromClusters s bsp p removeIGLinks w of
        (Some beErr, w1) \<Rightarrow> removeFromClustersLoop s bsp removeIGLinks ps
          (multierror_Append err [Errorf ''Error %s in removing backend service for port %v'' [AErr beErr, AInt (sp_NodePort p)]]) w1
      | (None, w1) \<Rightarrow> removeFromClustersLoop s bsp removeIGLinks ps err w1)"

definition be_RemoveFromClusters :: "Namer \<Rightarrow> 'w BackendServices \<Rightarrow> ServicePort list \<Rightarrow> string list \<Rightarrow> 'w \<Rightarrow> go_error option \<times> 'w" where
  "be_RemoveFromClusters s bsp ports removeIGLinks w = removeFromClustersLoop s bsp removeIGLinks ports None w"

section \<open>Lemmas\<close>

text \<open>What a backend service in the project has in common with the desired one.\<close>

definition be_agrees :: "BackendService \<Rightarrow> BackendService \<Rightarrow> bool" where
  "be_agrees d b \<longleftrightarrow> be_Backends b = be_Backends d \<and> be_HealthChecks b = be_HealthChecks d \<and> be_Port b = be_Port d
     \<and> be_PortName b = be_PortName d \<and> be_Description b = be_Description d \<and> be_TimeoutSec b = be_TimeoutSec d
     \<and> be_LoadBalancingScheme b = be_LoadBalancingScheme d \<and> be_SessionAffinity b = be_SessionAffinity d
     \<and> be_EnableCDN b = be_EnableCDN d \<and> be_CdnPolicy b = be_CdnPolicy d \<and> be_ConnectionDraining b = be_ConnectionDraining d
     \<and> be_Iap b = be_Iap d \<and> (be_Protocol d \<noteq> ''HTTP2'' \<longrightarrow> be_Protocol b = be_Protocol d)"

lemma be_inputD:
  assumes "be_input b = be_input c"
  shows "be_Backends b = be_Backends c" "be_HealthChecks b = be_HealthChecks c" "be_Port b = be_Port c"
    "be_PortName b = be_PortName c" "be_Description b = be_Description c" "be_TimeoutSec b = be_TimeoutSec c"
    "be_LoadBalancingScheme b = be_LoadBalancingScheme c" "be_SessionAffinity b = be_SessionAffinity c"
    "be_EnableCDN b = be_EnableCDN c" "be_CdnPolicy b = be_CdnPolicy c" "be_ConnectionDraining b = be_ConnectionDraining c"
    "be_Iap b = be_Iap c" "be_Protocol b = be_Protocol c" "be_Name b = be_Name c"
  using assms by (cases b, cases c, simp add: be_input_def)+

lemma be_agrees_stored: "be_stored d b \<Longrightarrow> be_agrees d b"
  by (auto simp: be_stored_def be_agrees_def be_returned_def dest: be_inputD split: if_splits)

lemma be_agrees_fingerprint [simp]: "be_agrees (d\<lparr>be_Fingerprint := f\<rparr>) b = be_agrees d b"
  by (simp add: be_agrees_def)

lemma iapMatches_None: "iapMatches None e = (if e = None then Returns True else Panics)"
  by (simp add: iapMatches_def split: option.splits)

lemma desired_fields [simp]:
  "be_Iap (desiredBackendService s lbName port l n igs) = None"
  "be_Name (desiredBackendService s lbName port l n igs) = BeServiceName s (sp_NodePort port)"
  "be_Backends (desiredBackendService s lbName port l n igs) = desiredBackends igs"
  "be_HealthChecks (desiredBackendService s lbName port l n igs) = Slice [l]"
  "be_PortName (desiredBackendService s lbName port l n igs) = n"
  "be_Protocol (desiredBackendService s lbName port l n igs) = sp_Protocol port"
  by (simp_all add: desiredBackendService_def zero_BackendService_def)

lemma be_agrees_matches: "be_Iap d = None \<Longrightarrow> backendServiceMatches d b = Returns True \<Longrightarrow> be_agrees d b"
  by (auto simp: backendServiceMatches_def iapMatches_None be_agrees_def split: if_splits)

lemma ensureBackendService_cases:
  assumes "ensureBackendService s B lbName port hc np igLinks force w = Returns (x, w')"
  obtains (missing) e where "x = Inl e" "w' = w"
  | (run) h n d where "hc = Some h" "np = Some n" "hc_SelfLink h \<noteq> ''''"
      "d = desiredBackendService s lbName port (hc_SelfLink h) (np_Name n) igLinks"
      "(\<exists>e w1. GetGlobalBackendService B (be_Name d) w = (Inl e, w1) \<and> createBackendService B d w1 = (x, w'))
     \<or> (\<exists>ex. GetGlobalBackendService B (be_Name d) w = (Inr ex, w')
          \<and> (backendServiceMatches d ex = Returns True \<and> x = Inr ex \<or> \<not> force \<and> (\<exists>e. x = Inl e)))
     \<or> (\<exists>ex w1. GetGlobalBackendService B (be_Name d) w = (Inr ex, w1) \<and> force
          \<and> updateBackendService B (d\<lparr>be_Fingerprint := be_Fingerprint ex\<rparr>) w1 = (x, w'))"
  using assms
  by (auto simp: ensureBackendService_def Let_def split: option.splits if_splits prod.splits sum.splits outcome.splits bool.splits)

context be_api
begin

lemma updateBackendService_frame:
  assumes "updateBackendService B d w = (x, w')" "c \<noteq> (KBackendService, be_Name d)"
  shows "view w' c = view w c"
  using assms be.update_other_cells[of d w _ _ c] be.get_view
  by (fastforce simp: updateBackendService_def split: prod.splits option.splits)

lemma updateBackendService_ok:
  "updateBackendService B d w = (Inr b, w') \<Longrightarrow> be_stored d b \<and> view w' = (view w)((KBackendService, be_Name d) \<mapsto> RBackendService b)"
  using be.update_then_get[of d w _ b w'] by (auto simp: updateBackendService_def split: prod.splits option.splits)

lemma createBackendService_frame:
  assumes "createBackendService B d w = (x, w')" "c \<noteq> (KBackendService, be_Name d)"
  shows "view w' c = view w c"
  using assms be.create_frame[of d w _ _ c] be.get_view
  by (fastforce simp: createBackendService_def split: prod.splits option.splits)

lemma createBackendService_ok:
  "createBackendService B d w = (Inr b, w') \<Longrightarrow> view w (KBackendService, be_Name d) = None \<Longrightarrow>
   be_stored d b \<and> view w' = (view w)((KBackendService, be_Name d) \<mapsto> RBackendService b)"
  using be.create_then_get[of d w _ b w'] by (auto simp: createBackendService_def split: prod.splits option.splits)

lemma ensureBackendService_frame:
  assumes "ensureBackendService s B lbName port hc np igLinks force w = Returns (x, w')"
    and "c \<noteq> (KBackendService, BeServiceName s (sp_NodePort port))"
  shows "view w' c = view w c"
  using assms(1)
proof (cases rule: ensureBackendService_cases)
  case (run h n d)
  have n: "be_Name d = BeServiceName s (sp_NodePort port)" using run(4) by simp
  from run(5) show ?thesis
    using createBackendService_frame[of d _ x w' c] updateBackendService_frame[of "d\<lparr>be_Fingerprint := _\<rparr>" _ x w' c] assms(2)
      be.get_view[of "be_Name d" w] n by auto
qed simp

lemma ensureBackendService_ok:
  assumes "ensureBackendService s B lbName port hc np igLinks force w = Returns (Inr b, w')"
    and "\<forall>n w. found_or_404 (GetGlobalBackendService B) n w"
  shows "\<exists>h n. hc = Some h \<and> np = Some n
    \<and> be_agrees (desiredBackendService s lbName port (hc_SelfLink h) (np_Name n) igLinks) b
    \<and> view w' = (view w)((KBackendService, BeServiceName s (sp_NodePort port)) \<mapsto> RBackendService b)"
  using assms(1)
proof (cases rule: ensureBackendService_cases)
  case (run h n d)
  have n: "be_Name d = BeServiceName s (sp_NodePort port)" "be_Iap d = None" using run(4) by simp_all
  have "be_agrees d b \<and> view w' = (view w)((KBackendService, be_Name d) \<mapsto> RBackendService b)"
    using run(5)
  proof (elim disjE exE conjE, goal_cases)
    case (1 e w1)
    with be.get_not_found[OF 1(1)] found_or_404D[OF assms(2)[rule_format] 1(1)] createBackendService_ok[of d w1 b w'] be.get_view[OF 1(1)]
    show ?case by (simp add: be_agrees_stored)
  next
    case (2 ex)
    with be.get_value[OF 2(1)] be.get_view[OF 2(1)] be_agrees_matches[OF n(2)] show ?case by (auto simp: fun_upd_idem)
  next
    case (4 ex w1)
    with updateBackendService_ok[OF 4(3)] be_agrees_stored[of "d\<lparr>be_Fingerprint := be_Fingerprint ex\<rparr>" b] be.get_view[OF 4(1)]
    show ?case by simp
  qed simp
  with run n show ?thesis by auto
qed simp

end

lemma ensureBackendServiceLoop_err:
  "ensureBackendServiceLoop s B lbName hcMap npMap igLinks force ps m err w = Returns ((m', None), w') \<Longrightarrow> err = None"
  by (induction ps arbitrary: m err w) (fastforce split: prod.splits sum.splits outcome.splits)+

lemma ensureBackendServiceLoop_Cons:
  assumes "ensureBackendServiceLoop s B lbName hcMap npMap igLinks force (p # ps) m err w = Returns ((m', None), w')"
  obtains b w1 where
    "ensureBackendService s B lbName p (map_of hcMap (sp_NodePort p)) (map_of npMap (sp_NodePort p)) igLinks force w = Returns (Inr b, w1)"
    "ensureBackendServiceLoop s B lbName hcMap npMap igLinks force ps (AList.update (sp_Name p) b m) err w1 = Returns ((m', None), w')"
  using assms that by (auto split: prod.splits sum.splits outcome.splits dest!: ensureBackendServiceLoop_err)

lemma deleteBackendServiceLoop_each:
  "deleteBackendServiceLoop s B ps err w =
     (case delete_each (DeleteGlobalBackendService B) (map (\<lambda>p. BeServiceName s (sp_NodePort p)) ps) w of
        (es, w') \<Rightarrow> (fold (\<lambda>e err. multierror_Append err [e]) es err, w'))"
  by (induction ps arbitrary: err w)
    (auto simp: deleteBackendService_def IgnoreHTTPNotFound_def split: prod.splits option.splits)

lemma removeFromClustersLoop_err: "removeFromClustersLoop s B igs ps err w = (None, w') \<Longrightarrow> err = None"
  by (induction ps arbitrary: err w) (fastforce split: prod.splits option.splits)+

lemma removeFromClusters_cases:
  assumes "removeFromClusters s B p igs w = (e, w')"
  obtains (missing) e' where "GetGlobalBackendService B (BeServiceName s (sp_NodePort p)) w = (Inl e', w')" "e \<noteq> None"
  | (updated) old x w1 where "GetGlobalBackendService B (BeServiceName s (sp_NodePort p)) w = (Inr old, w1)"
      "updateBackendService B (desiredBackendServiceWithoutClusters old igs) w1 = (x, w')" "e = None \<longleftrightarrow> (\<exists>b. x = Inr b)"
  using assms by (auto simp: removeFromClusters_def Let_def split: prod.splits sum.splits)

lemma withoutClusters_backends:
  "elems (be_Backends (desiredBackendServiceWithoutClusters old igs)) = filter (\<lambda>v. bk_Group v \<notin> set igs) (elems (be_Backends old))"
  by (simp add: desiredBackendServiceWithoutClusters_def desiredBackends_def zero_Backend_def image_image)

lemma withoutClusters_name [simp]: "be_Name (desiredBackendServiceWithoutClusters old igs) = be_Name old"
  by (simp add: desiredBackendServiceWithoutClusters_def)

text \<open>What is left of a backend service after the removal of instance groups.\<close>

definition groups_removed :: "string list \<Rightarrow> BackendService \<Rightarrow> BackendService \<Rightarrow> bool" where
  "groups_removed igs old b \<longleftrightarrow>
     elems (be_Backends b) = filter (\<lambda>v. bk_Group v \<notin> set igs) (elems (be_Backends old))
   \<and> (be_Protocol old \<noteq> ''HTTP2'' \<longrightarrow> be_input b = be_input (old\<lparr>be_Backends := be_Backends b\<rparr>))"

lemma groups_removed_stored:
  assumes "be_stored (desiredBackendServiceWithoutClusters old igs) b"
  shows "groups_removed igs old b"
proof -
  let ?d = "desiredBackendServiceWithoutClusters old igs"
  have d: "?d = old\<lparr>be_Backends := be_Backends ?d\<rparr>" by (simp add: desiredBackendServiceWithoutClusters_def)
  have i: "be_input b = be_input (be_returned ?d)" using assms by (simp add: be_stored_def)
  have b: "be_Backends b = be_Backends ?d" using be_inputD(1)[OF i] by (simp add: be_returned_def)
  have "be_input b = be_input (old\<lparr>be_Backends := be_Backends b\<rparr>)" if "be_Protocol old \<noteq> ''HTTP2''"
    using i that d unfolding b by (metis BackendService.select_convs(17) be_returned_def BackendService.update_convs(2) BackendService.surjective)
  with b show ?thesis by (simp add: groups_removed_def withoutClusters_backends)
qed

text \<open>Every entry of the map is the backend service of a port of that service.\<close>

definition bes_stored :: "('w \<Rightarrow> project) \<Rightarrow> Namer \<Rightarrow> ServicePort list \<Rightarrow> BackendServicesMap \<Rightarrow> 'w \<Rightarrow> bool" where
  "bes_stored view s ports m w \<longleftrightarrow>
     (\<forall>k b. map_of m k = Some b \<longrightarrow>
        (\<exists>p \<in> set ports. k = sp_Name p \<and> view w (KBackendService, BeServiceName s (sp_NodePort p)) = Some (RBackendService b)))"

lemma groups_removed_trans:
  assumes "groups_removed igs a b" "groups_removed igs b c"
  shows "groups_removed igs a c"
proof -
  have "be_input c = be_input (a\<lparr>be_Backends := be_Backends c\<rparr>)" if p: "be_Protocol a \<noteq> ''HTTP2''"
  proof -
    have ab: "be_input b = be_input (a\<lparr>be_Backends := be_Backends b\<rparr>)" using assms(1) p by (simp add: groups_removed_def)
    with be_inputD(13)[OF ab] assms(2) p have "be_input c = be_input (b\<lparr>be_Backends := be_Backends c\<rparr>)"
      by (simp add: groups_removed_def)
    also have "\<dots> = be_input (a\<lparr>be_Backends := be_Backends c\<rparr>)"
      using ab by (cases a, cases b) (simp add: be_input_def)
    finally show ?thesis .
  qed
  with assms show ?thesis by (simp add: groups_removed_def)
qed

context be_api
begin

lemma ensureBackendServiceLoop_frame:
  assumes "ensureBackendServiceLoop s B lbName hcMap npMap igLinks force ps m err w = Returns (x, w')"
    and "c \<notin> (\<lambda>p. (KBackendService, BeServiceName s (sp_NodePort p))) ` set ps"
  shows "view w' c = view w c"
  using assms
proof (induction ps arbitrary: m err w)
  case (Cons p ps)
  obtain y w1 where ens: "ensureBackendService s B lbName p (map_of hcMap (sp_NodePort p)) (map_of npMap (sp_NodePort p)) igLinks force w = Returns (y, w1)"
    using Cons.prems(1) by (auto split: outcome.splits)
  obtain m1 err1 where rest: "ensureBackendServiceLoop s B lbName hcMap npMap igLinks force ps m1 err1 w1 = Returns (x, w')"
    using Cons.prems(1) ens by (cases y) auto
  from Cons.IH[OF rest] Cons.prems(2) ensureBackendService_frame[OF ens, of c] show ?case by auto
qed simp

lemma ensureBackendServiceLoop_ok:
  assumes "ensureBackendServiceLoop s B lbName hcMap npMap igLinks force ps m err w = Returns ((m', None), w')"
    and "\<forall>n w. found_or_404 (GetGlobalBackendService B) n w" "inj_on (\<lambda>p. BeServiceName s (sp_NodePort p)) (set ps)" "p \<in> set ps"
  shows "\<exists>h n b. map_of hcMap (sp_NodePort p) = Some h \<and> map_of npMap (sp_NodePort p) = Some n
      \<and> view w' (KBackendService, BeServiceName s (sp_NodePort p)) = Some (RBackendService b)
      \<and> be_agrees (desiredBackendService s lbName p (hc_SelfLink h) (np_Name n) igLinks) b"
  using assms(1,3,4)
proof (induction ps arbitrary: m w)
  case (Cons q ps)
  from Cons.prems(1) obtain b w1 where run:
    "ensureBackendService s B lbName q (map_of hcMap (sp_NodePort q)) (map_of npMap (sp_NodePort q)) igLinks force w = Returns (Inr b, w1)"
    "ensureBackendServiceLoop s B lbName hcMap npMap igLinks force ps (AList.update (sp_Name q) b m) err w1 = Returns ((m', None), w')"
    by (rule ensureBackendServiceLoop_Cons)
  show ?case
  proof (cases "p \<in> set ps")
    case True
    with Cons.IH[OF run(2)] Cons.prems(2) show ?thesis by simp
  next
    case False
    with Cons.prems(2,3) have pq: "p = q" "BeServiceName s (sp_NodePort p) \<notin> (\<lambda>p. BeServiceName s (sp_NodePort p)) ` set ps" by auto
    then have "view w' (KBackendService, BeServiceName s (sp_NodePort p)) = view w1 (KBackendService, BeServiceName s (sp_NodePort p))"
      using ensureBackendServiceLoop_frame[OF run(2)] by (auto simp: image_iff)
    with ensureBackendService_ok[OF run(1) assms(2)] pq(1) show ?thesis by auto
  qed
qed simp

lemma bes_stored_update:
  assumes "bes_stored view s ports m w" "p \<in> set ports" "inj_on (\<lambda>p. BeServiceName s (sp_NodePort p)) (set ports)"
    and "view w' = (view w)((KBackendService, BeServiceName s (sp_NodePort p)) \<mapsto> RBackendService b)"
  shows "bes_stored view s ports (AList.update (sp_Name p) b m) w'"
  unfolding bes_stored_def
proof (intro allI impI)
  fix k c assume *: "map_of (AList.update (sp_Name p) b m) k = Some c"
  show "\<exists>p \<in> set ports. k = sp_Name p \<and> view w' (KBackendService, BeServiceName s (sp_NodePort p)) = Some (RBackendService c)"
  proof (cases "k = sp_Name p")
    case True
    with * assms(2,4) show ?thesis by (auto simp: AList.update_conv')
  next
    case False
    with * assms(1) obtain q where q: "q \<in> set ports" "k = sp_Name q"
      "view w (KBackendService, BeServiceName s (sp_NodePort q)) = Some (RBackendService c)"
      by (auto simp: AList.update_conv' bes_stored_def)
    with False inj_onD[OF assms(3) _ q(1) assms(2)] assms(4) show ?thesis by auto
  qed
qed

lemma ensureBackendServiceLoop_map:
  assumes "ensureBackendServiceLoop s B lbName hcMap npMap igLinks force ps m err w = Returns ((m', None), w')"
    and "\<forall>n w. found_or_404 (GetGlobalBackendService B) n w" "inj_on (\<lambda>p. BeServiceName s (sp_NodePort p)) (set ports)"
    and "set ps \<subseteq> set ports" "bes_stored view s ports m w"
  shows "bes_stored view s ports m' w' \<and> fst ` set m' = fst ` set m \<union> sp_Name ` set ps"
  using assms(1,4,5)
proof (induction ps arbitrary: m w)
  case (Cons q ps)
  from Cons.prems(1) obtain b w1 where run:
    "ensureBackendService s B lbName q (map_of hcMap (sp_NodePort q)) (map_of npMap (sp_NodePort q)) igLinks force w = Returns (Inr b, w1)"
    "ensureBackendServiceLoop s B lbName hcMap npMap igLinks force ps (AList.update (sp_Name q) b m) err w1 = Returns ((m', None), w')"
    by (rule ensureBackendServiceLoop_Cons)
  have "bes_stored view s ports (AList.update (sp_Name q) b m) w1"
    by (rule bes_stored_update[OF Cons.prems(3) _ assms(3)]) (use ensureBackendService_ok[OF run(1) assms(2)] Cons.prems(2) in auto)
  from Cons.IH[OF run(2) _ this] Cons.prems(2) show ?case by (auto simp: AList.dom_update)
qed simp

lemma removeFromClusters_frame:
  assumes "removeFromClusters s B p igs w = (e, w')" "c \<noteq> (KBackendService, BeServiceName s (sp_NodePort p))"
  shows "view w' c = view w c"
  using assms(1)
proof (cases rule: removeFromClusters_cases)
  case (updated old x w1)
  then show ?thesis using updateBackendService_frame[OF updated(2), of c] be_named[OF updated(1)] be.get_view[OF updated(1)] assms(2) by simp
qed (simp add: be.get_view)

lemma removeFromClusters_ok:
  assumes "removeFromClusters s B p igs w = (None, w')"
  shows "\<exists>old b. view w (KBackendService, BeServiceName s (sp_NodePort p)) = Some (RBackendService old)
    \<and> view w' (KBackendService, BeServiceName s (sp_NodePort p)) = Some (RBackendService b) \<and> groups_removed igs old b"
  using assms(1)
proof (cases rule: removeFromClusters_cases)
  case (updated old x w1)
  then obtain b where "x = Inr b" by auto
  with updateBackendService_ok[of _ w1 b w'] updated be_named[OF updated(1)] be.get_value[OF updated(1)] groups_removed_stored
  show ?thesis by auto
qed simp

lemma removeFromClustersLoop_frame:
  assumes "removeFromClustersLoop s B igs ps err w = (e, w')" "c \<notin> (\<lambda>p. (KBackendService, BeServiceName s (sp_NodePort p))) ` set ps"
  shows "view w' c = view w c"
  using assms
proof (induction ps arbitrary: err w)
  case (Cons p ps)
  obtain e1 w1 where rm: "removeFromClusters s B p igs w = (e1, w1)" by fastforce
  obtain err1 where rest: "removeFromClustersLoop s B igs ps err1 w1 = (e, w')" using Cons.prems(1) rm by (cases e1) auto
  from Cons.IH[OF rest] Cons.prems(2) removeFromClusters_frame[OF rm, of c] show ?case by auto
qed simp

lemma removeFromClustersLoop_ok:
  assumes "removeFromClustersLoop s B igs ps err w = (None, w')" "inj_on (\<lambda>p. BeServiceName s (sp_NodePort p)) (set ps)" "p \<in> set ps"
  shows "\<exists>old b. view w (KBackendService, BeServiceName s (sp_NodePort p)) = Some (RBackendService old)
    \<and> view w' (KBackendService, BeServiceName s (sp_NodePort p)) = Some (RBackendService b) \<and> groups_removed igs old b"
  using assms
proof (induction ps arbitrary: w)
  case (Cons q ps)
  obtain e1 w1 where rm: "removeFromClusters s B q igs w = (e1, w1)" by fastforce
  have e1: "e1 = None" using Cons.prems(1) rm by (cases e1) (auto dest: removeFromClustersLoop_err)
  with Cons.prems(1) rm have rest: "removeFromClustersLoop s B igs ps err w1 = (None, w')" by simp
  note first = removeFromClusters_ok[OF rm[unfolded e1]]
  consider "p = q" "p \<notin> set ps" | "p = q" "p \<in> set ps" | "p \<noteq> q" "p \<in> set ps" using Cons.prems(3) by auto
  then show ?case
  proof cases
    case 1
    then have "BeServiceName s (sp_NodePort p) \<notin> (\<lambda>p. BeServiceName s (sp_NodePort p)) ` set ps" using Cons.prems(2) by auto
    with removeFromClustersLoop_frame[OF rest, of "(KBackendService, BeServiceName s (sp_NodePort p))"] first 1
    show ?thesis by (auto simp: image_iff)
  next
    case 2
    from Cons.IH[OF rest _ 2(2)] Cons.prems(2) 2(1) first show ?thesis by (auto intro: groups_removed_trans)
  next
    case 3
    then have "BeServiceName s (sp_NodePort p) \<noteq> BeServiceName s (sp_NodePort q)" using Cons.prems(2) by (auto simp: inj_on_def)
    then have "view w1 (KBackendService, BeServiceName s (sp_NodePort p)) = view w (KBackendService, BeServiceName s (sp_NodePort p))"
      using removeFromClusters_frame[OF rm] by simp
    with Cons.IH[OF rest _ 3(2)] Cons.prems(2) show ?thesis by simp
  qed
qed simp

lemma DeleteBackendServices_effect:
  assumes "DeleteBackendServices s B ports w = (e, w')"
  shows "c \<notin> (\<lambda>p. (KBackendService, BeServiceName s (sp_NodePort p))) ` set ports \<Longrightarrow> view w' c = view w c"
    and "e = None \<Longrightarrow> p \<in> set ports \<Longrightarrow> view w' (KBackendService, BeServiceName s (sp_NodePort p)) = None"
proof -
  obtain es where run: "delete_each (DeleteGlobalBackendService B) (map (\<lambda>p. BeServiceName s (sp_NodePort p)) ports) w = (es, w')"
    "e = fold (\<lambda>e err. multierror_Append err [e]) es None"
    using assms by (auto simp: DeleteBackendServices_def deleteBackendServiceLoop_each split: prod.splits)
  show "c \<notin> (\<lambda>p. (KBackendService, BeServiceName s (sp_NodePort p))) ` set ports \<Longrightarrow> view w' c = view w c"
    using be.delete_each_frame[OF run(1), of c] by (simp add: image_image)
  show "e = None \<Longrightarrow> p \<in> set ports \<Longrightarrow> view w' (KBackendService, BeServiceName s (sp_NodePort p)) = None"
    using be.delete_each_ok[of "map (\<lambda>p. BeServiceName s (sp_NodePort p)) ports" w w' "BeServiceName s (sp_NodePort p)"] run
    by (simp add: fold_multierror_None)
qed

end

section \<open>Properties\<close>

text \<open>
  C32. When \<^verbatim>\<open>EnsureBackendService\<close> reports no error, the project has for every port a backend service with the desired
  backends, health check and port name, the map it returns has one entry per service name, and each entry
  is the backend service of a port of that service; other objects are untouched in every case.
\<close>

theorem backend_services_ensured:
  assumes "be_api view B" "\<forall>n w. found_or_404 (GetGlobalBackendService B) n w"
    and "inj_on (\<lambda>p. BeServiceName s (sp_NodePort p)) (set ports)"
    and "EnsureBackendService s B lbName ports hcMap npMap igLinks force w = Returns ((m, e), w')"
  shows "(e = None \<longrightarrow>
      (\<forall>p \<in> set ports. \<exists>h n b. map_of hcMap (sp_NodePort p) = Some h \<and> map_of npMap (sp_NodePort p) = Some n
        \<and> view w' (KBackendService, BeServiceName s (sp_NodePort p)) = Some (RBackendService b)
        \<and> be_agrees (desiredBackendService s lbName p (hc_SelfLink h) (np_Name n) igLinks) b)
      \<and> fst ` set m = sp_Name ` set ports
      \<and> (\<forall>k b. map_of m k = Some b \<longrightarrow>
          (\<exists>p \<in> set ports. k = sp_Name p \<and> view w' (KBackendService, BeServiceName s (sp_NodePort p)) = Some (RBackendService b))))
    \<and> (\<forall>c. c \<notin> (\<lambda>p. (KBackendService, BeServiceName s (sp_NodePort p))) ` set ports \<longrightarrow> view w' c = view w c)"
proof -
  note run = assms(4)[unfolded EnsureBackendService_def]
  have "bes_stored view s ports m w' \<and> fst ` set m = sp_Name ` set ports" if "e = None"
    using be_api.ensureBackendServiceLoop_map[OF assms(1) _ assms(2,3) subset_refl, of lbName hcMap npMap igLinks force "[]" None w m w'] run that
    by (simp add: bes_stored_def)
  with be_api.ensureBackendServiceLoop_frame[OF assms(1) run]
    be_api.ensureBackendServiceLoop_ok[OF assms(1) _ assms(2,3), of lbName hcMap npMap igLinks force "[]" None w m w'] run
  show ?thesis by (auto simp: bes_stored_def)
qed

text \<open>
  C33. \<^verbatim>\<open>ensureBackendService\<close> panics exactly when the backend service exists with an IAP configuration and otherwise agrees with the
  desired one in every field compared before it.
\<close>

theorem backend_service_panic:
  assumes "be_api view B" "hc_SelfLink h \<noteq> ''''" "GetGlobalBackendService B (BeServiceName s (sp_NodePort port)) w = (Inr ex, w1)"
  shows "ensureBackendService s B lbName port (Some h) (Some n) igLinks force w = Panics \<longleftrightarrow>
    be_Iap ex \<noteq> None \<and> be_AffinityCookieTtlSec ex = 0 \<and> be_Backends ex = desiredBackends igLinks \<and> be_CdnPolicy ex = None
    \<and> be_ConnectionDraining ex = Some zero_ConnectionDraining
    \<and> be_Description ex = be_Description (desiredBackendService s lbName port (hc_SelfLink h) (np_Name n) igLinks)
    \<and> \<not> be_EnableCDN ex \<and> be_HealthChecks ex = Slice [hc_SelfLink h]"
  using assms(2,3)
  by (auto simp: ensureBackendService_def backendServiceMatches_def iapMatches_None desiredBackendService_def zero_BackendService_def
      Let_def split: outcome.splits bool.splits)

text \<open>
  A successful \<^verbatim>\<open>RemoveFromClusters\<close> removes from the backend service of every port exactly the backends with one of the
  given instance groups, keeps its other fields, and changes no other object.
\<close>

theorem backends_removed_from_clusters:
  assumes "be_api view B" "inj_on (\<lambda>p. BeServiceName s (sp_NodePort p)) (set ports)"
    and "be_RemoveFromClusters s B ports igs w = (e, w')"
  shows "(e = None \<longrightarrow> (\<forall>p \<in> set ports. \<exists>old b.
        view w (KBackendService, BeServiceName s (sp_NodePort p)) = Some (RBackendService old)
      \<and> view w' (KBackendService, BeServiceName s (sp_NodePort p)) = Some (RBackendService b) \<and> groups_removed igs old b))
    \<and> (\<forall>c. c \<notin> (\<lambda>p. (KBackendService, BeServiceName s (sp_NodePort p))) ` set ports \<longrightarrow> view w' c = view w c)"
proof -
  note run = assms(3)[unfolded be_RemoveFromClusters_def]
  from be_api.removeFromClustersLoop_frame[OF assms(1) run] be_api.removeFromClustersLoop_ok[OF assms(1) _ assms(2)] run
  show ?thesis by auto
qed

text \<open>
  \<^verbatim>\<open>DeleteBackendServices\<close> touches nothing but the backend services of the given ports, and when it reports no error none of
  them is left.
\<close>

theorem delete_backend_services_exact:
  assumes "be_api view B" "DeleteBackendServices s B ports w = (e, w')"
  shows "(\<forall>c. c \<notin> (\<lambda>p. (KBackendService, BeServiceName s (sp_NodePort p))) ` set ports \<longrightarrow> view w' c = view w c)
    \<and> (e = None \<longrightarrow> (\<forall>p \<in> set ports. view w' (KBackendService, BeServiceName s (sp_NodePort p)) = None))"
  using be_api.DeleteBackendServices_effect[OF assms] by blast

section \<open>Examples\<close>

definition hc_example :: HealthCheck where
  "hc_example = zero_HealthCheck\<lparr>hc_SelfLink := ''hc''\<rparr>"

definition np_example :: NamedPort where
  "np_example = zero_NamedPort\<lparr>np_Name := ''port30301''\<rparr>"

definition be_example :: "BackendServiceIAP option \<Rightarrow> BackendService" where
  "be_example iap = (desiredBackendService lb1 ''lb'' web_port ''hc'' ''port30301'' [''ig2'', ''ig1''])\<lparr>be_Iap := iap\<rparr>"

definition cloud_example :: "BackendServiceIAP option \<Rightarrow> FakeCloud" where
  "cloud_example iap = NewFakeLoadBalancers\<lparr>f_backendServices := [(BeServiceName lb1 30301, be_example iap)]\<rparr>"

lemma be_example_name [simp]: "be_Name (be_example iap) = BeServiceName lb1 30301"
  by (simp add: be_example_def)

lemma be_example_get:
  "fst (fake_GetGlobalBackendService (BeServiceName lb1 30301) (cloud_example iap)) = Inr (be_example iap)"
  by (simp add: fake_provider_ops cloud_example_def be_returned_def) (simp add: be_example_def)

theorem backend_services_ensured_witness:
  "\<exists>m f'. EnsureBackendService lb1 fake_be ''lb'' [web_port] [(30301, hc_example)] [(30301, np_example)] [''ig2'', ''ig1''] False
       NewFakeLoadBalancers = Returns ((m, None), f') \<and> fst ` set m = {''web''}
     \<and> (\<exists>b. fake_view f' (KBackendService, BeServiceName lb1 30301) = Some (RBackendService b)
          \<and> be_Backends b = desiredBackends [''ig2'', ''ig1''])"
proof -
  obtain m f' where run: "EnsureBackendService lb1 fake_be ''lb'' [web_port] [(30301, hc_example)] [(30301, np_example)] [''ig2'', ''ig1''] False
       NewFakeLoadBalancers = Returns ((m, None), f')"
    by (simp add: EnsureBackendService_def ensureBackendService_def createBackendService_def fake_provider_ops
        NewFakeLoadBalancers_def hc_example_def Let_def)
  have "\<forall>n f. found_or_404 (GetGlobalBackendService fake_be) n f" by (simp add: fake_provider_404)
  from backend_services_ensured[OF fake_bes.be_api_axioms this _ run] run show ?thesis
    by (auto simp: be_agrees_def simp del: fake_view.simps)
qed

theorem backend_service_panic_witness:
  "ensureBackendService lb1 fake_be ''lb'' web_port (Some hc_example) (Some np_example) [''ig2'', ''ig1''] True
     (cloud_example (Some zero_BackendServiceIAP)) = Panics"
proof -
  obtain f' where get: "GetGlobalBackendService fake_be (BeServiceName lb1 (sp_NodePort web_port)) (cloud_example (Some zero_BackendServiceIAP))
      = (Inr (be_example (Some zero_BackendServiceIAP)), f')"
    using be_example_get[of "Some zero_BackendServiceIAP"] by (auto simp: prod_eq_iff)
  have "hc_SelfLink hc_example \<noteq> ''''" by (simp add: hc_example_def)
  from backend_service_panic[OF fake_bes.be_api_axioms this get] show ?thesis
    by (simp add: be_example_def hc_example_def np_example_def zero_HealthCheck_def zero_NamedPort_def
        desiredBackendService_def zero_BackendService_def)
qed

theorem backends_removed_from_clusters_witness:
  "\<exists>f' b. be_RemoveFromClusters lb1 fake_be [web_port] [''ig2''] (cloud_example None) = (None, f')
     \<and> fake_view f' (KBackendService, BeServiceName lb1 30301) = Some (RBackendService b)
     \<and> map bk_Group (elems (be_Backends b)) = [''ig1'']"
proof -
  obtain f1 where get: "fake_GetGlobalBackendService (BeServiceName lb1 30301) (cloud_example None) = (Inr (be_example None), f1)"
    using be_example_get[of None] by (metis prod.collapse)
  obtain f' where run: "be_RemoveFromClusters lb1 fake_be [web_port] [''ig2''] (cloud_example None) = (None, f')"
  proof -
    let ?d = "desiredBackendServiceWithoutClusters (be_example None) [''ig2'']"
    have "\<exists>f2. updateBackendService fake_be ?d f1 = (Inr (be_returned ?d), f2)"
      by (simp add: updateBackendService_def fake_UpdateGlobalBackendService_def fake_GetGlobalBackendService_def AList.update_conv')
    with that show ?thesis by (auto simp: be_RemoveFromClusters_def removeFromClusters_def get)
  qed
  from backends_removed_from_clusters[OF fake_bes.be_api_axioms _ run] obtain old b where
    ob: "fake_view (cloud_example None) (KBackendService, BeServiceName lb1 30301) = Some (RBackendService old)"
    "fake_view f' (KBackendService, BeServiceName lb1 30301) = Some (RBackendService b)" "groups_removed [''ig2''] old b"
    by (auto simp del: fake_view.simps)
  have "old = be_example None" using ob(1) by (auto simp: cloud_example_def be_returned_def be_example_def)
  with ob(3) have "map bk_Group (elems (be_Backends b)) = [''ig1'']"
    by (simp add: groups_removed_def be_example_def desiredBackends_def zero_Backend_def)
  with run ob show ?thesis by auto
qed

theorem delete_backend_services_exact_witness:
  "\<exists>f'. DeleteBackendServices lb1 fake_be [web_port] (cloud_example None) = (None, f')
     \<and> fake_view f' (KBackendService, BeServiceName lb1 30301) = None"
proof -
  obtain f' where run: "DeleteBackendServices lb1 fake_be [web_port] (cloud_example None) = (None, f')"
    by (simp add: DeleteBackendServices_def deleteBackendService_def fake_provider_ops cloud_example_def)
  from delete_backend_services_exact[OF fake_bes.be_api_axioms run] run show ?thesis by (auto simp del: fake_view.simps)
qed

end
