(* ===== verification/Instances.thy ===== *)
theory Instances
  imports KubeTypes
begin

text \<open>
  \<^verbatim>\<open>app/kubemci/pkg/gcp/utils/utils.go\<close>, the parsing of resource links, and
  \<^verbatim>\<open>app/kubemci/pkg/gcp/instances/instancegetter.go\<close>, which looks up an instance of an instance group.  The two calls of
  the compute API are parameters.
\<close>

section \<open>Definitions\<close>

text \<open>\<^verbatim>\<open>strings.Split\<close> for a separator that is not empty: the argument \<open>acc\<close> holds, reversed, the component read so far.\<close>

function split_from :: "string \<Rightarrow> string \<Rightarrow> string \<Rightarrow> string list" where
  "split_from sep acc s =
     (if s = [] then [rev acc]
      else if HasPrefix s sep \<and> sep \<noteq> [] then rev acc # split_from sep [] (drop (length sep) s)
      else split_from sep (hd s # acc) (tl s))"
  by pat_completeness auto
termination by (relation "measure (\<lambda>(sep, acc, s). length s)") auto

declare split_from.simps [simp del]

definition strings_Split :: "string \<Rightarrow> string \<Rightarrow> string list" where
  "strings_Split s sep = split_from sep [] s"

definition getNameFromURL :: "string \<Rightarrow> go_error + string" where
  "getNameFromURL url =
     (let components = strings_Split url ''/''
      in if length components < 2 then Inl (Errorf ''error in parsing URL: %s, expected it to contain /'' [AStr url])
         else Inr (components ! (length components - 1)))"

definition GetZoneAndNameFromIGURL :: "string \<Rightarrow> go_error + string \<times> string" where
  "GetZoneAndNameFromIGURL igURL =
     (let components = strings_Split igURL ''/instanceGroups/''
      in if length components \<noteq> 2 then
           Inl (Errorf ''error in parsing instance groups URL: %s, expected it to contain /instanceGroups'' [AStr igURL])
         else (case getNameFromURL (components ! 0) of
            Inl err \<Rightarrow> Inl (Errorf ''error in parsing zone name from its url: %s'' [AErr err])
          | Inr zone \<Rightarrow> Inr (zone, components ! 1)))"

definition GetZoneAndNameFromInstanceURL :: "string \<Rightarrow> go_error + string \<times> string" where
  "GetZoneAndNameFromInstanceURL instanceURL =
     (let components = strings_Split instanceURL ''/instances/''
      in if length components \<noteq> 2 then
           Inl (Errorf ''error in parsing instance URL: %s, expected it to contain /instances'' [AStr instanceURL])
         else (case getNameFromURL (components ! 0) of
            Inl err \<Rightarrow> Inl (Errorf ''error in parsing zone name from its url: %s'' [AErr err])
          | Inr zone \<Rightarrow> Inr (zone, components ! 1)))"

text \<open>
  \<open>listInstances zone name\<close> gives the links of the instances of a group, \<open>getInst zone name\<close> an instance; making the
  service object from an existing client does not fail.
\<close>

definition GetInstance ::
    "(string \<Rightarrow> string \<Rightarrow> 'w \<Rightarrow> (go_error + string list) \<times> 'w) \<Rightarrow> (string \<Rightarrow> string \<Rightarrow> 'w \<Rightarrow> (go_error + Instance) \<times> 'w) \<Rightarrow>
     string \<Rightarrow> 'w \<Rightarrow> (go_error + Instance) \<times> 'w" where
  "GetInstance listInstances getInst igURL w =
     (case GetZoneAndNameFromIGURL igURL of
        Inl err \<Rightarrow> (Inl err, w)
      | Inr (igZone, igName) \<Rightarrow>
          (case listInstances igZone igName w of
             (Inl err, w1) \<Rightarrow>
               (Inl (Errorf ''error in fetching instances in instance group %s/%s: %s'' [AStr igZone, AStr igName, AErr err]), w1)
           | (Inr [], w1) \<Rightarrow> (Inl (Errorf ''no instance found in instance group %s/%s'' [AStr igZone, AStr igName]), w1)
           | (Inr (item # items), w1) \<Rightarrow>
               (case GetZoneAndNameFromInstanceURL item of
                  Inl err \<Rightarrow> (Inl (Errorf ''error in parsing an instance Url %s: %s'' [AStr item, AErr err]), w1)
                | Inr (iZone, iName) \<Rightarrow>
                    (case getInst iZone iName w1 of
                       (Inl err, w2) \<Rightarrow> (Inl (Errorf ''error in fetching instance %s/%s: %s'' [AStr iZone, AStr iName, AErr err]), w2)
                     | (Inr inst, w2) \<Rightarrow> (Inr inst, w2)))))"

section \<open>Lemmas\<close>

text \<open>A string without a character of the separator is one component.\<close>

lemma split_from_none:
  "c \<in> set sep \<Longrightarrow> c \<notin> set s \<Longrightarrow> split_from sep acc s = [rev acc @ s]"
proof (induction s arbitrary: acc)
  case Nil
  then show ?case by (simp add: split_from.simps[of sep acc])
next
  case (Cons x s)
  then have "\<not> HasPrefix (x # s) sep" unfolding HasPrefix_iff by (metis Un_iff set_append set_ConsD)
  with Cons show ?case by (subst split_from.simps) auto
qed

text \<open>Up to the first place where the separator starts, the characters belong to the first component.\<close>

lemma split_from_first:
  assumes "\<forall>i < length a. \<not> HasPrefix (drop i (a @ sep @ b)) sep" "sep \<noteq> []"
  shows "split_from sep acc (a @ sep @ b) = (rev acc @ a) # split_from sep [] b"
  using assms(1)
proof (induction a arbitrary: acc)
  case Nil
  with assms(2) show ?case by (subst split_from.simps) (auto simp: HasPrefix_iff)
next
  case (Cons x a)
  have "\<not> HasPrefix ((x # a) @ sep @ b) sep" using Cons.prems[rule_format, of 0] by simp
  moreover have "\<forall>i < length a. \<not> HasPrefix (drop i (a @ sep @ b)) sep" using Cons.prems by fastforce
  ultimately show ?case using Cons.IH[of "x # acc"] by (subst split_from.simps) simp
qed

lemma split_slash_nonempty: "split_from sep acc s \<noteq> []"
  by (induction sep acc s rule: split_from.induct) (subst split_from.simps, simp)

lemma split_slash_append:
  "CHR ''/'' \<notin> set b \<Longrightarrow> \<exists>xs. xs \<noteq> [] \<and> split_from ''/'' acc (a @ ''/'' @ b) = xs @ [b]"
proof (induction a arbitrary: acc)
  case Nil
  then show ?case by (subst split_from.simps) (simp add: HasPrefix_def split_from_none[of "CHR ''/''"])
next
  case (Cons x a)
  show ?case
  proof (cases "x = CHR ''/''")
    case True
    with Cons.IH[OF Cons.prems, of "[]"] show ?thesis by (subst split_from.simps) (auto simp: HasPrefix_def)
  next
    case False
    with Cons.IH[OF Cons.prems, of "x # acc"] show ?thesis by (subst split_from.simps) (auto simp: HasPrefix_def)
  qed
qed

lemma getNameFromURL_append: "CHR ''/'' \<notin> set zone \<Longrightarrow> getNameFromURL (pre @ ''/'' @ zone) = Inr zone"
  using split_slash_append[of zone "[]" pre]
  by (auto simp: getNameFromURL_def strings_Split_def Let_def nth_append Suc_le_eq)

lemma first_group_separator:
  assumes "CHR ''G'' \<notin> set a" "i < length a"
  shows "\<not> HasPrefix (drop i (a @ ''/instanceGroups/'' @ b)) ''/instanceGroups/''"
proof
  let ?sep = "''/instanceGroups/''"
  assume "HasPrefix (drop i (a @ ?sep @ b)) ?sep"
  then obtain t where t: "drop i (a @ ?sep @ b) = ?sep @ t" by (auto simp: HasPrefix_iff)
  have "(a @ ?sep @ b) ! (i + 9) = drop i (a @ ?sep @ b) ! 9" using assms(2) by (subst nth_drop) (simp_all del: drop_append)
  also have "\<dots> = CHR ''G''" unfolding t by simp
  finally have G: "(a @ ?sep @ b) ! (i + 9) = CHR ''G''" .
  show False
  proof (cases "i + 9 < length a")
    case True
    with G assms(1) show False by (metis nth_append nth_mem)
  next
    case False
    define k where "k = i + 9 - length a"
    have k: "k < 9" "i + 9 = length a + k" using False assms(2) by (auto simp: k_def)
    then have "(?sep @ b) ! k = CHR ''G''" using G by (simp add: nth_append)
    moreover have "k \<in> {0, 1, 2, 3, 4, 5, 6, 7, 8}" using k(1) by auto
    ultimately show False by auto
  qed
qed

section \<open>Properties\<close>

text \<open>
  C35. The zone and the name of an instance group are read back from its link: for a link \<^verbatim>\<open>.../zones/Z/instanceGroups/N\<close> whose
  part before the zone has no capital G (project ids and zones have none), \<^verbatim>\<open>GetZoneAndNameFromIGURL\<close> gives \<open>Z\<close> and \<open>N\<close>.
\<close>

theorem instance_group_link_roundtrip:
  assumes "CHR ''G'' \<notin> set (pre @ zone)" "CHR ''/'' \<notin> set zone" "CHR ''/'' \<notin> set name"
  shows "GetZoneAndNameFromIGURL (pre @ ''/'' @ zone @ ''/instanceGroups/'' @ name) = Inr (zone, name)"
proof -
  have "CHR ''G'' \<notin> set (pre @ ''/'' @ zone)" using assms(1) by simp
  then have "\<forall>i < length (pre @ ''/'' @ zone). \<not> HasPrefix (drop i ((pre @ ''/'' @ zone) @ ''/instanceGroups/'' @ name)) ''/instanceGroups/''"
    using first_group_separator by blast
  from split_from_first[OF this, of "[]"] split_from_none[of "CHR ''/''" "''/instanceGroups/''" name "[]"] assms(3)
  have "strings_Split (pre @ ''/'' @ zone @ ''/instanceGroups/'' @ name) ''/instanceGroups/'' = [pre @ ''/'' @ zone, name]"
    by (simp add: strings_Split_def)
  then show ?thesis using getNameFromURL_append[OF assms(2), of pre] by (simp add: GetZoneAndNameFromIGURL_def)
qed

theorem instance_group_link_roundtrip_witness:
  "GetZoneAndNameFromIGURL ''projects/fake-project/zones/zone1/instanceGroups/ig1'' = Inr (''zone1'', ''ig1'')"
  using instance_group_link_roundtrip[of "''projects/fake-project/zones''" "''zone1''" "''ig1''"] by simp

end
