(* ===== verification/FirewallRule.thy ===== *)
theory FirewallRule
  imports Instances Namer FakeProviders KubeUtils
begin

text \<open>
  \<^verbatim>\<open>app/kubemci/pkg/gcp/firewallrule/firewallrulesyncer.go\<close>: one firewall rule that lets the load balancer reach the node ports,
  aimed at the first network tag of one instance of every cluster.  The lookup of an instance
  (\<^verbatim>\<open>InstanceGetterInterface\<close>) is the parameter \<open>ig\<close>; the syncer uses \<open>GetInstance\<close> of theory \<open>Instances\<close>.
\<close>

section \<open>Definitions\<close>

type_synonym 'w InstanceGetter = "string \<Rightarrow> 'w \<Rightarrow> (go_error + Instance) \<times> 'w"

definition l7SrcRanges :: "string slice" where
  "l7SrcRanges = Slice [''130.211.0.0/22'', ''35.191.0.0/16'']"

definition updateFirewallRule :: "'w FirewallProvider \<Rightarrow> Firewall \<Rightarrow> 'w \<Rightarrow> go_error option \<times> 'w" where
  "updateFirewallRule fwp desiredFR w =
     (case UpdateFirewall fwp desiredFR w of
        (Some err, w1) \<Rightarrow> (Some err, w1)
      | (None, w1) \<Rightarrow> (None, w1))"

definition createFirewallRule :: "'w FirewallProvider \<Rightarrow> Firewall \<Rightarrow> 'w \<Rightarrow> go_error option \<times> 'w" where
  "createFirewallRule fwp desiredFR w =
     (case CreateFirewall fwp desiredFR w of
        (Some err, w1) \<Rightarrow> (Some err, w1)
      | (None, w1) \<Rightarrow> (None, w1))"

text \<open>The existing rule is a copy made by the client library; clearing its fields has no effect on the project.\<close>

definition firewallRuleMatches :: "Firewall \<Rightarrow> Firewall \<Rightarrow> bool" where
  "firewallRuleMatches desiredFR existingFR \<longleftrightarrow>
     (let cleared = existingFR\<lparr>fw_CreationTimestamp := '''', fw_Id := 0, fw_Kind := '''', fw_SelfLink := '''',
            fw_ServerResponse := zero_ServerResponse\<rparr>
      in desiredFR = (if fw_Priority cleared = 1000 then cleared\<lparr>fw_Priority := 0\<rparr> else cleared))"

text \<open>The loop visits the values of the map; a cluster without an instance group is an index out of range.\<close>

fun getInstancesLoop ::
    "'w InstanceGetter \<Rightarrow> string list list \<Rightarrow> Instance list \<Rightarrow> 'w \<Rightarrow> ((go_error + Instance list) \<times> 'w) outcome" where
  "getInstancesLoop ig [] instances w = Returns (Inr instances, w)"
| "getInstancesLoop ig ([] # vs) instances w = Panics"
| "getInstancesLoop ig ((v # rest) # vs) instances w =
     (case ig v w of
        (Inl err, w1) \<Rightarrow> Returns (Inl err, w1)
      | (Inr inst, w1) \<Rightarrow> getInstancesLoop ig vs (instances @ [inst]) w1)"

definition getInstances ::
    "'w InstanceGetter \<Rightarrow> range_order \<Rightarrow> string list gomap \<Rightarrow> 'w \<Rightarrow> ((go_error + Instance list) \<times> 'w) outcome" where
  "getInstances ig ord igLinks w = getInstancesLoop ig (map snd (range_entries ord ''instances'' igLinks)) [] w"

fun getTargetTags :: "Instance list \<Rightarrow> (go_error + string list) outcome" where
  "getTargetTags [] = Returns (Inr [])"
| "getTargetTags (inst # insts) =
     (case inst_Tags inst of
        None \<Rightarrow> Panics
      | Some items \<Rightarrow>
          (case elems items of
             [] \<Rightarrow> Returns (Inl (Errorf ''no network tag found on instance %s/%s'' [AStr (inst_Zone inst), AStr (inst_Name inst)]))
           | tag # others \<Rightarrow> map_returned (\<lambda>r. case r of Inl err \<Rightarrow> Inl err | Inr tags \<Rightarrow> Inr (tag # tags)) (getTargetTags insts)))"

definition getNetworkName :: "Instance \<Rightarrow> string" where
  "getNetworkName inst = (case elems (inst_NetworkInterfaces inst) of [] \<Rightarrow> '''' | n # ns \<Rightarrow> n)"

definition desiredFirewallRule ::
    "Namer \<Rightarrow> 'w InstanceGetter \<Rightarrow> range_order \<Rightarrow> string \<Rightarrow> ServicePort list \<Rightarrow> string list gomap \<Rightarrow> 'w \<Rightarrow>
     ((go_error + Firewall) \<times> 'w) outcome" where
  "desiredFirewallRule s ig ord lbName ports igLinks w =
     (case getInstances ig ord igLinks w of
        Panics \<Rightarrow> Panics
      | Returns (Inl err, w1) \<Rightarrow> Returns (Inl err, w1)
      | Returns (Inr instances, w1) \<Rightarrow>
          (case getTargetTags instances of
             Panics \<Rightarrow> Panics
           | Returns (Inl err) \<Rightarrow> Returns (Inl err, w1)
           | Returns (Inr targetTags) \<Rightarrow>
               (case instances of
                  [] \<Rightarrow> Panics
                | inst # insts \<Rightarrow>
                    Returns (Inr (zero_Firewall\<lparr>fw_Name := FirewallRuleName s,
                      fw_Description := ''Firewall rule for kubernetes multicluster loadbalancer '' @ lbName,
                      fw_SourceRanges := l7SrcRanges,
                      fw_Allowed := Slice [zero_FirewallAllowed\<lparr>fwa_IPProtocol := ''tcp'',
                        fwa_Ports := Slice (sort (map (\<lambda>p. show_int (sp_NodePort p)) ports))\<rparr>],
                      fw_TargetTags := slice_of (sort targetTags), fw_Direction := ''INGRESS'',
                      fw_Network := getNetworkName inst\<rparr>), w1))))"

definition desiredFirewallRuleWithoutClusters ::
    "'w InstanceGetter \<Rightarrow> range_order \<Rightarrow> Firewall \<Rightarrow> string list gomap \<Rightarrow> 'w \<Rightarrow> ((go_error + Firewall) \<times> 'w) outcome" where
  "desiredFirewallRuleWithoutClusters ig ord existingFW removeIGLinks w =
     (case getInstances ig ord removeIGLinks w of
        Panics \<Rightarrow> Panics
      | Returns (Inl err, w1) \<Rightarrow> Returns (Inl err, w1)
      | Returns (Inr instances, w1) \<Rightarrow>
          (case getTargetTags instances of
             Panics \<Rightarrow> Panics
           | Returns (Inl err) \<Rightarrow> Returns (Inl err, w1)
           | Returns (Inr targetTags) \<Rightarrow>
               Returns (Inr (existingFW\<lparr>fw_TargetTags :=
                 slice_of (sort (filter (\<lambda>v. v \<notin> set targetTags) (elems (fw_TargetTags existingFW))))\<rparr>), w1)))"

definition ensureFirewallRule ::
    "Namer \<Rightarrow> 'w FirewallProvider \<Rightarrow> 'w InstanceGetter \<Rightarrow> range_order \<Rightarrow> string \<Rightarrow> ServicePort list \<Rightarrow> string list gomap \<Rightarrow> bool \<Rightarrow>
     'w \<Rightarrow> (go_error option \<times> 'w) outcome" where
  "ensureFirewallRule s fwp ig ord lbName ports igLinks forceUpdate w =
     (case desiredFirewallRule s ig ord lbName ports igLinks w of
        Panics \<Rightarrow> Panics
      | Returns (Inl err, w1) \<Rightarrow> Returns (Some err, w1)
      | Returns (Inr desiredFW, w1) \<Rightarrow>
          (case GetFirewall fwp (fw_Name desiredFW) w1 of
             (Inr existingFW, w2) \<Rightarrow>
               let desiredFW = desiredFW\<lparr>fw_Network := fw_Network existingFW\<rparr>
               in if firewallRuleMatches desiredFW existingFW then Returns (None, w2)
                  else if forceUpdate then Returns (updateFirewallRule fwp desiredFW w2)
                  else Returns (Some (Errorf ''will not overwrite firewall rule without --force'' []), w2)
           | (Inl err, w2) \<Rightarrow> Returns (createFirewallRule fwp desiredFW w2)))"

definition EnsureFirewallRule ::
    "Namer \<Rightarrow> 'w FirewallProvider \<Rightarrow> 'w InstanceGetter \<Rightarrow> range_order \<Rightarrow> string \<Rightarrow> ServicePort list \<Rightarrow> string list gomap \<Rightarrow> bool \<Rightarrow>
     'w \<Rightarrow> (go_error option \<times> 'w) outcome" where
  "EnsureFirewallRule s fwp ig ord lbName ports igLinks forceUpdate w =
     (case ensureFirewallRule s fwp ig ord lbName ports igLinks forceUpdate w of
        Panics \<Rightarrow> Panics
      | Returns (Some err, w1) \<Rightarrow> Returns (Some (Errorf ''Error %s in ensuring firewall rule'' [AErr err]), w1)
      | Returns (None, w1) \<Rightarrow> Returns (None, w1))"

definition DeleteFirewallRules :: "Namer \<Rightarrow> 'w FirewallProvider \<Rightarrow> 'w \<Rightarrow> go_error option \<times> 'w" where
  "DeleteFirewallRules s fwp w =
     (case DeleteFirewall fwp (FirewallRuleName s) w of
        (Some err, w1) \<Rightarrow> if IsHTTPErrorCode (Some err) StatusNotFound then (None, w1) else (Some err, w1)
      | (None, w1) \<Rightarrow> (None, w1))"

definition fw_removeFromClusters ::
    "Namer \<Rightarrow> 'w FirewallProvider \<Rightarrow> 'w InstanceGetter \<Rightarrow> range_order \<Rightarrow> string \<Rightarrow> string list gomap \<Rightarrow> 'w \<Rightarrow> (go_error option \<times> 'w) outcome" where
  "fw_removeFromClusters s fwp ig ord lbName removeIGLinks w =
     (let name = FirewallRuleName s
      in case GetFirewall fwp name w of
           (Inl err, w1) \<Rightarrow> Returns (Some (Errorf ''error in fetching existing firewall rule %s: %s'' [AStr name, AErr err]), w1)
         | (Inr existingFW, w1) \<Rightarrow>
             (case desiredFirewallRuleWithoutClusters ig ord existingFW removeIGLinks w1 of
                Panics \<Rightarrow> Panics
              | Returns (Inl err, w2) \<Rightarrow> Returns (Some err, w2)
              | Returns (Inr desiredFW, w2) \<Rightarrow> Returns (updateFirewallRule fwp desiredFW w2)))"

definition fw_RemoveFromClusters ::
    "Namer \<Rightarrow> 'w FirewallProvider \<Rightarrow> 'w InstanceGetter \<Rightarrow> range_order \<Rightarrow> string \<Rightarrow> string list gomap \<Rightarrow> 'w \<Rightarrow> (go_error option \<times> 'w) outcome" where
  "fw_RemoveFromClusters s fwp ig ord lbName removeIGLinks w =
     (case fw_removeFromClusters s fwp ig ord lbName removeIGLinks w of
        Panics \<Rightarrow> Panics
      | Returns (Some err, w1) \<Rightarrow> Returns (Some (Errorf ''Error in removing clusters from firewall rule: %s'' [AErr err]), w1)
      | Returns (None, w1) \<Rightarrow> Returns (None, w1))"

section \<open>Lemmas\<close>

text \<open>A lookup of instances that answers the same at any time and leaves the project alone.\<close>

definition steady_lookup :: "('w \<Rightarrow> 'v) \<Rightarrow> 'w InstanceGetter \<Rightarrow> (string \<Rightarrow> go_error + Instance) \<Rightarrow> bool" where
  "steady_lookup view ig lookup \<longleftrightarrow> (\<forall>v w. fst (ig v w) = lookup v \<and> view (snd (ig v w)) = view w)"

definition first_tag :: "Instance \<Rightarrow> string option" where
  "first_tag inst = (case inst_Tags inst of None \<Rightarrow> None | Some items \<Rightarrow> (case elems items of [] \<Rightarrow> None | t # ts \<Rightarrow> Some t))"

text \<open>The tags of the given clusters.\<close>

definition cluster_tags :: "(string \<Rightarrow> go_error + Instance) \<Rightarrow> string list gomap \<Rightarrow> string set" where
  "cluster_tags lookup igLinks = {t. \<exists>c g gs inst. (c, g # gs) \<in> set igLinks \<and> lookup g = Inr inst \<and> first_tag inst = Some t}"

lemma getTargetTags_ok: "getTargetTags insts = Returns (Inr tags) \<Longrightarrow> map first_tag insts = map Some tags"
proof (induction insts arbitrary: tags)
  case (Cons i rest)
  then show ?case
    by (cases "getTargetTags rest") (auto simp: first_tag_def split: option.splits list.splits sum.splits)
qed simp

lemma getInstancesLoop_ok:
  assumes "steady_lookup view ig lookup" "getInstancesLoop ig vs acc w = Returns (x, w')"
  shows "view w' = view w \<and> (\<forall>insts. x = Inr insts \<longrightarrow> [] \<notin> set vs \<and> map Inr insts = map Inr acc @ map (lookup \<circ> hd) vs)"
  using assms(2)
proof (induction vs arbitrary: acc w)
  case (Cons v vs)
  then obtain g gs where v: "v = g # gs" by (cases v) auto
  obtain y w1 where g: "ig g w = (y, w1)" by fastforce
  with assms(1) have y: "y = lookup g" "view w1 = view w" unfolding steady_lookup_def by (metis fst_conv, metis snd_conv)
  show ?case
  proof (cases y)
    case (Inr inst)
    with Cons.prems v g have "getInstancesLoop ig vs (acc @ [inst]) w1 = Returns (x, w')" by simp
    from Cons.IH[OF this] y Inr v show ?thesis by auto
  qed (use Cons.prems v g y in auto)
qed auto

lemma getInstances_ok:
  assumes "steady_lookup view ig lookup" "getInstances ig ord igLinks w = Returns (x, w')"
  shows "view w' = view w"
    and "range_ok ord \<Longrightarrow> distinct (map fst igLinks) \<Longrightarrow> x = Inr insts \<Longrightarrow> getTargetTags insts = Returns (Inr tags) \<Longrightarrow>
         set tags = cluster_tags lookup igLinks"
proof -
  let ?es = "range_entries ord ''instances'' igLinks"
  note ok = getInstancesLoop_ok[OF assms(1) assms(2)[unfolded getInstances_def]]
  then show "view w' = view w" by blast
  assume "range_ok ord" "distinct (map fst igLinks)" "x = Inr insts" and tags: "getTargetTags insts = Returns (Inr tags)"
  with ok have links: "[] \<notin> snd ` set igLinks" "map Inr insts = map (lookup \<circ> hd \<circ> snd) ?es" "set ?es = set igLinks"
    using set_range_entries[of ord igLinks "''instances''"] by auto
  have "Inr ` set insts = (\<lambda>e. lookup (hd (snd e))) ` set igLinks"
    using arg_cong[OF links(2), of set] links(3) by (simp add: comp_def)
  then have mem: "inst \<in> set insts \<longleftrightarrow> (\<exists>e \<in> set igLinks. lookup (hd (snd e)) = Inr inst)" for inst
    by (metis (mono_tags, lifting) image_iff sum.inject(2))
  have "Some ` set tags = first_tag ` set insts" using getTargetTags_ok[OF tags] by (metis list.set_map)
  then have "t \<in> set tags \<longleftrightarrow> (\<exists>inst \<in> set insts. first_tag inst = Some t)" for t
    by (metis (mono_tags, lifting) image_iff option.inject)
  moreover have "t \<in> cluster_tags lookup igLinks \<longleftrightarrow> (\<exists>e \<in> set igLinks. \<exists>inst. lookup (hd (snd e)) = Inr inst \<and> first_tag inst = Some t)" for t
  proof -
    have "\<exists>g gs. e = (fst e, g # gs) \<and> hd (snd e) = g" if "e \<in> set igLinks" for e
      using links(1) that by (cases e; cases "snd e") force+
    then show ?thesis unfolding cluster_tags_def mem_Collect_eq by (metis list.sel(1) snd_conv)
  qed
  ultimately show "set tags = cluster_tags lookup igLinks" using mem by blast
qed

text \<open>The rule lets the load balancer reach the ports on the instances with the tags.\<close>

definition rule_opens :: "ServicePort list \<Rightarrow> string set \<Rightarrow> Firewall \<Rightarrow> bool" where
  "rule_opens ports tags f \<longleftrightarrow> fw_SourceRanges f = l7SrcRanges \<and> fw_Direction f = ''INGRESS'' \<and> set (elems (fw_TargetTags f)) = tags
     \<and> (\<exists>a. elems (fw_Allowed f) = [a] \<and> fwa_IPProtocol a = ''tcp''
          \<and> set (elems (fwa_Ports a)) = (\<lambda>p. show_int (sp_NodePort p)) ` set ports)"

lemma rule_opens_network [simp]: "rule_opens ports tags (d\<lparr>fw_Network := n\<rparr>) = rule_opens ports tags d"
  by (simp add: rule_opens_def)

lemma fw_inputD:
  assumes "fw_input f = fw_input g"
  shows "fw_SourceRanges f = fw_SourceRanges g" "fw_Direction f = fw_Direction g" "fw_TargetTags f = fw_TargetTags g"
    "fw_Allowed f = fw_Allowed g" "fw_Network f = fw_Network g" "fw_Description f = fw_Description g" "fw_Name f = fw_Name g"
  using assms by (cases f, cases g, simp add: fw_input_def)+

lemma firewallRuleMatches_input: "firewallRuleMatches d e \<longleftrightarrow> d = fw_input e"
  by (cases e) (simp add: firewallRuleMatches_def fw_input_def Let_def)

lemma fw_input_idem [simp]: "fw_input (fw_input f) = fw_input f"
  by (simp add: fw_input_def)

lemma rule_opens_matches: "firewallRuleMatches d e \<Longrightarrow> rule_opens ports tags d \<Longrightarrow> rule_opens ports tags e"
  using fw_inputD[of d e] by (simp add: firewallRuleMatches_input rule_opens_def)

lemma rule_opens_stored:
  assumes "fw_stored d f" "rule_opens ports tags d"
  shows "rule_opens ports tags f"
proof -
  have "fw_input f = fw_input (fw_transmitted d)" using assms(1) by (simp add: fw_stored_def)
  note eq = fw_inputD[OF this]
  from assms(2) show ?thesis
    by (auto simp: rule_opens_def eq fw_transmitted_def) (auto simp: l7SrcRanges_def slice_of_def)
qed

lemma desiredFirewallRule_ok:
  assumes "steady_lookup view ig lookup" "desiredFirewallRule s ig ord lbName ports igLinks w = Returns (x, w')"
  shows "view w' = view w"
    and "x = Inr d \<Longrightarrow> fw_Name d = FirewallRuleName s"
    and "range_ok ord \<Longrightarrow> distinct (map fst igLinks) \<Longrightarrow> x = Inr d \<Longrightarrow> rule_opens ports (cluster_tags lookup igLinks) d"
proof -
  obtain y w1 where ins: "getInstances ig ord igLinks w = Returns (y, w1)"
    using assms(2) by (auto simp: desiredFirewallRule_def split: outcome.splits)
  note ok = getInstances_ok[OF assms(1) ins]
  show "view w' = view w"
    using ok(1) assms(2) ins by (auto simp: desiredFirewallRule_def split: outcome.splits sum.splits list.splits)
  show "x = Inr d \<Longrightarrow> fw_Name d = FirewallRuleName s"
    using assms(2) ins by (auto simp: desiredFirewallRule_def zero_Firewall_def split: outcome.splits sum.splits list.splits)
  show "range_ok ord \<Longrightarrow> distinct (map fst igLinks) \<Longrightarrow> x = Inr d \<Longrightarrow> rule_opens ports (cluster_tags lookup igLinks) d"
    using assms(2) ins ok(2)
    by (auto simp: desiredFirewallRule_def zero_Firewall_def zero_FirewallAllowed_def rule_opens_def split: outcome.splits sum.splits list.splits)
qed

lemma getTargetTags_no_panic: "\<forall>i \<in> set insts. inst_Tags i \<noteq> None \<Longrightarrow> getTargetTags insts \<noteq> Panics"
proof (induction insts)
  case (Cons i rest)
  then show ?case by (cases "getTargetTags rest") (auto split: option.splits list.splits)
qed simp

lemma getInstancesLoop_no_panic: "[] \<notin> set vs \<Longrightarrow> getInstancesLoop ig vs acc w \<noteq> Panics"
  by (induction ig vs acc w rule: getInstancesLoop.induct) (auto split: prod.splits sum.splits)

lemma getInstancesLoop_tags:
  assumes "getInstancesLoop ig vs acc w = Returns (Inr insts, w')" "\<forall>g w inst. fst (ig g w) = Inr inst \<longrightarrow> P inst" "\<forall>i \<in> set acc. P i"
  shows "length insts = length acc + length vs \<and> (\<forall>i \<in> set insts. P i)"
  using assms(1,3)
proof (induction vs arbitrary: acc w)
  case (Cons v vs)
  then obtain g gs where v: "v = g # gs" by (cases v) auto
  obtain y w1 where g: "ig g w = (y, w1)" by fastforce
  with Cons.prems(1) v obtain inst where y: "y = Inr inst" by (cases y) auto
  from Cons.IH[of "acc @ [inst]" w1] Cons.prems v g y assms(2)[rule_format, of g w inst] show ?case by auto
qed simp

lemma ensureFirewallRule_cases:
  assumes "ensureFirewallRule s F ig ord lbName ports igLinks force w = Returns (e, w')"
  obtains (undesired) err where "desiredFirewallRule s ig ord lbName ports igLinks w = Returns (Inl err, w')" "e = Some err"
  | (create) d w1 err w2 where "desiredFirewallRule s ig ord lbName ports igLinks w = Returns (Inr d, w1)"
      "GetFirewall F (fw_Name d) w1 = (Inl err, w2)" "CreateFirewall F d w2 = (e, w')"
  | (same) d w1 ex where "desiredFirewallRule s ig ord lbName ports igLinks w = Returns (Inr d, w1)"
      "GetFirewall F (fw_Name d) w1 = (Inr ex, w')" "firewallRuleMatches (d\<lparr>fw_Network := fw_Network ex\<rparr>) ex" "e = None"
  | (refused) d w1 ex where "desiredFirewallRule s ig ord lbName ports igLinks w = Returns (Inr d, w1)"
      "GetFirewall F (fw_Name d) w1 = (Inr ex, w')" "\<not> force" "e \<noteq> None"
  | (update) d w1 ex w2 where "desiredFirewallRule s ig ord lbName ports igLinks w = Returns (Inr d, w1)"
      "GetFirewall F (fw_Name d) w1 = (Inr ex, w2)" "force" "UpdateFirewall F (d\<lparr>fw_Network := fw_Network ex\<rparr>) w2 = (e, w')"
  using assms
  by (auto simp: ensureFirewallRule_def createFirewallRule_def updateFirewallRule_def Let_def
      split: outcome.splits prod.splits sum.splits if_splits option.splits)

context fw_api
begin

lemma ensureFirewallRule_ok:
  assumes "steady_lookup view ig lookup" "ensureFirewallRule s F ig ord lbName ports igLinks force w = Returns (None, w')"
    and "range_ok ord" "distinct (map fst igLinks)" "\<forall>n w. found_or_404 (GetFirewall F) n w"
  shows "\<exists>f. view w' = (view w)((KFirewall, FirewallRuleName s) \<mapsto> RFirewall f) \<and> rule_opens ports (cluster_tags lookup igLinks) f"
  using assms(2)
proof (cases rule: ensureFirewallRule_cases)
  case (create d w1 err w2)
  note d = desiredFirewallRule_ok[OF assms(1) create(1)]
  from fw.get_not_found[OF create(2) found_or_404D[OF assms(5)[rule_format] create(2)]] fw.create_absent[OF create(3)] fw.get_view[OF create(2)]
    d(1) d(2)[OF refl] d(3)[OF assms(3,4) refl]
  show ?thesis by (auto intro: rule_opens_stored)
next
  case (same d w1 ex)
  note d = desiredFirewallRule_ok[OF assms(1) same(1)]
  from fw.get_value[OF same(2)] fw.get_view[OF same(2)] d(1) d(2)[OF refl] d(3)[OF assms(3,4) refl]
    rule_opens_matches[OF same(3)]
  show ?thesis by (intro exI[of _ ex]) (simp add: fun_upd_idem)
next
  case (update d w1 ex w2)
  note d = desiredFirewallRule_ok[OF assms(1) update(1)]
  from fw.update_stores[OF update(4)] fw.get_view[OF update(2)] d(1) d(2)[OF refl] d(3)[OF assms(3,4) refl]
  show ?thesis using rule_opens_stored[of "d\<lparr>fw_Network := fw_Network ex\<rparr>"] by auto
qed simp_all

lemma ensureFirewallRule_frame:
  assumes "steady_lookup view ig lookup" "ensureFirewallRule s F ig ord lbName ports igLinks force w = Returns (e, w')"
    and "c \<noteq> (KFirewall, FirewallRuleName s)"
  shows "view w' c = view w c"
  using assms(2)
proof (cases rule: ensureFirewallRule_cases)
  case (undesired err)
  then show ?thesis using desiredFirewallRule_ok(1)[OF assms(1) undesired(1)] by simp
next
  case (create d w1 err w2)
  then show ?thesis using desiredFirewallRule_ok(1,2)[OF assms(1) create(1)] fw.get_view[OF create(2)] fw.create_frame[OF create(3), of c] assms(3) by simp
next
  case (same d w1 ex)
  then show ?thesis using desiredFirewallRule_ok(1)[OF assms(1) same(1)] fw.get_view[OF same(2)] by simp
next
  case (refused d w1 ex)
  then show ?thesis using desiredFirewallRule_ok(1)[OF assms(1) refused(1)] fw.get_view[OF refused(2)] by simp
next
  case (update d w1 ex w2)
  then show ?thesis using desiredFirewallRule_ok(1,2)[OF assms(1) update(1)] fw.get_view[OF update(2)]
      fw.update_other_cells[OF update(4), of c] assms(3) by simp
qed

lemma DeleteFirewallRules_effect:
  assumes "DeleteFirewallRules s F w = (e, w')"
  shows "e = None \<Longrightarrow> view w' = (view w)((KFirewall, FirewallRuleName s) := None)"
    and "c \<noteq> (KFirewall, FirewallRuleName s) \<Longrightarrow> view w' c = view w c"
proof -
  obtain e1 where del: "DeleteFirewall F (FirewallRuleName s) w = (e1, w')" "e = IgnoreHTTPNotFound e1"
    using assms by (auto simp: DeleteFirewallRules_def IgnoreHTTPNotFound_def split: prod.splits option.splits if_splits)
  show "e = None \<Longrightarrow> view w' = (view w)((KFirewall, FirewallRuleName s) := None)"
    using fw.delete_ignoring_not_found[OF del(1)] del(2) by simp
  show "c \<noteq> (KFirewall, FirewallRuleName s) \<Longrightarrow> view w' c = view w c" using fw.delete_frame[OF del(1)] by simp
qed

lemma fw_removeFromClusters_ok:
  assumes "steady_lookup view ig lookup" "fw_removeFromClusters s F ig ord lbName igs w = Returns (None, w')"
    and "range_ok ord" "distinct (map fst igs)" "view w (KFirewall, FirewallRuleName s) = Some (RFirewall old)" "fw_Name old = FirewallRuleName s"
  shows "\<exists>f. view w' = (view w)((KFirewall, FirewallRuleName s) \<mapsto> RFirewall f)
    \<and> fw_stored (old\<lparr>fw_TargetTags := slice_of (sort (filter (\<lambda>t. t \<notin> cluster_tags lookup igs) (elems (fw_TargetTags old))))\<rparr>) f"
proof -
  obtain ex w1 where get: "GetFirewall F (FirewallRuleName s) w = (Inr ex, w1)"
    using assms(2) by (auto simp: fw_removeFromClusters_def Let_def split: prod.splits sum.splits)
  with assms(5) have ex: "ex = old" using fw.get_value[OF get] by simp
  from assms(2) get obtain insts w2 tags where run: "getInstances ig ord igs w1 = Returns (Inr insts, w2)" "getTargetTags insts = Returns (Inr tags)"
    "UpdateFirewall F (old\<lparr>fw_TargetTags := slice_of (sort (filter (\<lambda>t. t \<notin> set tags) (elems (fw_TargetTags old))))\<rparr>) w2 = (None, w')"
    unfolding ex by (auto simp: fw_removeFromClusters_def desiredFirewallRuleWithoutClusters_def updateFirewallRule_def Let_def
        split: outcome.splits prod.splits sum.splits option.splits)
  have "set tags = cluster_tags lookup igs" using getInstances_ok(2)[OF assms(1) run(1) assms(3,4) refl run(2)] .
  with fw.update_stores[OF run(3)] getInstances_ok(1)[OF assms(1) run(1)] fw.get_view[OF get] assms(6) show ?thesis
    by (simp add: conj_commute)
qed

end

section \<open>Properties\<close>

text \<open>
  When \<^verbatim>\<open>EnsureFirewallRule\<close> succeeds, the project has the firewall rule of the load balancer: it lets the health check and
  load balancer ranges in on the node ports, by TCP, and is aimed at exactly the first network tags of one instance of each
  cluster.  Whatever it returns, no other object changes.
\<close>

theorem firewall_rule_ensured:
  assumes "fw_api view F" "steady_lookup view ig lookup" "range_ok ord" "distinct (map fst igLinks)"
    and "\<forall>n w. found_or_404 (GetFirewall F) n w"
    and "EnsureFirewallRule s F ig ord lbName ports igLinks force w = Returns (e, w')"
  shows "(e = None \<longrightarrow> (\<exists>f. view w' = (view w)((KFirewall, FirewallRuleName s) \<mapsto> RFirewall f)
            \<and> rule_opens ports (cluster_tags lookup igLinks) f))
    \<and> (\<forall>c. c \<noteq> (KFirewall, FirewallRuleName s) \<longrightarrow> view w' c = view w c)"
proof -
  obtain e1 where run: "ensureFirewallRule s F ig ord lbName ports igLinks force w = Returns (e1, w')" "e = None \<longleftrightarrow> e1 = None"
    using assms(6) by (auto simp: EnsureFirewallRule_def split: outcome.splits option.splits)
  from fw_api.ensureFirewallRule_frame[OF assms(1,2) run(1)]
    fw_api.ensureFirewallRule_ok[OF assms(1,2) _ assms(3-5)] run
  show ?thesis by auto
qed

text \<open>
  C34. \<^verbatim>\<open>EnsureFirewallRule\<close> does not panic if it is given at least one cluster, every cluster has an instance group, and no
  instance that is found lacks its tags object; with no cluster at all it panics.
\<close>

theorem firewall_rule_no_panic:
  assumes "range_ok ord" "distinct (map fst igLinks)" "[] \<notin> snd ` set igLinks" "igLinks \<noteq> []"
    and "\<forall>g w inst. fst (ig g w) = Inr inst \<longrightarrow> inst_Tags inst \<noteq> None"
  shows "EnsureFirewallRule s F ig ord lbName ports igLinks force w \<noteq> Panics
    \<and> EnsureFirewallRule s F ig ord lbName ports [] force w = Panics"
proof
  let ?es = "range_entries ord ''instances'' igLinks"
  have "[] \<notin> set (map snd ?es)" using assms(3) set_range_entries[OF assms(1,2)] by simp
  then have "getInstances ig ord igLinks w \<noteq> Panics" unfolding getInstances_def by (rule getInstancesLoop_no_panic)
  then obtain x w1 where ins: "getInstances ig ord igLinks w = Returns (x, w1)" by (cases "getInstances ig ord igLinks w") auto
  have "desiredFirewallRule s ig ord lbName ports igLinks w \<noteq> Panics"
  proof (cases x)
    case (Inr insts)
    have "length insts = length igLinks \<and> (\<forall>i \<in> set insts. inst_Tags i \<noteq> None)"
      using getInstancesLoop_tags[OF ins[unfolded getInstances_def Inr] assms(5)] assms(1) length_range_entries[of ord "''instances''" igLinks] by auto
    with assms(4) ins Inr getTargetTags_no_panic[of insts] show ?thesis
      by (auto simp: desiredFirewallRule_def split: outcome.splits sum.splits list.splits)
  qed (use ins in \<open>simp add: desiredFirewallRule_def\<close>)
  then show "EnsureFirewallRule s F ig ord lbName ports igLinks force w \<noteq> Panics"
    by (auto simp: EnsureFirewallRule_def ensureFirewallRule_def Let_def split: outcome.splits sum.splits prod.splits option.splits)
  have "ord ''instances'' [] = []" using range_ok_set[OF assms(1), of "''instances''" "[]"] by simp
  then show "EnsureFirewallRule s F ig ord lbName ports [] force w = Panics"
    by (simp add: EnsureFirewallRule_def ensureFirewallRule_def desiredFirewallRule_def getInstances_def range_entries_def List.map_filter_simps)
qed

lemma RemoveFromClusters_tags:
  assumes "fw_api view F" "steady_lookup view ig lookup" "range_ok ord" "distinct (map fst igs)"
    and "view w (KFirewall, FirewallRuleName s) = Some (RFirewall old)" "fw_Name old = FirewallRuleName s"
    and "fw_RemoveFromClusters s F ig ord lbName igs w = Returns (None, w')"
  shows "\<exists>f. view w' = (view w)((KFirewall, FirewallRuleName s) \<mapsto> RFirewall f)
    \<and> elems (fw_TargetTags f) = sort (filter (\<lambda>t. t \<notin> cluster_tags lookup igs) (elems (fw_TargetTags old)))
    \<and> fw_input f = fw_input (fw_transmitted (old\<lparr>fw_TargetTags := fw_TargetTags f\<rparr>))"
proof -
  have "fw_removeFromClusters s F ig ord lbName igs w = Returns (None, w')"
    using assms(7) by (auto simp: fw_RemoveFromClusters_def split: outcome.splits option.splits)
  from fw_api.fw_removeFromClusters_ok[OF assms(1,2) this assms(3-6)] obtain f where
    f: "view w' = (view w)((KFirewall, FirewallRuleName s) \<mapsto> RFirewall f)"
    "fw_stored (old\<lparr>fw_TargetTags := slice_of (sort (filter (\<lambda>t. t \<notin> cluster_tags lookup igs) (elems (fw_TargetTags old))))\<rparr>) f"
    by blast
  then have i: "fw_input f = fw_input (fw_transmitted (old\<lparr>fw_TargetTags := slice_of (sort (filter (\<lambda>t. t \<notin> cluster_tags lookup igs) (elems (fw_TargetTags old))))\<rparr>))"
    by (simp add: fw_stored_def)
  have "fw_TargetTags f = slice_of (sort (filter (\<lambda>t. t \<notin> cluster_tags lookup igs) (elems (fw_TargetTags old))))"
    using fw_inputD(3)[OF i] by (simp add: fw_transmitted_def)
  with f(1) i show ?thesis by auto
qed

text \<open>
  A successful \<^verbatim>\<open>RemoveFromClusters\<close> takes exactly the tags of the given clusters out of the firewall rule, leaves its other fields as
  they were, and changes nothing else.
\<close>

theorem firewall_tags_removed:
  assumes "fw_api view F" "steady_lookup view ig lookup" "range_ok ord" "distinct (map fst igs)"
    and "view w (KFirewall, FirewallRuleName s) = Some (RFirewall old)" "fw_Name old = FirewallRuleName s"
    and "fw_RemoveFromClusters s F ig ord lbName igs w = Returns (None, w')"
  shows "\<exists>f. view w' = (view w)((KFirewall, FirewallRuleName s) \<mapsto> RFirewall f)
    \<and> elems (fw_TargetTags f) = sort (filter (\<lambda>t. t \<notin> cluster_tags lookup igs) (elems (fw_TargetTags old)))
    \<and> fw_input f = fw_input (fw_transmitted (old\<lparr>fw_TargetTags := fw_TargetTags f\<rparr>))"
  using RemoveFromClusters_tags[OF assms] .

section \<open>Examples\<close>

definition inst_example :: "string \<Rightarrow> Instance" where
  "inst_example tag = \<lparr>inst_Name = ''i'', inst_Zone = ''z'', inst_Tags = Some (Slice [tag]), inst_NetworkInterfaces = NilSlice\<rparr>"

text \<open>A lookup that answers with an instance tagged with the name of its group.\<close>

definition ig_example :: "'w InstanceGetter" where
  "ig_example g w = (Inr (inst_example g), w)"

definition fw_cloud :: FakeCloud where
  "fw_cloud = NewFakeLoadBalancers\<lparr>f_firewalls := [(FirewallRuleName lb1,
     zero_Firewall\<lparr>fw_Name := FirewallRuleName lb1, fw_TargetTags := Slice [''g1'', ''g2'']\<rparr>)]\<rparr>"

lemma ig_example_steady: "steady_lookup view ig_example (\<lambda>g. Inr (inst_example g))"
  by (simp add: steady_lookup_def ig_example_def)

lemma ig_example_tags: "cluster_tags (\<lambda>g. Inr (inst_example g)) [(''c'', [g])] = {g}"
  by (auto simp: cluster_tags_def first_tag_def inst_example_def)

theorem firewall_rule_ensured_witness:
  "\<exists>f' f. EnsureFirewallRule lb1 fake_fw ig_example in_order ''lb'' [web_port] [(''c'', [''g1''])] False NewFakeLoadBalancers = Returns (None, f')
     \<and> fake_view f' (KFirewall, FirewallRuleName lb1) = Some (RFirewall f) \<and> rule_opens [web_port] {''g1''} f"
proof -
  obtain f' where run: "EnsureFirewallRule lb1 fake_fw ig_example in_order ''lb'' [web_port] [(''c'', [''g1''])] False NewFakeLoadBalancers = Returns (None, f')"
    by (simp add: EnsureFirewallRule_def ensureFirewallRule_def desiredFirewallRule_def getInstances_def range_entries_def in_order_def
        List.map_filter_simps ig_example_def inst_example_def createFirewallRule_def fake_provider_ops NewFakeLoadBalancers_def Let_def)
  have "\<forall>n f. found_or_404 (GetFirewall fake_fw) n f" by (simp add: fake_provider_404)
  from firewall_rule_ensured[OF fake_fws.fw_api_axioms ig_example_steady range_ok_in_order _ this run] obtain f where
    "fake_view f' (KFirewall, FirewallRuleName lb1) = Some (RFirewall f)" "rule_opens [web_port] {''g1''} f"
    unfolding ig_example_tags by (auto simp del: fake_view.simps lb1_names)
  with run show ?thesis by blast
qed

theorem firewall_rule_no_panic_witness:
  "EnsureFirewallRule lb1 fake_fw ig_example in_order ''lb'' [web_port] [(''c'', [''g1''])] False NewFakeLoadBalancers \<noteq> Panics
   \<and> EnsureFirewallRule lb1 fake_fw ig_example in_order ''lb'' [web_port] [] False NewFakeLoadBalancers = Panics"
  by (rule firewall_rule_no_panic) (auto simp: ig_example_def inst_example_def)

theorem firewall_tags_removed_witness:
  "\<exists>f' f. fw_RemoveFromClusters lb1 fake_fw ig_example in_order ''lb'' [(''c'', [''g1''])] fw_cloud = Returns (None, f')
     \<and> fake_view f' (KFirewall, FirewallRuleName lb1) = Some (RFirewall f) \<and> elems (fw_TargetTags f) = [''g2'']"
proof -
  let ?old = "zero_Firewall\<lparr>fw_Name := FirewallRuleName lb1, fw_TargetTags := Slice [''g1'', ''g2'']\<rparr>"
  obtain f' where run: "fw_RemoveFromClusters lb1 fake_fw ig_example in_order ''lb'' [(''c'', [''g1''])] fw_cloud = Returns (None, f')"
    by (simp add: fw_RemoveFromClusters_def fw_removeFromClusters_def desiredFirewallRuleWithoutClusters_def getInstances_def range_entries_def
        in_order_def List.map_filter_simps ig_example_def inst_example_def updateFirewallRule_def fake_provider_ops NewFakeLoadBalancers_def
        fw_cloud_def Let_def)
  have old: "fake_view fw_cloud (KFirewall, FirewallRuleName lb1) = Some (RFirewall ?old)"
    by (simp add: fw_cloud_def)
  from firewall_tags_removed[OF fake_fws.fw_api_axioms ig_example_steady range_ok_in_order _ old _ run] obtain f where
    "fake_view f' (KFirewall, FirewallRuleName lb1) = Some (RFirewall f)" "elems (fw_TargetTags f) = [''g2'']"
    unfolding ig_example_tags by (auto simp del: fake_view.simps lb1_names)
  with run show ?thesis by blast
qed

end
