(* ===== verification/LoadBalancer.thy ===== *)
theory LoadBalancer
  imports Status ForwardingRule UrlMap TargetProxy SslCert HealthCheck BackendService FirewallRule
begin

text \<open>
  \<^verbatim>\<open>app/kubemci/pkg/gcp/loadbalancer/loadbalancersyncer.go\<close>: the load balancer as a whole, made of the parts the other syncers
  keep.  Waiting for the instance groups of a cluster polls without a bound, so every operation that waits is partial: the
  value \<open>None\<close> is a run that never returns.  The passing of time between two polls is the function \<open>l_sleep\<close> on the
  world.
\<close>

section \<open>The syncer\<close>

definition MciPrefix :: string where "MciPrefix = ''mci1''"

record 'w LBSyncer =
  l_lbName :: string
  l_namer :: Namer
  l_hcp :: "'w HealthCheckProvider"
  l_bsp :: "'w BackendServices"
  l_cloud :: "'w LoadBalancers"
  l_fwp :: "'w FirewallProvider"
  l_ig :: "'w InstanceGetter"
  l_igp :: "string \<Rightarrow> string \<Rightarrow> 'w \<Rightarrow> (go_error + InstanceGroup) \<times> 'w"
  l_clients :: "'w KubeClient gomap"
  l_sleep :: "'w \<Rightarrow> 'w"

text \<open>The cloud object implements all provider interfaces; making the instance getter may fail.\<close>

definition NewLoadBalancerSyncer ::
    "string \<Rightarrow> 'w KubeClient gomap \<Rightarrow> 'w HealthCheckProvider \<Rightarrow> 'w BackendServices \<Rightarrow> 'w LoadBalancers \<Rightarrow> 'w FirewallProvider \<Rightarrow>
     (string \<Rightarrow> string \<Rightarrow> 'w \<Rightarrow> (go_error + InstanceGroup) \<times> 'w) \<Rightarrow> (go_error + 'w InstanceGetter) \<Rightarrow> ('w \<Rightarrow> 'w) \<Rightarrow> go_error + 'w LBSyncer" where
  "NewLoadBalancerSyncer lbName clients hcp bsp cloud fwp igp newInstanceGetter sleep =
     (case newInstanceGetter of
        Inl err \<Rightarrow> Inl err
      | Inr ig \<Rightarrow> Inr \<lparr>l_lbName = lbName, l_namer = NewNamer MciPrefix lbName, l_hcp = hcp, l_bsp = bsp, l_cloud = cloud, l_fwp = fwp,
          l_ig = ig, l_igp = igp, l_clients = clients, l_sleep = sleep\<rparr>)"

section \<open>Helpers\<close>

definition getAnyClient :: "range_order \<Rightarrow> 'w KubeClient gomap \<Rightarrow> go_error + 'w KubeClient" where
  "getAnyClient ord clients =
     (case range_entries ord ''any client'' clients of
        [] \<Rightarrow> Inl (Errorf ''could not find client to send requests to kubernetes cluster'' [])
      | (k, client) # _ \<Rightarrow> Inr client)"

definition getIPAddress :: "'w LBSyncer \<Rightarrow> Ingress \<Rightarrow> 'w \<Rightarrow> (go_error + string) \<times> 'w" where
  "getIPAddress l ing w =
     (let ipName = annotation ing StaticIPNameKey
      in if ipName = '''' then
           (Inl (Errorf ''The annotation %v has not been specified. Multicluster ingresses require a pre-reserved static IP'' [AStr StaticIPNameKey]), w)
         else (case GetGlobalAddress (l_cloud l) ipName w of
            (Inl err, w1) \<Rightarrow> (Inl (Errorf ''unexpected error in getting ip address %s: %s'' [AStr ipName, AErr err]), w1)
          | (Inr ip, w1) \<Rightarrow> (Inr (addr_Address ip), w1)))"

fun pathNodePorts ::
    "range_order \<Rightarrow> string \<Rightarrow> 'w KubeClient \<Rightarrow> IngressBackend list \<Rightarrow> ServicePort list \<Rightarrow> 'w \<Rightarrow> ServicePort list \<times> 'w" where
  "pathNodePorts ord ns client [] knownPorts w = (knownPorts, w)"
| "pathNodePorts ord ns client (be # bes) knownPorts w =
     (case GetServiceNodePort ord be ns client w of
        (Inl err, w1) \<Rightarrow> pathNodePorts ord ns client bes knownPorts w1
      | (Inr port, w1) \<Rightarrow> pathNodePorts ord ns client bes (knownPorts @ [port]) w1)"

text \<open>The default backend first, then the backends of the paths of all HTTP rules, in order.\<close>

definition ingress_backends :: "Ingress \<Rightarrow> IngressBackend list" where
  "ingress_backends ing =
     (case is_Backend (ing_Spec ing) of None \<Rightarrow> [] | Some be \<Rightarrow> [be])
     @ concat (map (\<lambda>rule. case ir_HTTP rule of None \<Rightarrow> [] | Some paths \<Rightarrow> map ip_Backend (elems paths)) (elems (is_Rules (ing_Spec ing))))"

definition ingToNodePorts :: "range_order \<Rightarrow> Ingress \<Rightarrow> 'w KubeClient \<Rightarrow> 'w \<Rightarrow> ServicePort list \<times> 'w" where
  "ingToNodePorts ord ing client w = pathNodePorts ord (ing_Namespace ing) client (ingress_backends ing) [] w"

section \<open>Instance groups\<close>

record InstanceGroupsAnnotationValue =
  igv_Name :: string
  igv_Zone :: string

fun unmarshal_igv_field :: "(string \<times> json) \<Rightarrow> InstanceGroupsAnnotationValue \<Rightarrow> InstanceGroupsAnnotationValue option" where
  "unmarshal_igv_field (k, v) s =
     (if equal_fold ''Name'' k then map_option (\<lambda>x. s\<lparr>igv_Name := x\<rparr>) (unmarshal_string v (igv_Name s))
      else if equal_fold ''Zone'' k then map_option (\<lambda>x. s\<lparr>igv_Zone := x\<rparr>) (unmarshal_string v (igv_Zone s))
      else Some s)"

fun unmarshal_igv_fields :: "(string \<times> json) list \<Rightarrow> InstanceGroupsAnnotationValue \<Rightarrow> InstanceGroupsAnnotationValue option" where
  "unmarshal_igv_fields [] s = Some s"
| "unmarshal_igv_fields (m # ms) s =
     (case unmarshal_igv_field m s of None \<Rightarrow> None | Some s' \<Rightarrow> unmarshal_igv_fields ms s')"

fun unmarshal_igv :: "json \<Rightarrow> InstanceGroupsAnnotationValue option" where
  "unmarshal_igv JNull = Some \<lparr>igv_Name = '''', igv_Zone = ''''\<rparr>"
| "unmarshal_igv (JObj ms) = unmarshal_igv_fields ms \<lparr>igv_Name = '''', igv_Zone = ''''\<rparr>"
| "unmarshal_igv _ = None"

fun unmarshal_igvs :: "json list \<Rightarrow> InstanceGroupsAnnotationValue list option" where
  "unmarshal_igvs [] = Some []"
| "unmarshal_igvs (v # vs) =
     (case unmarshal_igv v of
        None \<Rightarrow> None
      | Some x \<Rightarrow> map_option ((#) x) (unmarshal_igvs vs))"

definition Unmarshal_igs :: "string \<Rightarrow> go_error + InstanceGroupsAnnotationValue list" where
  "Unmarshal_igs text =
     (case json_parse text of
        None \<Rightarrow> Inl (LibError ''json: invalid syntax'')
      | Some JNull \<Rightarrow> Inr []
      | Some (JArr vs) \<Rightarrow> (case unmarshal_igvs vs of Some xs \<Rightarrow> Inr xs | None \<Rightarrow> Inl (LibError ''json: cannot unmarshal''))
      | Some _ \<Rightarrow> Inl (LibError ''json: cannot unmarshal''))"

definition ig_link :: "InstanceGroupsAnnotationValue \<Rightarrow> string" where
  "ig_link ig = igv_Zone ig @ ''/instanceGroups/'' @ igv_Name ig"

text \<open>One look at the ingress: \<open>None\<close> is "keep trying".\<close>

definition readIGs :: "Ingress \<Rightarrow> (go_error + string list) option" where
  "readIGs ing =
     (let annotationValue = annotation ing InstanceGroupsAnnotationKey
      in if annotationValue = '''' then None
         else (case Unmarshal_igs annotationValue of
            Inl err \<Rightarrow> Some (Inl (Errorf ''error in parsing annotation key %s, value %s: %s''
               [AStr InstanceGroupsAnnotationKey, AStr annotationValue, AErr err]))
          | Inr [] \<Rightarrow> None
          | Inr (v # vs) \<Rightarrow> Some (Inr (map ig_link (v # vs)))))"

partial_function (option) getIGsForCluster ::
    "('w \<Rightarrow> 'w) \<Rightarrow> string \<Rightarrow> string \<Rightarrow> 'w KubeClient \<Rightarrow> 'w \<Rightarrow> ((go_error + string list) \<times> 'w) option" where
  "getIGsForCluster sleep name namespace client w =
     (case GetIngress client namespace name w of
        (Inl err, w1) \<Rightarrow> Some (Inl (Errorf ''error %s in fetching ingress'' [AErr err]), w1)
      | (Inr ing, w1) \<Rightarrow>
          (case readIGs ing of
             Some r \<Rightarrow> Some (r, w1)
           | None \<Rightarrow> getIGsForCluster sleep name namespace client (sleep w1)))"

fun getIGsLoop ::
    "'w LBSyncer \<Rightarrow> Ingress \<Rightarrow> (string \<times> 'w KubeClient) list \<Rightarrow> string list gomap \<Rightarrow> go_error option \<Rightarrow> 'w \<Rightarrow>
     ((string list gomap \<times> go_error option) \<times> 'w) option" where
  "getIGsLoop l ing [] igs err w = Some ((igs, err), w)"
| "getIGsLoop l ing ((cluster, client) # cs) igs err w =
     (case getIGsForCluster (l_sleep l) (ing_Name ing) (ing_Namespace ing) client w of
        None \<Rightarrow> None
      | Some (Inl getIGsErr, w1) \<Rightarrow> getIGsLoop l ing cs igs (multierror_Append err [getIGsErr]) w1
      | Some (Inr igsFromCluster, w1) \<Rightarrow> getIGsLoop l ing cs (AList.update cluster igsFromCluster igs) err w1)"

definition getIGs ::
    "'w LBSyncer \<Rightarrow> range_order \<Rightarrow> Ingress \<Rightarrow> 'w KubeClient gomap \<Rightarrow> 'w \<Rightarrow> ((string list gomap \<times> go_error option) \<times> 'w) option" where
  "getIGs l ord ing clients w = getIGsLoop l ing (range_entries ord ''instance groups'' clients) [] None w"

definition getNamedPortsForIG :: "'w LBSyncer \<Rightarrow> string \<Rightarrow> 'w \<Rightarrow> (NamedPortsMap \<times> go_error option) \<times> 'w" where
  "getNamedPortsForIG l igURL w =
     (case GetZoneAndNameFromIGURL igURL of
        Inl err \<Rightarrow> (([], Some err), w)
      | Inr (zone, name) \<Rightarrow>
          (case l_igp l name zone w of
             (Inl err, w1) \<Rightarrow> (([], Some err), w1)
           | (Inr ig, w1) \<Rightarrow> ((fold (\<lambda>np m. AList.update (np_Port np) np m) (ig_NamedPorts ig) [], None), w1)))"

definition getNamedPorts ::
    "'w LBSyncer \<Rightarrow> range_order \<Rightarrow> string list gomap \<Rightarrow> 'w \<Rightarrow> ((NamedPortsMap \<times> go_error option) \<times> 'w) outcome" where
  "getNamedPorts l ord igs w =
     (case range_entries ord ''named ports'' igs of
        [] \<Rightarrow> Returns (([], Some (Errorf ''Cannot fetch named ports since instance groups list is empty'' [])), w)
      | (k, []) # _ \<Rightarrow> Panics
      | (k, ig # _) # _ \<Rightarrow> Returns (getNamedPortsForIG l ig w))"

definition flat_igs :: "range_order \<Rightarrow> string list gomap \<Rightarrow> string list" where
  "flat_igs ord igs = concat (map snd (range_entries ord ''flat'' igs))"

section \<open>Creating\<close>

text \<open>Errors are collected: a step that fails adds its error and the next step is made.\<close>

definition append_err :: "go_error option \<Rightarrow> go_error option \<Rightarrow> go_error option" where
  "append_err err new = (case new of None \<Rightarrow> err | Some e \<Rightarrow> multierror_Append err [e])"

definition wrap_err :: "string \<Rightarrow> go_arg list \<Rightarrow> go_error option \<Rightarrow> go_error option" where
  "wrap_err f args e = map_option (\<lambda>e. Errorf f (args @ [AErr e])) e"

text \<open>The link a call returns with an error is the empty string.\<close>

definition link_of :: "go_error + string \<Rightarrow> string" where
  "link_of x = (case x of Inl e \<Rightarrow> '''' | Inr link \<Rightarrow> link)"

definition error_of :: "go_error + 'a \<Rightarrow> go_error option" where
  "error_of x = (case x of Inl e \<Rightarrow> Some e | Inr r \<Rightarrow> None)"

definition configureHTTP :: "'w LBSyncer \<Rightarrow> string \<Rightarrow> string \<Rightarrow> bool \<Rightarrow> go_error option \<Rightarrow> 'w \<Rightarrow> go_error option \<times> 'w" where
  "configureHTTP l ipAddr umLink forceUpdate err w =
     (case EnsureHTTPTargetProxy (l_namer l) (l_cloud l) (l_lbName l) umLink forceUpdate w of
        ((tpLink, tpErr), w1) \<Rightarrow>
          (case EnsureHTTPForwardingRule (l_namer l) (l_cloud l) (l_lbName l) ipAddr tpLink forceUpdate w1 of
             (frErr, w2) \<Rightarrow>
               (append_err (append_err err (wrap_err ''Error ensuring HTTP target proxy: %s'' [] tpErr))
                  (wrap_err ''Error ensuring http forwarding rule: %s'' [] frErr), w2)))"

definition configureHTTPS ::
    "'w LBSyncer \<Rightarrow> Ingress \<Rightarrow> 'w KubeClient \<Rightarrow> string \<Rightarrow> string \<Rightarrow> bool \<Rightarrow> go_error option \<Rightarrow> 'w \<Rightarrow> go_error option \<times> 'w" where
  "configureHTTPS l ing client ipAddr umLink forceUpdate err w =
     (case EnsureSSLCert (l_namer l) (l_cloud l) (l_lbName l) ing client forceUpdate w of
        (cert, w1) \<Rightarrow>
          (case EnsureHTTPSTargetProxy (l_namer l) (l_cloud l) (l_lbName l) umLink (link_of cert) forceUpdate w1 of
             ((tpLink, tpErr), w2) \<Rightarrow>
               (case EnsureHTTPSForwardingRule (l_namer l) (l_cloud l) (l_lbName l) ipAddr tpLink forceUpdate w2 of
                  (frErr, w3) \<Rightarrow>
                    (append_err (append_err (append_err err (wrap_err ''Error ensuring SSL certs: %s'' [] (error_of cert)))
                       (wrap_err ''Error ensuring HTTPS target proxy: %s'' [] tpErr))
                       (wrap_err ''Error ensuring https forwarding rule: %s'' [] frErr), w3))))"

text \<open>The steps after the instance groups and their named ports are known.\<close>

definition createResources ::
    "'w LBSyncer \<Rightarrow> range_order \<Rightarrow> Ingress \<Rightarrow> bool \<Rightarrow> string slice \<Rightarrow> 'w KubeClient \<Rightarrow> ServicePort list \<Rightarrow> string \<Rightarrow> HealthChecksMap \<Rightarrow>
     string list gomap \<Rightarrow> NamedPortsMap \<Rightarrow> go_error option \<Rightarrow> 'w \<Rightarrow> (go_error option \<times> 'w) outcome" where
  "createResources l ord ing forceUpdate clusters client ports ipAddr healthChecks igs namedPorts err w =
     (case EnsureBackendService (l_namer l) (l_bsp l) (l_lbName l) ports healthChecks namedPorts (flat_igs ord igs) forceUpdate w of
        Panics \<Rightarrow> Panics
      | Returns ((backendServices, beErr), w1) \<Rightarrow>
          (case EnsureURLMap (l_namer l) (l_cloud l) ord (l_lbName l) ipAddr clusters ing backendServices forceUpdate w1 of
             Panics \<Rightarrow> Panics
           | Returns (um, w2) \<Rightarrow>
               let err = append_err (append_err err (wrap_err ''Error ensuring backend service for %s: %s'' [AStr (l_lbName l)] beErr))
                           (wrap_err ''Error ensuring urlmap for %s: %s'' [AStr (l_lbName l)] (error_of um))
               in (case (if AllowHTTP ing then configureHTTP l ipAddr (link_of um) forceUpdate err w2 else (err, w2)) of
                     (err1, w3) \<Rightarrow>
                       (case (if UseNamedTLS ing \<noteq> '''' \<or> length (elems (is_TLS (ing_Spec ing))) > 0
                              then configureHTTPS l ing client ipAddr (link_of um) forceUpdate err1 w3 else (err1, w3)) of
                          (err2, w4) \<Rightarrow>
                            (case EnsureFirewallRule (l_namer l) (l_fwp l) (l_ig l) ord (l_lbName l) ports igs forceUpdate w4 of
                               Panics \<Rightarrow> Panics
                             | Returns (fwErr, w5) \<Rightarrow> Returns (append_err err2 fwErr, w5))))))"

definition CreateLoadBalancer ::
    "'w LBSyncer \<Rightarrow> range_order \<Rightarrow> Ingress \<Rightarrow> bool \<Rightarrow> bool \<Rightarrow> string slice \<Rightarrow> 'w \<Rightarrow> (go_error option \<times> 'w) outcome option" where
  "CreateLoadBalancer l ord ing forceUpdate validate clusters w =
     (case getAnyClient ord (l_clients l) of
        Inl cErr \<Rightarrow> Some (Returns (Some cErr, w))
      | Inr client \<Rightarrow>
          (case ingToNodePorts ord ing client w of
             (ports, w1) \<Rightarrow>
               (case getIPAddress l ing w1 of
                  (Inl err, w2) \<Rightarrow> Some (Returns (Some err, w2))
                | (Inr ipAddr, w2) \<Rightarrow>
                    (case EnsureHealthCheck (l_namer l) (l_hcp l) ord (l_lbName l) ports (l_clients l) forceUpdate w2 of
                       ((healthChecks, hcErr), w3) \<Rightarrow>
                         let err = append_err None (wrap_err ''Error ensuring health check for %s: %s'' [AStr (l_lbName l)] hcErr)
                         in (case getIGs l ord ing (l_clients l) w3 of
                               None \<Rightarrow> None
                             | Some ((igs, igErr), w4) \<Rightarrow>
                                 Some (case getNamedPorts l ord igs w4 of
                                    Panics \<Rightarrow> Panics
                                  | Returns ((namedPorts, portsErr), w5) \<Rightarrow>
                                      let err = append_err (append_err err igErr) portsErr
                                      in if igs = [] then
                                           Returns (multierror_Append err [Errorf ''No instance group found. Can not continue'' []], w5)
                                         else if namedPorts = [] then
                                           Returns (multierror_Append err [Errorf ''No named ports found. Can not continue'' []], w5)
                                         else createResources l ord ing forceUpdate clusters client ports ipAddr healthChecks igs namedPorts err w5))))))"

section \<open>Deleting\<close>

definition deletePortResources ::
    "'w LBSyncer \<Rightarrow> range_order \<Rightarrow> Ingress \<Rightarrow> 'w KubeClient \<Rightarrow> go_error option \<Rightarrow> 'w \<Rightarrow> go_error option \<times> 'w" where
  "deletePortResources l ord ing client err w =
     (case ingToNodePorts ord ing client w of
        (ports, w1) \<Rightarrow>
          (case DeleteBackendServices (l_namer l) (l_bsp l) ports w1 of
             (beErr, w2) \<Rightarrow>
               (case DeleteHealthChecks (l_namer l) (l_hcp l) ports w2 of
                  (hcErr, w3) \<Rightarrow> (append_err (append_err err beErr) hcErr, w3))))"

definition DeleteLoadBalancer :: "'w LBSyncer \<Rightarrow> range_order \<Rightarrow> Ingress \<Rightarrow> bool \<Rightarrow> 'w \<Rightarrow> go_error option \<times> 'w" where
  "DeleteLoadBalancer l ord ing forceDelete w =
     (let anyClient = getAnyClient ord (l_clients l)
      in if error_of anyClient \<noteq> None \<and> \<not> forceDelete then (error_of anyClient, w)
         else (case DeleteFirewallRules (l_namer l) (l_fwp l) w of
            (fwErr, w1) \<Rightarrow>
              (case DeleteForwardingRules (l_namer l) (l_cloud l) w1 of
                 (frErr, w2) \<Rightarrow>
                   (case DeleteTargetProxies (l_namer l) (l_cloud l) w2 of
                      (tpErr, w3) \<Rightarrow>
                        (case DeleteSSLCert (l_namer l) (l_cloud l) w3 of
                           (scErr, w4) \<Rightarrow>
                             (case um_DeleteURLMap (l_namer l) (l_cloud l) w4 of
                                (umErr, w5) \<Rightarrow>
                                  let err = append_err (append_err (append_err (append_err (append_err
                                              (append_err None (error_of anyClient)) fwErr) frErr) tpErr) scErr) umErr
                                  in (case anyClient of
                                        Inl cErr \<Rightarrow> (err, w5)
                                      | Inr client \<Rightarrow> deletePortResources l ord ing client err w5)))))))"

section \<open>Status\<close>

definition getLoadBalancerStatus :: "'w LBSyncer \<Rightarrow> 'w \<Rightarrow> (go_error + LoadBalancerStatus) \<times> 'w" where
  "getLoadBalancerStatus l w =
     (case um_GetLoadBalancerStatus (l_namer l) (l_cloud l) (l_lbName l) w of
        (Inr umStatus, w1) \<Rightarrow> (Inr umStatus, w1)
      | (Inl umErr, w1) \<Rightarrow>
          if IsHTTPErrorCode (Some umErr) StatusNotFound then (Inl (Errorf ''Load balancer %s does not exist'' [AStr (l_lbName l)]), w1)
          else (case fr_GetLoadBalancerStatus (l_namer l) (l_cloud l) (l_lbName l) w1 of
             (Inr frStatus, w2) \<Rightarrow> (Inr frStatus, w2)
           | (Inl frErr, w2) \<Rightarrow>
               if IsHTTPErrorCode (Some frErr) StatusNotFound then (Inl (Errorf ''Load balancer %s does not exist'' [AStr (l_lbName l)]), w2)
               else (Inl (Errorf ''failed to get status from both url map and forwarding rule. Error in extracting status from url map: %s. Error in extracting status from forwarding rule: %s''
                  [AErr umErr, AErr frErr]), w2)))"

definition formatLoadBalancerStatus :: "string \<Rightarrow> LoadBalancerStatus \<Rightarrow> string" where
  "formatLoadBalancerStatus lbName s =
     ''Load balancer '' @ lbName @ '' has IPAddress '' @ IPAddress s @ '' and is spread across ''
     @ show_int (int (length (elems (Clusters s)))) @ '' clusters ('' @ join '','' (elems (Clusters s)) @ '')''"

definition PrintStatus :: "'w LBSyncer \<Rightarrow> 'w \<Rightarrow> (string \<times> go_error option) \<times> 'w" where
  "PrintStatus l w =
     (case getLoadBalancerStatus l w of
        (Inl err, w1) \<Rightarrow> (('''', Some err), w1)
      | (Inr status, w1) \<Rightarrow> ((formatLoadBalancerStatus (l_lbName l) status, None), w1))"

text \<open>The rows given to the tab writer; aligning the columns is its work.\<close>

definition formatLoadBalancersList :: "(string list list \<Rightarrow> string) \<Rightarrow> LoadBalancerStatus list \<Rightarrow> string" where
  "formatLoadBalancersList tabwriter balancers =
     (if balancers = [] then ''No multicluster ingresses found.''
      else tabwriter ([''NAME'', ''IP'', ''CLUSTERS''] #
        map (\<lambda>s. [LoadBalancerName s, IPAddress s, join '', '' (elems (Clusters s))]) balancers))"

definition ListLoadBalancers :: "(string list list \<Rightarrow> string) \<Rightarrow> 'w LBSyncer \<Rightarrow> 'w \<Rightarrow> (string \<times> go_error option) \<times> 'w" where
  "ListLoadBalancers tabwriter l w =
     (case um_ListLoadBalancerStatuses (l_cloud l) w of
        ((umBalancers, umErr), w1) \<Rightarrow>
          (case fr_ListLoadBalancerStatuses (l_cloud l) w1 of
             ((frBalancers, frErr), w2) \<Rightarrow>
               let err = append_err (append_err None umErr) frErr
               in if err \<noteq> None then (('''', err), w2)
                  else ((formatLoadBalancersList tabwriter (umBalancers @ frBalancers), None), w2)))"

section \<open>Removing clusters\<close>

definition hasSomeRemainingClusters :: "string list \<Rightarrow> 'c gomap \<Rightarrow> bool" where
  "hasSomeRemainingClusters clusters clustersToRemove \<longleftrightarrow> (\<exists>v \<in> set clusters. map_of clustersToRemove v = None)"

definition removeClustersFromStatus :: "'w LBSyncer \<Rightarrow> string \<Rightarrow> string list \<Rightarrow> 'w \<Rightarrow> go_error option \<times> 'w" where
  "removeClustersFromStatus l lbName clustersToRemove w =
     (case fr_RemoveClustersFromStatus (l_namer l) (l_cloud l) clustersToRemove w of
        (frErr, w1) \<Rightarrow>
          (case um_RemoveClustersFromStatus (l_namer l) (l_cloud l) clustersToRemove w1 of
             (umErr, w2) \<Rightarrow>
               (if IsHTTPErrorCode frErr StatusNotFound \<or> IsHTTPErrorCode umErr StatusNotFound then
                  Some (Errorf ''load balancer %s does not exist'' [AStr lbName])
                else case frErr of
                  None \<Rightarrow> umErr
                | Some fe \<Rightarrow>
                    (case umErr of
                       None \<Rightarrow> frErr
                     | Some ue \<Rightarrow> Some (Errorf ''errors in updating both forwarding rule and url map, forwarding rule error: %s, url map error: %s''
                         [AErr fe, AErr ue])), w2)))"

definition removeFromResources ::
    "'w LBSyncer \<Rightarrow> range_order \<Rightarrow> ServicePort list \<Rightarrow> string list gomap \<Rightarrow> go_error option \<Rightarrow> 'w \<Rightarrow> (go_error option \<times> 'w) outcome" where
  "removeFromResources l ord ports removeIGLinks err w =
     (case fw_RemoveFromClusters (l_namer l) (l_fwp l) (l_ig l) ord (l_lbName l) removeIGLinks w of
        Panics \<Rightarrow> Panics
      | Returns (fwErr, w1) \<Rightarrow>
          (case be_RemoveFromClusters (l_namer l) (l_bsp l) ports (flat_igs ord removeIGLinks) w1 of
             (beErr, w2) \<Rightarrow> Returns (append_err (append_err err fwErr) beErr, w2)))"

definition lb_RemoveFromClusters ::
    "'w LBSyncer \<Rightarrow> range_order \<Rightarrow> Ingress \<Rightarrow> 'w KubeClient gomap \<Rightarrow> bool \<Rightarrow> 'w \<Rightarrow> (go_error option \<times> 'w) outcome option" where
  "lb_RemoveFromClusters l ord ing removeClients forceUpdate w =
     (case getLoadBalancerStatus l w of
        (Inl statusErr, w1) \<Rightarrow> Some (Returns (Some (Errorf ''error in fetching status of existing load balancer: %s'' [AErr statusErr]), w1))
      | (Inr lbStatus, w1) \<Rightarrow>
          if \<not> hasSomeRemainingClusters (elems (Clusters lbStatus)) removeClients \<and> \<not> forceUpdate then
            Some (Returns (Some (Errorf ''This will remove the ingress from all clusters. You should use kubemci delete to delete the ingress completely. If you really want to just remove it from existing clusters without deleting it completely, use --force flag with remove-clusters command'' []), w1))
          else (case getAnyClient ord (l_clients l) of
             Inl cErr \<Rightarrow> Some (Returns (Some cErr, w1))
           | Inr client \<Rightarrow>
               (case ingToNodePorts ord ing client w1 of
                  (ports, w2) \<Rightarrow>
                    (case getIGs l ord ing removeClients w2 of
                       None \<Rightarrow> None
                     | Some ((removeIGLinks, igErr0), w3) \<Rightarrow>
                         let igErr = (if igErr0 = None \<and> removeIGLinks = [] then Some (Errorf ''No instance group found'' []) else igErr0)
                         in Some (if igErr \<noteq> None \<and> \<not> forceUpdate then Returns (igErr, w3)
                                  else (case (if igErr = None then removeFromResources l ord ports removeIGLinks None w3
                                              else Returns (append_err None igErr, w3)) of
                                     Panics \<Rightarrow> Panics
                                   | Returns (err, w4) \<Rightarrow>
                                       (case removeClustersFromStatus l (l_lbName l) (map fst (range_entries ord ''clusters to remove'' removeClients)) w4 of
                                          (statusErr, w5) \<Rightarrow> Returns (append_err err statusErr, w5))))))))"

section \<open>Lemmas\<close>

locale cloud_api = lb_api view P + hc_api view H + be_api view B + fw_api view F
  for view :: "'w \<Rightarrow> project" and P :: "'w LoadBalancers" and H :: "'w HealthCheckProvider" and B :: "'w BackendServices"
    and F :: "'w FirewallProvider"

interpretation fake_cloud: cloud_api fake_view fake_lb fake_hc fake_be fake_fw
  by (intro cloud_api.intro fake.lb_api_axioms fake_hcs.hc_api_axioms fake_bes.be_api_axioms fake_fws.fw_api_axioms)

text \<open>The objects of a load balancer.\<close>

definition port_cells :: "Namer \<Rightarrow> ServicePort list \<Rightarrow> cell set" where
  "port_cells s ports = (\<lambda>p. (KBackendService, BeServiceName s (sp_NodePort p))) ` set ports
     \<union> (\<lambda>p. (KHealthCheck, HealthCheckName s (sp_NodePort p))) ` set ports"

definition lb_cells :: "Namer \<Rightarrow> ServicePort list \<Rightarrow> cell set" where
  "lb_cells s ports = {(KFirewall, FirewallRuleName s), (KForwardingRule, HTTPForwardingRuleName s), (KForwardingRule, HTTPSForwardingRuleName s),
     (KTargetHttpProxy, TargetHTTPProxyName s), (KTargetHttpsProxy, TargetHTTPSProxyName s), (KSslCertificate, SSLCertName s),
     (KUrlMap, URLMapName s)} \<union> port_cells s ports"

lemma append_err_None [simp]: "append_err err new = None \<longleftrightarrow> err = None \<and> new = None"
  by (auto simp: append_err_def split: option.splits)

lemma None_append_err [simp]: "None = append_err err new \<longleftrightarrow> err = None \<and> new = None"
  by (metis append_err_None)

lemma wrap_err_None [simp]: "wrap_err f args e = None \<longleftrightarrow> e = None"
  by (simp add: wrap_err_def)

lemma error_of_None: "error_of x = None \<longleftrightarrow> (\<exists>r. x = Inr r)"
  by (cases x) (simp_all add: error_of_def)

lemma pathNodePorts_view: "outside view client \<Longrightarrow> pathNodePorts ord ns client bes acc w = (ports, w') \<Longrightarrow> view w' = view w"
proof (induction bes arbitrary: acc w)
  case (Cons be bes)
  obtain x w1 where g: "GetServiceNodePort ord be ns client w = (x, w1)" by fastforce
  have "view w1 = view w" using GetServiceNodePort_view[OF Cons.prems(1), of ord be ns w] g by simp
  with Cons g show ?case by (cases x) auto
qed simp

lemma ingToNodePorts_view: "outside view client \<Longrightarrow> ingToNodePorts ord ing client w = (ports, w') \<Longrightarrow> view w' = view w"
  unfolding ingToNodePorts_def by (rule pathNodePorts_view)

lemma getAnyClient_in: "getAnyClient ord clients = Inr client \<Longrightarrow> \<exists>n. (n, client) \<in> set clients"
  using range_entries_subset[of ord "''any client''" clients] by (auto simp: getAnyClient_def split: list.splits)

context cloud_api
begin

lemma deletePortResources_effect:
  assumes "outside view client" "\<forall>w. fst (ingToNodePorts ord ing client w) = ports"
    and "l_hcp l = H" "l_bsp l = B" "deletePortResources l ord ing client err w = (e, w')"
  shows "c \<notin> port_cells (l_namer l) ports \<Longrightarrow> view w' c = view w c"
    and "e = None \<Longrightarrow> err = None \<and> (\<forall>c \<in> port_cells (l_namer l) ports. view w' c = None)"
proof -
  obtain w1 where p: "ingToNodePorts ord ing client w = (ports, w1)" using assms(2) by (metis prod.collapse)
  obtain e1 w2 e2 where be: "DeleteBackendServices (l_namer l) B ports w1 = (e1, w2)"
    and hc: "DeleteHealthChecks (l_namer l) H ports w2 = (e2, w')" and e: "e = append_err (append_err err e1) e2"
    using assms(3-5) p by (auto simp: deletePortResources_def split: prod.splits)
  note b = DeleteBackendServices_effect[OF be] and h = DeleteHealthChecks_effect[OF hc]
  have v: "view w1 = view w" using ingToNodePorts_view[OF assms(1) p] .
  show "c \<notin> port_cells (l_namer l) ports \<Longrightarrow> view w' c = view w c" using b(1) h(1) v by (simp add: port_cells_def)
  assume "e = None"
  with e have none: "err = None" "e1 = None" "e2 = None" by simp_all
  have "view w' (KBackendService, BeServiceName (l_namer l) (sp_NodePort p)) = None" if "p \<in> set ports" for p
    using b(2)[OF none(2) that] h(1)[of "(KBackendService, BeServiceName (l_namer l) (sp_NodePort p))"] by auto
  with none h(2)[OF none(3)] show "err = None \<and> (\<forall>c \<in> port_cells (l_namer l) ports. view w' c = None)"
    by (auto simp: port_cells_def)
qed

lemma DeleteLoadBalancer_split:
  assumes "l_cloud l = P" "l_fwp l = F" "getAnyClient ord (l_clients l) = Inr client" "DeleteLoadBalancer l ord ing force w = (e, w')"
  obtains e1 w1 e2 w2 e3 w3 e4 w4 e5 w5 where "DeleteFirewallRules (l_namer l) F w = (e1, w1)"
    "DeleteForwardingRules (l_namer l) P w1 = (e2, w2)" "DeleteTargetProxies (l_namer l) P w2 = (e3, w3)"
    "DeleteSSLCert (l_namer l) P w3 = (e4, w4)" "um_DeleteURLMap (l_namer l) P w4 = (e5, w5)"
    "deletePortResources l ord ing client (append_err (append_err (append_err (append_err (append_err None e1) e2) e3) e4) e5) w5 = (e, w')"
  using assms by (auto simp: DeleteLoadBalancer_def error_of_def append_err_def[of None None] Let_def split: prod.splits)

lemma DeleteLoadBalancer_effect:
  assumes "l_cloud l = P" "l_hcp l = H" "l_bsp l = B" "l_fwp l = F"
    and "getAnyClient ord (l_clients l) = Inr client" "outside view client" "\<forall>w. fst (ingToNodePorts ord ing client w) = ports"
    and "DeleteLoadBalancer l ord ing force w = (e, w')"
  shows "c \<notin> lb_cells (l_namer l) ports \<Longrightarrow> view w' c = view w c"
    and "e = None \<Longrightarrow> c \<in> lb_cells (l_namer l) ports \<Longrightarrow> view w' c = None"
proof -
  obtain e1 w1 e2 w2 e3 w3 e4 w4 e5 w5 where steps: "DeleteFirewallRules (l_namer l) F w = (e1, w1)"
    "DeleteForwardingRules (l_namer l) P w1 = (e2, w2)" "DeleteTargetProxies (l_namer l) P w2 = (e3, w3)"
    "DeleteSSLCert (l_namer l) P w3 = (e4, w4)" "um_DeleteURLMap (l_namer l) P w4 = (e5, w5)"
    "deletePortResources l ord ing client (append_err (append_err (append_err (append_err (append_err None e1) e2) e3) e4) e5) w5 = (e, w')"
    using DeleteLoadBalancer_split[OF assms(1,4,5,8)] .
  note fw = DeleteFirewallRules_effect[OF steps(1)] and fr = DeleteForwardingRules_frame[OF steps(2)]
    and tp = DeleteTargetProxies_effect[OF steps(3)] and sc = DeleteSSLCert_effect[OF steps(4)]
    and um = DeleteURLMap_effect[OF steps(5)] and po = deletePortResources_effect[OF assms(6,7,2,3) steps(6)]
  show "c \<notin> lb_cells (l_namer l) ports \<Longrightarrow> view w' c = view w c"
    using fw(2)[of c] fr[of c] tp(2)[of c] sc(2)[of c] um(2)[of c] po(1)[of c] by (simp add: lb_cells_def)
  assume "e = None"
  from po(2)[OF this] have none: "e1 = None" "e2 = None" "e3 = None" "e4 = None" "e5 = None"
    and ports: "\<forall>c \<in> port_cells (l_namer l) ports. view w' c = None" by simp_all
  have "view w5 = (view w)((KFirewall, FirewallRuleName (l_namer l)) := None, (KForwardingRule, HTTPForwardingRuleName (l_namer l)) := None,
      (KForwardingRule, HTTPSForwardingRuleName (l_namer l)) := None, (KTargetHttpProxy, TargetHTTPProxyName (l_namer l)) := None,
      (KTargetHttpsProxy, TargetHTTPSProxyName (l_namer l)) := None, (KSslCertificate, SSLCertName (l_namer l)) := None,
      (KUrlMap, URLMapName (l_namer l)) := None)"
    using fw(1)[OF none(1)] DeleteForwardingRules_ok[OF steps(2)[unfolded none(2)]] tp(1)[OF none(3)] sc(1)[OF none(4)] um(1)[OF none(5)] by simp
  then have "view w5 c = None" if "c \<in> lb_cells (l_namer l) ports - port_cells (l_namer l) ports" for c
    using that by (auto simp: lb_cells_def)
  then show "c \<in> lb_cells (l_namer l) ports \<Longrightarrow> view w' c = None" using ports po(1)[of c] by (cases "c \<in> port_cells (l_namer l) ports") auto
qed

end

section \<open>Deleting\<close>

text \<open>What deleting a load balancer means for the objects of the project.\<close>

definition without_cells :: "cell set \<Rightarrow> project \<Rightarrow> project" where
  "without_cells cells p = p |` (- cells)"

text \<open>
  C3. \<^verbatim>\<open>DeleteLoadBalancer\<close> refines the removal of the load balancer's objects from the project: whatever errors occur it
  touches no object that is not the load balancer's (the firewall rule, the forwarding rules, the proxies, the certificate, the URL
  map, and the backend services and health checks of the ports of the ingress), and when it reports no error the project is the
  old one with exactly those objects removed.
\<close>

theorem delete_load_balancer_exact:
  assumes "cloud_api view (l_cloud l) (l_hcp l) (l_bsp l) (l_fwp l)"
    and "getAnyClient ord (l_clients l) = Inr client" "outside view client" "\<forall>w. fst (ingToNodePorts ord ing client w) = ports"
    and "DeleteLoadBalancer l ord ing force w = (e, w')"
  shows "without_cells (lb_cells (l_namer l) ports) (view w') = without_cells (lb_cells (l_namer l) ports) (view w)
    \<and> (e = None \<longrightarrow> view w' = without_cells (lb_cells (l_namer l) ports) (view w))"
proof -
  note effect = cloud_api.DeleteLoadBalancer_effect[OF assms(1) refl refl refl refl assms(2-5)]
  show ?thesis using effect by (auto simp: without_cells_def restrict_map_def fun_eq_iff)
qed

definition lb_example :: "FakeCloud KubeClient \<Rightarrow> FakeCloud LBSyncer" where
  "lb_example client = \<lparr>l_lbName = ''lb'', l_namer = lb1, l_hcp = fake_hc, l_bsp = fake_be, l_cloud = fake_lb, l_fwp = fake_fw,
     l_ig = ig_example, l_igp = (\<lambda>name zone w. (Inr (\<lparr>ig_NamedPorts = [np_example\<lparr>np_Port := 30301\<rparr>]\<rparr>), w)),
     l_clients = [(''a'', client)], l_sleep = id\<rparr>"

lemma lb_example_fields [simp]:
  "l_lbName (lb_example c) = ''lb''" "l_namer (lb_example c) = lb1" "l_hcp (lb_example c) = fake_hc" "l_bsp (lb_example c) = fake_be"
  "l_cloud (lb_example c) = fake_lb" "l_fwp (lb_example c) = fake_fw" "l_ig (lb_example c) = ig_example"
  "l_clients (lb_example c) = [(''a'', c)]" "l_sleep (lb_example c) = id"
  by (simp_all add: lb_example_def)

lemma getAnyClient_single [simp]: "getAnyClient in_order [(n, c)] = Inr c"
  by (simp add: getAnyClient_def range_entries_def in_order_def)

lemma web_ingress_ports [simp]: "ingToNodePorts in_order web_ingress (web_client path) w = ([web_port], w)"
  by (simp add: ingToNodePorts_def ingress_backends_def web_ingress_def ing_Namespace_def web_client_node_port)

theorem delete_load_balancer_exact_witness:
  "\<exists>f'. DeleteLoadBalancer (lb_example (web_client ''/'')) in_order web_ingress False (cloud_example None) = (None, f')
     \<and> fake_view f' = without_cells (lb_cells lb1 [web_port]) (fake_view (cloud_example None))"
proof -
  obtain f' where run: "DeleteLoadBalancer (lb_example (web_client ''/'')) in_order web_ingress False (cloud_example None) = (None, f')"
    by (simp add: DeleteLoadBalancer_def deletePortResources_def Let_def
        DeleteForwardingRules_def deleteOneRule_def without_def deletion_error_def FakeGoogleAPINotFoundErr_def DeleteTargetProxies_def DeleteSSLCert_def um_DeleteURLMap_def DeleteFirewallRules_def
        DeleteBackendServices_def DeleteHealthChecks_def deleteBackendService_def deleteHealthCheck_def log_call_def
        fake_provider_ops fake_ops cloud_example_def error_of_def NewFakeLoadBalancers_def)
  from delete_load_balancer_exact[OF _ _ web_client_outside _ run] run show ?thesis
    by (auto simp: fake_cloud.cloud_api_axioms simp del: fake_view.simps)
qed

section \<open>Waiting for the instance groups\<close>

text \<open>What one poll of the ingress of a cluster decides, and the world before the \<open>k\<close>-th poll after the present one.\<close>

definition igs_answer :: "string \<Rightarrow> string \<Rightarrow> 'w KubeClient \<Rightarrow> 'w \<Rightarrow> ((go_error + string list) \<times> 'w) option" where
  "igs_answer name namespace client w =
     (case GetIngress client namespace name w of
        (Inl err, w1) \<Rightarrow> Some (Inl (Errorf ''error %s in fetching ingress'' [AErr err]), w1)
      | (Inr ing, w1) \<Rightarrow> map_option (\<lambda>r. (r, w1)) (readIGs ing))"

definition after_polls :: "('w \<Rightarrow> 'w) \<Rightarrow> string \<Rightarrow> string \<Rightarrow> 'w KubeClient \<Rightarrow> nat \<Rightarrow> 'w \<Rightarrow> 'w" where
  "after_polls sleep name namespace client k = (\<lambda>w. sleep (snd (GetIngress client namespace name w))) ^^ k"

lemma after_polls_simps [simp]:
  "after_polls sleep name ns client 0 w = w"
  "after_polls sleep name ns client (Suc k) w = after_polls sleep name ns client k (sleep (snd (GetIngress client ns name w)))"
  unfolding after_polls_def by (simp_all only: funpow.simps(1) id_apply funpow_Suc_right comp_apply)

lemma getIGsForCluster_step:
  "getIGsForCluster sleep name ns client w =
     (case igs_answer name ns client w of
        Some a \<Rightarrow> Some a
      | None \<Rightarrow> getIGsForCluster sleep name ns client (sleep (snd (GetIngress client ns name w))))"
  by (subst getIGsForCluster.simps) (auto simp: igs_answer_def split: prod.splits sum.splits option.splits)

lemma getIGsForCluster_waits:
  "igs_answer name ns client (after_polls sleep name ns client k w) = Some a \<Longrightarrow>
   \<forall>j < k. igs_answer name ns client (after_polls sleep name ns client j w) = None \<Longrightarrow>
   getIGsForCluster sleep name ns client w = Some a"
proof (induction k arbitrary: w)
  case 0
  then show ?case by (subst getIGsForCluster_step) simp
next
  case (Suc k)
  from Suc.prems(2) have now: "igs_answer name ns client w = None" by (metis after_polls_simps(1) zero_less_Suc)
  have "getIGsForCluster sleep name ns client (sleep (snd (GetIngress client ns name w))) = Some a"
    using Suc.prems by (intro Suc.IH) (simp, metis after_polls_simps(2) Suc_less_eq)
  with now show ?case by (subst getIGsForCluster_step) simp
qed

lemma getIGsForCluster_returned:
  assumes "getIGsForCluster sleep name ns client w = Some a"
  shows "\<exists>k. igs_answer name ns client (after_polls sleep name ns client k w) = Some a
     \<and> (\<forall>j < k. igs_answer name ns client (after_polls sleep name ns client j w) = None)"
proof (induction rule: getIGsForCluster.raw_induct[OF _ assms, where P = "\<lambda>sleep name ns client w a.
    \<exists>k. igs_answer name ns client (after_polls sleep name ns client k w) = Some a
     \<and> (\<forall>j < k. igs_answer name ns client (after_polls sleep name ns client j w) = None)"])
  case (1 rec sleep name ns client w a)
  show ?case
  proof (cases "igs_answer name ns client w")
    case None
    with 1(2) have "rec sleep name ns client (sleep (snd (GetIngress client ns name w))) = Some a"
      by (auto simp: igs_answer_def split: prod.splits sum.splits option.splits)
    from 1(1)[OF this] obtain k where k: "igs_answer name ns client (after_polls sleep name ns client (Suc k) w) = Some a"
      "\<forall>j < k. igs_answer name ns client (after_polls sleep name ns client (Suc j) w) = None" by auto
    with None have "\<forall>j < Suc k. igs_answer name ns client (after_polls sleep name ns client j w) = None"
      by (metis after_polls_simps(1) less_Suc_eq_0_disj)
    with k(1) show ?thesis by blast
  next
    case (Some b)
    with 1(2) have "a = b" by (auto simp: igs_answer_def split: prod.splits sum.splits option.splits)
    with Some show ?thesis by (intro exI[of _ 0]) simp
  qed
qed

lemma getIGsForCluster_Some_iff:
  "getIGsForCluster sleep name ns client w = Some a \<longleftrightarrow>
     (\<exists>k. igs_answer name ns client (after_polls sleep name ns client k w) = Some a
        \<and> (\<forall>j < k. igs_answer name ns client (after_polls sleep name ns client j w) = None))"
  using getIGsForCluster_returned getIGsForCluster_waits by metis

lemma getIGsForCluster_decides:
  assumes "igs_answer name ns client (after_polls sleep name ns client k w) \<noteq> None"
  obtains x w1 where "getIGsForCluster sleep name ns client w = Some (x, w1)"
proof -
  let ?ans = "\<lambda>k. igs_answer name ns client (after_polls sleep name ns client k w)"
  let ?k = "LEAST k. ?ans k \<noteq> None"
  have "?ans ?k \<noteq> None" using assms by (rule LeastI)
  then obtain b where "?ans ?k = Some b" by blast
  moreover have "\<forall>j < ?k. ?ans j = None" using not_less_Least by blast
  ultimately have "getIGsForCluster sleep name ns client w = Some b" by (rule getIGsForCluster_waits)
  then show ?thesis using that by (cases b) simp
qed

text \<open>
  C14. \<^verbatim>\<open>getIGsForCluster\<close> polls the ingress of a cluster without a bound.  It returns exactly what the first poll that decides
  returns (the ingress cannot be read, its annotation does not parse, or it lists at least one instance group), and it runs
  forever exactly when no poll ever decides.
\<close>

theorem polling_exact:
  "(getIGsForCluster sleep name ns client w = Some a \<longleftrightarrow>
      (\<exists>k. igs_answer name ns client (after_polls sleep name ns client k w) = Some a
        \<and> (\<forall>j. j < k \<longrightarrow> igs_answer name ns client (after_polls sleep name ns client j w) = None)))
   \<and> (getIGsForCluster sleep name ns client w = None \<longleftrightarrow>
      (\<forall>k. igs_answer name ns client (after_polls sleep name ns client k w) = None))"
  using getIGsForCluster_Some_iff[of sleep name ns client w] getIGsForCluster_decides[of name ns client sleep _ w]
  by (metis option.distinct(1) option.exhaust)

text \<open>An ingress whose controller has published an instance group; a cluster that has it from the start, and one that has it
  after three polls, in a world that counts the naps taken.\<close>

definition ready_ingress :: Ingress where
  "ready_ingress = web_ingress\<lparr>ing_ObjectMeta := (ing_ObjectMeta web_ingress)\<lparr>om_Annotations :=
     [(InstanceGroupsAnnotationKey, ''[{\"Name\":\"ig\",\"Zone\":\"zones/z\"}]''), (StaticIPNameKey, ''ip''),
      (IngressClassKey, GceMultiIngressClass)]\<rparr>\<rparr>"

definition ready_client :: "'w KubeClient" where
  "ready_client = (web_client ''/'')\<lparr>GetIngress := (\<lambda>ns n w. (Inr ready_ingress, w))\<rparr>"

definition slow_client :: "nat KubeClient" where
  "slow_client = (web_client ''/'')\<lparr>GetIngress := (\<lambda>ns n t. (Inr (if t < 3 then web_ingress else ready_ingress), t))\<rparr>"

lemma ready_annotation: "Unmarshal_igs ''[{\"Name\":\"ig\",\"Zone\":\"zones/z\"}]'' = Inr [\<lparr>igv_Name = ''ig'', igv_Zone = ''zones/z''\<rparr>]"
  by code_simp

lemma ready_igs [simp]: "readIGs ready_ingress = Some (Inr [''zones/z/instanceGroups/ig''])" "readIGs web_ingress = None"
  by (simp_all add: readIGs_def annotation_def ing_Annotations_def ready_ingress_def web_ingress_def ready_annotation ig_link_def)

lemma ready_answer [simp]: "igs_answer name ns ready_client w = Some (Inr [''zones/z/instanceGroups/ig''], w)"
  by (simp add: igs_answer_def ready_client_def)

lemma slow_polls: "after_polls Suc name ns slow_client k t = t + k"
  by (induction k arbitrary: t) (simp_all add: slow_client_def)

lemma slow_answer: "igs_answer name ns slow_client t = (if t < 3 then None else Some (Inr [''zones/z/instanceGroups/ig''], t))"
  by (simp add: igs_answer_def slow_client_def)

theorem polling_exact_witness:
  "getIGsForCluster Suc ''i'' ''ns'' slow_client 0 = Some (Inr [''zones/z/instanceGroups/ig''], 3)"
proof -
  have "\<exists>k. igs_answer ''i'' ''ns'' slow_client (after_polls Suc ''i'' ''ns'' slow_client k 0) = Some (Inr [''zones/z/instanceGroups/ig''], 3)
     \<and> (\<forall>j. j < k \<longrightarrow> igs_answer ''i'' ''ns'' slow_client (after_polls Suc ''i'' ''ns'' slow_client j 0) = None)"
    by (intro exI[of _ 3]) (simp add: slow_polls slow_answer)
  then show ?thesis by (rule polling_exact[THEN conjunct1, THEN iffD2])
qed

text \<open>Whatever the world, some later poll of the cluster decides.\<close>

definition eventually_answers :: "('w \<Rightarrow> 'w) \<Rightarrow> Ingress \<Rightarrow> 'w KubeClient \<Rightarrow> bool" where
  "eventually_answers sleep ing client \<longleftrightarrow>
     (\<forall>w. \<exists>k. igs_answer (ing_Name ing) (ing_Namespace ing) client (after_polls sleep (ing_Name ing) (ing_Namespace ing) client k w) \<noteq> None)"

lemma getIGsLoop_returns: "\<forall>c \<in> snd ` set cs. eventually_answers (l_sleep l) ing c \<Longrightarrow> getIGsLoop l ing cs igs err w \<noteq> None"
proof (induction l ing cs igs err w rule: getIGsLoop.induct)
  case (2 l ing cluster client cs igs err w)
  from 2(3) have "eventually_answers (l_sleep l) ing client" by simp
  then obtain k where "igs_answer (ing_Name ing) (ing_Namespace ing) client
      (after_polls (l_sleep l) (ing_Name ing) (ing_Namespace ing) client k w) \<noteq> None"
    unfolding eventually_answers_def by blast
  then obtain x w1 where g: "getIGsForCluster (l_sleep l) (ing_Name ing) (ing_Namespace ing) client w = Some (x, w1)"
    by (rule getIGsForCluster_decides)
  show ?case using 2(1)[OF g refl] 2(2)[OF g refl] 2(3) g by (cases x) simp_all
qed simp

lemma getIGs_returns: "\<forall>c \<in> snd ` set clients. eventually_answers (l_sleep l) ing c \<Longrightarrow> getIGs l ord ing clients w \<noteq> None"
  unfolding getIGs_def using range_entries_subset[of ord "''instance groups''" clients] by (intro getIGsLoop_returns) auto

lemma after_waiting:
  "\<forall>c \<in> snd ` set clients. eventually_answers (l_sleep l) ing c \<Longrightarrow>
   (case getIGs l ord ing clients w of None \<Rightarrow> None | Some ((igs, e), w1) \<Rightarrow> Some (f igs e w1)) \<noteq> None"
  using getIGs_returns[of clients l ing ord w] by (auto split: option.splits prod.splits)

text \<open>
  C15. Creating a load balancer and removing it from clusters come to an end (with a result, an error or a panic) when the ingress
  controller of every cluster that is waited for eventually answers: nothing else in these operations can run forever.
\<close>

theorem load_balancer_operations_return:
  assumes "\<forall>c \<in> snd ` set (l_clients l) \<union> snd ` set removeClients. eventually_answers (l_sleep l) ing c"
  shows "CreateLoadBalancer l ord ing force validate clusters w \<noteq> None
    \<and> lb_RemoveFromClusters l ord ing removeClients force w \<noteq> None"
proof
  show "CreateLoadBalancer l ord ing force validate clusters w \<noteq> None"
    unfolding CreateLoadBalancer_def Let_def using assms
    by (auto split: sum.split prod.split intro!: after_waiting simp del: not_None_eq)
  show "lb_RemoveFromClusters l ord ing removeClients force w \<noteq> None"
    unfolding lb_RemoveFromClusters_def Let_def using assms
    by (auto split: sum.split prod.split intro!: after_waiting simp del: not_None_eq)
qed

theorem load_balancer_operations_return_witness:
  "CreateLoadBalancer (lb_example ready_client) in_order ready_ingress False True (Slice [''a'']) NewFakeLoadBalancers \<noteq> None
   \<and> lb_RemoveFromClusters (lb_example ready_client) in_order ready_ingress [(''a'', ready_client)] False NewFakeLoadBalancers \<noteq> None"
  by (rule load_balancer_operations_return) (simp add: eventually_answers_def)

end
