(* ===== verification/LoadBalancerCreate.thy ===== *)
theory LoadBalancerCreate
  imports LoadBalancer
begin

text \<open>
  Creating a load balancer, as a whole: what the steps of \<^verbatim>\<open>CreateLoadBalancer\<close> (\<^verbatim>\<open>loadbalancersyncer.go\<close>) leave in the project,
  composed from the effects of the syncers it calls.
\<close>

section \<open>The surroundings of the syncer\<close>

text \<open>
  The cloud calls keep their laws; the clusters, the instance calls and the passing of time do not touch the project; and a
  lookup in the cloud fails only when the object does not exist.
\<close>

locale lb_env =
  fixes view :: "'w \<Rightarrow> project"
    and l :: "'w LBSyncer"
    and lookup :: "string \<Rightarrow> go_error + Instance"
  assumes cloud: "cloud_api view (l_cloud l) (l_hcp l) (l_bsp l) (l_fwp l)"
    and clients_distinct: "distinct (map fst (l_clients l))"
    and clients_outside: "client \<in> snd ` set (l_clients l) \<Longrightarrow> outside view client"
    and igp_view: "view (snd (l_igp l name zone w)) = view w"
    and sleep_view: "view (l_sleep l w) = view w"
    and instances_steady: "steady_lookup view (l_ig l) lookup"
    and hc_404: "found_or_404 (GetHealthCheck (l_hcp l)) n w"
    and be_404: "found_or_404 (GetGlobalBackendService (l_bsp l)) n w"
    and um_404: "found_or_404 (GetUrlMap (l_cloud l)) n w"
    and tp_404: "found_or_404 (GetTargetHttpProxy (l_cloud l)) n w"
    and tps_404: "found_or_404 (GetTargetHttpsProxy (l_cloud l)) n w"
    and fr_404: "found_or_404 (GetGlobalForwardingRule (l_cloud l)) n w"
    and sc_404: "found_or_404 (GetSslCertificate (l_cloud l)) n w"
    and fw_404: "found_or_404 (GetFirewall (l_fwp l)) n w"

sublocale lb_env \<subseteq> cloud_api view "l_cloud l" "l_hcp l" "l_bsp l" "l_fwp l"
  by (rule cloud)

section \<open>Instance groups and named ports\<close>

lemma igs_answer_view: "outside view client \<Longrightarrow> igs_answer name ns client w = Some (x, w') \<Longrightarrow> view w' = view w"
  unfolding outside_def igs_answer_def by (auto split: prod.splits sum.splits) (metis snd_conv)+

lemma readIGs_nonempty: "readIGs ing = Some (Inr igs) \<Longrightarrow> igs \<noteq> []"
  by (auto simp: readIGs_def Let_def split: if_splits sum.splits list.splits)

lemma igs_answer_nonempty: "igs_answer name ns client w = Some (Inr igs, w') \<Longrightarrow> igs \<noteq> []"
  by (auto simp: igs_answer_def dest: readIGs_nonempty split: prod.splits sum.splits)

lemma getIGsForCluster_nonempty: "getIGsForCluster sleep name ns client w = Some (Inr igs, w') \<Longrightarrow> igs \<noteq> []"
  by (drule getIGsForCluster_returned) (auto dest: igs_answer_nonempty)

lemma values_update: "snd ` set (AList.update k v m) \<subseteq> insert v (snd ` set m)"
  by (induction m) auto

lemma getIGsLoop_keys:
  "getIGsLoop l ing cs igs err w = Some ((igs', e), w') \<Longrightarrow> distinct (map fst igs) \<Longrightarrow> [] \<notin> snd ` set igs \<Longrightarrow>
   distinct (map fst igs') \<and> [] \<notin> snd ` set igs' \<and> fst ` set igs' \<subseteq> fst ` set igs \<union> fst ` set cs"
proof (induction l ing cs igs err w rule: getIGsLoop.induct)
  case (2 l ing cluster client cs igs err w)
  then obtain x w1 where g: "getIGsForCluster (l_sleep l) (ing_Name ing) (ing_Namespace ing) client w = Some (x, w1)"
    by (auto split: option.splits)
  show ?case
  proof (cases x)
    case (Inl e)
    with 2(1)[OF g refl] 2(3-) g show ?thesis by auto
  next
    case (Inr xs)
    have "[] \<notin> snd ` set (AList.update cluster xs igs)"
      using values_update[of cluster xs igs] getIGsForCluster_nonempty[OF g[unfolded Inr]] 2(5) by auto
    with 2(2)[OF g refl Inr] 2(3-) g Inr show ?thesis by (auto simp: distinct_update AList.dom_update)
  qed
qed simp

lemma getIGsLoop_all:
  "getIGsLoop l ing cs igs err w = Some ((igs', None), w') \<Longrightarrow> err = None \<and> fst ` set igs' = fst ` set igs \<union> fst ` set cs"
proof (induction l ing cs igs err w rule: getIGsLoop.induct)
  case (2 l ing cluster client cs igs err w)
  then obtain x w1 where g: "getIGsForCluster (l_sleep l) (ing_Name ing) (ing_Namespace ing) client w = Some (x, w1)"
    by (auto split: option.splits)
  with 2(1)[OF g refl] 2(2)[OF g refl] 2(3) show ?case by (cases x) (auto simp: AList.dom_update)
qed simp

lemma append_None [simp]: "append_err None None = None"
  by (simp add: append_err_def)

context lb_env
begin

lemma after_polls_view: "outside view client \<Longrightarrow> view (after_polls (l_sleep l) name ns client k w) = view w"
  by (induction k arbitrary: w) (auto simp: outside_def sleep_view)

lemma getIGsForCluster_view:
  "outside view client \<Longrightarrow> getIGsForCluster (l_sleep l) name ns client w = Some (x, w') \<Longrightarrow> view w' = view w"
  by (drule getIGsForCluster_returned) (use igs_answer_view after_polls_view in metis)

lemma getIGsLoop_view:
  "\<forall>c \<in> snd ` set cs. outside view c \<Longrightarrow> getIGsLoop l ing cs igs err w = Some (x, w') \<Longrightarrow> view w' = view w"
proof (induction cs arbitrary: igs err w)
  case (Cons c cs)
  obtain n client where c: "c = (n, client)" by fastforce
  with Cons.prems(2) obtain y w1 where
    g: "getIGsForCluster (l_sleep l) (ing_Name ing) (ing_Namespace ing) client w = Some (y, w1)"
    by (auto split: option.splits)
  from Cons.IH[of _ _ w1] getIGsForCluster_view[OF _ g] Cons.prems g c show ?case by (cases y) auto
qed simp

lemma getIGs_facts:
  assumes "\<forall>c \<in> snd ` set clients. outside view c" "getIGs l ord ing clients w = Some ((igs, e), w')"
  shows "view w' = view w" "distinct (map fst igs)" "[] \<notin> snd ` set igs" "fst ` set igs \<subseteq> fst ` set clients"
proof -
  note run = assms(2)[unfolded getIGs_def]
  have sub: "set (range_entries ord ''instance groups'' clients) \<subseteq> set clients" by (rule range_entries_subset)
  show "view w' = view w" by (rule getIGsLoop_view[OF _ run]) (use assms(1) sub in auto)
  from getIGsLoop_keys[OF run] show "distinct (map fst igs)" "[] \<notin> snd ` set igs" by auto
  show "fst ` set igs \<subseteq> fst ` set clients" by (rule order_trans[OF _ image_mono[OF sub]]) (use getIGsLoop_keys[OF run] in simp)
qed

lemma getIGs_all:
  "range_ok ord \<Longrightarrow> getIGs l ord ing (l_clients l) w = Some ((igs, None), w') \<Longrightarrow> fst ` set igs = fst ` set (l_clients l)"
  unfolding getIGs_def by (drule getIGsLoop_all) (simp add: set_range_entries clients_distinct)

lemma getNamedPorts_view: "getNamedPorts l ord igs w = Returns (x, w') \<Longrightarrow> view w' = view w"
proof -
  have "view (snd (getNamedPortsForIG l ig w)) = view w" for ig
    using igp_view by (auto simp: getNamedPortsForIG_def split: sum.splits prod.splits) (metis snd_conv)+
  then show "getNamedPorts l ord igs w = Returns (x, w') \<Longrightarrow> view w' = view w"
    by (auto simp: getNamedPorts_def split: list.splits) (metis snd_conv)
qed

lemma getIPAddress_view: "getIPAddress l ing w = (x, w') \<Longrightarrow> view w' = view w"
  by (auto simp: getIPAddress_def Let_def dest: address_view split: if_splits prod.splits sum.splits)

end

section \<open>The frontends\<close>

text \<open>The parts of a frontend and their links: the rule sends the address to the proxy, the proxy to the URL map.\<close>

definition serves_http :: "project \<Rightarrow> Namer \<Rightarrow> string \<Rightarrow> string \<Rightarrow> bool" where
  "serves_http p s ip umLink \<longleftrightarrow>
     (\<exists>tp fr. p (KTargetHttpProxy, TargetHTTPProxyName s) = Some (RTargetHttpProxy tp) \<and> tp_UrlMap tp = umLink
        \<and> p (KForwardingRule, HTTPForwardingRuleName s) = Some (RForwardingRule fr) \<and> fr_Target fr = tp_SelfLink tp
        \<and> fr_PortRange fr = ''80-80'' \<and> (ip \<noteq> '''' \<longrightarrow> fr_IPAddress fr = ip))"

definition serves_https :: "project \<Rightarrow> Namer \<Rightarrow> string \<Rightarrow> string \<Rightarrow> bool" where
  "serves_https p s ip umLink \<longleftrightarrow>
     (\<exists>tps fr. p (KTargetHttpsProxy, TargetHTTPSProxyName s) = Some (RTargetHttpsProxy tps) \<and> tps_UrlMap tps = umLink
        \<and> p (KForwardingRule, HTTPSForwardingRuleName s) = Some (RForwardingRule fr) \<and> fr_Target fr = tps_SelfLink tps
        \<and> fr_PortRange fr = ''443-443'' \<and> (ip \<noteq> '''' \<longrightarrow> fr_IPAddress fr = ip))"

definition http_cells :: "Namer \<Rightarrow> cell set" where
  "http_cells s = {(KTargetHttpProxy, TargetHTTPProxyName s), (KForwardingRule, HTTPForwardingRuleName s)}"

definition https_cells :: "Namer \<Rightarrow> cell set" where
  "https_cells s = {(KSslCertificate, SSLCertName s), (KTargetHttpsProxy, TargetHTTPSProxyName s), (KForwardingRule, HTTPSForwardingRuleName s)}"

lemma serves_cong:
  "\<forall>c \<in> http_cells s. p c = q c \<Longrightarrow> serves_http p s ip um = serves_http q s ip um"
  "\<forall>c \<in> https_cells s. p c = q c \<Longrightarrow> serves_https p s ip um = serves_https q s ip um"
  by (simp_all add: serves_http_def serves_https_def http_cells_def https_cells_def)

context lb_api
begin

lemma ensureHTTPProxy_frame:
  "ensureHTTPProxy s P lb um force w = (x, w') \<Longrightarrow> c \<noteq> (KTargetHttpProxy, TargetHTTPProxyName s) \<Longrightarrow> view w' c = view w c"
  using tpe.ensure_link_frame[of _ "desiredHTTPTargetProxy s lb um"] by (simp add: ensureHTTPProxy_pattern)

lemma ensureHTTPSProxy_frame:
  "ensureHTTPSProxy s P lb um cert force w = (x, w') \<Longrightarrow> c \<noteq> (KTargetHttpsProxy, TargetHTTPSProxyName s) \<Longrightarrow> view w' c = view w c"
  using tpse.ensure_link_frame[of _ "desiredHTTPSTargetProxy s lb um cert"] by (simp add: ensureHTTPSProxy_pattern)

lemma ensureHTTPSProxy_ok:
  assumes "ensureHTTPSProxy s P lb um cert force w = (Inr l, w')" "found_or_404 (GetTargetHttpsProxy P) (TargetHTTPSProxyName s) w"
  shows "\<exists>r. view w' = (view w)((KTargetHttpsProxy, TargetHTTPSProxyName s) \<mapsto> RTargetHttpsProxy r) \<and> l = tps_SelfLink r \<and> tps_UrlMap r = um"
proof -
  let ?d = "desiredHTTPSTargetProxy s lb um cert"
  have "ensure_link (GetTargetHttpsProxy P) (CreateTargetHttpsProxy P) (set_um_https P) targetHTTPSProxyMatches tps_SelfLink
       (Errorf ''Will not overwrite Target HTTPS Proxy without --force'' []) (tps_Name ?d) ?d force w = (Inr l, w')"
    using assms(1) by (simp add: ensureHTTPSProxy_pattern)
  then obtain r where r: "view w' = (view w)((KTargetHttpsProxy, TargetHTTPSProxyName s) \<mapsto> RTargetHttpsProxy r)" "l = tps_SelfLink r"
    "targetHTTPSProxyMatches ?d r \<or> tps_stored ?d r \<or> (\<exists>old. r = old\<lparr>tps_UrlMap := um\<rparr>)"
    by (rule tpse.ensure_link_ok) (use assms(2) in auto)
  then have "tps_UrlMap r = um" using tps_serves(1)[of ?d r] by auto
  with r show ?thesis by blast
qed

lemma EnsureSSLCert_frame:
  assumes "outside view client" "EnsureSSLCert s P lbName ing client force w = (x, w')" "c \<noteq> (KSslCertificate, SSLCertName s)"
  shows "view w' c = view w c"
proof (cases "UseNamedTLS ing = ''''")
  case True
  obtain z w1 where d: "desiredSSLCert s lbName ing client w = (z, w1)" by fastforce
  show ?thesis
  proof (cases z)
    case (Inl e)
    with True assms(2) d desiredSSLCert_view[OF assms(1) d] show ?thesis by (auto simp: EnsureSSLCert_def ensureSecretSSLCert_def)
  next
    case (Inr d')
    with True assms(2,3) sce.ensure_link_frame[of _ d' force w1 x w' c] ensureSecretSSLCert_pattern[OF d[unfolded Inr], of P force]
      desiredSSLCert_ok(1)[OF d[unfolded Inr]] desiredSSLCert_view[OF assms(1) d]
    show ?thesis by (simp add: EnsureSSLCert_def)
  qed
qed (use assms(2) PreShared_view(1) in \<open>simp add: EnsureSSLCert_def\<close>)

lemma ensureForwardingRule_serves:
  assumes "ensureForwardingRule P lb ip link pr proto n force w = (None, w')" "found_or_404 (GetGlobalForwardingRule P) n w"
  shows "\<exists>r. view w' = (view w)((KForwardingRule, n) \<mapsto> RForwardingRule r) \<and> fr_Target r = link \<and> fr_PortRange r = pr
     \<and> (ip \<noteq> '''' \<longrightarrow> fr_IPAddress r = ip)"
proof -
  obtain d where d: "desiredForwardingRule lb ip link pr proto n = Inr d" using desired_rule_exists by blast
  obtain r where r: "view w' (KForwardingRule, n) = Some (RForwardingRule r)" "rule_serves d r"
    using ensureForwardingRule_ok[OF assms d] by blast
  moreover have "view w' = (view w)((KForwardingRule, n) \<mapsto> RForwardingRule r)"
    using ensureForwardingRule_frame[OF assms(1)] r(1) by (auto simp: fun_eq_iff)
  ultimately show ?thesis using desired_rule[OF d] by (auto simp: rule_serves_def)
qed

end

context lb_env
begin

lemma configureHTTP_ok:
  assumes "configureHTTP l ip um force err w = (None, w')"
  shows "err = None" "serves_http (view w') (l_namer l) ip um" "c \<notin> http_cells (l_namer l) \<Longrightarrow> view w' c = view w c"
proof -
  obtain link w1 where tp: "ensureHTTPProxy (l_namer l) (l_cloud l) (l_lbName l) um force w = (Inr link, w1)"
    and fr: "EnsureHTTPForwardingRule (l_namer l) (l_cloud l) (l_lbName l) ip link force w1 = (None, w')" and "err = None"
    using assms by (auto simp: configureHTTP_def EnsureHTTPTargetProxy_def wrap_proxy_error_ok split: prod.splits)
  then show "err = None" by simp
  from ensureHTTPProxy_ok[OF tp tp_404] obtain r where
    r: "view w1 = (view w)((KTargetHttpProxy, TargetHTTPProxyName (l_namer l)) \<mapsto> RTargetHttpProxy r)" "link = tp_SelfLink r" "tp_UrlMap r = um"
    by blast
  from ensureForwardingRule_serves[OF fr[unfolded EnsureHTTPForwardingRule_def] fr_404] r
  show "serves_http (view w') (l_namer l) ip um" "c \<notin> http_cells (l_namer l) \<Longrightarrow> view w' c = view w c"
    by (auto simp: serves_http_def http_cells_def httpDefaultPortRange_def)
qed

lemma configureHTTPS_ok:
  assumes "configureHTTPS l ing client ip um force err w = (None, w')" "outside view client"
  shows "err = None" "serves_https (view w') (l_namer l) ip um" "c \<notin> https_cells (l_namer l) \<Longrightarrow> view w' c = view w c"
proof -
  obtain cert w1 link w2 where sc: "EnsureSSLCert (l_namer l) (l_cloud l) (l_lbName l) ing client force w = (Inr cert, w1)"
    and tp: "ensureHTTPSProxy (l_namer l) (l_cloud l) (l_lbName l) um cert force w1 = (Inr link, w2)"
    and fr: "EnsureHTTPSForwardingRule (l_namer l) (l_cloud l) (l_lbName l) ip link force w2 = (None, w')" and "err = None"
    using assms(1) by (auto simp: configureHTTPS_def EnsureHTTPSTargetProxy_def wrap_proxy_error_ok error_of_None link_of_def split: prod.splits)
  then show "err = None" by simp
  from ensureHTTPSProxy_ok[OF tp tps_404] obtain r where
    r: "view w2 = (view w1)((KTargetHttpsProxy, TargetHTTPSProxyName (l_namer l)) \<mapsto> RTargetHttpsProxy r)" "link = tps_SelfLink r" "tps_UrlMap r = um"
    by blast
  from ensureForwardingRule_serves[OF fr[unfolded EnsureHTTPSForwardingRule_def] fr_404] r EnsureSSLCert_frame[OF assms(2) sc, of c]
  show "serves_https (view w') (l_namer l) ip um" "c \<notin> https_cells (l_namer l) \<Longrightarrow> view w' c = view w c"
    by (auto simp: serves_https_def https_cells_def httpsDefaultPortRange_def)
qed

end

section \<open>The resources\<close>

definition wants_https :: "Ingress \<Rightarrow> bool" where
  "wants_https ing \<longleftrightarrow> UseNamedTLS ing \<noteq> '''' \<or> length (elems (is_TLS (ing_Spec ing))) > 0"

lemma createResources_split:
  assumes "createResources l ord ing force clusters client ports ip hcs igs nps err w = Returns (e, w')"
  obtains bes beErr w1 um w2 err0 err1 w3 err2 w4 fwErr where
    "EnsureBackendService (l_namer l) (l_bsp l) (l_lbName l) ports hcs nps (flat_igs ord igs) force w = Returns ((bes, beErr), w1)"
    "EnsureURLMap (l_namer l) (l_cloud l) ord (l_lbName l) ip clusters ing bes force w1 = Returns (um, w2)"
    "err0 = None \<longrightarrow> err = None \<and> beErr = None \<and> (\<exists>link. um = Inr link)"
    "(if AllowHTTP ing then configureHTTP l ip (link_of um) force err0 w2 else (err0, w2)) = (err1, w3)"
    "(if wants_https ing then configureHTTPS l ing client ip (link_of um) force err1 w3 else (err1, w3)) = (err2, w4)"
    "EnsureFirewallRule (l_namer l) (l_fwp l) (l_ig l) ord (l_lbName l) ports igs force w4 = Returns (fwErr, w')"
    "e = None \<longrightarrow> err2 = None \<and> fwErr = None"
proof -
  from assms obtain bes beErr w1 where
    be: "EnsureBackendService (l_namer l) (l_bsp l) (l_lbName l) ports hcs nps (flat_igs ord igs) force w = Returns ((bes, beErr), w1)"
    by (auto simp: createResources_def split: outcome.splits)
  with assms obtain um w2 where
    um: "EnsureURLMap (l_namer l) (l_cloud l) ord (l_lbName l) ip clusters ing bes force w1 = Returns (um, w2)"
    by (auto simp: createResources_def split: outcome.splits)
  let ?err0 = "append_err (append_err err (wrap_err ''Error ensuring backend service for %s: %s'' [AStr (l_lbName l)] beErr))
     (wrap_err ''Error ensuring urlmap for %s: %s'' [AStr (l_lbName l)] (error_of um))"
  have "?err0 = None \<longrightarrow> err = None \<and> beErr = None \<and> (\<exists>link. um = Inr link)" by (simp add: error_of_None)
  from assms that[OF be um this] show ?thesis
    unfolding createResources_def wants_https_def be um outcome.case prod.case Let_def
    by (auto split: prod.splits outcome.splits)
qed

context lb_env
begin

text \<open>A step that is made only if the ingress asks for it.\<close>

lemma optional_http:
  assumes "(if b then configureHTTP l ip um force err w else (err, w)) = (None, w')"
  shows "err = None" "b \<Longrightarrow> serves_http (view w') (l_namer l) ip um" "c \<notin> http_cells (l_namer l) \<Longrightarrow> view w' c = view w c"
  using assms configureHTTP_ok[of ip um force err w w'] by (auto split: if_splits)

lemma optional_https:
  assumes "(if b then configureHTTPS l ing client ip um force err w else (err, w)) = (None, w')" "outside view client"
  shows "err = None" "b \<Longrightarrow> serves_https (view w') (l_namer l) ip um" "c \<notin> https_cells (l_namer l) \<Longrightarrow> view w' c = view w c"
  using assms configureHTTPS_ok[of ing client ip um force err w w'] by (auto split: if_splits)

lemma EnsureFirewallRule_ok:
  assumes "EnsureFirewallRule (l_namer l) (l_fwp l) (l_ig l) ord lbName ports igs force w = Returns (None, w')"
    and "range_ok ord" "distinct (map fst igs)"
  shows "\<exists>f. view w' = (view w)((KFirewall, FirewallRuleName (l_namer l)) \<mapsto> RFirewall f) \<and> rule_opens ports (cluster_tags lookup igs) f"
proof -
  have "ensureFirewallRule (l_namer l) (l_fwp l) (l_ig l) ord lbName ports igs force w = Returns (None, w')"
    using assms(1) by (auto simp: EnsureFirewallRule_def split: outcome.splits option.splits)
  from ensureFirewallRule_ok[OF instances_steady this assms(2,3)] fw_404 show ?thesis by blast
qed

lemma EnsureBackendService_ok:
  assumes "EnsureBackendService (l_namer l) (l_bsp l) lbName ports hcs nps igLinks force w = Returns ((bes, None), w')"
    and "inj_on (\<lambda>p. BeServiceName (l_namer l) (sp_NodePort p)) (set ports)"
  shows "bes_stored view (l_namer l) ports bes w'"
    and "p \<in> set ports \<Longrightarrow> \<exists>h n b. map_of hcs (sp_NodePort p) = Some h \<and> map_of nps (sp_NodePort p) = Some n
      \<and> view w' (KBackendService, BeServiceName (l_namer l) (sp_NodePort p)) = Some (RBackendService b)
      \<and> be_agrees (desiredBackendService (l_namer l) lbName p (hc_SelfLink h) (np_Name n) igLinks) b"
    and "c \<notin> (\<lambda>p. (KBackendService, BeServiceName (l_namer l) (sp_NodePort p))) ` set ports \<Longrightarrow> view w' c = view w c"
proof -
  note run = assms(1)[unfolded EnsureBackendService_def] and found = allI[OF allI[OF be_404]]
  show "bes_stored view (l_namer l) ports bes w'"
    using ensureBackendServiceLoop_map[OF run found assms(2) subset_refl] by (simp add: bes_stored_def)
  show "p \<in> set ports \<Longrightarrow> \<exists>h n b. map_of hcs (sp_NodePort p) = Some h \<and> map_of nps (sp_NodePort p) = Some n
      \<and> view w' (KBackendService, BeServiceName (l_namer l) (sp_NodePort p)) = Some (RBackendService b)
      \<and> be_agrees (desiredBackendService (l_namer l) lbName p (hc_SelfLink h) (np_Name n) igLinks) b"
    by (rule ensureBackendServiceLoop_ok[OF run found assms(2)])
  show "c \<notin> (\<lambda>p. (KBackendService, BeServiceName (l_namer l) (sp_NodePort p))) ` set ports \<Longrightarrow> view w' c = view w c"
    by (rule ensureBackendServiceLoop_frame[OF run])
qed

end

text \<open>The load balancer has all its parts, linked to each other.\<close>

definition frontend_complete :: "project \<Rightarrow> Namer \<Rightarrow> Ingress \<Rightarrow> string \<Rightarrow> bool" where
  "frontend_complete p s ing ip \<longleftrightarrow>
     (\<exists>um. p (KUrlMap, URLMapName s) = Some (RUrlMap um)
        \<and> (AllowHTTP ing \<longrightarrow> serves_http p s ip (um_SelfLink um)) \<and> (wants_https ing \<longrightarrow> serves_https p s ip (um_SelfLink um)))"

definition backend_complete :: "project \<Rightarrow> Namer \<Rightarrow> string list \<Rightarrow> ServicePort \<Rightarrow> bool" where
  "backend_complete p s groups q \<longleftrightarrow>
     (\<exists>h b. p (KHealthCheck, HealthCheckName s (sp_NodePort q)) = Some (RHealthCheck h) \<and> p (KBackendService, BeServiceName s (sp_NodePort q)) = Some (RBackendService b)
        \<and> be_HealthChecks b = Slice [hc_SelfLink h] \<and> be_Backends b = desiredBackends groups)"

definition firewall_complete :: "project \<Rightarrow> Namer \<Rightarrow> ServicePort list \<Rightarrow> string set \<Rightarrow> bool" where
  "firewall_complete p s ports tags \<longleftrightarrow> (\<exists>f. p (KFirewall, FirewallRuleName s) = Some (RFirewall f) \<and> rule_opens ports tags f)"

definition routes_complete :: "project \<Rightarrow> Namer \<Rightarrow> Ingress \<Rightarrow> ServicePort list \<Rightarrow> string \<Rightarrow> string \<Rightarrow> bool" where
  "routes_complete p s ing ports host path \<longleftrightarrow>
     (\<exists>um b q svc. p (KUrlMap, URLMapName s) = Some (RUrlMap um) \<and> routed_backend ing host path = Some b
        \<and> q \<in> set ports \<and> sp_Name q = ib_ServiceName b
        \<and> p (KBackendService, BeServiceName s (sp_NodePort q)) = Some (RBackendService svc) \<and> um_lookup um host path = be_SelfLink svc)"

context lb_env
begin

lemma createResources_ok:
  assumes "createResources l ord ing force clusters client ports ip hcs igs nps err w = Returns (None, w')"
    and "outside view client" "range_ok ord" "distinct (map fst igs)" "length (namer_prefix (l_namer l)) \<le> 50"
    and "inj_on (\<lambda>p. BeServiceName (l_namer l) (sp_NodePort p)) (set ports)"
  shows "err = None" "frontend_complete (view w') (l_namer l) ing ip"
    "q \<in> set ports \<Longrightarrow> \<exists>h b. map_of hcs (sp_NodePort q) = Some h
       \<and> view w' (KBackendService, BeServiceName (l_namer l) (sp_NodePort q)) = Some (RBackendService b)
       \<and> be_HealthChecks b = Slice [hc_SelfLink h] \<and> be_Backends b = desiredBackends (flat_igs ord igs)"
    "firewall_complete (view w') (l_namer l) ports (cluster_tags lookup igs)"
    "host \<noteq> DefaultBackendKey \<Longrightarrow> inj_on getNameForPathMatcher (insert host (ingress_hosts ing)) \<Longrightarrow>
     routes_complete (view w') (l_namer l) ing ports host path"
    "c \<notin> lb_cells (l_namer l) ports - (\<lambda>p. (KHealthCheck, HealthCheckName (l_namer l) (sp_NodePort p))) ` set ports \<Longrightarrow> view w' c = view w c"
proof -
  let ?s = "l_namer l"
  from assms(1) obtain bes beErr w1 umx w2 err0 err1 w3 err2 w4 fwErr where run:
    "EnsureBackendService ?s (l_bsp l) (l_lbName l) ports hcs nps (flat_igs ord igs) force w = Returns ((bes, beErr), w1)"
    "EnsureURLMap ?s (l_cloud l) ord (l_lbName l) ip clusters ing bes force w1 = Returns (umx, w2)"
    "err0 = None \<longrightarrow> err = None \<and> beErr = None \<and> (\<exists>link. umx = Inr link)"
    "(if AllowHTTP ing then configureHTTP l ip (link_of umx) force err0 w2 else (err0, w2)) = (err1, w3)"
    "(if wants_https ing then configureHTTPS l ing client ip (link_of umx) force err1 w3 else (err1, w3)) = (err2, w4)"
    "EnsureFirewallRule ?s (l_fwp l) (l_ig l) ord (l_lbName l) ports igs force w4 = Returns (fwErr, w')"
    "err2 = None \<and> fwErr = None"
    by (rule createResources_split) simp
  note https = optional_https[OF run(5)[unfolded conjunct1[OF run(7)]] assms(2)]
  note http = optional_http[OF run(4)[unfolded https(1)]]
  from run(3) http(1) obtain link where none: "err = None" "beErr = None" "umx = Inr link" by blast
  show "err = None" by (rule none(1))
  note be = EnsureBackendService_ok[OF run(1)[unfolded none(2)] assms(6)]
  obtain d um where um: "desiredURLMap ?s ord (l_lbName l) ip clusters ing bes = Returns (Inr d)"
    "view w2 = (view w1)((KUrlMap, URLMapName ?s) \<mapsto> RUrlMap um)" "link = um_SelfLink um" "um_lookup um = um_lookup d"
    using EnsureURLMap_ok[OF run(2)[unfolded none(3)] um_404] .
  obtain f where f: "view w' = (view w4)((KFirewall, FirewallRuleName ?s) \<mapsto> RFirewall f)" "rule_opens ports (cluster_tags lookup igs) f"
    using EnsureFirewallRule_ok[OF run(6)[unfolded conjunct2[OF run(7)]] assms(3,4)] by blast
  have keep: "view w' c = view w2 c" if "c \<notin> insert (KFirewall, FirewallRuleName ?s) (http_cells ?s \<union> https_cells ?s)" for c
    using that f(1) http(3)[of c] https(3)[of c] by simp
  have be_cell: "view w' (KBackendService, n) = view w1 (KBackendService, n)" for n
    using keep[of "(KBackendService, n)"] um(2) by (simp add: http_cells_def https_cells_def)
  have um_cell: "view w' (KUrlMap, URLMapName ?s) = Some (RUrlMap um)"
    using keep[of "(KUrlMap, URLMapName ?s)"] um(2) by (simp add: http_cells_def https_cells_def)
  have hk: "\<forall>c \<in> http_cells ?s. view w' c = view w3 c"
    using f(1) https(3) http_https_names_distinct[OF assms(5)] by (auto simp: http_cells_def https_cells_def)
  have hsk: "\<forall>c \<in> https_cells ?s. view w' c = view w4 c" using f(1) by (simp add: https_cells_def)
  show "frontend_complete (view w') ?s ing ip"
    unfolding frontend_complete_def using http(2) https(2) um_cell um(3) none(3) serves_cong(1)[OF hk] serves_cong(2)[OF hsk]
    by (auto simp: link_of_def)
  show "\<exists>h b. map_of hcs (sp_NodePort q) = Some h \<and> view w' (KBackendService, BeServiceName ?s (sp_NodePort q)) = Some (RBackendService b)
       \<and> be_HealthChecks b = Slice [hc_SelfLink h] \<and> be_Backends b = desiredBackends (flat_igs ord igs)" if "q \<in> set ports"
    using be(2)[OF that] be_cell by (auto simp: be_agrees_def)
  show "firewall_complete (view w') ?s ports (cluster_tags lookup igs)" using f by (auto simp: firewall_complete_def)
  show "routes_complete (view w') ?s ing ports host path"
    if "host \<noteq> DefaultBackendKey" "inj_on getNameForPathMatcher (insert host (ingress_hosts ing))"
    using desiredURLMap_routes[OF assms(3) um(1) that, of path] be(1) um_cell um(4) be_cell
    unfolding routes_complete_def bes_stored_def by metis
  show "view w' c = view w c" if "c \<notin> lb_cells ?s ports - (\<lambda>p. (KHealthCheck, HealthCheckName ?s (sp_NodePort p))) ` set ports"
  proof -
    have "c \<notin> http_cells ?s \<union> https_cells ?s \<union> {(KFirewall, FirewallRuleName ?s), (KUrlMap, URLMapName ?s)}
       \<union> (\<lambda>p. (KBackendService, BeServiceName ?s (sp_NodePort p))) ` set ports"
      using that by (auto simp: lb_cells_def port_cells_def http_cells_def https_cells_def)
    with keep[of c] be(3)[of c] um(2) show ?thesis by simp
  qed
qed

end

lemma CreateLoadBalancer_split:
  assumes "CreateLoadBalancer l ord ing force validate clusters w = Some (Returns (None, w'))"
  obtains client w1 ports ip w2 hcs hcErr w3 igs igErr w4 nps portsErr w5 err where
    "getAnyClient ord (l_clients l) = Inr client" "ingToNodePorts ord ing client w = (ports, w1)"
    "getIPAddress l ing w1 = (Inr ip, w2)"
    "EnsureHealthCheck (l_namer l) (l_hcp l) ord (l_lbName l) ports (l_clients l) force w2 = ((hcs, hcErr), w3)"
    "getIGs l ord ing (l_clients l) w3 = Some ((igs, igErr), w4)" "getNamedPorts l ord igs w4 = Returns ((nps, portsErr), w5)"
    "err = None \<longrightarrow> hcErr = None \<and> igErr = None \<and> portsErr = None" "igs \<noteq> []" "nps \<noteq> []"
    "createResources l ord ing force clusters client ports ip hcs igs nps err w5 = Returns (None, w')"
proof -
  from assms obtain client where client: "getAnyClient ord (l_clients l) = Inr client"
    by (auto simp: CreateLoadBalancer_def split: sum.splits)
  obtain ports w1 where ports: "ingToNodePorts ord ing client w = (ports, w1)" by fastforce
  from assms client ports obtain ip w2 where ip: "getIPAddress l ing w1 = (Inr ip, w2)"
    by (auto simp: CreateLoadBalancer_def split: sum.splits prod.splits)
  obtain hcs hcErr w3 where hc: "EnsureHealthCheck (l_namer l) (l_hcp l) ord (l_lbName l) ports (l_clients l) force w2 = ((hcs, hcErr), w3)"
    by (metis surj_pair)
  note defs = CreateLoadBalancer_def client ports ip hc Let_def
  from assms obtain igs igErr w4 where igs: "getIGs l ord ing (l_clients l) w3 = Some ((igs, igErr), w4)"
    by (auto simp: defs split: option.splits)
  with assms obtain nps portsErr w5 where np: "getNamedPorts l ord igs w4 = Returns ((nps, portsErr), w5)"
    by (auto simp: defs split: outcome.splits)
  let ?err = "append_err (append_err (append_err None (wrap_err ''Error ensuring health check for %s: %s'' [AStr (l_lbName l)] hcErr)) igErr) portsErr"
  have "?err = None \<longrightarrow> hcErr = None \<and> igErr = None \<and> portsErr = None" by simp
  from that[OF client ports ip hc igs np this] assms show ?thesis
    by (auto simp: defs igs np split: if_splits)
qed

context lb_env
begin

lemma anyClient_outside: "getAnyClient ord (l_clients l) = Inr client \<Longrightarrow> outside view client"
  using getAnyClient_in[of ord "l_clients l" client] clients_outside by force

lemma EnsureHealthCheck_ok:
  assumes "EnsureHealthCheck (l_namer l) (l_hcp l) ord lbName ports (l_clients l) force w = ((hcs, None), w')"
    and "inj_on (HealthCheckName (l_namer l)) (sp_NodePort ` set ports)"
  shows "hcs_stored view (l_namer l) lbName ports hcs w'" "fst ` set hcs = sp_NodePort ` set ports"
    "c \<notin> (\<lambda>p. (KHealthCheck, HealthCheckName (l_namer l) (sp_NodePort p))) ` set ports \<Longrightarrow> view w' c = view w c"
proof -
  note run = assms(1)[unfolded EnsureHealthCheck_def]
  have out: "\<forall>c \<in> set (l_clients l). outside view (snd c)" using clients_outside by simp
  from ensureHealthCheckLoop_ok[OF run out _ assms(2) subset_refl hcs_stored_Nil] hc_404
  show "hcs_stored view (l_namer l) lbName ports hcs w'" "fst ` set hcs = sp_NodePort ` set ports" by auto
  show "c \<notin> (\<lambda>p. (KHealthCheck, HealthCheckName (l_namer l) (sp_NodePort p))) ` set ports \<Longrightarrow> view w' c = view w c"
    by (rule ensureHealthCheckLoop_frame[OF run out])
qed

lemma CreateLoadBalancer_ok:
  assumes "CreateLoadBalancer l ord ing force validate clusters w = Some (Returns (None, w'))"
    and "range_ok ord" "length (namer_prefix (l_namer l)) \<le> 50"
    and "getAnyClient ord (l_clients l) = Inr client" "fst (ingToNodePorts ord ing client w) = ports"
    and "inj_on (\<lambda>p. BeServiceName (l_namer l) (sp_NodePort p)) (set ports)" "inj_on (HealthCheckName (l_namer l)) (sp_NodePort ` set ports)"
  obtains ip igs where "fst ` set igs = fst ` set (l_clients l)" "frontend_complete (view w') (l_namer l) ing ip"
    "\<forall>q \<in> set ports. backend_complete (view w') (l_namer l) (flat_igs ord igs) q"
    "firewall_complete (view w') (l_namer l) ports (cluster_tags lookup igs)"
    "\<forall>host path. host \<noteq> DefaultBackendKey \<longrightarrow> inj_on getNameForPathMatcher (insert host (ingress_hosts ing)) \<longrightarrow>
       routes_complete (view w') (l_namer l) ing ports host path"
    "\<forall>c. c \<notin> lb_cells (l_namer l) ports \<longrightarrow> view w' c = view w c"
proof -
  let ?s = "l_namer l"
  let ?hcells = "(\<lambda>p. (KHealthCheck, HealthCheckName ?s (sp_NodePort p))) ` set ports"
  from assms(1) obtain w1 ip w2 hcs hcErr w3 igs igErr w4 nps portsErr w5 err where run:
    "ingToNodePorts ord ing client w = (ports, w1)" "getIPAddress l ing w1 = (Inr ip, w2)"
    "EnsureHealthCheck ?s (l_hcp l) ord (l_lbName l) ports (l_clients l) force w2 = ((hcs, hcErr), w3)"
    "getIGs l ord ing (l_clients l) w3 = Some ((igs, igErr), w4)" "getNamedPorts l ord igs w4 = Returns ((nps, portsErr), w5)"
    "err = None \<longrightarrow> hcErr = None \<and> igErr = None \<and> portsErr = None"
    "createResources l ord ing force clusters client ports ip hcs igs nps err w5 = Returns (None, w')"
    by (rule CreateLoadBalancer_split) (use assms(4,5) in auto)
  note client = anyClient_outside[OF assms(4)]
  have out: "\<forall>c \<in> snd ` set (l_clients l). outside view c" using clients_outside by blast
  note ig = getIGs_facts[OF out run(4)]
  note res = createResources_ok[OF run(7) client assms(2) ig(2) assms(3,6)]
  have none: "hcErr = None" "igErr = None" using run(6) res(1) by simp_all
  note hc = EnsureHealthCheck_ok[OF run(3)[unfolded none(1)] assms(7)]
  have start: "view w2 = view w" using ingToNodePorts_view[OF client run(1)] getIPAddress_view[OF run(2)] by simp
  have w5: "view w5 = view w3" using ig(1) getNamedPorts_view[OF run(5)] by simp
  have "backend_complete (view w') ?s (flat_igs ord igs) q" if "q \<in> set ports" for q
  proof -
    from res(3)[OF that] obtain h b where h: "map_of hcs (sp_NodePort q) = Some h"
      "view w' (KBackendService, BeServiceName ?s (sp_NodePort q)) = Some (RBackendService b)"
      "be_HealthChecks b = Slice [hc_SelfLink h]" "be_Backends b = desiredBackends (flat_igs ord igs)" by blast
    moreover have "view w' (KHealthCheck, HealthCheckName ?s (sp_NodePort q)) = Some (RHealthCheck h)"
      using res(6)[of "(KHealthCheck, HealthCheckName ?s (sp_NodePort q))"] w5 hc(1) h(1) that by (auto simp: hcs_stored_def)
    ultimately show ?thesis by (auto simp: backend_complete_def)
  qed
  moreover have "view w' c = view w c" if "c \<notin> lb_cells ?s ports" for c
    using res(6)[of c] hc(3)[of c] that start w5 by (auto simp: lb_cells_def port_cells_def)
  ultimately show ?thesis
    using that[OF getIGs_all[OF assms(2) run(4)[unfolded none(2)]] res(2) _ res(4)] res(5) by blast
qed

end

section \<open>Properties\<close>

text \<open>
  C1. When \<^verbatim>\<open>CreateLoadBalancer\<close> reports no error the load balancer is complete.  The forwarding rules of the protocols the ingress asks for send
  the reserved address to a proxy, the proxies point at the URL map; every port of the ingress has a health check and a backend
  service that uses it and has the instance groups of all clusters as backends; the firewall lets the load balancer reach the ports
  on the instances of all clusters; and no other object of the project has changed.
\<close>

theorem created_load_balancer_complete:
  assumes "lb_env view l lookup" "range_ok ord" "length (namer_prefix (l_namer l)) \<le> 50"
    and "CreateLoadBalancer l ord ing force validate clusters w = Some (Returns (None, w'))"
    and "getAnyClient ord (l_clients l) = Inr client" "fst (ingToNodePorts ord ing client w) = ports"
    and "inj_on (\<lambda>p. BeServiceName (l_namer l) (sp_NodePort p)) (set ports)" "inj_on (HealthCheckName (l_namer l)) (sp_NodePort ` set ports)"
  shows "\<exists>ip igs. fst ` set igs = fst ` set (l_clients l)
    \<and> frontend_complete (view w') (l_namer l) ing ip
    \<and> (\<forall>q \<in> set ports. backend_complete (view w') (l_namer l) (flat_igs ord igs) q)
    \<and> firewall_complete (view w') (l_namer l) ports (cluster_tags lookup igs)
    \<and> without_cells (lb_cells (l_namer l) ports) (view w') = without_cells (lb_cells (l_namer l) ports) (view w)"
proof (rule lb_env.CreateLoadBalancer_ok[OF assms(1,4,2,3,5-8)], intro exI conjI)
  assume "\<forall>c. c \<notin> lb_cells (l_namer l) ports \<longrightarrow> view w' c = view w c"
  then show "without_cells (lb_cells (l_namer l) ports) (view w') = without_cells (lb_cells (l_namer l) ports) (view w)"
    by (auto simp: without_cells_def restrict_map_def)
qed


section \<open>Examples\<close>

text \<open>A project with the reserved address and, from an earlier run, the health check with the link the server gave it.\<close>

definition ready_hc :: HealthCheck where
  "ready_hc = (case desiredHealthCheck lb1 ''lb'' web_port ''/'' of Inr d \<Rightarrow> d\<lparr>hc_SelfLink := ''hc''\<rparr> | Inl e \<Rightarrow> zero_HealthCheck)"

definition address_cloud :: FakeCloud where
  "address_cloud = NewFakeLoadBalancers\<lparr>f_IP := Slice [\<lparr>addr_Name = ''ip'', addr_Address = ''1.2.3.4''\<rparr>],
     f_generic := [(HealthCheckName lb1 30301, ready_hc)]\<rparr>"

lemma ready_client_outside: "outside view ready_client"
  using web_client_outside[of view "''/''"] by (simp add: outside_def ready_client_def)

lemma fake_lookups_404 [simp]:
  "found_or_404 fake_GetUrlMap n f" "found_or_404 fake_GetGlobalForwardingRule n f"
  by (simp_all add: found_or_404_def fake_ops first_named_def FakeGoogleAPINotFoundErr_def split: option.splits)

interpretation example: lb_env fake_view "lb_example ready_client" "\<lambda>g. Inr (inst_example g)"
proof (rule lb_env.intro)
  show "cloud_api fake_view (l_cloud (lb_example ready_client)) (l_hcp (lb_example ready_client)) (l_bsp (lb_example ready_client))
     (l_fwp (lb_example ready_client))" by (simp add: fake_cloud.cloud_api_axioms)
qed (auto simp: ready_client_outside ig_example_steady fake_provider_404 lb_example_def simp del: fake_view.simps)

lemma ready_protocols: "AllowHTTP ready_ingress" "UseNamedTLS ready_ingress = ''''" "elems (is_TLS (ing_Spec ready_ingress)) = []"
  by (simp_all add: AllowHTTP_def UseNamedTLS_def annotation_def ing_Annotations_def ready_ingress_def web_ingress_def AllowHTTPKey_def IngressClassKey_def
      PreSharedCertKey_def InstanceGroupsAnnotationKey_def StaticIPNameKey_def)

lemma lb1_prefix: "namer_prefix lb1 = ''mci1''"
  by (simp add: lb1_def NewNamer_def)

lemma ready_ports [simp]: "ingToNodePorts in_order ready_ingress ready_client w = ([web_port], w)"
proof -
  have "GetServiceNodePort ord be ns ready_client w = GetServiceNodePort ord be ns (web_client ''/'') w" for ord be ns
    by (simp add: GetServiceNodePort_def ready_client_def)
  then show ?thesis
    by (simp add: ingToNodePorts_def ingress_backends_def ready_ingress_def web_ingress_def ing_Namespace_def web_client_node_port)
qed

lemma ready_path [simp]: "getHealthCheckPath in_order web_port [(''a'', ready_client)] w = ((''/'', None), w)"
proof -
  have "GetProbe ready_client port w = GetProbe (web_client ''/'') port w" for port
    by (auto simp: GetProbe_def ready_client_def split: prod.splits sum.splits)
  with web_client_probe[of "''/''" w] show ?thesis
    by (auto simp: getHealthCheckPath_def range_entries_def in_order_def List.map_filter_simps HasPrefix_def)
qed

lemma ready_address [simp]: "getIPAddress (lb_example ready_client) ready_ingress address_cloud = (Inr ''1.2.3.4'', log_call ''GetGlobalAddress'' address_cloud)"
  by (simp add: getIPAddress_def annotation_def ing_Annotations_def ready_ingress_def StaticIPNameKey_def InstanceGroupsAnnotationKey_def
      fake_ops first_named_def address_cloud_def)

lemma ready_getIGs [simp]:
  "getIGs (lb_example ready_client) in_order ready_ingress [(''a'', ready_client)] w = Some (([(''a'', [''zones/z/instanceGroups/ig''])], None), w)"
proof -
  have "getIGsForCluster id name ns ready_client w = Some (Inr [''zones/z/instanceGroups/ig''], w)" for name ns
    by (subst getIGsForCluster_step) simp
  then show ?thesis by (simp add: getIGs_def range_entries_def in_order_def List.map_filter_simps)
qed

lemma ready_named_ports [simp]:
  "getNamedPorts (lb_example ready_client) in_order [(''a'', [''zones/z/instanceGroups/ig''])] w =
     Returns (([(30301, np_example\<lparr>np_Port := 30301\<rparr>)], None), w)"
proof -
  have "GetZoneAndNameFromIGURL ''zones/z/instanceGroups/ig'' = Inr (''z'', ''ig'')" by code_simp
  then show ?thesis
    by (simp add: getNamedPorts_def getNamedPortsForIG_def lb_example_def range_entries_def in_order_def List.map_filter_simps)
qed

lemmas http_eval = configureHTTP_def EnsureHTTPTargetProxy_def wrap_proxy_error_def ensureHTTPProxy_def desiredHTTPTargetProxy_def
  createHTTPTargetProxy_def EnsureHTTPForwardingRule_def ensureForwardingRule_def desiredForwardingRule_def createForwardingRule_def

lemmas fw_eval = EnsureFirewallRule_def ensureFirewallRule_def desiredFirewallRule_def getInstances_def range_entries_def in_order_def
        List.map_filter_simps ig_example_def inst_example_def createFirewallRule_def

lemma ready_health_check:
  "EnsureHealthCheck lb1 fake_hc in_order ''lb'' [web_port] [(''a'', ready_client)] False (log_call ''GetGlobalAddress'' address_cloud) =
     (([(30301, ready_hc)], None), log_call ''GetGlobalAddress'' address_cloud)"
  by (simp add: EnsureHealthCheck_def ensureHealthCheck_def desiredHealthCheck_def fake_provider_ops address_cloud_def Let_def
      NewFakeLoadBalancers_def log_call_def ready_hc_def healthCheckMatches_def zero_HealthCheck_def hc_transmitted_def zero_HTTPHealthCheck_def)

lemma ready_resources:
  assumes "hc_SelfLink h \<noteq> ''''" "f_backendServices f = []" "f_Um f = NilSlice" "f_Tp f = NilSlice" "f_Fw f = Slice []" "f_firewalls f = []" "\<not> f_fwReadOnly f"
  shows "\<exists>f'. createResources (lb_example ready_client) in_order ready_ingress False (Slice [''a'']) ready_client [web_port] ''1.2.3.4''
    [(30301, h)] [(''a'', [''zones/z/instanceGroups/ig''])] [(30301, np_example\<lparr>np_Port := 30301\<rparr>)] None f = Returns (None, f') \<and> \<not> f_fwReadOnly f'"
proof -
  have be: "\<exists>b f1. EnsureBackendService lb1 fake_be ''lb'' [web_port] [(30301, h)] [(30301, np_example\<lparr>np_Port := 30301\<rparr>)] igs False f
      = Returns (([(''web'', b)], None), f1) \<and> f_Um f1 = NilSlice \<and> f_Tp f1 = NilSlice \<and> f_Fw f1 = Slice [] \<and> f_firewalls f1 = [] \<and> \<not> f_fwReadOnly f1" for igs
    using assms by (simp add: EnsureBackendService_def ensureBackendService_def createBackendService_def fake_provider_ops Let_def)
  have um: "\<exists>link f1. EnsureURLMap lb1 fake_lb in_order ''lb'' ''1.2.3.4'' (Slice [''a'']) ready_ingress [(''web'', b)] False f
      = Returns (Inr link, f1) \<and> f_Tp f1 = NilSlice \<and> f_Fw f1 = Slice [] \<and> f_firewalls f1 = [] \<and> \<not> f_fwReadOnly f1"
    if "f_Um f = NilSlice" "f_Tp f = NilSlice" "f_Fw f = Slice []" "f_firewalls f = []" "\<not> f_fwReadOnly f" for b f
    using that by (simp add: ensure_um_eval ready_ingress_def web_ingress_def log_call_def)
  have http: "\<exists>f1. configureHTTP (lb_example ready_client) ''1.2.3.4'' link False None f = (None, f1) \<and> f_firewalls f1 = [] \<and> \<not> f_fwReadOnly f1"
    if "f_Tp f = NilSlice" "f_Fw f = Slice []" "f_firewalls f = []" "\<not> f_fwReadOnly f" for link f
    using that by (simp add: http_eval fake_ops first_named_def Let_def log_call_def wrap_err_def append_err_def)
  have fw: "\<exists>f1. EnsureFirewallRule lb1 fake_fw ig_example in_order ''lb'' [web_port] [(''a'', [''zones/z/instanceGroups/ig''])] False f
      = Returns (None, f1) \<and> \<not> f_fwReadOnly f1" if "f_firewalls f = []" "\<not> f_fwReadOnly f" for f
    using that by (simp add: fw_eval fake_provider_ops Let_def)
  let ?igs = "[(''a'', [''zones/z/instanceGroups/ig''])]"
  obtain b f1 where 1: "EnsureBackendService lb1 fake_be ''lb'' [web_port] [(30301, h)] [(30301, np_example\<lparr>np_Port := 30301\<rparr>)] (flat_igs in_order ?igs) False f
      = Returns (([(''web'', b)], None), f1)" "f_Um f1 = NilSlice" "f_Tp f1 = NilSlice" "f_Fw f1 = Slice []" "f_firewalls f1 = []" "\<not> f_fwReadOnly f1"
    using be by blast
  obtain link f2 where 2: "EnsureURLMap lb1 fake_lb in_order ''lb'' ''1.2.3.4'' (Slice [''a'']) ready_ingress [(''web'', b)] False f1
      = Returns (Inr link, f2)" "f_Tp f2 = NilSlice" "f_Fw f2 = Slice []" "f_firewalls f2 = []" "\<not> f_fwReadOnly f2"
    using um[OF 1(2-6)] by blast
  obtain f3 where 3: "configureHTTP (lb_example ready_client) ''1.2.3.4'' link False None f2 = (None, f3)" "f_firewalls f3 = []" "\<not> f_fwReadOnly f3"
    using http[OF 2(2-5)] by blast
  obtain f4 where "EnsureFirewallRule lb1 fake_fw ig_example in_order ''lb'' [web_port] ?igs False f3 = Returns (None, f4)" "\<not> f_fwReadOnly f4" using fw[OF 3(2,3)] by blast
  with 1(1) 2(1) 3(1) show ?thesis
    by (simp add: createResources_def wrap_err_def error_of_def link_of_def ready_protocols Let_def)
qed

lemma example_created_writable:
  obtains f' where
    "CreateLoadBalancer (lb_example ready_client) in_order ready_ingress False True (Slice [''a'']) address_cloud = Some (Returns (None, f'))"
    "\<not> f_fwReadOnly f'"
proof -
  let ?f = "log_call ''GetGlobalAddress'' address_cloud"
  have "hc_SelfLink ready_hc \<noteq> ''''" by (simp add: ready_hc_def desiredHealthCheck_def)
  moreover have "f_backendServices ?f = []" "f_Um ?f = NilSlice" "f_Tp ?f = NilSlice" "f_Fw ?f = Slice []" "f_firewalls ?f = []" "\<not> f_fwReadOnly ?f"
    by (simp_all add: log_call_def address_cloud_def NewFakeLoadBalancers_def)
  ultimately obtain f' where "createResources (lb_example ready_client) in_order ready_ingress False (Slice [''a'']) ready_client [web_port] ''1.2.3.4''
    [(30301, ready_hc)] [(''a'', [''zones/z/instanceGroups/ig''])] [(30301, np_example\<lparr>np_Port := 30301\<rparr>)] None ?f = Returns (None, f')"
    "\<not> f_fwReadOnly f'" using ready_resources by blast
  then show ?thesis by (intro that[of f']) (simp_all add: CreateLoadBalancer_def wrap_err_def ready_health_check)
qed

lemma example_created:
  obtains f' where
    "CreateLoadBalancer (lb_example ready_client) in_order ready_ingress False True (Slice [''a'']) address_cloud = Some (Returns (None, f'))"
  using example_created_writable by blast

lemma example_prefix: "length (namer_prefix (l_namer (lb_example c))) \<le> 50"
  by (simp add: lb1_prefix)

lemma example_client: "getAnyClient in_order (l_clients (lb_example ready_client)) = Inr ready_client"
  by simp

lemma example_ports: "fst (ingToNodePorts in_order ready_ingress ready_client w) = [web_port]"
  by simp

lemma example_inj:
  "inj_on (\<lambda>p. BeServiceName (l_namer (lb_example c)) (sp_NodePort p)) (set [web_port])"
  "inj_on (HealthCheckName (l_namer (lb_example c))) (sp_NodePort ` set [web_port])"
  by simp_all

theorem created_load_balancer_complete_witness:
  "\<exists>f' ip igs. CreateLoadBalancer (lb_example ready_client) in_order ready_ingress False True (Slice [''a'']) address_cloud = Some (Returns (None, f'))
    \<and> fst ` set igs = {''a''} \<and> frontend_complete (fake_view f') lb1 ready_ingress ip
    \<and> backend_complete (fake_view f') lb1 (flat_igs in_order igs) web_port"
proof -
  obtain f' where run: "CreateLoadBalancer (lb_example ready_client) in_order ready_ingress False True (Slice [''a'']) address_cloud = Some (Returns (None, f'))"
    by (rule example_created)
  from created_load_balancer_complete[OF example.lb_env_axioms range_ok_in_order example_prefix run example_client example_ports example_inj]
  obtain ip igs where ok: "fst ` set igs = fst ` set (l_clients (lb_example ready_client))"
    "frontend_complete (fake_view f') (l_namer (lb_example ready_client)) ready_ingress ip"
    "\<forall>q \<in> set [web_port]. backend_complete (fake_view f') (l_namer (lb_example ready_client)) (flat_igs in_order igs) q" by blast
  have "fst ` set igs = {''a''}" using ok(1) by simp
  moreover have "backend_complete (fake_view f') lb1 (flat_igs in_order igs) web_port" using ok(3) by simp
  ultimately show ?thesis using run ok(2)[unfolded lb_example_fields] by blast
qed


end
