(* ===== verification/LoadBalancerForce.thy ===== *)
theory LoadBalancerForce
  imports LoadBalancerCreate
begin

text \<open>
  What \<^verbatim>\<open>--force\<close> guards: without it \<^verbatim>\<open>CreateLoadBalancer\<close> (\<^verbatim>\<open>loadbalancersyncer.go\<close>) only ever adds objects to the project, and
  \<^verbatim>\<open>RemoveFromClusters\<close> refuses to take the load balancer out of its last cluster.
\<close>

section \<open>Every syncer only adds\<close>

lemma map_le_keeps: "(\<And>c x. m c = Some x \<Longrightarrow> m' c = Some x) \<Longrightarrow> m \<subseteq>\<^sub>m m'"
  by (auto simp: map_le_def dom_def)

context hc_api
begin

lemma ensureHealthCheck_adds:
  assumes "ensureHealthCheck s H lbName port path False w = (x, w')" "\<forall>n w. found_or_404 (GetHealthCheck H) n w"
  shows "view w \<subseteq>\<^sub>m view w'"
proof (cases "desiredHealthCheck s lbName port path")
  case (Inl e)
  with assms(1) show ?thesis by (simp add: ensureHealthCheck_def)
next
  case (Inr d)
  from hc.ensure_link_keeps[OF assms(1)[unfolded ensureHealthCheck_pattern[OF Inr]]] assms(2) show ?thesis
    by (intro map_le_keeps) blast
qed

lemma EnsureHealthCheck_adds:
  assumes "EnsureHealthCheck s H ord lbName ports clients False w = (x, w')"
    and "\<forall>c \<in> set clients. outside view (snd c)" "\<forall>n w. found_or_404 (GetHealthCheck H) n w"
  shows "view w \<subseteq>\<^sub>m view w'"
proof -
  have "ensureHealthCheckLoop s H ord lbName clients False ps m err w = (x, w') \<Longrightarrow> view w \<subseteq>\<^sub>m view w'" for ps m err w
  proof (induction ps arbitrary: m err w)
    case (Cons p ps)
    obtain path pe w1 where path: "getHealthCheckPath ord p clients w = ((path, pe), w1)" by (metis surj_pair)
    obtain y w2 where ens: "ensureHealthCheck s H lbName p path False w1 = (y, w2)" by fastforce
    obtain m1 err1 w3 where rest: "ensureHealthCheckLoop s H ord lbName clients False ps m1 err1 w3 = (x, w')" "w3 = w1 \<or> w3 = w2"
      using Cons.prems path ens by (cases pe; cases y) auto
    have "view w \<subseteq>\<^sub>m view w3"
      using rest(2) getHealthCheckPath_view[OF assms(2) path] ensureHealthCheck_adds[OF ens assms(3)] by auto
    with Cons.IH[OF rest(1)] show ?case by (blast intro: map_le_trans)
  qed simp
  with assms(1) show ?thesis by (simp add: EnsureHealthCheck_def)
qed

end

context be_api
begin

lemma ensureBackendService_adds:
  assumes "ensureBackendService s B lbName port hc np igLinks False w = Returns (x, w')"
    and "\<forall>n w. found_or_404 (GetGlobalBackendService B) n w"
  shows "view w \<subseteq>\<^sub>m view w'"
  using assms(1)
proof (cases rule: ensureBackendService_cases)
  case (run h n d)
  from run(5) show ?thesis
  proof (elim disjE exE conjE, goal_cases)
    case (1 e w1)
    have "view w1 (KBackendService, be_Name d) = None"
      using be.get_not_found[OF 1(1)] found_or_404D[OF assms(2)[rule_format] 1(1)] be.get_view[OF 1(1)] by simp
    with createBackendService_frame[OF 1(2)] be.get_view[OF 1(1)] show ?case by (intro map_le_keeps) (metis option.distinct(1))
  qed (use be.get_view in auto)
qed simp

lemma EnsureBackendService_adds:
  assumes "EnsureBackendService s B lbName ports hcMap npMap igLinks False w = Returns (x, w')"
    and "\<forall>n w. found_or_404 (GetGlobalBackendService B) n w"
  shows "view w \<subseteq>\<^sub>m view w'"
proof -
  have "ensureBackendServiceLoop s B lbName hcMap npMap igLinks False ps m err w = Returns (x, w') \<Longrightarrow> view w \<subseteq>\<^sub>m view w'" for ps m err w
  proof (induction ps arbitrary: m err w)
    case (Cons p ps)
    obtain y w1 where ens: "ensureBackendService s B lbName p (map_of hcMap (sp_NodePort p)) (map_of npMap (sp_NodePort p)) igLinks False w = Returns (y, w1)"
      using Cons.prems(1) by (auto split: outcome.splits)
    obtain m1 err1 where rest: "ensureBackendServiceLoop s B lbName hcMap npMap igLinks False ps m1 err1 w1 = Returns (x, w')"
      using Cons.prems(1) ens by (cases y) auto
    from Cons.IH[OF rest] ensureBackendService_adds[OF ens assms(2)] show ?case by (blast intro: map_le_trans)
  qed simp
  with assms(1) show ?thesis by (simp add: EnsureBackendService_def)
qed

end

context fw_api
begin

lemma EnsureFirewallRule_adds:
  assumes "steady_lookup view ig lookup" "EnsureFirewallRule s F ig ord lbName ports igLinks False w = Returns (e, w')"
    and "\<forall>n w. found_or_404 (GetFirewall F) n w"
  shows "view w \<subseteq>\<^sub>m view w'"
proof -
  obtain e1 where run: "ensureFirewallRule s F ig ord lbName ports igLinks False w = Returns (e1, w')"
    using assms(2) by (auto simp: EnsureFirewallRule_def split: outcome.splits option.splits)
  then show ?thesis
  proof (cases rule: ensureFirewallRule_cases)
    case (undesired err)
    then show ?thesis using desiredFirewallRule_ok(1)[OF assms(1) undesired(1)] by simp
  next
    case (create d w1 err w2)
    note v = desiredFirewallRule_ok(1)[OF assms(1) create(1)] fw.get_view[OF create(2)]
    have "view w2 (KFirewall, fw_Name d) = None"
      using fw.get_not_found[OF create(2) found_or_404D[OF assms(3)[rule_format] create(2)]] v by simp
    with fw.create_absent_keeps[OF create(3)] v show ?thesis by (intro map_le_keeps) simp
  next
    case (same d w1 ex)
    then show ?thesis using desiredFirewallRule_ok(1)[OF assms(1) same(1)] fw.get_view[OF same(2)] by simp
  next
    case (refused d w1 ex)
    then show ?thesis using desiredFirewallRule_ok(1)[OF assms(1) refused(1)] fw.get_view[OF refused(2)] by simp
  qed simp
qed

end

section \<open>The load balancer\<close>

context lb_env
begin

lemma configureHTTP_adds:
  assumes "configureHTTP l ip um False err w = (e, w')"
  shows "view w \<subseteq>\<^sub>m view w'"
proof -
  obtain x w1 e2 link where tp: "ensureHTTPProxy (l_namer l) (l_cloud l) (l_lbName l) um False w = (x, w1)"
    and fr: "ensureForwardingRule (l_cloud l) (l_lbName l) ip link httpDefaultPortRange ''http'' (HTTPForwardingRuleName (l_namer l)) False w1 = (e2, w')"
    using assms by (auto simp: configureHTTP_def EnsureHTTPTargetProxy_def EnsureHTTPForwardingRule_def wrap_proxy_error_def split: prod.splits sum.splits)
  show ?thesis using ensure_proxies_keep(1)[OF _ tp] ensureForwardingRule_no_force[OF fr] by (intro map_le_keeps) blast
qed

lemma configureHTTPS_adds:
  assumes "configureHTTPS l ing client ip um False err w = (e, w')" "outside view client"
  shows "view w \<subseteq>\<^sub>m view w'"
proof -
  obtain c w1 x w2 e2 link cert where sc: "EnsureSSLCert (l_namer l) (l_cloud l) (l_lbName l) ing client False w = (c, w1)"
    and tp: "ensureHTTPSProxy (l_namer l) (l_cloud l) (l_lbName l) um cert False w1 = (x, w2)"
    and fr: "ensureForwardingRule (l_cloud l) (l_lbName l) ip link httpsDefaultPortRange ''https'' (HTTPSForwardingRuleName (l_namer l)) False w2 = (e2, w')"
    using assms(1)
    by (auto simp: configureHTTPS_def EnsureHTTPSTargetProxy_def EnsureHTTPSForwardingRule_def wrap_proxy_error_def split: prod.splits sum.splits)
  have "view w1 c = Some y" if "view w c = Some y" for c y
    using sc that PreShared_view(1) ensureSecret_keeps[OF assms(2)] by (auto simp: EnsureSSLCert_def split: if_splits)
  then show ?thesis using ensure_proxies_keep(2)[OF _ tp] ensureForwardingRule_no_force[OF fr] by (intro map_le_keeps) blast
qed

lemma createResources_adds:
  assumes "createResources l ord ing False clusters client ports ip hcs igs nps err w = Returns (e, w')" "outside view client"
  shows "view w \<subseteq>\<^sub>m view w'"
proof (rule createResources_split[OF assms(1)])
  fix bes beErr w1 um w2 err0 err1 w3 err2 w4 fwErr
  assume be: "EnsureBackendService (l_namer l) (l_bsp l) (l_lbName l) ports hcs nps (flat_igs ord igs) False w = Returns ((bes, beErr), w1)"
    and um: "EnsureURLMap (l_namer l) (l_cloud l) ord (l_lbName l) ip clusters ing bes False w1 = Returns (um, w2)"
    and http: "(if AllowHTTP ing then configureHTTP l ip (link_of um) False err0 w2 else (err0, w2)) = (err1, w3)"
    and https: "(if wants_https ing then configureHTTPS l ing client ip (link_of um) False err1 w3 else (err1, w3)) = (err2, w4)"
    and fw: "EnsureFirewallRule (l_namer l) (l_fwp l) (l_ig l) ord (l_lbName l) ports igs False w4 = Returns (fwErr, w')"
  have "view w \<subseteq>\<^sub>m view w1" using EnsureBackendService_adds[OF be] be_404 by blast
  also have "\<dots> \<subseteq>\<^sub>m view w2" using EnsureURLMap_keeps[OF um] by (rule map_le_keeps)
  also have "\<dots> \<subseteq>\<^sub>m view w3" using http configureHTTP_adds by (auto split: if_splits)
  also have "\<dots> \<subseteq>\<^sub>m view w4" using https configureHTTPS_adds[OF _ assms(2)] by (auto split: if_splits)
  also have "\<dots> \<subseteq>\<^sub>m view w'" using EnsureFirewallRule_adds[OF instances_steady fw] fw_404 by blast
  finally show ?thesis .
qed

lemma CreateLoadBalancer_cases:
  assumes "CreateLoadBalancer l ord ing force validate clusters w = Some (Returns (e, w'))"
  obtains (early) "view w' = view w"
  | (run) client ports ip w2 hcs hcErr w3 igs nps err w5 where "outside view client" "view w2 = view w"
      "EnsureHealthCheck (l_namer l) (l_hcp l) ord (l_lbName l) ports (l_clients l) force w2 = ((hcs, hcErr), w3)" "view w5 = view w3"
      "w' = w5 \<or> createResources l ord ing force clusters client ports ip hcs igs nps err w5 = Returns (e, w')"
proof (cases "getAnyClient ord (l_clients l)")
  case (Inl e)
  with assms show ?thesis by (intro early) (simp add: CreateLoadBalancer_def)
next
  case client: (Inr client)
  note out = anyClient_outside[OF client]
  obtain ports w1 ipx w2 where pre: "ingToNodePorts ord ing client w = (ports, w1)" "getIPAddress l ing w1 = (ipx, w2)" by fastforce
  have v2: "view w2 = view w" using ingToNodePorts_view[OF out pre(1)] getIPAddress_view[OF pre(2)] by simp
  show ?thesis
  proof (cases ipx)
    case (Inl err)
    with assms client pre v2 show ?thesis by (intro early) (simp add: CreateLoadBalancer_def)
  next
    case (Inr ip)
    obtain hcs hcErr w3 where hc: "EnsureHealthCheck (l_namer l) (l_hcp l) ord (l_lbName l) ports (l_clients l) force w2 = ((hcs, hcErr), w3)"
      by (metis surj_pair)
    note defs = CreateLoadBalancer_def client pre Inr hc Let_def
    from assms obtain igs igErr w4 where igs: "getIGs l ord ing (l_clients l) w3 = Some ((igs, igErr), w4)"
      by (auto simp: defs split: option.splits)
    with assms obtain nps portsErr w5 where np: "getNamedPorts l ord igs w4 = Returns ((nps, portsErr), w5)"
      by (auto simp: defs split: outcome.splits)
    have "\<forall>c \<in> snd ` set (l_clients l). outside view c" using clients_outside by blast
    then have v5: "view w5 = view w3" using getIGs_facts(1)[OF _ igs] getNamedPorts_view[OF np] by simp
    show ?thesis using assms run[OF out v2 hc v5, where ip = ip and igs = igs and nps = nps] by (auto simp: defs igs np split: if_splits)
  qed
qed

lemma CreateLoadBalancer_adds:
  assumes "CreateLoadBalancer l ord ing False validate clusters w = Some (Returns (e, w'))"
  shows "view w \<subseteq>\<^sub>m view w'"
  using assms
proof (cases rule: CreateLoadBalancer_cases)
  case (run client ports ip w2 hcs hcErr w3 igs nps err w5)
  have "view w \<subseteq>\<^sub>m view w3" using EnsureHealthCheck_adds[OF run(3)] hc_404 clients_outside run(2) by simp
  also have "view w3 = view w5" using run(4) by simp
  also have "\<dots> \<subseteq>\<^sub>m view w'" using run(5) createResources_adds[OF _ run(1)] by auto
  finally show ?thesis .
qed simp

end

context lb_api
begin

lemma getLoadBalancerStatus_view:
  assumes "l_cloud l = P" "getLoadBalancerStatus l w = (x, w')"
  shows "view w' = view w"
  using assms(2) unfolding getLoadBalancerStatus_def um_GetLoadBalancerStatus_def assms(1)
  by (auto split: prod.splits sum.splits if_splits dest!: um.get_view fr_GetLoadBalancerStatus_view)

end

section \<open>Properties\<close>

text \<open>
  C4. Without \<^verbatim>\<open>--force\<close>, \<^verbatim>\<open>CreateLoadBalancer\<close> never changes or removes an object of the project, whatever it returns: after a run that
  failed half-way, too, everything that was there before is there unchanged.
\<close>

theorem create_without_force_only_adds:
  assumes "lb_env view l lookup" "CreateLoadBalancer l ord ing False validate clusters w = Some (Returns (e, w'))"
    and "view w c = Some x"
  shows "view w' c = Some x"
  using lb_env.CreateLoadBalancer_adds[OF assms(1,2)] assms(3) by (metis domI map_le_def)

theorem create_without_force_only_adds_witness:
  "\<exists>f'. CreateLoadBalancer (lb_example ready_client) in_order ready_ingress False True (Slice [''a'']) address_cloud = Some (Returns (None, f'))
     \<and> fake_view f' (KHealthCheck, HealthCheckName lb1 30301) = Some (RHealthCheck (hc_transmitted ready_hc))"
proof -
  obtain f' where run: "CreateLoadBalancer (lb_example ready_client) in_order ready_ingress False True (Slice [''a'']) address_cloud = Some (Returns (None, f'))"
    by (rule example_created)
  have "fake_view address_cloud (KHealthCheck, HealthCheckName lb1 30301) = Some (RHealthCheck (hc_transmitted ready_hc))"
    by (simp add: address_cloud_def)
  from create_without_force_only_adds[OF example.lb_env_axioms run this] run show ?thesis by blast
qed

text \<open>
  C21. \<^verbatim>\<open>RemoveFromClusters\<close> without \<^verbatim>\<open>--force\<close> refuses to take a load balancer out of all its clusters, or one whose status it cannot read: it returns an error and
  no object of the project has changed.
\<close>

theorem removal_from_all_clusters_refused:
  assumes "lb_api view (l_cloud l)" "getLoadBalancerStatus l w = (r, w1)"
    and "\<forall>s. r = Inr s \<longrightarrow> set (elems (Clusters s)) \<subseteq> fst ` set removeClients"
  shows "\<exists>e w'. lb_RemoveFromClusters l ord ing removeClients False w = Some (Returns (Some e, w')) \<and> view w' = view w"
proof -
  have "view w1 = view w" using lb_api.getLoadBalancerStatus_view[OF assms(1) refl assms(2)] .
  moreover have "\<not> hasSomeRemainingClusters (elems (Clusters s)) removeClients" if "r = Inr s" for s
    using assms(3) that by (auto simp: hasSomeRemainingClusters_def map_of_eq_None_iff)
  ultimately show ?thesis using assms(2) by (cases r) (simp_all add: lb_RemoveFromClusters_def)
qed

theorem removal_from_all_clusters_refused_witness:
  "\<exists>e f'. lb_RemoveFromClusters (lb_example ready_client) in_order ready_ingress [(''a'', ready_client)] False
       (NewFakeLoadBalancers\<lparr>f_Um := Slice [zero_UrlMap\<lparr>um_Name := ''mci1-um--lb'',
          um_Description := ToString_text (zero_status\<lparr>Clusters := Slice [''a'']\<rparr>)\<rparr>]\<rparr>) = Some (Returns (Some e, f'))
     \<and> fake_view f' (KUrlMap, ''mci1-um--lb'') \<noteq> None"
proof -
  define st where "st = zero_status\<lparr>Clusters := Slice [''a'']\<rparr>"
  define m where "m = zero_UrlMap\<lparr>um_Name := ''mci1-um--lb'', um_Description := ToString_text st\<rparr>"
  define f where "f = NewFakeLoadBalancers\<lparr>f_Um := Slice [m]\<rparr>"
  have v: "valid_status st" by (simp add: valid_status_def zero_status_def st_def)
  obtain f1 where get: "getLoadBalancerStatus (lb_example ready_client) f = (Inr st, f1)"
    by (simp add: getLoadBalancerStatus_def um_GetLoadBalancerStatus_def um_getStatus_def fake_ops first_named_def
        FromString_ToString_text[OF v] zero_UrlMap_def f_def m_def)
  have "lb_api fake_view (l_cloud (lb_example ready_client))" by (simp add: fake.lb_api_axioms)
  from removal_from_all_clusters_refused[OF this get, of "[(''a'', ready_client)]" in_order ready_ingress] obtain e f' where
    run: "lb_RemoveFromClusters (lb_example ready_client) in_order ready_ingress [(''a'', ready_client)] False f = Some (Returns (Some e, f'))"
    and "fake_view f' = fake_view f" by (auto simp: st_def simp del: fake_view.simps)
  moreover have "fake_view f (KUrlMap, ''mci1-um--lb'') \<noteq> None" by (simp add: named_def zero_UrlMap_def f_def m_def)
  ultimately have "fake_view f' (KUrlMap, ''mci1-um--lb'') \<noteq> None" by metis
  with run show ?thesis unfolding f_def m_def st_def by blast
qed

end
