(* ===== verification/Validations.thy ===== *)
theory Validations
  imports KubeUtils
begin

text \<open>
  \<^verbatim>\<open>app/kubemci/pkg/validations/validations.go\<close>: the checks before a load balancer is created.  The regular expression of
  \<^verbatim>\<open>parseVersion\<close> is written out as the backtracking match Go makes of it, on the bytes of the version.
\<close>

section \<open>Definitions\<close>

text \<open>The longest of the lengths \<open>n, n - 1, ..., 0\<close> of a group \<^verbatim>\<open>[0-9]*\<close> for which the rest of the pattern matches.\<close>

fun longest_first :: "(nat \<Rightarrow> 'a option) \<Rightarrow> nat \<Rightarrow> 'a option" where
  "longest_first f 0 = f 0"
| "longest_first f (Suc n) = (case f (Suc n) of Some x \<Rightarrow> Some x | None \<Rightarrow> longest_first f n)"

definition digit_count :: "string \<Rightarrow> nat" where
  "digit_count s = length (takeWhile is_digit s)"

text \<open>The unescaped dot: any character but a newline.\<close>

definition after_any :: "string \<Rightarrow> string option" where
  "after_any s = (case s of [] \<Rightarrow> None | c # s' \<Rightarrow> if c = CHR 0x0A then None else Some s')"

definition match_version :: "string \<Rightarrow> (string \<times> string \<times> string) option" where
  "match_version version =
     (if \<not> HasPrefix version ''v'' then None
      else let s = drop 1 version
           in longest_first (\<lambda>i.
                case after_any (drop i s) of
                  None \<Rightarrow> None
                | Some t \<Rightarrow> longest_first (\<lambda>j.
                    case after_any (drop j t) of
                      None \<Rightarrow> None
                    | Some u \<Rightarrow> Some (take i s, take j t, takeWhile is_digit u)) (digit_count t)) (digit_count s))"

text \<open>\<^verbatim>\<open>strconv.ParseUint(s, 10, 32)\<close> on a string of digits.\<close>

definition ParseUint32 :: "string \<Rightarrow> go_error + nat" where
  "ParseUint32 s =
     (if s = '''' then Inl (LibError ''strconv.ParseUint: invalid syntax'')
      else if read_nat s \<ge> 2 ^ 32 then Inl (LibError ''strconv.ParseUint: value out of range'')
      else Inr (read_nat s))"

definition parseVersion :: "string \<Rightarrow> go_error + nat \<times> nat \<times> nat" where
  "parseVersion version =
     (case match_version version of
        None \<Rightarrow> Inl (Errorf ''did not find 3 components to version number %s'' [AStr version])
      | Some (m1, m2, m3) \<Rightarrow>
          (case ParseUint32 m1 of
             Inl err \<Rightarrow> Inl err
           | Inr major \<Rightarrow>
               (case ParseUint32 m2 of
                  Inl err \<Rightarrow> Inl err
                | Inr minor \<Rightarrow>
                    (case ParseUint32 m3 of
                       Inl err \<Rightarrow> Inl err
                     | Inr patch \<Rightarrow> Inr (major, minor, patch)))))"

definition serverVersionNewEnough :: "nat \<Rightarrow> nat \<Rightarrow> nat \<Rightarrow> bool" where
  "serverVersionNewEnough major minor patch =
     (if major = 1 \<and> minor = 10 \<and> patch = 0 then False
      else if major > 1 then True
      else if major < 1 then False
      else if minor > 8 then True
      else if minor < 8 then False
      else if patch \<ge> 1 then True
      else False)"

text \<open>The discovery client of a client set is never nil.\<close>

fun versionsLoop :: "(string \<times> 'w KubeClient) list \<Rightarrow> 'w \<Rightarrow> go_error option \<times> 'w" where
  "versionsLoop [] w = (None, w)"
| "versionsLoop ((key, client) # cs) w =
     (case ServerVersion client w of
        (Inl err, w1) \<Rightarrow> (Some (Errorf ''could not get discovery client to lookup server version: %s'' [AErr err]), w1)
      | (Inr ver, w1) \<Rightarrow>
          (case parseVersion ver of
             Inl err \<Rightarrow> (Some err, w1)
           | Inr (major, minor, patch) \<Rightarrow>
               if \<not> serverVersionNewEnough major minor patch then
                 (Some (Errorf ''cluster %s (ver %d.%d.%d) is not running a supported kubernetes version. Need >= 1.8.1 and not 1.10.0''
                    [AStr key, AInt (int major), AInt (int minor), AInt (int patch)]), w1)
               else versionsLoop cs w1))"

definition serverVersionsNewEnough :: "range_order \<Rightarrow> 'w KubeClient gomap \<Rightarrow> 'w \<Rightarrow> go_error option \<times> 'w" where
  "serverVersionsNewEnough ord clients w = versionsLoop (range_entries ord ''versions'' clients) w"

fun nodePortLoop ::
    "range_order \<Rightarrow> IngressBackend \<Rightarrow> string \<Rightarrow> (string \<times> 'w KubeClient) list \<Rightarrow> int \<Rightarrow> string \<Rightarrow> 'w \<Rightarrow> go_error option \<times> 'w" where
  "nodePortLoop ord backend namespace [] nodePort firstClusterName w = (None, w)"
| "nodePortLoop ord backend namespace ((clientName, client) # cs) nodePort firstClusterName w =
     (case GetServiceNodePort ord backend namespace client w of
        (Inl err, w1) \<Rightarrow> (Some (Errorf ''could not get service NodePort in cluster '%s': %s'' [AStr clientName, AErr err]), w1)
      | (Inr servicePort, w1) \<Rightarrow>
          let clusterNodePort = sp_NodePort servicePort
          in if nodePort = -1 then nodePortLoop ord backend namespace cs clusterNodePort clientName w1
             else if clusterNodePort \<noteq> nodePort then
               (Some (Errorf ''some instances of the '%s/%s' Service (e.g. in '%s') are on NodePort %v, but '%s' is on %v. All clusters must use same NodePort''
                  [AStr namespace, AStr (ib_ServiceName backend), AStr firstClusterName, AInt nodePort, AStr clientName, AInt clusterNodePort]), w1)
             else nodePortLoop ord backend namespace cs nodePort firstClusterName w1)"

definition nodePortSameInAllClusters ::
    "range_order \<Rightarrow> IngressBackend \<Rightarrow> string \<Rightarrow> 'w KubeClient gomap \<Rightarrow> 'w \<Rightarrow> go_error option \<times> 'w" where
  "nodePortSameInAllClusters ord backend namespace clients w =
     nodePortLoop ord backend namespace (range_entries ord ''node ports'' clients) (-1) '''' w"

text \<open>
  The backends of the paths, rule by rule.  The error of a path is passed to \<^verbatim>\<open>multierror.Append\<close>, whose result is
  dropped, so checking the paths only has the effects of its lookups.
\<close>

fun checkPaths :: "range_order \<Rightarrow> string \<Rightarrow> 'w KubeClient gomap \<Rightarrow> HTTPIngressPath list \<Rightarrow> go_error option \<Rightarrow> 'w \<Rightarrow> go_error option \<times> 'w" where
  "checkPaths ord namespace clients [] multiErr w = (multiErr, w)"
| "checkPaths ord namespace clients (path # paths) multiErr w =
     (case nodePortSameInAllClusters ord (ip_Backend path) namespace clients w of
        (Some err, w1) \<Rightarrow>
          let dropped = multierror_Append multiErr [Errorf ''nodePort validation error for service '%s/%s': %s''
                [AStr namespace, AStr (ib_ServiceName (ip_Backend path)), AErr err]]
          in checkPaths ord namespace clients paths multiErr w1
      | (None, w1) \<Rightarrow> checkPaths ord namespace clients paths multiErr w1)"

fun checkRules :: "range_order \<Rightarrow> string \<Rightarrow> 'w KubeClient gomap \<Rightarrow> IngressRule list \<Rightarrow> go_error option \<Rightarrow> 'w \<Rightarrow> go_error option \<times> 'w" where
  "checkRules ord namespace clients [] multiErr w = (multiErr, w)"
| "checkRules ord namespace clients (rule # rules) multiErr w =
     (case ir_HTTP rule of
        None \<Rightarrow> checkRules ord namespace clients rules multiErr w
      | Some paths \<Rightarrow>
          (case checkPaths ord namespace clients (elems paths) multiErr w of
             (multiErr1, w1) \<Rightarrow> checkRules ord namespace clients rules multiErr1 w1))"

definition servicesNodePortsSame :: "range_order \<Rightarrow> 'w KubeClient gomap \<Rightarrow> Ingress \<Rightarrow> 'w \<Rightarrow> go_error option \<times> 'w" where
  "servicesNodePortsSame ord clients ing w =
     (case checkRules ord (ing_Namespace ing) clients (elems (is_Rules (ing_Spec ing))) None w of
        (multiErr, w1) \<Rightarrow>
          (case is_Backend (ing_Spec ing) of
             Some backend \<Rightarrow>
               (case nodePortSameInAllClusters ord backend (ing_Namespace ing) clients w1 of
                  (Some err, w2) \<Rightarrow>
                    (multierror_Append multiErr [Errorf ''nodePort validation error for default backend service '%s/%v': %s''
                       [AStr (ing_Namespace ing), AStr (ib_ServiceName backend), AErr err]], w2)
                | (None, w2) \<Rightarrow> (multiErr, w2))
           | None \<Rightarrow>
               (multierror_Append multiErr [Errorf ''unexpected: ing.spec.backend is nil. Multicluster ingress needs a user-specified default backend'' []], w1)))"

definition Validate :: "range_order \<Rightarrow> 'w KubeClient gomap \<Rightarrow> Ingress \<Rightarrow> 'w \<Rightarrow> go_error option \<times> 'w" where
  "Validate ord clients ing w =
     (case serverVersionsNewEnough ord clients w of
        (Some err, w1) \<Rightarrow> (Some err, w1)
      | (None, w1) \<Rightarrow> servicesNodePortsSame ord clients ing w1)"

section \<open>Lemmas\<close>

text \<open>The text a server reports for a version, such as \<^verbatim>\<open>v1.9.3-gke.0\<close>.\<close>

definition version_text :: "nat \<Rightarrow> nat \<Rightarrow> nat \<Rightarrow> string \<Rightarrow> string" where
  "version_text major minor patch suffix = ''v'' @ show_nat major @ ''.'' @ show_nat minor @ ''.'' @ show_nat patch @ suffix"

definition plain_suffix :: "string \<Rightarrow> bool" where
  "plain_suffix suffix \<longleftrightarrow> suffix = [] \<or> \<not> is_digit (hd suffix)"

lemma longest_first_hit: "f n = Some x \<Longrightarrow> longest_first f n = Some x"
  by (cases n) simp_all

lemma not_is_digit_dot [simp]: "\<not> is_digit (CHR ''.'')"
  by (simp add: is_digit_def)

lemma takeWhile_digits: "plain_suffix s \<Longrightarrow> takeWhile is_digit (show_nat n @ s) = show_nat n"
  by (cases s) (auto simp: plain_suffix_def takeWhile_append takeWhile_eq_all_conv dest: show_nat_digits)

lemma match_version_text:
  assumes "plain_suffix suffix"
  shows "match_version (version_text a b c suffix) = Some (show_nat a, show_nat b, show_nat c)"
proof -
  have dot: "plain_suffix (CHR ''.'' # t)" for t by (simp add: plain_suffix_def)
  have "digit_count (show_nat n @ CHR ''.'' # t) = length (show_nat n)" for n t
    using takeWhile_digits[OF dot] by (simp add: digit_count_def)
  with takeWhile_digits[OF assms] show ?thesis
    by (simp add: match_version_def version_text_def HasPrefix_def longest_first_hit after_any_def)
qed

lemma parseVersion_text:
  assumes "plain_suffix suffix" "a < 2 ^ 32" "b < 2 ^ 32" "c < 2 ^ 32"
  shows "parseVersion (version_text a b c suffix) = Inr (a, b, c)"
  using assms by (simp add: parseVersion_def match_version_text ParseUint32_def)

text \<open>A version at least 1.8.1, other than 1.10.0.\<close>

definition supported :: "nat \<times> nat \<times> nat \<Rightarrow> bool" where
  "supported v \<longleftrightarrow> v \<noteq> (1, 10, 0) \<and> (v, (1, 8, 1)) \<notin> less_than <*lex*> less_than <*lex*> less_than"

lemma serverVersionNewEnough_supported: "serverVersionNewEnough a b c \<longleftrightarrow> supported (a, b, c)"
  by (auto simp: serverVersionNewEnough_def supported_def)

lemma versionsLoop_exact:
  assumes "\<forall>c \<in> set cs. \<exists>v. (\<forall>w. fst (ServerVersion (snd c) w) = Inr v) \<and> parseVersion v = Inr (ver (fst c))"
  shows "fst (versionsLoop cs w) = None \<longleftrightarrow> (\<forall>c \<in> set cs. supported (ver (fst c)))"
  using assms
proof (induction cs arbitrary: w)
  case (Cons kc cs)
  obtain key client where kc: "kc = (key, client)" by fastforce
  obtain v where v: "\<forall>w. fst (ServerVersion client w) = Inr v" "parseVersion v = Inr (ver key)"
    using Cons.prems kc by auto
  obtain w1 where sv: "ServerVersion client w = (Inr v, w1)" using v(1) by (metis prod.collapse)
  obtain a b c where abc: "ver key = (a, b, c)" by (cases "ver key") auto
  from Cons kc sv v(2) abc show ?case by (simp add: serverVersionNewEnough_supported)
qed simp

text \<open>A cluster that answers the same at any time, with node ports that are not negative.\<close>

definition steady_ports :: "range_order \<Rightarrow> string \<Rightarrow> 'w KubeClient \<Rightarrow> bool" where
  "steady_ports ord ns client \<longleftrightarrow>
     (\<forall>be w1 w2. fst (GetServiceNodePort ord be ns client w1) = fst (GetServiceNodePort ord be ns client w2))
   \<and> (\<forall>be w sp. fst (GetServiceNodePort ord be ns client w) = Inr sp \<longrightarrow> sp_NodePort sp \<ge> 0)"

definition has_node_port :: "range_order \<Rightarrow> string \<Rightarrow> IngressBackend \<Rightarrow> int \<Rightarrow> 'w KubeClient \<Rightarrow> 'w \<Rightarrow> bool" where
  "has_node_port ord ns be np client w \<longleftrightarrow> (\<exists>sp. fst (GetServiceNodePort ord be ns client w) = Inr sp \<and> sp_NodePort sp = np)"

lemma has_node_port_steady: "steady_ports ord ns client \<Longrightarrow> has_node_port ord ns be np client w1 = has_node_port ord ns be np client w2"
  unfolding has_node_port_def steady_ports_def by metis

lemma nodePortLoop_exact:
  assumes "\<forall>c \<in> set cs. steady_ports ord ns (snd c)" "np = -1 \<or> np \<ge> 0"
  shows "fst (nodePortLoop ord be ns cs np first w) = None \<longleftrightarrow>
    (\<exists>q. (np = -1 \<or> q = np) \<and> (\<forall>c \<in> set cs. has_node_port ord ns be q (snd c) w0))"
  using assms
proof (induction cs arbitrary: np first w)
  case (Cons nc cs)
  obtain n client where nc: "nc = (n, client)" by fastforce
  have steady: "steady_ports ord ns client" using Cons.prems nc by simp
  obtain x w1 where g: "GetServiceNodePort ord be ns client w = (x, w1)" by fastforce
  have here: "has_node_port ord ns be q client w0 \<longleftrightarrow> (\<exists>sp. x = Inr sp \<and> sp_NodePort sp = q)" for q
    using has_node_port_steady[OF steady, of be q w0 w] g by (simp add: has_node_port_def)
  show ?case
  proof (cases x)
    case (Inl e)
    with here g nc show ?thesis by auto
  next
    case (Inr sp)
    have "sp_NodePort sp \<ge> 0" using steady g Inr unfolding steady_ports_def by (metis fst_conv)
    with Cons.IH[of "sp_NodePort sp" n w1] Cons.IH[of np first w1] Cons.prems Inr here g nc show ?thesis by (auto simp: Let_def)
  qed
qed auto

lemma checkPaths_result: "fst (checkPaths ord ns clients paths err w) = err"
  by (induction paths arbitrary: w) (auto split: prod.splits option.splits)

lemma checkRules_result: "fst (checkRules ord ns clients rules err w) = err"
proof (induction rules arbitrary: err w)
  case (Cons r rules)
  then show ?case using checkPaths_result[of ord ns clients _ err w] by (auto split: option.splits prod.splits) (metis fst_conv)
qed simp

section \<open>Properties\<close>

text \<open>
  C24. The version check is exact: when every cluster reports a version \<^verbatim>\<open>vA.B.C\<close> with components below \<open>2 ^ 32\<close> and a suffix that
  does not start with a digit, \<^verbatim>\<open>serverVersionsNewEnough\<close> passes exactly if all versions are at least 1.8.1 and none is
  1.10.0.
\<close>

theorem version_check_exact:
  assumes "range_ok ord" "distinct (map fst clients)"
    and "\<forall>c \<in> set clients. \<exists>a b p suffix. (\<forall>w. fst (ServerVersion (snd c) w) = Inr (version_text a b p suffix)) \<and> plain_suffix suffix
           \<and> ver (fst c) = (a, b, p) \<and> a < 2 ^ 32 \<and> b < 2 ^ 32 \<and> p < 2 ^ 32"
  shows "fst (serverVersionsNewEnough ord clients w) = None \<longleftrightarrow> (\<forall>c \<in> set clients. supported (ver (fst c)))"
proof -
  let ?cs = "range_entries ord ''versions'' clients"
  note same = set_range_entries[OF assms(1,2), of "''versions''"]
  have "\<forall>c \<in> set ?cs. \<exists>v. (\<forall>w. fst (ServerVersion (snd c) w) = Inr v) \<and> parseVersion v = Inr (ver (fst c))"
    unfolding same
  proof
    fix c assume "c \<in> set clients"
    with assms(3) obtain a b p suffix where "\<forall>w. fst (ServerVersion (snd c) w) = Inr (version_text a b p suffix)" "plain_suffix suffix"
      "ver (fst c) = (a, b, p)" "a < 2 ^ 32" "b < 2 ^ 32" "p < 2 ^ 32" by blast
    with parseVersion_text[of suffix a b p] show "\<exists>v. (\<forall>w. fst (ServerVersion (snd c) w) = Inr v) \<and> parseVersion v = Inr (ver (fst c))" by auto
  qed
  from versionsLoop_exact[OF this, of w] show ?thesis by (simp add: serverVersionsNewEnough_def same)
qed

text \<open>
  C25. What the node port validation amounts to: it passes exactly if the ingress names a default backend and all clusters
  have that backend's service on one node port.  The backends of the rules have no influence on its result.
\<close>

theorem node_port_validation_exact:
  assumes "range_ok ord" "distinct (map fst clients)" "\<forall>c \<in> set clients. steady_ports ord (ing_Namespace ing) (snd c)"
  shows "fst (servicesNodePortsSame ord clients ing w) = None \<longleftrightarrow>
    (\<exists>be np. is_Backend (ing_Spec ing) = Some be \<and> (\<forall>c \<in> set clients. has_node_port ord (ing_Namespace ing) be np (snd c) w))"
proof -
  let ?ns = "ing_Namespace ing"
  obtain w1 where rules: "checkRules ord ?ns clients (elems (is_Rules (ing_Spec ing))) None w = (None, w1)"
    using checkRules_result[of ord ?ns clients "elems (is_Rules (ing_Spec ing))" None w] by (metis prod.collapse)
  note same = set_range_entries[OF assms(1,2), of "''node ports''"]
  have port: "fst (nodePortSameInAllClusters ord be ?ns clients w1) = None \<longleftrightarrow> (\<exists>np. \<forall>c \<in> set clients. has_node_port ord ?ns be np (snd c) w)" for be
    using nodePortLoop_exact[of "range_entries ord ''node ports'' clients" ord ?ns "-1" be "''''" w1 w] assms(3)
    by (simp add: nodePortSameInAllClusters_def same)
  show ?thesis
  proof (cases "is_Backend (ing_Spec ing)")
    case (Some be)
    obtain e w2 where run: "nodePortSameInAllClusters ord be ?ns clients w1 = (e, w2)" by fastforce
    with rules Some have "fst (servicesNodePortsSame ord clients ing w) = None \<longleftrightarrow> e = None"
      by (cases e) (simp_all add: servicesNodePortsSame_def)
    with port[of be] run Some show ?thesis by simp
  qed (simp add: servicesNodePortsSame_def rules)
qed

theorem version_check_exact_witness:
  "fst (serverVersionsNewEnough in_order [(''a'', web_client '''')] ()) = None \<longleftrightarrow> supported (1, 9, 3)"
proof -
  have "\<forall>c \<in> set [(''a'', web_client '''')]. \<exists>a b p suffix. (\<forall>w :: unit. fst (ServerVersion (snd c) w) = Inr (version_text a b p suffix))
      \<and> plain_suffix suffix \<and> (\<lambda>n. (1, 9, 3)) (fst c) = (a, b, p) \<and> a < 2 ^ 32 \<and> b < 2 ^ 32 \<and> p < (2 :: nat) ^ 32"
    by (simp add: web_client_def) (auto intro!: exI[of _ "[]"] simp: plain_suffix_def version_text_def show_nat.simps digits)
  from version_check_exact[OF range_ok_in_order _ this, of "()"] show ?thesis by simp
qed

lemma web_client_steady: "steady_ports ord ns (web_client path)"
  by (auto simp: steady_ports_def GetServiceNodePort_def web_client_def web_service_def svc_of_def ApplicationProtocols_def
      Let_def zero_ServicePort_def split: option.splits dest!: find_SomeD)

theorem node_port_validation_exact_witness:
  "fst (servicesNodePortsSame in_order [(''a'', web_client ''''), (''b'', web_client '''')] web_ingress ()) = None"
proof -
  have "has_node_port in_order ''ns'' \<lparr>ib_ServiceName = ''web'', ib_ServicePort = FromInt 80\<rparr> 30301 (web_client '''') ()"
    using web_client_node_port[of in_order "''''" "()"] by (simp add: has_node_port_def)
  with node_port_validation_exact[OF range_ok_in_order, of "[(''a'', web_client ''''), (''b'', web_client '''')]" web_ingress "()"]
  show ?thesis by (auto simp: web_client_steady web_ingress_def ing_Namespace_def)
qed

end
