(* ===== verification/FakeKube.thy ===== *)
theory FakeKube
  imports KubeUtils
begin

text \<open>
  The laws kubemci relies on for the ingress objects of its clusters, and the object tracker behind the fake client set of
  \<^verbatim>\<open>vendor/k8s.io/client-go/testing/fixture.go\<close>, which meets them.  Only ingresses are tracked.
\<close>

section \<open>The laws\<close>

text \<open>
  \<open>objs w cluster (namespace, name)\<close> is the ingress a cluster has under a name; \<open>invar\<close> holds of the worlds the laws are about
  and is kept by every call.
\<close>

locale clusters_api =
  fixes invar :: "'w \<Rightarrow> bool"
    and objs :: "'w \<Rightarrow> string \<Rightarrow> string \<times> string \<Rightarrow> Ingress option"
    and clients :: "'w KubeClient gomap"
  assumes get_keeps: "(n, c) \<in> set clients \<Longrightarrow> invar w \<Longrightarrow> GetIngress c ns nm w = (x, w') \<Longrightarrow> invar w' \<and> objs w' = objs w"
    and get_value: "(n, c) \<in> set clients \<Longrightarrow> invar w \<Longrightarrow> ns \<noteq> '''' \<Longrightarrow> nm \<noteq> '''' \<Longrightarrow>
          GetIngress c ns nm w = (Inr i, w') \<Longrightarrow> objs w n (ns, nm) = Some i"
    and get_not_found: "(n, c) \<in> set clients \<Longrightarrow> invar w \<Longrightarrow> ns \<noteq> '''' \<Longrightarrow> nm \<noteq> '''' \<Longrightarrow>
          GetIngress c ns nm w = (Inl e, w') \<Longrightarrow> IsNotFound (Some e) \<Longrightarrow> objs w n (ns, nm) = None"
    and create_effect: "(n, c) \<in> set clients \<Longrightarrow> invar w \<Longrightarrow> ing_Namespace i \<noteq> '''' \<Longrightarrow> ing_Name i \<noteq> '''' \<Longrightarrow>
          CreateIngress c (ing_Namespace i) i w = (eo, w') \<Longrightarrow>
          invar w' \<and> objs w' = (if eo = None then (objs w)(n := (objs w n)((ing_Namespace i, ing_Name i) \<mapsto> i)) else objs w)"
    and update_effect: "(n, c) \<in> set clients \<Longrightarrow> invar w \<Longrightarrow> ing_Namespace i \<noteq> '''' \<Longrightarrow> ing_Name i \<noteq> '''' \<Longrightarrow>
          UpdateIngress c (ing_Namespace i) i w = (eo, w') \<Longrightarrow>
          invar w' \<and> objs w' = (if eo = None then (objs w)(n := (objs w n)((ing_Namespace i, ing_Name i) \<mapsto> i)) else objs w)"
    and delete_effect: "(n, c) \<in> set clients \<Longrightarrow> invar w \<Longrightarrow> DeleteIngress c ns nm w = (eo, w') \<Longrightarrow>
          invar w' \<and> objs w' = (if eo = None then (objs w)(n := (objs w n)((ns, nm) := None)) else objs w)"
    and delete_not_found: "(n, c) \<in> set clients \<Longrightarrow> invar w \<Longrightarrow> DeleteIngress c ns nm w = (Some e, w') \<Longrightarrow> IsNotFound (Some e) \<Longrightarrow>
          objs w n (ns, nm) = None"

section \<open>The tracker\<close>

definition errNotFound :: go_error where "errNotFound = KubeStatus ''NotFound''"

definition named_in :: "string \<Rightarrow> string \<Rightarrow> Ingress \<Rightarrow> bool" where
  "named_in ns name i \<longleftrightarrow> ing_Namespace i = ns \<and> ing_Name i = name"

definition filterByNamespaceAndName :: "Ingress list \<Rightarrow> string \<Rightarrow> string \<Rightarrow> Ingress list" where
  "filterByNamespaceAndName os ns name =
     filter (\<lambda>i. \<not> (ns \<noteq> '''' \<and> ing_Namespace i \<noteq> ns \<or> name \<noteq> '''' \<and> ing_Name i \<noteq> name)) os"

definition tracker_Get :: "string \<Rightarrow> string \<Rightarrow> Ingress list \<Rightarrow> go_error + Ingress" where
  "tracker_Get ns name os =
     (case filterByNamespaceAndName os ns name of
        [] \<Rightarrow> Inl errNotFound
      | [i] \<Rightarrow> Inr i
      | _ \<Rightarrow> Inl (Errorf ''more than one object matched gvr %s, ns: %q name: %q'' [AStr ns, AStr name]))"

text \<open>The loop of \<^verbatim>\<open>add\<close> over the stored objects, with what follows it.\<close>

fun tracker_put :: "Ingress \<Rightarrow> bool \<Rightarrow> Ingress list \<Rightarrow> go_error + Ingress list" where
  "tracker_put obj replaceExisting [] = (if replaceExisting then Inl errNotFound else Inr [obj])"
| "tracker_put obj replaceExisting (old # os) =
     (if ing_Namespace old = ing_Namespace obj \<and> ing_Name old = ing_Name obj then
        if replaceExisting then Inr (obj # os) else Inl (KubeStatus ''AlreadyExists'')
      else (case tracker_put obj replaceExisting os of Inl e \<Rightarrow> Inl e | Inr os' \<Rightarrow> Inr (old # os')))"

definition tracker_add :: "Ingress \<Rightarrow> string \<Rightarrow> bool \<Rightarrow> Ingress list \<Rightarrow> go_error + Ingress list" where
  "tracker_add obj ns replaceExisting os =
     (let obj = (if ing_Namespace obj = '''' then obj\<lparr>ing_ObjectMeta := (ing_ObjectMeta obj)\<lparr>om_Namespace := ns\<rparr>\<rparr> else obj)
      in if ns \<noteq> ing_Namespace obj then Inl (KubeStatus ''BadRequest'')
         else tracker_put obj replaceExisting os)"

fun tracker_Delete :: "string \<Rightarrow> string \<Rightarrow> Ingress list \<Rightarrow> go_error + Ingress list" where
  "tracker_Delete ns name [] = Inl errNotFound"
| "tracker_Delete ns name (old # os) =
     (if ing_Namespace old = ns \<and> ing_Name old = name then Inr os
      else (case tracker_Delete ns name os of Inl e \<Rightarrow> Inl e | Inr os' \<Rightarrow> Inr (old # os')))"

text \<open>The reactions of the fake client set, over the trackers of all clusters.\<close>

type_synonym FakeClusters = "string \<Rightarrow> Ingress list"

definition react_put :: "string \<Rightarrow> bool \<Rightarrow> string \<Rightarrow> Ingress \<Rightarrow> FakeClusters \<Rightarrow> go_error option \<times> FakeClusters" where
  "react_put cluster replaceExisting ns obj w =
     (case tracker_add obj ns replaceExisting (w cluster) of
        Inl e \<Rightarrow> (Some e, w)
      | Inr os \<Rightarrow>
          (case tracker_Get ns (ing_Name obj) os of
             Inl e \<Rightarrow> (Some e, w(cluster := os))
           | Inr i \<Rightarrow> (None, w(cluster := os))))"

definition react_Delete :: "string \<Rightarrow> string \<Rightarrow> string \<Rightarrow> FakeClusters \<Rightarrow> go_error option \<times> FakeClusters" where
  "react_Delete cluster ns name w =
     (case tracker_Delete ns name (w cluster) of
        Inl e \<Rightarrow> (Some e, w)
      | Inr os \<Rightarrow> (None, w(cluster := os)))"

definition tracker_client :: "string \<Rightarrow> FakeClusters KubeClient" where
  "tracker_client cluster =
     \<lparr>GetSecret = (\<lambda>ns n w. (Inl errNotFound, w)), GetService = (\<lambda>ns n w. (Inl errNotFound, w)), ListPods = (\<lambda>ns l w. (Inr [], w)),
      GetIngress = (\<lambda>ns n w. (tracker_Get ns n (w cluster), w)),
      CreateIngress = react_put cluster False, UpdateIngress = react_put cluster True, DeleteIngress = react_Delete cluster,
      ServerVersion = (\<lambda>w. (Inr ''v1.9.3'', w))\<rparr>"

section \<open>The tracker meets the laws\<close>

definition ikey :: "Ingress \<Rightarrow> string \<times> string" where
  "ikey i = (ing_Namespace i, ing_Name i)"

definition tracked :: "FakeClusters \<Rightarrow> string \<Rightarrow> string \<times> string \<Rightarrow> Ingress option" where
  "tracked w n = map_of (map (\<lambda>i. (ikey i, i)) (w n))"

text \<open>Names are unique in every tracker.\<close>

definition tracker_invar :: "FakeClusters \<Rightarrow> bool" where
  "tracker_invar w \<longleftrightarrow> (\<forall>n. distinct (map ikey (w n)))"

lemma ikey_eq: "ikey i = (ns, nm) \<longleftrightarrow> ing_Namespace i = ns \<and> ing_Name i = nm"
  by (simp add: ikey_def)

lemma filter_unique:
  assumes "distinct (map ikey os)" "ns \<noteq> ''''" "nm \<noteq> ''''"
  shows "filterByNamespaceAndName os ns nm = (case map_of (map (\<lambda>i. (ikey i, i)) os) (ns, nm) of None \<Rightarrow> [] | Some i \<Rightarrow> [i])"
  using assms
proof (induction os)
  case (Cons i os)
  have "filterByNamespaceAndName os ns nm = []" if "ikey i = (ns, nm)"
    using Cons.prems that by (auto simp: filterByNamespaceAndName_def ikey_def filter_empty_conv image_iff)
  with Cons show ?case by (auto simp: filterByNamespaceAndName_def ikey_eq ikey_def split: option.splits)
qed (simp add: filterByNamespaceAndName_def)

lemma tracker_Get_unique:
  assumes "distinct (map ikey os)" "ns \<noteq> ''''" "nm \<noteq> ''''"
  shows "tracker_Get ns nm os = (case map_of (map (\<lambda>i. (ikey i, i)) os) (ns, nm) of None \<Rightarrow> Inl errNotFound | Some i \<Rightarrow> Inr i)"
  by (simp add: tracker_Get_def filter_unique[OF assms] split: option.splits)

lemma tracker_put_ok:
  assumes "tracker_put obj r os = Inr os'" "distinct (map ikey os)"
  shows "distinct (map ikey os') \<and> set (map ikey os') \<subseteq> insert (ikey obj) (set (map ikey os))
    \<and> map_of (map (\<lambda>i. (ikey i, i)) os') = (map_of (map (\<lambda>i. (ikey i, i)) os))(ikey obj \<mapsto> obj)"
  using assms
proof (induction os arbitrary: os')
  case (Cons old os)
  show ?case
  proof (cases "ikey old = ikey obj")
    case False
    then obtain os1 where os1: "tracker_put obj r os = Inr os1" "os' = old # os1"
      using Cons.prems(1) by (auto simp: ikey_def split: sum.splits if_splits)
    from Cons.IH[OF os1(1)] Cons.prems(2) os1(2) False show ?thesis by (auto simp: fun_upd_twist)
  qed (use Cons.prems in \<open>auto simp: ikey_def split: if_splits\<close>)
qed (auto split: if_splits)

lemma tracker_Delete_ok:
  assumes "distinct (map ikey os)"
  shows "case tracker_Delete ns nm os of
      Inl e \<Rightarrow> e = errNotFound \<and> map_of (map (\<lambda>i. (ikey i, i)) os) (ns, nm) = None
    | Inr os' \<Rightarrow> distinct (map ikey os') \<and> set (map ikey os') \<subseteq> set (map ikey os)
        \<and> map_of (map (\<lambda>i. (ikey i, i)) os') = (map_of (map (\<lambda>i. (ikey i, i)) os))((ns, nm) := None)"
  using assms
proof (induction os)
  case (Cons old os)
  show ?case
  proof (cases "ikey old = (ns, nm)")
    case True
    then have "map_of (map (\<lambda>i. (ikey i, i)) os) (ns, nm) = None" using Cons.prems by (auto simp: map_of_eq_None_iff image_image)
    moreover have "tracker_Delete ns nm (old # os) = Inr os" using True by (simp add: ikey_eq)
    ultimately show ?thesis using True Cons.prems by (auto simp: fun_upd_idem)
  next
    case False
    then have "(ns, nm) \<noteq> ikey old" "\<not> (ing_Namespace old = ns \<and> ing_Name old = nm)" by (auto simp: ikey_def)
    with Cons show ?thesis by (auto simp: fun_upd_twist split: sum.splits)
  qed
qed simp

lemma tracked_upd: "tracked (w(n := os)) = (tracked w)(n := map_of (map (\<lambda>i. (ikey i, i)) os))"
  by (auto simp: tracked_def)

lemma tracker_invar_upd: "tracker_invar w \<Longrightarrow> distinct (map ikey os) \<Longrightarrow> tracker_invar (w(n := os))"
  by (simp add: tracker_invar_def)

lemma react_put_effect:
  assumes "tracker_invar w" "ing_Namespace i \<noteq> ''''" "ing_Name i \<noteq> ''''" "react_put n r (ing_Namespace i) i w = (eo, w')"
  shows "tracker_invar w' \<and> tracked w' = (if eo = None then (tracked w)(n := (tracked w n)((ing_Namespace i, ing_Name i) \<mapsto> i)) else tracked w)"
proof -
  have d: "distinct (map ikey (w n))" using assms(1) by (simp add: tracker_invar_def)
  have add: "tracker_add i (ing_Namespace i) r (w n) = tracker_put i r (w n)" using assms(2) by (simp add: tracker_add_def Let_def)
  show ?thesis
  proof (cases "tracker_put i r (w n)")
    case (Inl e)
    with assms add show ?thesis by (auto simp: react_put_def)
  next
    case (Inr os)
    note ok = tracker_put_ok[OF Inr d]
    then have "tracker_Get (ing_Namespace i) (ing_Name i) os = Inr i"
      using tracker_Get_unique[of os "ing_Namespace i" "ing_Name i"] assms(2,3) by (simp add: ikey_def)
    with assms add Inr ok show ?thesis by (auto simp: react_put_def tracker_invar_upd tracked_def ikey_def)
  qed
qed

interpretation trackers: clusters_api tracker_invar tracked "map (\<lambda>n. (n, tracker_client n)) ns"
proof (unfold_locales, goal_cases)
  case (1 n c w ns' nm x w')
  then show ?case by (auto simp: tracker_client_def)
next
  case (2 n c w ns' nm i w')
  then show ?case using tracker_Get_unique[of "w n" ns' nm]
    by (auto simp: tracker_client_def tracker_invar_def tracked_def split: option.splits)
next
  case (3 n c w ns' nm e w')
  then show ?case using tracker_Get_unique[of "w n" ns' nm]
    by (auto simp: tracker_client_def tracker_invar_def tracked_def split: option.splits)
next
  case (4 n c w i eo w')
  then show ?case using react_put_effect[of w i n False eo w'] by (auto simp: tracker_client_def)
next
  case (5 n c w i eo w')
  then show ?case using react_put_effect[of w i n True eo w'] by (auto simp: tracker_client_def)
next
  case (6 n c w ns' nm eo w')
  then show ?case using tracker_Delete_ok[of "w n" ns' nm]
    by (auto simp: tracker_client_def react_Delete_def tracker_invar_upd tracker_invar_def tracked_upd tracked_def[of w n] split: sum.splits)
next
  case (7 n c w ns' nm e w')
  then show ?case using tracker_Delete_ok[of "w n" ns' nm]
    by (auto simp: tracker_client_def react_Delete_def tracker_invar_def tracked_def split: sum.splits)
qed

end
