(* ===== verification/Ingress.thy ===== *)
theory Ingress
  imports FakeKube
begin

text \<open>
  \<^verbatim>\<open>app/kubemci/pkg/ingress/ingresssyncer.go\<close>: the ingress object in every cluster, and the defaults applied to the ingress the user
  gives.  Reading and decoding the file is the parameter \<open>unmarshall\<close>.
\<close>

section \<open>Definitions\<close>

definition defaultIngressNamespace :: string where "defaultIngressNamespace = ''default''"
definition instanceGroupAnnotationKey :: string where "instanceGroupAnnotationKey = ''ingress.gcp.kubernetes.io/instance-groups''"

text \<open>
  The body of the loop of \<^verbatim>\<open>EnsureIngress\<close>.  In the last error branch \<^verbatim>\<open>multierror.Append\<close> is not given the errors so far, which
  are lost.
\<close>

definition ensureIngressIn ::
    "Ingress \<Rightarrow> bool \<Rightarrow> string \<Rightarrow> 'w KubeClient \<Rightarrow> go_error option \<Rightarrow> 'w \<Rightarrow> go_error option \<times> 'w" where
  "ensureIngressIn ing forceUpdate cluster client err w =
     (case GetIngress client (ing_Namespace ing) (ing_Name ing) w of
        (Inl getErr, w1) \<Rightarrow>
          if IsNotFound (Some getErr) then
            (case CreateIngress client (ing_Namespace ing) ing w1 of
               (Some createErr, w2) \<Rightarrow>
                 (multierror_Append err [Errorf ''Error in creating ingress in cluster %s: %s'' [AStr cluster, AErr createErr]], w2)
             | (None, w2) \<Rightarrow> (err, w2))
          else (multierror_Append err [Errorf ''Error in checking for existing ingress in cluster %s: %s'' [AStr cluster, AErr getErr]], w1)
      | (Inr existingIng, w1) \<Rightarrow>
          if \<not> ObjectMetaAndSpecEquivalent ing existingIng [(instanceGroupAnnotationKey, '''')] then
            if forceUpdate then
              (case UpdateIngress client (ing_Namespace ing) ing w1 of
                 (Some updateErr, w2) \<Rightarrow>
                   (multierror_Append err [Errorf ''Error in updating ingress in cluster %s: %s'' [AStr cluster, AErr updateErr]], w2)
               | (None, w2) \<Rightarrow> (err, w2))
            else (multierror_Append (Some (Errorf ''will not overwrite Ingress resource in cluster '%v' without --force'' [AStr cluster])) [], w1)
          else (err, w1))"

fun ensureIngressLoop ::
    "Ingress \<Rightarrow> bool \<Rightarrow> (string \<times> 'w KubeClient) list \<Rightarrow> string list \<Rightarrow> go_error option \<Rightarrow> 'w \<Rightarrow> (string list \<times> go_error option) \<times> 'w" where
  "ensureIngressLoop ing forceUpdate [] ensuredClusters err w = ((ensuredClusters, err), w)"
| "ensureIngressLoop ing forceUpdate ((cluster, client) # cs) ensuredClusters err w =
     (case ensureIngressIn ing forceUpdate cluster client err w of
        (err1, w1) \<Rightarrow> ensureIngressLoop ing forceUpdate cs (ensuredClusters @ [cluster]) err1 w1)"

definition EnsureIngress ::
    "range_order \<Rightarrow> Ingress \<Rightarrow> 'w KubeClient gomap \<Rightarrow> bool \<Rightarrow> 'w \<Rightarrow> (string list \<times> go_error option) \<times> 'w" where
  "EnsureIngress ord ing clients forceUpdate w = ensureIngressLoop ing forceUpdate (range_entries ord ''ensure ingress'' clients) [] None w"

fun deleteIngressLoop :: "Ingress \<Rightarrow> (string \<times> 'w KubeClient) list \<Rightarrow> go_error option \<Rightarrow> 'w \<Rightarrow> go_error option \<times> 'w" where
  "deleteIngressLoop ing [] err w = (err, w)"
| "deleteIngressLoop ing ((cluster, client) # cs) err w =
     (case DeleteIngress client (ing_Namespace ing) (ing_Name ing) w of
        (Some deleteErr, w1) \<Rightarrow>
          if IsNotFound (Some deleteErr) then deleteIngressLoop ing cs err w1
          else deleteIngressLoop ing cs (multierror_Append err [Errorf ''Error in deleting ingress from cluster %s: %s'' [AStr cluster, AErr deleteErr]]) w1
      | (None, w1) \<Rightarrow> deleteIngressLoop ing cs err w1)"

definition ing_DeleteIngress :: "range_order \<Rightarrow> Ingress \<Rightarrow> 'w KubeClient gomap \<Rightarrow> 'w \<Rightarrow> go_error option \<times> 'w" where
  "ing_DeleteIngress ord ing clients w = deleteIngressLoop ing (range_entries ord ''delete ingress'' clients) None w"

text \<open>The functions below change the ingress they are given, also when they return an error.\<close>

definition addAnnotation :: "Ingress \<Rightarrow> string \<Rightarrow> string \<Rightarrow> Ingress" where
  "addAnnotation ing key val =
     ing\<lparr>ing_ObjectMeta := (ing_ObjectMeta ing)\<lparr>om_Annotations := AList.update key val (om_Annotations (ing_ObjectMeta ing))\<rparr>\<rparr>"

definition setNamespace :: "Ingress \<Rightarrow> string \<Rightarrow> Ingress" where
  "setNamespace ing ns = ing\<lparr>ing_ObjectMeta := (ing_ObjectMeta ing)\<lparr>om_Namespace := ns\<rparr>\<rparr>"

definition applyClass :: "Ingress \<Rightarrow> go_error option \<times> Ingress" where
  "applyClass ing =
     (let cls = IngressClass ing
      in if cls = '''' then (None, addAnnotation ing IngressClassKey GceMultiIngressClass)
         else if cls \<noteq> GceMultiIngressClass then
           (Some (Errorf ''ingress class is %v, must be %v'' [AStr cls, AStr GceMultiIngressClass]), ing)
         else (None, ing))"

definition UnmarshallAndApplyDefaults ::
    "(string \<Rightarrow> Ingress \<Rightarrow> go_error option \<times> Ingress) \<Rightarrow> string \<Rightarrow> string \<Rightarrow> Ingress \<Rightarrow> go_error option \<times> Ingress" where
  "UnmarshallAndApplyDefaults unmarshall filename namespace ing0 =
     (case unmarshall filename ing0 of
        (Some err, ing) \<Rightarrow> (Some err, ing)
      | (None, ing) \<Rightarrow>
          if ing_Namespace ing = '''' then
            applyClass (setNamespace ing (if namespace = '''' then defaultIngressNamespace else namespace))
          else if namespace \<noteq> '''' \<and> ing_Namespace ing \<noteq> namespace then
            (Some (Errorf ''the namespace from the provided ingress %q does not match the namespace %q. You must pass '--namespace=%v' to perform this operation''
               [AStr (ing_Namespace ing), AStr namespace, AStr (ing_Namespace ing)]), ing)
          else applyClass ing)"

definition ApplyStaticIP :: "string \<Rightarrow> Ingress \<Rightarrow> go_error option \<times> Ingress" where
  "ApplyStaticIP staticIPName ing =
     (if StaticIPName ing = '''' then
        if staticIPName = '''' then
          (Some (Errorf ''ingress spec must provide a Global Static IP through annotation of %q (alternatively, use --static-ip flag)''
             [AStr StaticIPNameKey]), ing)
        else (None, addAnnotation ing StaticIPNameKey staticIPName)
      else if staticIPName \<noteq> '''' \<and> StaticIPName ing \<noteq> staticIPName then
        (Some (Errorf ''the %q from the provided ingress %q does not match --static-ip=%v. You must pass '--static-ip=%v' to perform this operation''
           [AStr StaticIPNameKey, AStr (StaticIPName ing), AStr staticIPName, AStr (StaticIPName ing)]), ing)
      else (None, ing))"

section \<open>Lemmas\<close>

abbreviation matches_in_cluster :: "Ingress \<Rightarrow> Ingress \<Rightarrow> bool" where
  "matches_in_cluster ing i \<equiv> ObjectMetaAndSpecEquivalent ing i [(instanceGroupAnnotationKey, '''')]"

lemma gomap_eq_refl [simp]: "gomap_eq m m"
  by (simp add: gomap_eq_def)

lemma ObjectMetaAndSpecEquivalent_refl [simp]: "ObjectMetaAndSpecEquivalent ing ing ign"
  by (simp add: ObjectMetaAndSpecEquivalent_def ObjectMetaEquivalent_def Let_def)

lemma ensureIngressIn_cases:
  assumes "ensureIngressIn ing force n c err w = (err', w')"
  obtains (create) e w1 eo where "GetIngress c (ing_Namespace ing) (ing_Name ing) w = (Inl e, w1)" "IsNotFound (Some e)"
      "CreateIngress c (ing_Namespace ing) ing w1 = (eo, w')" "err' = None \<longleftrightarrow> err = None \<and> eo = None"
  | (unknown) e where "GetIngress c (ing_Namespace ing) (ing_Name ing) w = (Inl e, w')" "err' \<noteq> None"
  | (same) ex where "GetIngress c (ing_Namespace ing) (ing_Name ing) w = (Inr ex, w')" "matches_in_cluster ing ex" "err' = err"
  | (refused) ex where "GetIngress c (ing_Namespace ing) (ing_Name ing) w = (Inr ex, w')" "\<not> matches_in_cluster ing ex" "\<not> force" "err' \<noteq> None"
  | (update) ex w1 eo where "GetIngress c (ing_Namespace ing) (ing_Name ing) w = (Inr ex, w1)" "force"
      "UpdateIngress c (ing_Namespace ing) ing w1 = (eo, w')" "err' = None \<longleftrightarrow> err = None \<and> eo = None"
proof -
  obtain x w1 where get: "GetIngress c (ing_Namespace ing) (ing_Name ing) w = (x, w1)" by fastforce
  obtain eo w2 where cr: "CreateIngress c (ing_Namespace ing) ing w1 = (eo, w2)" by fastforce
  obtain uo w3 where up: "UpdateIngress c (ing_Namespace ing) ing w1 = (uo, w3)" by fastforce
  show ?thesis
  proof (cases x)
    case (Inl e)
    with assms get cr create[of e w1 eo] unknown[of e] show ?thesis
      by (cases eo) (auto simp: ensureIngressIn_def split: if_splits)
  next
    case (Inr ex)
    with assms get up same[of ex] refused[of ex] update[of ex w1 uo] show ?thesis
      by (cases uo) (auto simp: ensureIngressIn_def split: if_splits)
  qed
qed

lemma ensureIngressLoop_clusters: "ensureIngressLoop ing force cs acc err w = ((cl, e), w') \<Longrightarrow> cl = acc @ map fst cs"
  by (induction cs arbitrary: acc err w) (fastforce split: prod.splits)+

text \<open>What one step, and so a whole run, may do to the clusters.\<close>

definition ingress_step :: "Ingress \<Rightarrow> bool \<Rightarrow> ('n \<Rightarrow> string \<times> string \<Rightarrow> Ingress option) \<Rightarrow> ('n \<Rightarrow> string \<times> string \<Rightarrow> Ingress option) \<Rightarrow> bool" where
  "ingress_step ing force o1 o2 \<longleftrightarrow>
     (\<forall>n k. k \<noteq> (ing_Namespace ing, ing_Name ing) \<longrightarrow> o2 n k = o1 n k)
   \<and> (\<not> force \<longrightarrow> (\<forall>n k i. o1 n k = Some i \<longrightarrow> o2 n k = Some i))
   \<and> (\<forall>n i. o1 n (ing_Namespace ing, ing_Name ing) = Some i \<longrightarrow> matches_in_cluster ing i \<longrightarrow>
        (\<exists>i'. o2 n (ing_Namespace ing, ing_Name ing) = Some i' \<and> matches_in_cluster ing i'))"

lemma ingress_step_refl: "ingress_step ing force o1 o1"
  by (simp add: ingress_step_def)

lemma ingress_step_trans: "ingress_step ing force o1 o2 \<Longrightarrow> ingress_step ing force o2 o3 \<Longrightarrow> ingress_step ing force o1 o3"
  unfolding ingress_step_def by metis

context clusters_api
begin

lemma ensureIngressIn_step:
  assumes "(n, c) \<in> set clients" "invar w" "ing_Namespace ing \<noteq> ''''" "ing_Name ing \<noteq> ''''"
    and "ensureIngressIn ing force n c err w = (err', w')"
  shows "invar w' \<and> ingress_step ing force (objs w) (objs w')
    \<and> (err' = None \<longrightarrow> err = None \<and> (\<exists>i. objs w' n (ing_Namespace ing, ing_Name ing) = Some i \<and> matches_in_cluster ing i))"
  using assms(5)
proof (cases rule: ensureIngressIn_cases)
  case (create e w1 eo)
  note g = get_keeps[OF assms(1,2) create(1)] get_not_found[OF assms(1-4) create(1,2)]
  from create_effect[OF assms(1) conjunct1[OF g(1)] assms(3,4) create(3)] g create(4) show ?thesis
    by (auto simp: ingress_step_def split: if_splits)
next
  case (unknown e)
  with get_keeps[OF assms(1,2) unknown(1)] show ?thesis by (auto simp: ingress_step_refl)
next
  case (same ex)
  with get_keeps[OF assms(1,2) same(1)] get_value[OF assms(1-4) same(1)] show ?thesis by (auto simp: ingress_step_refl)
next
  case (refused ex)
  with get_keeps[OF assms(1,2) refused(1)] show ?thesis by (auto simp: ingress_step_refl)
next
  case (update ex w1 eo)
  note g = get_keeps[OF assms(1,2) update(1)]
  from update_effect[OF assms(1) conjunct1[OF g] assms(3,4) update(3)] g update(2,4) show ?thesis
    by (auto simp: ingress_step_def split: if_splits)
qed

lemma ensureIngressLoop_ok:
  assumes "set cs \<subseteq> set clients" "invar w" "ing_Namespace ing \<noteq> ''''" "ing_Name ing \<noteq> ''''"
    and "ensureIngressLoop ing force cs acc err w = ((cl, e), w')"
  shows "invar w' \<and> ingress_step ing force (objs w) (objs w')
    \<and> (e = None \<longrightarrow> err = None \<and> (\<forall>n \<in> fst ` set cs. \<exists>i. objs w' n (ing_Namespace ing, ing_Name ing) = Some i \<and> matches_in_cluster ing i))"
  using assms(1,2,5)
proof (induction cs arbitrary: acc err w)
  case (Cons nc cs)
  obtain n c where nc: "nc = (n, c)" by fastforce
  obtain err1 w1 where st: "ensureIngressIn ing force n c err w = (err1, w1)" by fastforce
  have rest: "ensureIngressLoop ing force cs (acc @ [n]) err1 w1 = ((cl, e), w')" using Cons.prems(3) nc st by simp
  have one: "invar w1" "ingress_step ing force (objs w) (objs w1)"
    "err1 = None \<longrightarrow> err = None \<and> (\<exists>i. objs w1 n (ing_Namespace ing, ing_Name ing) = Some i \<and> matches_in_cluster ing i)"
    using ensureIngressIn_step[OF _ Cons.prems(2) assms(3,4) st] Cons.prems(1) nc by auto
  have more: "invar w'" "ingress_step ing force (objs w1) (objs w')"
    "e = None \<longrightarrow> err1 = None \<and> (\<forall>n \<in> fst ` set cs. \<exists>i. objs w' n (ing_Namespace ing, ing_Name ing) = Some i \<and> matches_in_cluster ing i)"
    using Cons.IH[OF _ one(1) rest] Cons.prems(1) by auto
  have "\<exists>i. objs w' n (ing_Namespace ing, ing_Name ing) = Some i \<and> matches_in_cluster ing i" if "e = None"
    using that one(3) more(2,3) unfolding ingress_step_def by blast
  with one more nc show ?case by (auto intro: ingress_step_trans)
qed (auto simp: ingress_step_refl)

lemma deleteIngressLoop_ok:
  assumes "set cs \<subseteq> set clients" "invar w" "deleteIngressLoop ing cs err w = (e, w')"
  shows "invar w' \<and> (\<forall>n k. (n \<notin> fst ` set cs \<or> k \<noteq> (ing_Namespace ing, ing_Name ing)) \<longrightarrow> objs w' n k = objs w n k)
    \<and> (\<forall>n. objs w n (ing_Namespace ing, ing_Name ing) = None \<longrightarrow> objs w' n (ing_Namespace ing, ing_Name ing) = None)
    \<and> (e = None \<longrightarrow> err = None \<and> (\<forall>n \<in> fst ` set cs. objs w' n (ing_Namespace ing, ing_Name ing) = None))"
  using assms
proof (induction cs arbitrary: err w)
  case (Cons nc cs)
  obtain n c where nc: "nc = (n, c)" by fastforce
  obtain eo w1 where del: "DeleteIngress c (ing_Namespace ing) (ing_Name ing) w = (eo, w1)" by fastforce
  have mem: "(n, c) \<in> set clients" using Cons.prems(1) nc by simp
  note d = delete_effect[OF mem Cons.prems(2) del]
  obtain err1 where rest: "deleteIngressLoop ing cs err1 w1 = (e, w')" "err1 = None \<longrightarrow> err = None \<and> (eo = None \<or> IsNotFound eo)"
    using Cons.prems(3) nc del by (cases eo) (auto split: if_splits)
  note IH = Cons.IH[OF _ conjunct1[OF d] rest(1)]
  have gone: "objs w1 n (ing_Namespace ing, ing_Name ing) = None" if "err1 = None"
  proof (cases eo)
    case (Some x)
    then show ?thesis using delete_not_found[OF mem Cons.prems(2) del[unfolded Some]] d rest(2) that by auto
  qed (use d in simp)
  have mono: "objs w1 m (ing_Namespace ing, ing_Name ing) = None" if "objs w m (ing_Namespace ing, ing_Name ing) = None" for m
    using d that by auto
  have frame: "objs w1 m k = objs w m k" if "m \<noteq> n \<or> k \<noteq> (ing_Namespace ing, ing_Name ing)" for m k
    using d that by auto
  show ?case using IH Cons.prems(1) gone mono frame rest(2) nc by auto
qed auto

end

section \<open>Properties\<close>

text \<open>
  C22. \<^verbatim>\<open>EnsureIngress\<close>: when it reports no error, every cluster has the ingress up to the annotation the in-cluster
  controller adds; in any case no other ingress changes, and without \<^verbatim>\<open>--force\<close> no existing ingress changes at all.  The list it
  returns names all clusters, also those where it failed.
\<close>

theorem ingress_ensured_in_all_clusters:
  assumes "clusters_api invar objs clients" "range_ok ord" "distinct (map fst clients)" "invar w"
    and "ing_Namespace ing \<noteq> ''''" "ing_Name ing \<noteq> ''''" "EnsureIngress ord ing clients force w = ((cl, e), w')"
  shows "(e = None \<longrightarrow> (\<forall>n \<in> fst ` set clients. \<exists>i. objs w' n (ing_Namespace ing, ing_Name ing) = Some i \<and> matches_in_cluster ing i))
    \<and> (\<forall>n k. k \<noteq> (ing_Namespace ing, ing_Name ing) \<longrightarrow> objs w' n k = objs w n k)
    \<and> (\<not> force \<longrightarrow> (\<forall>n k i. objs w n k = Some i \<longrightarrow> objs w' n k = Some i))
    \<and> set cl = fst ` set clients"
proof -
  note run = assms(7)[unfolded EnsureIngress_def] and same = set_range_entries[OF assms(2,3), of "''ensure ingress''"]
  from clusters_api.ensureIngressLoop_ok[OF assms(1) _ assms(4-6) run] ensureIngressLoop_clusters[OF run] same
  show ?thesis by (auto simp: ingress_step_def)
qed

text \<open>
  C23. \<^verbatim>\<open>DeleteIngress\<close>: when it reports no error the ingress is gone from every cluster; no other ingress changes in any case.
\<close>

theorem ingress_deleted_in_all_clusters:
  assumes "clusters_api invar objs clients" "range_ok ord" "distinct (map fst clients)" "invar w"
    and "ing_DeleteIngress ord ing clients w = (e, w')"
  shows "(e = None \<longrightarrow> (\<forall>n \<in> fst ` set clients. objs w' n (ing_Namespace ing, ing_Name ing) = None))
    \<and> (\<forall>n k. n \<notin> fst ` set clients \<or> k \<noteq> (ing_Namespace ing, ing_Name ing) \<longrightarrow> objs w' n k = objs w n k)"
proof -
  note run = assms(5)[unfolded ing_DeleteIngress_def] and same = set_range_entries[OF assms(2,3), of "''delete ingress''"]
  from clusters_api.deleteIngressLoop_ok[OF assms(1) _ assms(4) run] same show ?thesis by auto
qed


text \<open>
  C27. An ingress that \<^verbatim>\<open>UnmarshallAndApplyDefaults\<close> and then \<^verbatim>\<open>ApplyStaticIP\<close> accept has a namespace, the one asked for if one was,
  the multi-cluster class and a static address, the one asked for if one was; and applying the defaults again changes
  nothing.
\<close>

theorem ingress_defaults_applied:
  assumes "UnmarshallAndApplyDefaults unmarshall file namespace ing0 = (None, ing1)" "ApplyStaticIP ip ing1 = (None, ing2)"
  shows "ing_Namespace ing2 \<noteq> '''' \<and> (namespace \<noteq> '''' \<longrightarrow> ing_Namespace ing2 = namespace)
    \<and> IngressClass ing2 = GceMultiIngressClass \<and> StaticIPName ing2 \<noteq> '''' \<and> (ip \<noteq> '''' \<longrightarrow> StaticIPName ing2 = ip)
    \<and> UnmarshallAndApplyDefaults (\<lambda>f i. (None, ing2)) file namespace ing0 = (None, ing2) \<and> ApplyStaticIP ip ing2 = (None, ing2)"
proof -
  have keys: "StaticIPNameKey \<noteq> IngressClassKey" by (simp add: StaticIPNameKey_def IngressClassKey_def)
  have ann: "annotation (addAnnotation i k v) k' = (if k' = k then v else annotation i k')"
    "ing_Namespace (addAnnotation i k v) = ing_Namespace i" for i k v k'
    by (simp_all add: annotation_def addAnnotation_def ing_Annotations_def ing_Namespace_def AList.update_conv')
  have cls: "GceMultiIngressClass \<noteq> ''''" by (simp add: GceMultiIngressClass_def)
  have ns: "ing_Namespace (setNamespace i n) = n" for i n by (simp add: setNamespace_def ing_Namespace_def)
  have "ing_Namespace ing1 \<noteq> '''' \<and> (namespace \<noteq> '''' \<longrightarrow> ing_Namespace ing1 = namespace) \<and> IngressClass ing1 = GceMultiIngressClass"
    using assms(1) cls
    by (auto simp: UnmarshallAndApplyDefaults_def applyClass_def Let_def IngressClass_def ann ns defaultIngressNamespace_def
        split: prod.splits option.splits if_splits)
  with assms(2) keys have "ing_Namespace ing2 \<noteq> '''' \<and> (namespace \<noteq> '''' \<longrightarrow> ing_Namespace ing2 = namespace)
      \<and> IngressClass ing2 = GceMultiIngressClass \<and> StaticIPName ing2 \<noteq> '''' \<and> (ip \<noteq> '''' \<longrightarrow> StaticIPName ing2 = ip)"
    by (auto simp: ApplyStaticIP_def StaticIPName_def IngressClass_def ann split: if_splits)
  then show ?thesis using cls by (auto simp: UnmarshallAndApplyDefaults_def applyClass_def ApplyStaticIP_def Let_def)
qed

section \<open>Examples\<close>

lemma web_ingress_named [simp]: "ing_Namespace web_ingress = ''ns''" "ing_Name web_ingress = ''i''"
  by (simp_all add: web_ingress_def ing_Namespace_def ing_Name_def)

definition other_ingress :: Ingress where
  "other_ingress = web_ingress\<lparr>ing_Spec := (ing_Spec web_ingress)\<lparr>is_Backend := None\<rparr>\<rparr>"

lemma other_ingress_named [simp]: "ing_Namespace other_ingress = ''ns''" "ing_Name other_ingress = ''i''"
  by (simp_all add: other_ingress_def web_ingress_def ing_Namespace_def ing_Name_def)

lemma other_ingress_differs: "\<not> matches_in_cluster web_ingress other_ingress"
  by (simp add: ObjectMetaAndSpecEquivalent_def other_ingress_def web_ingress_def)

abbreviation two_clusters :: "FakeClusters KubeClient gomap" where
  "two_clusters \<equiv> map (\<lambda>n. (n, tracker_client n)) [''a'', ''b'']"

lemmas tracker_ops = tracker_client_def react_put_def react_Delete_def tracker_add_def tracker_Get_def filterByNamespaceAndName_def errNotFound_def

theorem ingress_ensured_in_all_clusters_witness:
  "\<exists>w' i. EnsureIngress in_order web_ingress two_clusters False (\<lambda>n. []) = (([''a'', ''b''], None), w')
     \<and> tracked w' ''b'' (''ns'', ''i'') = Some i \<and> matches_in_cluster web_ingress i"
proof -
  obtain cl w' where run: "EnsureIngress in_order web_ingress two_clusters False (\<lambda>n. []) = ((cl, None), w')" "cl = [''a'', ''b'']"
    by (simp add: EnsureIngress_def range_entries_def in_order_def List.map_filter_simps ensureIngressIn_def tracker_ops Let_def)
  have "tracker_invar (\<lambda>n. [])" by (simp add: tracker_invar_def)
  from ingress_ensured_in_all_clusters[OF trackers.clusters_api_axioms range_ok_in_order _ this _ _ run(1)] run
  show ?thesis by auto
qed

theorem ingress_deleted_in_all_clusters_witness:
  "\<exists>w'. ing_DeleteIngress in_order web_ingress two_clusters ((\<lambda>n. [])(''a'' := [web_ingress])) = (None, w')
     \<and> tracked w' ''a'' (''ns'', ''i'') = None"
proof -
  obtain w' where run: "ing_DeleteIngress in_order web_ingress two_clusters ((\<lambda>n. [])(''a'' := [web_ingress])) = (None, w')"
    by (simp add: ing_DeleteIngress_def range_entries_def in_order_def List.map_filter_simps tracker_ops)
  have "tracker_invar ((\<lambda>n. [])(''a'' := [web_ingress]))" by (simp add: tracker_invar_def)
  from ingress_deleted_in_all_clusters[OF trackers.clusters_api_axioms range_ok_in_order _ this run] run show ?thesis by auto
qed


theorem ingress_defaults_applied_witness:
  "\<exists>ing1 ing2. UnmarshallAndApplyDefaults (\<lambda>f i. (None, setNamespace web_ingress '''')) ''f'' '''' web_ingress = (None, ing1)
     \<and> ApplyStaticIP ''ip'' ing1 = (None, ing2) \<and> StaticIPName ing2 = ''ip''"
proof -
  obtain ing1 where run1: "UnmarshallAndApplyDefaults (\<lambda>f i. (None, setNamespace web_ingress '''')) ''f'' '''' web_ingress = (None, ing1)"
    "StaticIPName ing1 = ''''"
    by (simp add: UnmarshallAndApplyDefaults_def applyClass_def IngressClass_def StaticIPName_def annotation_def ing_Annotations_def
        setNamespace_def addAnnotation_def web_ingress_def ing_Namespace_def StaticIPNameKey_def IngressClassKey_def)
  then obtain ing2 where run2: "ApplyStaticIP ''ip'' ing1 = (None, ing2)" by (simp add: ApplyStaticIP_def)
  from ingress_defaults_applied[OF run1(1) run2] run1 run2 show ?thesis by auto
qed

end
