(* ===== verification/Cmd.thy ===== *)
theory Cmd
  imports LoadBalancerForce Validations Ingress
begin

text \<open>
  The commands of \<^verbatim>\<open>app/kubemci/cmd\<close>: their options, the checks on the arguments, and the functions that run them, composed from
  the syncers.  What lies outside the program is gathered in one record: running a program (\<^verbatim>\<open>gcloud\<close>, \<^verbatim>\<open>kubectl\<close>), reading the ingress
  file, making the client of a cluster, the cloud and the instance getter of a project, the passing of time, and the order of map iterations.
\<close>

section \<open>The surroundings of a command\<close>

record 'w Cloud =
  c_hcp :: "'w HealthCheckProvider"
  c_bsp :: "'w BackendServices"
  c_lbp :: "'w LoadBalancers"
  c_fwp :: "'w FirewallProvider"
  c_igp :: "string \<Rightarrow> string \<Rightarrow> 'w \<Rightarrow> (go_error + InstanceGroup) \<times> 'w"

record 'w CmdEnv =
  e_exec :: "string list \<Rightarrow> 'w \<Rightarrow> (go_error + string) \<times> 'w"
  e_unmarshall :: "string \<Rightarrow> Ingress \<Rightarrow> go_error option \<times> Ingress"
  e_clientset :: "string \<Rightarrow> string \<Rightarrow> go_error + 'w KubeClient"
  e_cloud :: "string \<Rightarrow> go_error + 'w Cloud"
  e_instances :: "string \<Rightarrow> go_error + 'w InstanceGetter"
  e_sleep :: "'w \<Rightarrow> 'w"
  e_tabwriter :: "string list list \<Rightarrow> string"
  e_ord :: range_order

definition zero_Ingress :: Ingress where
  "zero_Ingress = \<lparr>ing_ObjectMeta = \<lparr>om_Name = '''', om_Namespace = '''', om_Labels = [], om_Annotations = []\<rparr>,
     ing_Spec = \<lparr>is_Backend = None, is_TLS = NilSlice, is_Rules = NilSlice\<rparr>\<rparr>"

text \<open>\<^verbatim>\<open>cloudinterface.NewGCECloudInterface\<close> makes the client of a project; one object implements all provider interfaces.\<close>

definition newSyncer :: "'w CmdEnv \<Rightarrow> string \<Rightarrow> 'w KubeClient gomap \<Rightarrow> 'w Cloud \<Rightarrow> string \<Rightarrow> go_error + 'w LBSyncer" where
  "newSyncer env lbName clients cloud gcpProject =
     NewLoadBalancerSyncer lbName clients (c_hcp cloud) (c_bsp cloud) (c_lbp cloud) (c_fwp cloud) (c_igp cloud) (e_instances env gcpProject) (e_sleep env)"

definition GetProjectFromGCloud :: "(string list \<Rightarrow> 'w \<Rightarrow> (go_error + string) \<times> 'w) \<Rightarrow> 'w \<Rightarrow> (go_error + string) \<times> 'w" where
  "GetProjectFromGCloud ExecuteCommand w =
     (case ExecuteCommand [''gcloud'', ''config'', ''get-value'', ''project''] w of
        (Inl err, w1) \<Rightarrow> (Inl (Errorf ''error in fetching gcp project from gcloud: %s'' [AErr err]), w1)
      | (Inr project, w1) \<Rightarrow> (Inr project, w1))"

text \<open>The check all commands share: the project given, or the default project of \<^verbatim>\<open>gcloud\<close>.\<close>

definition noProject :: go_error where
  "noProject = Errorf ''unexpected cannot determine GCP project. Either set --gcp-project flag, or set a default project with gcloud such that gcloud config get-value project returns that'' []"

definition projectOrDefault :: "'w CmdEnv \<Rightarrow> go_error \<Rightarrow> string \<Rightarrow> 'w \<Rightarrow> (go_error + string) \<times> 'w" where
  "projectOrDefault env missing gcpProject w =
     (if gcpProject \<noteq> '''' then (Inr gcpProject, w)
      else (case GetProjectFromGCloud (e_exec env) w of
         (Inl err, w1) \<Rightarrow> (Inl missing, w1)
       | (Inr project, w1) \<Rightarrow> if project = '''' then (Inl missing, w1) else (Inr project, w1)))"

definition unexpectedArgs :: "string list \<Rightarrow> string \<Rightarrow> go_error" where
  "unexpectedArgs args expected = Errorf (''unexpected args: %v. Expected '' @ expected) (map AStr args)"

section \<open>create\<close>

record createOptions =
  co_IngressFilename :: string
  co_KubeconfigFilename :: string
  co_KubeContexts :: "string list"
  co_LBName :: string
  co_GCPProject :: string
  co_ForceUpdate :: bool
  co_Validate :: bool
  co_Namespace :: string
  co_StaticIPName :: string

definition validateCreateArgs :: "'w CmdEnv \<Rightarrow> createOptions \<Rightarrow> string list \<Rightarrow> 'w \<Rightarrow> (go_error option \<times> createOptions) \<times> 'w" where
  "validateCreateArgs env options args w =
     (if length args \<noteq> 1 then ((Some (unexpectedArgs args ''one arg as name of load balancer''), options), w)
      else if co_IngressFilename options = '''' then ((Some (Errorf ''unexpected missing argument ingress'' []), options), w)
      else (case projectOrDefault env noProject (co_GCPProject options) w of
         (Inl err, w1) \<Rightarrow> ((Some err, options), w1)
       | (Inr project, w1) \<Rightarrow>
           let options = options\<lparr>co_GCPProject := project\<rparr>
           in if co_KubeconfigFilename options = '''' then ((Some (Errorf ''unexpected missing argument kubeconfig'' []), options), w1)
              else ((None, options), w1)))"

definition createIngressAndLoadBalancer ::
    "'w CmdEnv \<Rightarrow> Ingress \<Rightarrow> 'w KubeClient gomap \<Rightarrow> createOptions \<Rightarrow> 'w Cloud \<Rightarrow> 'w \<Rightarrow> (go_error option \<times> 'w) outcome option" where
  "createIngressAndLoadBalancer env ing clients options cloud w =
     (case (if co_Validate options then Validate (e_ord env) clients ing w else (None, w)) of
        (Some err, w1) \<Rightarrow> Some (Returns (Some err, w1))
      | (None, w1) \<Rightarrow>
          (case EnsureIngress (e_ord env) ing clients (co_ForceUpdate options) w1 of
             ((clusters, Some err), w2) \<Rightarrow> Some (Returns (Some err, w2))
           | ((clusters, None), w2) \<Rightarrow>
               (case newSyncer env (co_LBName options) clients cloud (co_GCPProject options) of
                  Inl err \<Rightarrow> Some (Returns (Some err, w2))
                | Inr lbs \<Rightarrow> CreateLoadBalancer lbs (e_ord env) ing (co_ForceUpdate options) (co_Validate options) (slice_of clusters) w2)))"

definition runCreate :: "'w CmdEnv \<Rightarrow> createOptions \<Rightarrow> string list \<Rightarrow> 'w \<Rightarrow> (go_error option \<times> 'w) outcome option" where
  "runCreate env options0 args w =
     (case args of
        [] \<Rightarrow> Some Panics
      | lbName # _ \<Rightarrow>
          let options = options0\<lparr>co_LBName := lbName\<rparr>
          in (case UnmarshallAndApplyDefaults (e_unmarshall env) (co_IngressFilename options) (co_Namespace options) zero_Ingress of
                (Some err, ing) \<Rightarrow> Some (Returns (Some (Errorf ''error in unmarshalling the yaml file %s, err: %s''
                   [AStr (co_IngressFilename options), AErr err]), w))
              | (None, ing1) \<Rightarrow>
                  (case ApplyStaticIP (co_StaticIPName options) ing1 of
                     (Some err, ing) \<Rightarrow> Some (Returns (Some (Errorf ''error in verifying static IP for ingress %s, err: %s''
                        [AStr (co_IngressFilename options), AErr err]), w))
                   | (None, ing) \<Rightarrow>
                       (case e_cloud env (co_GCPProject options) of
                          Inl err \<Rightarrow> Some (Returns (Some (Errorf ''error in creating cloud interface: %s'' [AErr err]), w))
                        | Inr cloud \<Rightarrow>
                            (case GetClients (e_exec env) (e_clientset env) (co_KubeconfigFilename options) (co_KubeContexts options) w of
                               ((clients, Some err), w1) \<Rightarrow> Some (Returns (Some err, w1))
                             | ((clients, None), w1) \<Rightarrow> createIngressAndLoadBalancer env ing clients options cloud w1)))))"

section \<open>delete\<close>

record deleteOptions =
  do_IngressFilename :: string
  do_KubeconfigFilename :: string
  do_KubeContexts :: "string list"
  do_LBName :: string
  do_GCPProject :: string
  do_ForceDelete :: bool
  do_Namespace :: string

definition validateDeleteArgs :: "'w CmdEnv \<Rightarrow> deleteOptions \<Rightarrow> string list \<Rightarrow> 'w \<Rightarrow> (go_error option \<times> deleteOptions) \<times> 'w" where
  "validateDeleteArgs env options args w =
     (if length args \<noteq> 1 then ((Some (unexpectedArgs args ''one arg as name of load balancer''), options), w)
      else if do_IngressFilename options = '''' then ((Some (Errorf ''unexpected missing argument ingress'' []), options), w)
      else (case projectOrDefault env noProject (do_GCPProject options) w of
         (Inl err, w1) \<Rightarrow> ((Some err, options), w1)
       | (Inr project, w1) \<Rightarrow>
           let options = options\<lparr>do_GCPProject := project\<rparr>
           in if do_KubeconfigFilename options = '''' then ((Some (Errorf ''unexpected missing argument kubeconfig'' []), options), w1)
              else ((None, options), w1)))"

text \<open>The cloud resources first, then the ingresses in the clusters; with \<^verbatim>\<open>--force\<close> errors are collected.\<close>

definition deleteResources :: "'w CmdEnv \<Rightarrow> 'w LBSyncer \<Rightarrow> Ingress \<Rightarrow> 'w KubeClient gomap \<Rightarrow> bool \<Rightarrow> 'w \<Rightarrow> go_error option \<times> 'w" where
  "deleteResources env lbs ing clients forceDelete w =
     (case DeleteLoadBalancer lbs (e_ord env) ing forceDelete w of
        (delErr, w1) \<Rightarrow>
          if delErr \<noteq> None \<and> \<not> forceDelete then (delErr, w1)
          else (case ing_DeleteIngress (e_ord env) ing clients w1 of
             (isErr, w2) \<Rightarrow>
               if isErr \<noteq> None \<and> \<not> forceDelete then (isErr, w2)
               else (append_err (append_err None delErr) isErr, w2)))"

definition runDelete :: "'w CmdEnv \<Rightarrow> deleteOptions \<Rightarrow> string list \<Rightarrow> 'w \<Rightarrow> (go_error option \<times> 'w) outcome" where
  "runDelete env options0 args w =
     (case args of
        [] \<Rightarrow> Panics
      | lbName # _ \<Rightarrow>
          let options = options0\<lparr>do_LBName := lbName\<rparr>
          in (case UnmarshallAndApplyDefaults (e_unmarshall env) (do_IngressFilename options) (do_Namespace options) zero_Ingress of
                (Some err, ing) \<Rightarrow> Returns (Some (Errorf ''error in unmarshalling the yaml file %s, err: %s''
                   [AStr (do_IngressFilename options), AErr err]), w)
              | (None, ing) \<Rightarrow>
                  (case e_cloud env (do_GCPProject options) of
                     Inl err \<Rightarrow> Returns (Some (Errorf ''error in creating cloud interface: %s'' [AErr err]), w)
                   | Inr cloud \<Rightarrow>
                       (case GetClients (e_exec env) (e_clientset env) (do_KubeconfigFilename options) (do_KubeContexts options) w of
                          ((clients, Some err), w1) \<Rightarrow> Returns (Some err, w1)
                        | ((clients, None), w1) \<Rightarrow>
                            (case newSyncer env (do_LBName options) clients cloud (do_GCPProject options) of
                               Inl err \<Rightarrow> Returns (Some err, w1)
                             | Inr lbs \<Rightarrow> Returns (deleteResources env lbs ing clients (do_ForceDelete options) w1))))))"

section \<open>remove-clusters\<close>

record removeClustersOptions =
  ro_IngressFilename :: string
  ro_KubeconfigFilename :: string
  ro_KubeContexts :: "string list"
  ro_LBName :: string
  ro_GCPProject :: string
  ro_ForceUpdate :: bool
  ro_Namespace :: string

definition validateRemoveClustersArgs ::
    "'w CmdEnv \<Rightarrow> removeClustersOptions \<Rightarrow> string list \<Rightarrow> 'w \<Rightarrow> (go_error option \<times> removeClustersOptions) \<times> 'w" where
  "validateRemoveClustersArgs env options args w =
     (if length args \<noteq> 1 then ((Some (unexpectedArgs args ''one arg as name of load balancer''), options), w)
      else if ro_IngressFilename options = '''' then ((Some (Errorf ''unexpected missing argument ingress'' []), options), w)
      else (case projectOrDefault env noProject (ro_GCPProject options) w of
         (Inl err, w1) \<Rightarrow> ((Some err, options), w1)
       | (Inr project, w1) \<Rightarrow>
           let options = options\<lparr>ro_GCPProject := project\<rparr>
           in if ro_KubeconfigFilename options = '''' then ((Some (Errorf ''unexpected missing argument kubeconfig'' []), options), w1)
              else ((None, options), w1)))"

text \<open>The clusters named on the command line are both the clusters to remove and the clusters the syncer talks to.\<close>

definition removeResources ::
    "'w CmdEnv \<Rightarrow> 'w LBSyncer \<Rightarrow> Ingress \<Rightarrow> 'w KubeClient gomap \<Rightarrow> bool \<Rightarrow> 'w \<Rightarrow> (go_error option \<times> 'w) outcome option" where
  "removeResources env lbs ing clients forceUpdate w =
     (case lb_RemoveFromClusters lbs (e_ord env) ing clients forceUpdate w of
        None \<Rightarrow> None
      | Some Panics \<Rightarrow> Some Panics
      | Some (Returns (delErr, w1)) \<Rightarrow>
          if delErr \<noteq> None \<and> \<not> forceUpdate then Some (Returns (delErr, w1))
          else (case ing_DeleteIngress (e_ord env) ing clients w1 of
             (isErr, w2) \<Rightarrow> Some (Returns (append_err (append_err None delErr) isErr, w2))))"

definition runRemoveClusters :: "'w CmdEnv \<Rightarrow> removeClustersOptions \<Rightarrow> string list \<Rightarrow> 'w \<Rightarrow> (go_error option \<times> 'w) outcome option" where
  "runRemoveClusters env options0 args w =
     (case args of
        [] \<Rightarrow> Some Panics
      | lbName # _ \<Rightarrow>
          let options = options0\<lparr>ro_LBName := lbName\<rparr>
          in (case UnmarshallAndApplyDefaults (e_unmarshall env) (ro_IngressFilename options) (ro_Namespace options) zero_Ingress of
                (Some err, ing) \<Rightarrow> Some (Returns (Some (Errorf ''error in unmarshalling the yaml file %s, err: %s''
                   [AStr (ro_IngressFilename options), AErr err]), w))
              | (None, ing) \<Rightarrow>
                  (case e_cloud env (ro_GCPProject options) of
                     Inl err \<Rightarrow> Some (Returns (Some (Errorf ''error in creating cloud interface: %s'' [AErr err]), w))
                   | Inr cloud \<Rightarrow>
                       (case GetClients (e_exec env) (e_clientset env) (ro_KubeconfigFilename options) (ro_KubeContexts options) w of
                          ((clients, Some err), w1) \<Rightarrow> Some (Returns (Some err, w1))
                        | ((clients, None), w1) \<Rightarrow>
                            (case newSyncer env (ro_LBName options) clients cloud (ro_GCPProject options) of
                               Inl err \<Rightarrow> Some (Returns (Some err, w1))
                             | Inr lbs \<Rightarrow> removeResources env lbs ing clients (ro_ForceUpdate options) w1)))))"

section \<open>get-status, list and version\<close>

record getStatusOptions =
  go_LBName :: string
  go_GCPProject :: string

definition validateGetStatusArgs :: "'w CmdEnv \<Rightarrow> getStatusOptions \<Rightarrow> string list \<Rightarrow> 'w \<Rightarrow> (go_error option \<times> getStatusOptions) \<times> 'w" where
  "validateGetStatusArgs env options args w =
     (if length args \<noteq> 1 then ((Some (unexpectedArgs args ''one arg as name of load balancer''), options), w)
      else (case projectOrDefault env noProject (go_GCPProject options) w of
         (Inl err, w1) \<Rightarrow> ((Some err, options), w1)
       | (Inr project, w1) \<Rightarrow> ((None, options\<lparr>go_GCPProject := project\<rparr>), w1)))"

text \<open>The text is what the command prints.\<close>

definition runGetStatus :: "'w CmdEnv \<Rightarrow> getStatusOptions \<Rightarrow> string list \<Rightarrow> 'w \<Rightarrow> ((go_error + string) \<times> 'w) outcome" where
  "runGetStatus env options0 args w =
     (case args of
        [] \<Rightarrow> Panics
      | lbName # _ \<Rightarrow>
          (case e_cloud env (go_GCPProject options0) of
             Inl err \<Rightarrow> Returns (Inl (Errorf ''error in creating cloud interface: %s'' [AErr err]), w)
           | Inr cloud \<Rightarrow>
               (case newSyncer env lbName [] cloud (go_GCPProject options0) of
                  Inl err \<Rightarrow> Returns (Inl err, w)
                | Inr lbs \<Rightarrow>
                    (case PrintStatus lbs w of
                       ((status, Some err), w1) \<Rightarrow> Returns (Inl err, w1)
                     | ((status, None), w1) \<Rightarrow> Returns (Inr status, w1)))))"

record listOptions =
  lo_GCPProject :: string

definition noProjectList :: go_error where
  "noProjectList = Errorf ''unexpected cannot determine GCP project. Either set --gcp-project flag, or set a default project with gcloud such that 'gcloud config get-value project' returns that'' []"

definition validateListArgs :: "'w CmdEnv \<Rightarrow> listOptions \<Rightarrow> string list \<Rightarrow> 'w \<Rightarrow> (go_error option \<times> listOptions) \<times> 'w" where
  "validateListArgs env options args w =
     (case projectOrDefault env noProjectList (lo_GCPProject options) w of
        (Inl err, w1) \<Rightarrow> ((Some err, options), w1)
      | (Inr project, w1) \<Rightarrow>
          let options = options\<lparr>lo_GCPProject := project\<rparr>
          in if length args \<noteq> 0 then ((Some (unexpectedArgs args ''0 arguments''), options), w1) else ((None, options), w1))"

definition runList :: "'w CmdEnv \<Rightarrow> listOptions \<Rightarrow> 'w \<Rightarrow> (go_error + string) \<times> 'w" where
  "runList env options w =
     (case e_cloud env (lo_GCPProject options) of
        Inl err \<Rightarrow> (Inl (Errorf ''error in creating cloud interface: %s'' [AErr err]), w)
      | Inr cloud \<Rightarrow>
          (case newSyncer env '''' [] cloud (lo_GCPProject options) of
             Inl err \<Rightarrow> (Inl err, w)
           | Inr lbs \<Rightarrow>
               (case ListLoadBalancers (e_tabwriter env) lbs w of
                  ((balancers, Some err), w1) \<Rightarrow> (Inl err, w1)
                | ((balancers, None), w1) \<Rightarrow> (Inr balancers, w1))))"

definition clientVersion :: string where "clientVersion = ''0.4.0''"

definition validateVersionArgs :: "string list \<Rightarrow> go_error option" where
  "validateVersionArgs args = (if length args \<noteq> 0 then Some (unexpectedArgs args ''no arguments'') else None)"

definition runVersion :: "string list \<Rightarrow> go_error + string" where
  "runVersion args = Inr (''Client version: '' @ clientVersion)"

section \<open>The run functions of the commands\<close>

text \<open>What a command line ends with: the arguments are refused, the command reports an error, or it is done and has printed a text.\<close>

datatype cmd_result = Refused go_error | Failed go_error | Done string

definition after_run :: "string \<Rightarrow> (go_error option \<times> 'w) outcome \<Rightarrow> (cmd_result \<times> 'w) outcome" where
  "after_run text r = (case r of Panics \<Rightarrow> Panics | Returns (Some err, w) \<Rightarrow> Returns (Failed err, w) | Returns (None, w) \<Rightarrow> Returns (Done text, w))"

definition newCmdCreate :: "'w CmdEnv \<Rightarrow> createOptions \<Rightarrow> string list \<Rightarrow> 'w \<Rightarrow> (cmd_result \<times> 'w) outcome option" where
  "newCmdCreate env options args w =
     (case validateCreateArgs env options args w of
        ((Some err, options'), w1) \<Rightarrow> Some (Returns (Refused err, w1))
      | ((None, options'), w1) \<Rightarrow> map_option (after_run ''Success.'') (runCreate env options' args w1))"

definition newCmdDelete :: "'w CmdEnv \<Rightarrow> deleteOptions \<Rightarrow> string list \<Rightarrow> 'w \<Rightarrow> (cmd_result \<times> 'w) outcome" where
  "newCmdDelete env options args w =
     (case validateDeleteArgs env options args w of
        ((Some err, options'), w1) \<Rightarrow> Returns (Refused err, w1)
      | ((None, options'), w1) \<Rightarrow> after_run '''' (runDelete env options' args w1))"

definition newCmdRemoveClusters :: "'w CmdEnv \<Rightarrow> removeClustersOptions \<Rightarrow> string list \<Rightarrow> 'w \<Rightarrow> (cmd_result \<times> 'w) outcome option" where
  "newCmdRemoveClusters env options args w =
     (case validateRemoveClustersArgs env options args w of
        ((Some err, options'), w1) \<Rightarrow> Some (Returns (Refused err, w1))
      | ((None, options'), w1) \<Rightarrow> map_option (after_run '''') (runRemoveClusters env options' args w1))"

definition newCmdGetStatus :: "'w CmdEnv \<Rightarrow> getStatusOptions \<Rightarrow> string list \<Rightarrow> 'w \<Rightarrow> (cmd_result \<times> 'w) outcome" where
  "newCmdGetStatus env options args w =
     (case validateGetStatusArgs env options args w of
        ((Some err, options'), w1) \<Rightarrow> Returns (Refused err, w1)
      | ((None, options'), w1) \<Rightarrow>
          (case runGetStatus env options' args w1 of
             Panics \<Rightarrow> Panics
           | Returns (Inl err, w2) \<Rightarrow> Returns (Failed err, w2)
           | Returns (Inr text, w2) \<Rightarrow> Returns (Done text, w2)))"

definition newCmdList :: "'w CmdEnv \<Rightarrow> listOptions \<Rightarrow> string list \<Rightarrow> 'w \<Rightarrow> cmd_result \<times> 'w" where
  "newCmdList env options args w =
     (case validateListArgs env options args w of
        ((Some err, options'), w1) \<Rightarrow> (Refused err, w1)
      | ((None, options'), w1) \<Rightarrow>
          (case runList env options' w1 of
             (Inl err, w2) \<Rightarrow> (Failed err, w2)
           | (Inr text, w2) \<Rightarrow> (Done text, w2)))"

definition newCmdGetVersion :: "string list \<Rightarrow> cmd_result" where
  "newCmdGetVersion args =
     (case validateVersionArgs args of
        Some err \<Rightarrow> Refused err
      | None \<Rightarrow> (case runVersion args of Inl err \<Rightarrow> Failed err | Inr text \<Rightarrow> Done text))"

end
