(* ===== verification/Reach.thy ===== *)
theory Reach
  imports Cmd
begin

text \<open>
  What the commands can do to a project, whatever their options and whether they fail or not: the objects of the project
  kubemci did not name are never touched.
\<close>

section \<open>Names\<close>

definition foreign :: "Namer \<Rightarrow> cell \<Rightarrow> bool" where
  "foreign s c \<longleftrightarrow> \<not> HasPrefix (snd c) (namer_prefix s @ ''-'')"

lemma decorateName_prefix: "length (namer_prefix s) \<le> 50 \<Longrightarrow> HasPrefix (decorateName s (namer_prefix s @ ''-'' @ x)) (namer_prefix s @ ''-'')"
  using take_decorateName[of s "Suc (length (namer_prefix s))" "namer_prefix s @ ''-'' @ x"]
  by (cases "namer_lbName s = ''''") (simp_all add: HasPrefix_def decorateName_def)

lemma names_not_foreign:
  assumes "length (namer_prefix s) \<le> 50"
  shows "\<not> foreign s (k, HTTPForwardingRuleName s)" "\<not> foreign s (k, HTTPSForwardingRuleName s)" "\<not> foreign s (k, URLMapName s)"
    "\<not> foreign s (k, TargetHTTPProxyName s)" "\<not> foreign s (k, TargetHTTPSProxyName s)" "\<not> foreign s (k, SSLCertName s)"
    "\<not> foreign s (k, FirewallRuleName s)" "\<not> foreign s (k, HealthCheckName s p)" "\<not> foreign s (k, BeServiceName s p)"
  using decorateName_prefix[OF assms] by (simp_all add: foreign_def name_defs kind_name_def port_name_def)

text \<open>
  A firewall is stored under its own name.  This is what makes \<^verbatim>\<open>RemoveFromClusters\<close> write back the firewall it has read.
\<close>

definition fw_named :: "project \<Rightarrow> bool" where
  "fw_named p \<longleftrightarrow> (\<forall>n f. p (KFirewall, n) = Some (RFirewall f) \<longrightarrow> fw_Name f = n)"

text \<open>What an operation of the load balancer may do: keep the foreign objects, and keep the names right.\<close>

definition lb_change :: "Namer \<Rightarrow> project \<Rightarrow> project \<Rightarrow> bool" where
  "lb_change s p q \<longleftrightarrow> fw_named p \<longrightarrow> fw_named q \<and> (\<forall>c. foreign s c \<longrightarrow> q c = p c)"

lemma lb_change_refl [simp]: "lb_change s p p"
  by (simp add: lb_change_def)

lemma lb_change_trans [trans]: "lb_change s p q \<Longrightarrow> lb_change s q r \<Longrightarrow> lb_change s p r"
  by (simp add: lb_change_def)

text \<open>An operation that touches only cells of the load balancer, none of them a firewall.\<close>

lemma lb_changeI:
  assumes "\<And>c. c \<notin> A \<Longrightarrow> q c = p c" "\<And>c. c \<in> A \<Longrightarrow> \<not> foreign s c \<and> fst c \<noteq> KFirewall"
  shows "lb_change s p q"
  unfolding lb_change_def fw_named_def using assms by (metis fst_conv)

lemma lb_change_firewall:
  assumes "q = p \<or> (\<exists>r. fw_Name r = n \<and> q = p((KFirewall, n) \<mapsto> RFirewall r)) \<or> q = p((KFirewall, n) := None)" "\<not> foreign s (KFirewall, n)"
  shows "lb_change s p q"
  using assms by (auto simp: lb_change_def fw_named_def split: if_splits)

section \<open>The operations of the load balancer\<close>

context fw_api
begin

lemma EnsureFirewallRule_effect:
  assumes "steady_lookup view ig lookup" "EnsureFirewallRule s F ig ord lbName ports igLinks force w = Returns (e, w')"
  shows "view w' = view w \<or> (\<exists>r. fw_Name r = FirewallRuleName s \<and> view w' = (view w)((KFirewall, FirewallRuleName s) \<mapsto> RFirewall r))"
proof -
  obtain e1 where "ensureFirewallRule s F ig ord lbName ports igLinks force w = Returns (e1, w')"
    using assms(2) by (auto simp: EnsureFirewallRule_def split: outcome.splits option.splits)
  then show ?thesis
  proof (cases rule: ensureFirewallRule_cases)
    case (undesired err)
    then show ?thesis using desiredFirewallRule_ok(1)[OF assms(1) undesired(1)] by simp
  next
    case (create d w1 err w2)
    from fw.create_effect[OF create(3)] desiredFirewallRule_ok(1)[OF assms(1) create(1)] desiredFirewallRule_ok(2)[OF assms(1) create(1) refl]
      fw.get_view[OF create(2)] show ?thesis by (auto simp: fw_stored_def)
  next
    case (same d w1 ex)
    then show ?thesis using desiredFirewallRule_ok(1)[OF assms(1) same(1)] fw.get_view[OF same(2)] by simp
  next
    case (refused d w1 ex)
    then show ?thesis using desiredFirewallRule_ok(1)[OF assms(1) refused(1)] fw.get_view[OF refused(2)] by simp
  next
    case (update d w1 ex w2)
    from fw.update_effect[OF update(4)] desiredFirewallRule_ok(1)[OF assms(1) update(1)] desiredFirewallRule_ok(2)[OF assms(1) update(1) refl]
      fw.get_view[OF update(2)] show ?thesis by (auto simp: fw_stored_def)
  qed
qed

lemma DeleteFirewallRules_cases:
  "DeleteFirewallRules s F w = (e, w') \<Longrightarrow> view w' = view w \<or> view w' = (view w)((KFirewall, FirewallRuleName s) := None)"
  by (auto simp: DeleteFirewallRules_def dest!: fw.delete_effect split: prod.splits option.splits if_splits)

lemma fw_RemoveFromClusters_effect:
  assumes "steady_lookup view ig lookup" "fw_RemoveFromClusters s F ig ord lbName igs w = Returns (e, w')" "fw_named (view w)"
  shows "view w' = view w \<or> (\<exists>r. fw_Name r = FirewallRuleName s \<and> view w' = (view w)((KFirewall, FirewallRuleName s) \<mapsto> RFirewall r))"
proof -
  obtain e1 where run: "fw_removeFromClusters s F ig ord lbName igs w = Returns (e1, w')"
    using assms(2) by (auto simp: fw_RemoveFromClusters_def split: outcome.splits option.splits)
  obtain x w1 where get: "GetFirewall F (FirewallRuleName s) w = (x, w1)" by fastforce
  note v1 = fw.get_view[OF get]
  show ?thesis
  proof (cases x)
    case (Inl err)
    with run get v1 show ?thesis by (auto simp: fw_removeFromClusters_def Let_def)
  next
    case (Inr old)
    have named: "fw_Name old = FirewallRuleName s" using fw.get_value[OF get[unfolded Inr]] assms(3) by (simp add: fw_named_def)
    from run get Inr obtain y w2 where des: "desiredFirewallRuleWithoutClusters ig ord old igs w1 = Returns (y, w2)"
      by (auto simp: fw_removeFromClusters_def Let_def split: outcome.splits)
    have v2: "view w2 = view w1"
      using des getInstances_ok(1)[OF assms(1)] by (auto simp: desiredFirewallRuleWithoutClusters_def split: outcome.splits prod.splits sum.splits)
    show ?thesis
    proof (cases y)
      case (Inl err)
      with run get Inr des v1 v2 show ?thesis by (auto simp: fw_removeFromClusters_def Let_def \<open>x = Inr old\<close>)
    next
      case (Inr d)
      have "fw_Name d = fw_Name old"
        using des Inr by (auto simp: desiredFirewallRuleWithoutClusters_def Let_def split: outcome.splits prod.splits sum.splits)
      moreover obtain eo where "UpdateFirewall F d w2 = (eo, w')"
        using run get des Inr \<open>x = Inr old\<close> by (auto simp: fw_removeFromClusters_def updateFirewallRule_def Let_def split: prod.splits option.splits)
      ultimately show ?thesis using fw.update_effect[of d w2 eo w'] named v1 v2 by (auto simp: fw_stored_def)
    qed
  qed
qed

end

context lb_env
begin

lemma configureHTTP_frame:
  assumes "configureHTTP l ip um force err w = (e, w')" "c \<notin> http_cells (l_namer l)"
  shows "view w' c = view w c"
proof -
  obtain x w1 e2 link where tp: "ensureHTTPProxy (l_namer l) (l_cloud l) (l_lbName l) um force w = (x, w1)"
    and fr: "ensureForwardingRule (l_cloud l) (l_lbName l) ip link httpDefaultPortRange ''http'' (HTTPForwardingRuleName (l_namer l)) force w1 = (e2, w')"
    using assms(1)
    by (auto simp: configureHTTP_def EnsureHTTPTargetProxy_def EnsureHTTPForwardingRule_def wrap_proxy_error_def split: prod.splits sum.splits)
  from ensureHTTPProxy_frame[OF tp, of c] ensureForwardingRule_frame[OF fr, of c] assms(2) show ?thesis by (simp add: http_cells_def)
qed

lemma configureHTTPS_frame:
  assumes "configureHTTPS l ing client ip um force err w = (e, w')" "outside view client" "c \<notin> https_cells (l_namer l)"
  shows "view w' c = view w c"
proof -
  obtain k w1 x w2 e2 link cert where sc: "EnsureSSLCert (l_namer l) (l_cloud l) (l_lbName l) ing client force w = (k, w1)"
    and tp: "ensureHTTPSProxy (l_namer l) (l_cloud l) (l_lbName l) um cert force w1 = (x, w2)"
    and fr: "ensureForwardingRule (l_cloud l) (l_lbName l) ip link httpsDefaultPortRange ''https'' (HTTPSForwardingRuleName (l_namer l)) force w2 = (e2, w')"
    using assms(1)
    by (auto simp: configureHTTPS_def EnsureHTTPSTargetProxy_def EnsureHTTPSForwardingRule_def wrap_proxy_error_def split: prod.splits sum.splits)
  from EnsureSSLCert_frame[OF assms(2) sc, of c] ensureHTTPSProxy_frame[OF tp, of c] ensureForwardingRule_frame[OF fr, of c] assms(3)
  show ?thesis by (simp add: https_cells_def)
qed

lemma createResources_change:
  assumes "createResources l ord ing force clusters client ports ip hcs igs nps err w = Returns (e, w')" "outside view client"
    and "length (namer_prefix (l_namer l)) \<le> 50"
  shows "lb_change (l_namer l) (view w) (view w')"
proof (rule createResources_split[OF assms(1)])
  let ?s = "l_namer l"
  note mine = names_not_foreign[OF assms(3)]
  fix bes beErr w1 um w2 err0 err1 w3 err2 w4 fwErr
  assume be: "EnsureBackendService ?s (l_bsp l) (l_lbName l) ports hcs nps (flat_igs ord igs) force w = Returns ((bes, beErr), w1)"
    and um: "EnsureURLMap ?s (l_cloud l) ord (l_lbName l) ip clusters ing bes force w1 = Returns (um, w2)"
    and http: "(if AllowHTTP ing then configureHTTP l ip (link_of um) force err0 w2 else (err0, w2)) = (err1, w3)"
    and https: "(if wants_https ing then configureHTTPS l ing client ip (link_of um) force err1 w3 else (err1, w3)) = (err2, w4)"
    and fw: "EnsureFirewallRule ?s (l_fwp l) (l_ig l) ord (l_lbName l) ports igs force w4 = Returns (fwErr, w')"
  have "lb_change ?s (view w) (view w1)"
    using ensureBackendServiceLoop_frame[OF be[unfolded EnsureBackendService_def]] by (rule lb_changeI) (auto simp: mine)
  also have "lb_change ?s (view w1) (view w2)"
    using EnsureURLMap_frame[OF um] by (rule lb_changeI[of "{(KUrlMap, URLMapName ?s)}"]) (auto simp: mine)
  also have "lb_change ?s (view w2) (view w3)"
    by (rule lb_changeI[of "http_cells ?s"]) (use http configureHTTP_frame in \<open>auto simp: http_cells_def mine split: if_splits\<close>)
  also have "lb_change ?s (view w3) (view w4)"
    by (rule lb_changeI[of "https_cells ?s"])
      (use https configureHTTPS_frame[OF _ assms(2)] in \<open>auto simp: https_cells_def mine split: if_splits\<close>)
  also have "lb_change ?s (view w4) (view w')"
    using EnsureFirewallRule_effect[OF instances_steady fw] by (intro lb_change_firewall[of _ _ "FirewallRuleName ?s"]) (auto simp: mine)
  finally show ?thesis .
qed

lemma EnsureHealthCheck_change:
  assumes "EnsureHealthCheck (l_namer l) (l_hcp l) ord lbName ports (l_clients l) force w = (x, w')" "length (namer_prefix (l_namer l)) \<le> 50"
  shows "lb_change (l_namer l) (view w) (view w')"
proof -
  have out: "\<forall>c \<in> set (l_clients l). outside view (snd c)" using clients_outside by simp
  show ?thesis using ensureHealthCheckLoop_frame[OF assms(1)[unfolded EnsureHealthCheck_def] out]
    by (rule lb_changeI) (auto simp: names_not_foreign[OF assms(2)])
qed

lemma CreateLoadBalancer_change:
  assumes "CreateLoadBalancer l ord ing force validate clusters w = Some (Returns (e, w'))" "length (namer_prefix (l_namer l)) \<le> 50"
  shows "lb_change (l_namer l) (view w) (view w')"
  using assms(1)
proof (cases rule: CreateLoadBalancer_cases)
  case (run client ports ip w2 hcs hcErr w3 igs nps err w5)
  have "lb_change (l_namer l) (view w) (view w3)" using EnsureHealthCheck_change[OF run(3) assms(2)] run(2) by simp
  also have "lb_change (l_namer l) (view w3) (view w')"
    using run(5) createResources_change[OF _ run(1) assms(2)] unfolding run(4)[symmetric] by auto
  finally show ?thesis .
qed simp

lemma deletePortResources_change:
  assumes "deletePortResources l ord ing client err w = (e, w')" "outside view client" "length (namer_prefix (l_namer l)) \<le> 50"
  shows "lb_change (l_namer l) (view w) (view w')"
proof -
  obtain ports w1 e1 w2 e2 where run: "ingToNodePorts ord ing client w = (ports, w1)"
    "DeleteBackendServices (l_namer l) (l_bsp l) ports w1 = (e1, w2)" "DeleteHealthChecks (l_namer l) (l_hcp l) ports w2 = (e2, w')"
    using assms(1) by (auto simp: deletePortResources_def split: prod.splits)
  note mine = names_not_foreign[OF assms(3)]
  have "lb_change (l_namer l) (view w) (view w2)"
    using DeleteBackendServices_effect(1)[OF run(2)] unfolding ingToNodePorts_view[OF assms(2) run(1)] by (rule lb_changeI) (auto simp: mine)
  also have "lb_change (l_namer l) (view w2) (view w')"
    using DeleteHealthChecks_effect(1)[OF run(3)] by (rule lb_changeI) (auto simp: mine)
  finally show ?thesis .
qed

lemma DeleteLoadBalancer_change:
  assumes "DeleteLoadBalancer l ord ing force w = (e, w')" "length (namer_prefix (l_namer l)) \<le> 50"
  shows "lb_change (l_namer l) (view w) (view w')"
proof -
  let ?s = "l_namer l"
  note mine = names_not_foreign[OF assms(2)]
  obtain e1 w1 e2 w2 e3 w3 e4 w4 e5 w5 where steps: "DeleteFirewallRules ?s (l_fwp l) w = (e1, w1)"
    "DeleteForwardingRules ?s (l_cloud l) w1 = (e2, w2)" "DeleteTargetProxies ?s (l_cloud l) w2 = (e3, w3)"
    "DeleteSSLCert ?s (l_cloud l) w3 = (e4, w4)" "um_DeleteURLMap ?s (l_cloud l) w4 = (e5, w5)"
    by (metis surj_pair)
  have "lb_change ?s (view w) (view w1)"
    using DeleteFirewallRules_cases[OF steps(1)] by (intro lb_change_firewall[of _ _ "FirewallRuleName ?s"]) (auto simp: mine)
  also have "lb_change ?s (view w1) (view w2)"
    using DeleteForwardingRules_frame[OF steps(2)]
    by (rule lb_changeI[of "{(KForwardingRule, HTTPForwardingRuleName ?s), (KForwardingRule, HTTPSForwardingRuleName ?s)}"]) (auto simp: mine)
  also have "lb_change ?s (view w2) (view w3)"
    using DeleteTargetProxies_effect(2)[OF steps(3)]
    by (rule lb_changeI[of "{(KTargetHttpProxy, TargetHTTPProxyName ?s), (KTargetHttpsProxy, TargetHTTPSProxyName ?s)}"]) (auto simp: mine)
  also have "lb_change ?s (view w3) (view w4)"
    using DeleteSSLCert_effect(2)[OF steps(4)] by (rule lb_changeI[of "{(KSslCertificate, SSLCertName ?s)}"]) (auto simp: mine)
  also have "lb_change ?s (view w4) (view w5)"
    using DeleteURLMap_effect(2)[OF steps(5)] by (rule lb_changeI[of "{(KUrlMap, URLMapName ?s)}"]) (auto simp: mine)
  finally have w5: "lb_change ?s (view w) (view w5)" .
  show ?thesis
  proof (cases "getAnyClient ord (l_clients l)")
    case (Inl cErr)
    with assms(1) steps w5 show ?thesis by (auto simp: DeleteLoadBalancer_def error_of_def Let_def split: if_splits)
  next
    case (Inr client)
    with assms(1) steps obtain err where "deletePortResources l ord ing client err w5 = (e, w')"
      by (auto simp: DeleteLoadBalancer_def error_of_def Let_def)
    from deletePortResources_change[OF this anyClient_outside[OF Inr] assms(2)] w5 show ?thesis by (blast intro: lb_change_trans)
  qed
qed

lemma removeFromResources_change:
  assumes "removeFromResources l ord ports igs err w = Returns (e, w')" "length (namer_prefix (l_namer l)) \<le> 50"
  shows "lb_change (l_namer l) (view w) (view w')"
proof -
  let ?s = "l_namer l"
  note mine = names_not_foreign[OF assms(2)]
  obtain e1 w1 e2 where run: "fw_RemoveFromClusters ?s (l_fwp l) (l_ig l) ord (l_lbName l) igs w = Returns (e1, w1)"
    "be_RemoveFromClusters ?s (l_bsp l) ports (flat_igs ord igs) w1 = (e2, w')"
    using assms(1) by (auto simp: removeFromResources_def split: outcome.splits prod.splits)
  have "lb_change ?s (view w) (view w1)"
  proof (cases "fw_named (view w)")
    case True
    with fw_RemoveFromClusters_effect[OF instances_steady run(1)] show ?thesis
      by (intro lb_change_firewall[of _ _ "FirewallRuleName ?s"]) (auto simp: mine)
  qed (simp add: lb_change_def)
  also have "lb_change ?s (view w1) (view w')"
    using removeFromClustersLoop_frame[OF run(2)[unfolded be_RemoveFromClusters_def]] by (rule lb_changeI) (auto simp: mine)
  finally show ?thesis .
qed

lemma removeClustersFromStatus_change:
  assumes "removeClustersFromStatus l lbName cs w = (e, w')" "length (namer_prefix (l_namer l)) \<le> 50"
  shows "lb_change (l_namer l) (view w) (view w')"
proof -
  obtain e1 w1 e2 where run: "fr_RemoveClustersFromStatus (l_namer l) (l_cloud l) cs w = (e1, w1)"
    "um_RemoveClustersFromStatus (l_namer l) (l_cloud l) cs w1 = (e2, w')"
    using assms(1) by (auto simp: removeClustersFromStatus_def split: prod.splits)
  show ?thesis
    using um_RemoveClusters_frame[OF run(2)] unfolding RemoveClusters_rules_view[OF run(1)]
    by (rule lb_changeI[of "{(KUrlMap, URLMapName (l_namer l))}"]) (auto simp: names_not_foreign[OF assms(2)])
qed

lemma RemoveFromClusters_cases:
  assumes "lb_RemoveFromClusters l ord ing removeClients force w = Some (Returns (e, w'))" "\<forall>c \<in> snd ` set removeClients. outside view c"
  obtains (early) "view w' = view w"
  | (run) w3 ports igs err w4 cs e2 where "view w3 = view w" "removeFromResources l ord ports igs None w3 = Returns (err, w4) \<or> w4 = w3"
      "removeClustersFromStatus l (l_lbName l) cs w4 = (e2, w')"
proof -
  obtain st w1 where st: "getLoadBalancerStatus l w = (st, w1)" by fastforce
  note v1 = getLoadBalancerStatus_view[OF refl st]
  show ?thesis
  proof (cases "(\<exists>e. st = Inl e) \<or> (\<exists>s. st = Inr s \<and> \<not> hasSomeRemainingClusters (elems (Clusters s)) removeClients \<and> \<not> force)
      \<or> (\<exists>e. getAnyClient ord (l_clients l) = Inl e)")
    case True
    with assms(1) st v1 show ?thesis by (intro early) (auto simp: lb_RemoveFromClusters_def split: if_splits sum.splits)
  next
    case False
    then obtain s client where ok: "st = Inr s" "\<not> (\<not> hasSomeRemainingClusters (elems (Clusters s)) removeClients \<and> \<not> force)"
      "getAnyClient ord (l_clients l) = Inr client" by (metis sum.exhaust)
    obtain ports w2 where ports: "ingToNodePorts ord ing client w1 = (ports, w2)" by fastforce
    note body = assms(1)[unfolded lb_RemoveFromClusters_def st ok(1) prod.case sum.case if_not_P[OF ok(2)] ok(3) ports Let_def]
    from body obtain igs igErr w3 where igs: "getIGs l ord ing removeClients w2 = Some ((igs, igErr), w3)"
      by (auto split: option.splits)
    have v3: "view w3 = view w"
      using getIGs_facts(1)[OF assms(2) igs] ingToNodePorts_view[OF anyClient_outside[OF ok(3)] ports] v1 by simp
    show ?thesis
      using body[unfolded igs] early run[OF v3 disjI1] run[OF v3 disjI2[OF refl]] v3 by (auto split: if_splits outcome.splits prod.splits)
  qed
qed

lemma RemoveFromClusters_change:
  assumes "lb_RemoveFromClusters l ord ing removeClients force w = Some (Returns (e, w'))" "length (namer_prefix (l_namer l)) \<le> 50"
    and "\<forall>c \<in> snd ` set removeClients. outside view c"
  shows "lb_change (l_namer l) (view w) (view w')"
  using assms(1,3)
proof (cases rule: RemoveFromClusters_cases)
  case (run w3 ports igs err w4 cs e2)
  have "lb_change (l_namer l) (view w) (view w4)"
    using run(2) removeFromResources_change[OF _ assms(2)] unfolding run(1)[symmetric] by auto
  also have "lb_change (l_namer l) (view w4) (view w')" using removeClustersFromStatus_change[OF run(3) assms(2)] .
  finally show ?thesis .
qed simp

end

section \<open>The clusters are outside the project\<close>

abbreviation all_outside :: "('w \<Rightarrow> 'v) \<Rightarrow> 'w KubeClient gomap \<Rightarrow> bool" where
  "all_outside view clients \<equiv> \<forall>c \<in> snd ` set clients. outside view c"

lemma all_outside_range: "all_outside view clients \<Longrightarrow> all_outside view (range_entries ord site clients)"
  using range_entries_subset[of ord site clients] by auto

lemma outside_calls:
  assumes "outside view c"
  shows "GetIngress c ns n w = (x, w') \<Longrightarrow> view w' = view w" "CreateIngress c ns i w = (y, w') \<Longrightarrow> view w' = view w"
    "UpdateIngress c ns i w = (y, w') \<Longrightarrow> view w' = view w" "DeleteIngress c ns n w = (y, w') \<Longrightarrow> view w' = view w"
    "ServerVersion c w = (z, w') \<Longrightarrow> view w' = view w" "GetServiceNodePort ord be ns c w = (p, w') \<Longrightarrow> view w' = view w"
  using assms GetServiceNodePort_view[OF assms, of ord be ns w] unfolding outside_def by (metis snd_conv)+

lemma EnsureIngress_view:
  assumes "all_outside view clients" "EnsureIngress ord ing clients force w = (x, w')"
  shows "view w' = view w"
proof -
  have "all_outside view cs \<Longrightarrow> ensureIngressLoop ing force cs acc err w = (x, w') \<Longrightarrow> view w' = view w" for cs acc err w
  proof (induction cs arbitrary: acc err w)
    case (Cons nc cs)
    obtain n c where nc: "nc = (n, c)" by fastforce
    obtain err1 w1 where st: "ensureIngressIn ing force n c err w = (err1, w1)" by fastforce
    have "view w1 = view w"
      using outside_calls[of view c] Cons.prems(1) nc by (cases rule: ensureIngressIn_cases[OF st]) auto
    with Cons nc st show ?case by simp
  qed simp
  from this[OF all_outside_range[OF assms(1)] assms(2)[unfolded EnsureIngress_def]] show ?thesis .
qed

lemma DeleteIngress_view:
  assumes "all_outside view clients" "ing_DeleteIngress ord ing clients w = (x, w')"
  shows "view w' = view w"
proof -
  have "all_outside view cs \<Longrightarrow> deleteIngressLoop ing cs err w = (x, w') \<Longrightarrow> view w' = view w" for cs err w
    by (induction cs arbitrary: err w) (auto dest!: outside_calls(4)[rotated] split: prod.splits option.splits if_splits)
  from this[OF all_outside_range[OF assms(1)] assms(2)[unfolded ing_DeleteIngress_def]] show ?thesis .
qed

lemma nodePorts_view:
  assumes "all_outside view clients" "nodePortSameInAllClusters ord be ns clients w = (x, w')"
  shows "view w' = view w"
proof -
  have "all_outside view cs \<Longrightarrow> nodePortLoop ord be ns cs p f w = (x, w') \<Longrightarrow> view w' = view w" for cs p f w
    by (induction cs arbitrary: p f w) (auto simp: Let_def dest!: outside_calls(6)[rotated] split: prod.splits sum.splits if_splits)
  from this[OF all_outside_range[OF assms(1)] assms(2)[unfolded nodePortSameInAllClusters_def]] show ?thesis .
qed

lemma checkRules_view:
  assumes "all_outside view clients" "checkRules ord ns clients rules err w = (x, w')"
  shows "view w' = view w"
proof -
  have paths: "checkPaths ord ns clients ps err w = (x, w') \<Longrightarrow> view w' = view w" for ps err w x w'
    by (induction ps arbitrary: err w) (auto dest!: nodePorts_view[OF assms(1)] split: prod.splits option.splits)
  from assms(2) show ?thesis
    by (induction rules arbitrary: err w) (auto dest!: paths split: prod.splits option.splits)
qed

lemma Validate_view:
  assumes "all_outside view clients" "Validate ord clients ing w = (x, w')"
  shows "view w' = view w"
proof -
  have "all_outside view cs \<Longrightarrow> versionsLoop cs w = (x, w') \<Longrightarrow> view w' = view w" for cs w x w'
    by (induction cs arbitrary: w) (auto dest!: outside_calls(5)[rotated] split: prod.splits sum.splits if_splits)
  note versions = this[OF all_outside_range[OF assms(1)]]
  from assms(2) show ?thesis
    by (auto simp: Validate_def serverVersionsNewEnough_def servicesNodePortsSame_def dest!: versions checkRules_view[OF assms(1)]
        nodePorts_view[OF assms(1)] split: prod.splits option.splits)
qed

section \<open>The surroundings of the commands\<close>

text \<open>
  Running \<^verbatim>\<open>gcloud\<close> and \<^verbatim>\<open>kubectl\<close> and the clusters do not touch the project; the cloud of a project and its instance getter make
  surroundings in which a syncer works.
\<close>

locale cmd_env =
  fixes view :: "'w \<Rightarrow> project"
    and env :: "'w CmdEnv"
    and lookup :: "string \<Rightarrow> go_error + Instance"
  assumes exec_view: "view (snd (e_exec env args w)) = view w"
    and clientset_outside: "e_clientset env kubeconfig context = Inr client \<Longrightarrow> outside view client"
    and syncer_env: "e_cloud env project = Inr cloud \<Longrightarrow> newSyncer env lbName [] cloud project = Inr l \<Longrightarrow> lb_env view l lookup"

lemma getClientsForContexts_clients:
  "getClientsForContexts getClientset kubeconfig cs m err = (clients, e) \<Longrightarrow> distinct (map fst m) \<Longrightarrow>
   distinct (map fst clients) \<and> snd ` set clients \<subseteq> snd ` set m \<union> {client. \<exists>c. getClientset kubeconfig c = Inr client}"
proof (induction cs arbitrary: m err)
  case (Cons c cs)
  show ?case
  proof (cases "getClientset kubeconfig c")
    case (Inr client)
    with Cons.IH[of "AList.update c client m" err] Cons.prems have "distinct (map fst clients)"
      and sub: "snd ` set clients \<subseteq> snd ` set (AList.update c client m) \<union> {client. \<exists>c. getClientset kubeconfig c = Inr client}"
      by (simp_all add: distinct_update)
    moreover have "client \<in> {client. \<exists>c. getClientset kubeconfig c = Inr client}" using Inr by blast
    ultimately show ?thesis using values_update[of c client m] by blast
  qed (use Cons in auto)
qed simp

lemma newSyncer_fields:
  "newSyncer env lbName clients cloud project = Inr l \<Longrightarrow> \<exists>l0. newSyncer env lbName [] cloud project = Inr l0 \<and> l = l0\<lparr>l_clients := clients\<rparr>"
  "newSyncer env lbName clients cloud project = Inr l \<Longrightarrow> l_namer l = NewNamer MciPrefix lbName \<and> l_clients l = clients \<and> l_lbName l = lbName"
  by (auto simp: newSyncer_def NewLoadBalancerSyncer_def split: sum.splits)

lemma lb_env_clients:
  assumes "lb_env view l lookup" "distinct (map fst clients)" "all_outside view clients"
  shows "lb_env view (l\<lparr>l_clients := clients\<rparr>) lookup"
  using assms(1) assms(2,3) unfolding lb_env_def by auto

context cmd_env
begin

lemma GetClients_facts:
  assumes "GetClients (e_exec env) (e_clientset env) kubeconfig contexts w = ((clients, e), w')"
  shows "view w' = view w" "distinct (map fst clients)" "all_outside view clients"
proof -
  show "view w' = view w"
    using assms exec_view by (auto simp: GetClients_def GetClusterContexts_def Let_def split: prod.splits sum.splits) (metis snd_conv)+
  obtain cs where "getClientsForContexts (e_clientset env) kubeconfig cs [] None = (clients, e) \<or> clients = []"
    using assms by (auto simp: GetClients_def split: prod.splits sum.splits)
  with getClientsForContexts_clients[of "e_clientset env" kubeconfig cs "[]" None clients e] clientset_outside
  show "distinct (map fst clients)" "all_outside view clients" by auto
qed

lemma newSyncer_env:
  assumes "e_cloud env project = Inr cloud" "newSyncer env lbName clients cloud project = Inr l"
    and "distinct (map fst clients)" "all_outside view clients"
  shows "lb_env view l lookup"
  using newSyncer_fields(1)[OF assms(2)] syncer_env[OF assms(1)] lb_env_clients[OF _ assms(3,4)] by blast

lemma projectOrDefault_view: "projectOrDefault env missing project w = (x, w') \<Longrightarrow> view w' = view w"
  using exec_view by (auto simp: projectOrDefault_def GetProjectFromGCloud_def split: if_splits prod.splits sum.splits) (metis snd_conv)+

lemma validate_args_view:
  "validateCreateArgs env co args w = (x, w') \<Longrightarrow> view w' = view w" "validateDeleteArgs env dop args w = (y, w') \<Longrightarrow> view w' = view w"
  "validateRemoveClustersArgs env ro args w = (z, w') \<Longrightarrow> view w' = view w" "validateGetStatusArgs env gop args w = (u, w') \<Longrightarrow> view w' = view w"
  "validateListArgs env lo args w = (v, w') \<Longrightarrow> view w' = view w"
  by (auto simp: validateCreateArgs_def validateDeleteArgs_def validateRemoveClustersArgs_def validateGetStatusArgs_def validateListArgs_def Let_def
      dest!: projectOrDefault_view split: if_splits prod.splits sum.splits)

end

text \<open>The namer of every syncer a command makes has the prefix \<^verbatim>\<open>mci1\<close>.\<close>

abbreviation mci_change :: "project \<Rightarrow> project \<Rightarrow> bool" where
  "mci_change \<equiv> lb_change (NewNamer MciPrefix '''')"

lemma lb_change_mci: "namer_prefix s = MciPrefix \<Longrightarrow> lb_change s p q = mci_change p q"
  by (simp add: lb_change_def foreign_def NewNamer_def)

context cmd_env
begin

lemma syncer_changes:
  assumes "e_cloud env project = Inr cloud" "newSyncer env lbName clients cloud project = Inr l" "distinct (map fst clients)" "all_outside view clients"
  shows "CreateLoadBalancer l ord ing force validate clusters w = Some (Returns (e, w')) \<Longrightarrow> mci_change (view w) (view w')"
    and "DeleteLoadBalancer l ord ing force w = (e, w') \<Longrightarrow> mci_change (view w) (view w')"
    and "lb_RemoveFromClusters l ord ing clients force w = Some (Returns (e, w')) \<Longrightarrow> mci_change (view w) (view w')"
proof -
  note env = newSyncer_env[OF assms]
  have namer: "namer_prefix (l_namer l) = MciPrefix" using newSyncer_fields(2)[OF assms(2)] by (simp add: NewNamer_def)
  then have len: "length (namer_prefix (l_namer l)) \<le> 50" by (simp add: MciPrefix_def)
  show "CreateLoadBalancer l ord ing force validate clusters w = Some (Returns (e, w')) \<Longrightarrow> mci_change (view w) (view w')"
    using lb_env.CreateLoadBalancer_change[OF env _ len] lb_change_mci[OF namer] by blast
  show "DeleteLoadBalancer l ord ing force w = (e, w') \<Longrightarrow> mci_change (view w) (view w')"
    using lb_env.DeleteLoadBalancer_change[OF env _ len] lb_change_mci[OF namer] by blast
  show "lb_RemoveFromClusters l ord ing clients force w = Some (Returns (e, w')) \<Longrightarrow> mci_change (view w) (view w')"
    using lb_env.RemoveFromClusters_change[OF env _ len assms(4)] lb_change_mci[OF namer] by blast
qed

lemma createIngressAndLoadBalancer_change:
  assumes "createIngressAndLoadBalancer env ing clients options cloud w = Some (Returns (e, w'))"
    and "e_cloud env (co_GCPProject options) = Inr cloud" "distinct (map fst clients)" "all_outside view clients"
  shows "mci_change (view w) (view w')"
proof -
  obtain ve w1 where v: "(if co_Validate options then Validate (e_ord env) clients ing w else (None, w)) = (ve, w1)" by fastforce
  obtain cl ie w2 where i: "EnsureIngress (e_ord env) ing clients (co_ForceUpdate options) w1 = ((cl, ie), w2)" by (metis surj_pair)
  have w1: "view w1 = view w" using v Validate_view[OF assms(4)] by (auto split: if_splits)
  have w2: "view w2 = view w1" using EnsureIngress_view[OF assms(4) i] .
  note body = assms(1)[unfolded createIngressAndLoadBalancer_def v i prod.case]
  show ?thesis
  proof (cases "w' = w1 \<or> w' = w2")
    case False
    with body obtain l where l: "newSyncer env (co_LBName options) clients cloud (co_GCPProject options) = Inr l"
      "CreateLoadBalancer l (e_ord env) ing (co_ForceUpdate options) (co_Validate options) (slice_of cl) w2 = Some (Returns (e, w'))"
      by (auto split: option.splits sum.splits)
    from syncer_changes(1)[OF assms(2) l(1) assms(3,4) l(2)] w1 w2 show ?thesis by simp
  qed (use w1 w2 in auto)
qed

lemma runCreate_change:
  assumes "runCreate env options args w = Some (Returns (e, w'))"
  shows "mci_change (view w) (view w')"
proof (cases "w' = w")
  case False
  then obtain lb ing cloud clients ce w1 where run: "e_cloud env (co_GCPProject options) = Inr cloud"
    "GetClients (e_exec env) (e_clientset env) (co_KubeconfigFilename options) (co_KubeContexts options) w = ((clients, ce), w1)"
    "w' = w1 \<or> createIngressAndLoadBalancer env ing clients (options\<lparr>co_LBName := lb\<rparr>) cloud w1 = Some (Returns (e, w'))"
    using assms by (auto simp: runCreate_def Let_def split: list.splits prod.splits option.splits sum.splits)
  note c = GetClients_facts[OF run(2)]
  show ?thesis using run(3) createIngressAndLoadBalancer_change[of ing clients "options\<lparr>co_LBName := lb\<rparr>" cloud w1 e w'] run(1) c by auto
qed simp

lemma runDelete_change:
  assumes "runDelete env options args w = Returns (e, w')"
  shows "mci_change (view w) (view w')"
proof (cases "w' = w")
  case False
  then obtain lb ing cloud clients ce w1 where run: "e_cloud env (do_GCPProject options) = Inr cloud"
    "GetClients (e_exec env) (e_clientset env) (do_KubeconfigFilename options) (do_KubeContexts options) w = ((clients, ce), w1)"
    "w' = w1 \<or> (\<exists>l. newSyncer env lb clients cloud (do_GCPProject options) = Inr l
       \<and> deleteResources env l ing clients (do_ForceDelete options) w1 = (e, w'))"
    using assms by (auto simp: runDelete_def Let_def split: list.splits prod.splits option.splits sum.splits) blast
  note c = GetClients_facts[OF run(2)]
  have "mci_change (view w1) (view w')" if l: "newSyncer env lb clients cloud (do_GCPProject options) = Inr l"
    and del: "deleteResources env l ing clients (do_ForceDelete options) w1 = (e, w')" for l
  proof -
    obtain de w2 where d: "DeleteLoadBalancer l (e_ord env) ing (do_ForceDelete options) w1 = (de, w2)" by fastforce
    have "view w' = view w2" using del d DeleteIngress_view[OF c(3)] by (auto simp: deleteResources_def split: prod.splits if_splits)
    with syncer_changes(2)[OF run(1) l c(2,3) d] show ?thesis by simp
  qed
  with run(3) c(1) show ?thesis by auto
qed simp

lemma runRemoveClusters_change:
  assumes "runRemoveClusters env options args w = Some (Returns (e, w'))"
  shows "mci_change (view w) (view w')"
proof (cases "w' = w")
  case False
  then obtain lb ing cloud clients ce w1 where run: "e_cloud env (ro_GCPProject options) = Inr cloud"
    "GetClients (e_exec env) (e_clientset env) (ro_KubeconfigFilename options) (ro_KubeContexts options) w = ((clients, ce), w1)"
    "w' = w1 \<or> (\<exists>l. newSyncer env lb clients cloud (ro_GCPProject options) = Inr l
       \<and> removeResources env l ing clients (ro_ForceUpdate options) w1 = Some (Returns (e, w')))"
    using assms by (auto simp: runRemoveClusters_def Let_def split: list.splits prod.splits option.splits sum.splits) blast
  note c = GetClients_facts[OF run(2)]
  have "mci_change (view w1) (view w')" if l: "newSyncer env lb clients cloud (ro_GCPProject options) = Inr l"
    and rem: "removeResources env l ing clients (ro_ForceUpdate options) w1 = Some (Returns (e, w'))" for l
  proof -
    obtain de w2 where d: "lb_RemoveFromClusters l (e_ord env) ing clients (ro_ForceUpdate options) w1 = Some (Returns (de, w2))" "view w' = view w2"
      using rem DeleteIngress_view[OF c(3)] by (auto simp: removeResources_def split: option.splits outcome.splits prod.splits if_splits)
    with syncer_changes(3)[OF run(1) l c(2,3) d(1)] show ?thesis by simp
  qed
  with run(3) c(1) show ?thesis by auto
qed simp

lemma runGetStatus_view: "runGetStatus env options args w = Returns (x, w') \<Longrightarrow> view w' = view w"
proof -
  assume run: "runGetStatus env options args w = Returns (x, w')"
  show ?thesis
  proof (cases "w' = w")
    case False
    then obtain lb cloud l st where l: "e_cloud env (go_GCPProject options) = Inr cloud" "newSyncer env lb [] cloud (go_GCPProject options) = Inr l"
      "getLoadBalancerStatus l w = (st, w')"
      using run by (auto simp: runGetStatus_def PrintStatus_def split: list.splits sum.splits prod.splits option.splits)
    then show ?thesis using lb_api.getLoadBalancerStatus_view[OF cloud_api.axioms(1)[OF lb_env.cloud[OF syncer_env[OF l(1,2)]]] refl l(3)] by simp
  qed simp
qed

lemma runList_view: "runList env options w = (x, w') \<Longrightarrow> view w' = view w"
proof -
  assume run: "runList env options w = (x, w')"
  show ?thesis
  proof (cases "w' = w")
    case False
    then obtain cloud l y where l: "e_cloud env (lo_GCPProject options) = Inr cloud" "newSyncer env '''' [] cloud (lo_GCPProject options) = Inr l"
      "ListLoadBalancers (e_tabwriter env) l w = (y, w')"
      using run by (auto simp: runList_def split: sum.splits prod.splits option.splits)
    have api: "lb_api view (l_cloud l)" using cloud_api.axioms(1)[OF lb_env.cloud[OF syncer_env[OF l(1,2)]]] .
    obtain a w1 b where list: "um_ListLoadBalancerStatuses (l_cloud l) w = (a, w1)" "fr_ListLoadBalancerStatuses (l_cloud l) w1 = (b, w')"
      using l(3) by (auto simp: ListLoadBalancers_def Let_def split: prod.splits if_splits)
    have "view w1 = view w" using list(1)
      by (auto simp: um_ListLoadBalancerStatuses_def dest!: lb_api.um_list_view[OF api] split: prod.splits sum.splits)
    moreover have "view w' = view w1" using list(2)
      by (auto simp: fr_ListLoadBalancerStatuses_def dest!: lb_api.fr_list_view[OF api] split: prod.splits sum.splits slice.splits)
    ultimately show ?thesis by simp
  qed simp
qed

end

section \<open>Runs of kubemci\<close>

text \<open>A step is one command line, with any options and arguments, that comes to an end.\<close>

inductive kubemci_step :: "'w CmdEnv \<Rightarrow> 'w \<Rightarrow> 'w \<Rightarrow> bool" for env where
  create: "newCmdCreate env co args w = Some (Returns (r, w')) \<Longrightarrow> kubemci_step env w w'"
| delete: "newCmdDelete env dop args w = Returns (r, w') \<Longrightarrow> kubemci_step env w w'"
| remove_clusters: "newCmdRemoveClusters env ro args w = Some (Returns (r, w')) \<Longrightarrow> kubemci_step env w w'"
| get_status: "newCmdGetStatus env gop args w = Returns (r, w') \<Longrightarrow> kubemci_step env w w'"
| list: "newCmdList env lo args w = (r, w') \<Longrightarrow> kubemci_step env w w'"

lemma after_run_Returns:
  "after_run text r = Returns (x, w) \<longleftrightarrow> (\<exists>e. r = Returns (e, w) \<and> x = (case e of None \<Rightarrow> Done text | Some err \<Rightarrow> Failed err))"
  by (auto simp: after_run_def split: outcome.splits option.splits prod.splits)

context cmd_env
begin

lemma kubemci_step_change: "kubemci_step env w w' \<Longrightarrow> mci_change (view w) (view w')"
proof (induction rule: kubemci_step.induct)
  case (create co args w r w')
  obtain e co' w1 where v: "validateCreateArgs env co args w = ((e, co'), w1)" by (metis surj_pair)
  then show ?case using create validate_args_view(1)[OF v] runCreate_change[of co' args w1]
    by (auto simp: newCmdCreate_def after_run_Returns split: option.splits outcome.splits prod.splits)
next
  case (delete dop args w r w')
  obtain e dop' w1 where v: "validateDeleteArgs env dop args w = ((e, dop'), w1)" by (metis surj_pair)
  then show ?case using delete validate_args_view(2)[OF v] runDelete_change[of dop' args w1]
    by (auto simp: newCmdDelete_def after_run_Returns split: option.splits outcome.splits prod.splits)
next
  case (remove_clusters ro args w r w')
  obtain e ro' w1 where v: "validateRemoveClustersArgs env ro args w = ((e, ro'), w1)" by (metis surj_pair)
  then show ?case using remove_clusters validate_args_view(3)[OF v] runRemoveClusters_change[of ro' args w1]
    by (auto simp: newCmdRemoveClusters_def after_run_Returns split: option.splits outcome.splits prod.splits)
next
  case (get_status gop args w r w')
  obtain e gop' w1 where v: "validateGetStatusArgs env gop args w = ((e, gop'), w1)" by (metis surj_pair)
  then show ?case using get_status validate_args_view(4)[OF v] runGetStatus_view[of gop' args w1]
    by (auto simp: newCmdGetStatus_def split: option.splits outcome.splits prod.splits sum.splits)
next
  case (list lo args w r w')
  obtain e lo' w1 where v: "validateListArgs env lo args w = ((e, lo'), w1)" by (metis surj_pair)
  then show ?case using list validate_args_view(5)[OF v] runList_view[of lo' w1]
    by (auto simp: newCmdList_def split: option.splits outcome.splits prod.splits sum.splits)
qed

lemma kubemci_run_change: "(kubemci_step env)\<^sup>*\<^sup>* w w' \<Longrightarrow> mci_change (view w) (view w')"
  by (induction rule: rtranclp_induct) (auto intro: lb_change_trans kubemci_step_change)

end

text \<open>
  No sequence of kubemci command lines, whatever their options, arguments and outcomes, touches an object of the project whose
  name does not begin with \<^verbatim>\<open>mci1-\<close>: it is neither created, changed nor deleted.  The hypothesis on firewalls says that the cloud files
  every firewall under its own name; the steps keep it.
\<close>

theorem foreign_objects_untouched:
  assumes "cmd_env view env lookup" "(kubemci_step env)\<^sup>*\<^sup>* w w'" "fw_named (view w)" "\<not> HasPrefix n ''mci1-''"
  shows "view w' (k, n) = view w (k, n) \<and> fw_named (view w')"
  using cmd_env.kubemci_run_change[OF assms(1,2)] assms(3,4) by (simp add: lb_change_def foreign_def NewNamer_def MciPrefix_def)

section \<open>The commands on the fakes\<close>

definition example_cloud :: "FakeCloud Cloud" where
  "example_cloud = \<lparr>c_hcp = fake_hc, c_bsp = fake_be, c_lbp = fake_lb, c_fwp = fake_fw,
     c_igp = (\<lambda>name zone w. (Inr (\<lparr>ig_NamedPorts = [np_example\<lparr>np_Port := 30301\<rparr>]\<rparr>), w))\<rparr>"

definition example_env :: "FakeCloud CmdEnv" where
  "example_env = \<lparr>e_exec = (\<lambda>args w. (Inr ''a'', w)), e_unmarshall = (\<lambda>file ing. (None, ready_ingress)),
     e_clientset = (\<lambda>kubeconfig context. Inr ready_client), e_cloud = (\<lambda>project. Inr example_cloud),
     e_instances = (\<lambda>project. Inr ig_example), e_sleep = id, e_tabwriter = concat \<circ> map concat, e_ord = in_order\<rparr>"

lemma example_syncer:
  "newSyncer example_env lbName clients example_cloud project =
     Inr ((lb_example ready_client)\<lparr>l_lbName := lbName, l_namer := NewNamer MciPrefix lbName, l_clients := clients\<rparr>)"
  by (simp add: newSyncer_def NewLoadBalancerSyncer_def example_env_def example_cloud_def lb_example_def)

interpretation example_cmd: cmd_env fake_view example_env "\<lambda>g. Inr (inst_example g)"
proof (rule cmd_env.intro)
  show "lb_env fake_view l (\<lambda>g. Inr (inst_example g))"
    if "e_cloud example_env project = Inr cloud" "newSyncer example_env lbName [] cloud project = Inr l" for project cloud lbName l
  proof -
    have "cloud = example_cloud" using that(1) by (simp add: example_env_def)
    with that(2) have l: "l = (lb_example ready_client)\<lparr>l_lbName := lbName, l_namer := NewNamer MciPrefix lbName, l_clients := []\<rparr>"
      by (simp add: example_syncer)
    from example.lb_env_axioms show ?thesis unfolding lb_env_def l by (simp del: fake_view.simps)
  qed
qed (simp_all add: example_env_def ready_client_outside del: fake_view.simps)

text \<open>A project with a load balancer \<^verbatim>\<open>lb\<close> and with a firewall that somebody else made.\<close>

definition shared_project :: FakeCloud where
  "shared_project = (cloud_example None)\<lparr>f_firewalls := [(''office'', zero_Firewall\<lparr>fw_Name := ''office''\<rparr>)]\<rparr>"

definition delete_options :: deleteOptions where
  "delete_options = \<lparr>do_IngressFilename = ''ing.yaml'', do_KubeconfigFilename = ''config'', do_KubeContexts = [], do_LBName = '''',
     do_GCPProject = ''p'', do_ForceDelete = True, do_Namespace = ''''\<rparr>"

theorem foreign_objects_untouched_witness:
  "\<exists>r f'. newCmdDelete example_env delete_options [''lb''] shared_project = Returns (r, f')
     \<and> fake_view f' (KFirewall, ''office'') = Some (RFirewall (zero_Firewall\<lparr>fw_Name := ''office''\<rparr>))"
proof -
  have "newCmdDelete example_env delete_options [''lb''] shared_project \<noteq> Panics"
    by (simp add: newCmdDelete_def validateDeleteArgs_def projectOrDefault_def delete_options_def runDelete_def after_run_def Let_def
        split: prod.splits option.splits sum.splits)
  then obtain r f' where run: "newCmdDelete example_env delete_options [''lb''] shared_project = Returns (r, f')"
    by (metis outcome.exhaust surj_pair)
  have "(kubemci_step example_env)\<^sup>*\<^sup>* shared_project f'" using kubemci_step.delete[OF run] by blast
  moreover have "fw_named (fake_view shared_project)" by (simp add: fw_named_def shared_project_def)
  moreover have "\<not> HasPrefix ''office'' ''mci1-''" by (simp add: HasPrefix_def)
  ultimately have "fake_view f' (KFirewall, ''office'') = fake_view shared_project (KFirewall, ''office'')"
    using foreign_objects_untouched[OF example_cmd.cmd_env_axioms] by blast
  with run show ?thesis by (simp add: shared_project_def)
qed

end
