(* ===== verification/Commands.thy ===== *)
theory Commands
  imports Reach
begin

text \<open>
  The commands end to end: what \<^verbatim>\<open>kubemci create\<close> and \<^verbatim>\<open>kubemci delete\<close> (\<^verbatim>\<open>app/kubemci/cmd\<close>) have done to the project when they report
  success, composed from the argument checks, the defaults of the ingress, the clients of the clusters and the load balancer syncer.
\<close>

section \<open>Node ports and names\<close>

text \<open>Node ports are distinct port numbers, as Kubernetes assigns them.\<close>

definition proper_ports :: "ServicePort list \<Rightarrow> bool" where
  "proper_ports ports \<longleftrightarrow> inj_on sp_NodePort (set ports) \<and> (\<forall>p \<in> set ports. 0 \<le> sp_NodePort p \<and> sp_NodePort p < 65536)"

lemma proper_ports_names:
  assumes "proper_ports ports" "length (namer_prefix s) \<le> 30"
  shows "inj_on (\<lambda>p. BeServiceName s (sp_NodePort p)) (set ports)" "inj_on (HealthCheckName s) (sp_NodePort ` set ports)"
proof -
  have "sp_NodePort p = sp_NodePort q" if "p \<in> set ports" "q \<in> set ports"
    "BeServiceName s (sp_NodePort p) = BeServiceName s (sp_NodePort q) \<or> HealthCheckName s (sp_NodePort p) = HealthCheckName s (sp_NodePort q)" for p q
    using that assms port_names_inj[OF assms(2), of "sp_NodePort p" "sp_NodePort q"] unfolding proper_ports_def by force
  then show "inj_on (\<lambda>p. BeServiceName s (sp_NodePort p)) (set ports)" "inj_on (HealthCheckName s) (sp_NodePort ` set ports)"
    using assms(1) unfolding proper_ports_def inj_on_def by blast+
qed

section \<open>What a command asks for\<close>

definition requested_ingress :: "'w CmdEnv \<Rightarrow> createOptions \<Rightarrow> Ingress \<Rightarrow> bool" where
  "requested_ingress env options ing \<longleftrightarrow>
     (\<exists>ing1. UnmarshallAndApplyDefaults (e_unmarshall env) (co_IngressFilename options) (co_Namespace options) zero_Ingress = (None, ing1)
        \<and> ApplyStaticIP (co_StaticIPName options) ing1 = (None, ing))"

definition deleted_ingress :: "'w CmdEnv \<Rightarrow> deleteOptions \<Rightarrow> Ingress \<Rightarrow> bool" where
  "deleted_ingress env options ing \<longleftrightarrow>
     UnmarshallAndApplyDefaults (e_unmarshall env) (do_IngressFilename options) (do_Namespace options) zero_Ingress = (None, ing)"

text \<open>Clients, one per cluster, made from the kubeconfig.\<close>

definition clients_of :: "'w CmdEnv \<Rightarrow> string \<Rightarrow> 'w KubeClient gomap \<Rightarrow> bool" where
  "clients_of env kubeconfig clients \<longleftrightarrow>
     distinct (map fst clients) \<and> (\<forall>x \<in> set clients. e_clientset env kubeconfig (fst x) = Inr (snd x))"

lemma set_update_subset: "set (AList.update k v m) \<subseteq> insert (k, v) (set m)"
  by (induction m) auto

lemma getClientsForContexts_made:
  "getClientsForContexts g kubeconfig cs m err = (clients, e) \<Longrightarrow> \<forall>x \<in> set m. g kubeconfig (fst x) = Inr (snd x) \<Longrightarrow>
   \<forall>x \<in> set clients. g kubeconfig (fst x) = Inr (snd x)"
proof (induction cs arbitrary: m err)
  case (Cons c cs)
  show ?case
  proof (cases "g kubeconfig c")
    case (Inr client)
    with Cons.prems have "\<forall>x \<in> set (AList.update c client m). g kubeconfig (fst x) = Inr (snd x)"
      using set_update_subset[of c client m] by auto
    with Cons.IH[of "AList.update c client m" err] Cons.prems(1) Inr show ?thesis by simp
  qed (use Cons in auto)
qed simp

text \<open>What neither running a program nor a call to a cluster changes, the preparation of a creation keeps.\<close>

definition untouched :: "'w CmdEnv \<Rightarrow> ('w \<Rightarrow> 'v) \<Rightarrow> bool" where
  "untouched env f \<longleftrightarrow> (\<forall>args w. f (snd (e_exec env args w)) = f w) \<and> (\<forall>kubeconfig c client. e_clientset env kubeconfig c = Inr client \<longrightarrow> outside f client)"

lemma untouched_args: "untouched env f \<Longrightarrow> validateCreateArgs env co args w = (x, w') \<Longrightarrow> f w' = f w"
  by (auto simp: untouched_def validateCreateArgs_def projectOrDefault_def GetProjectFromGCloud_def Let_def split: if_splits prod.splits sum.splits)
    (metis snd_conv)+

lemma untouched_clients: "untouched env f \<Longrightarrow> GetClients (e_exec env) (e_clientset env) kubeconfig contexts w = (x, w') \<Longrightarrow> f w' = f w"
  by (auto simp: untouched_def GetClients_def GetClusterContexts_def Let_def split: prod.splits sum.splits) (metis snd_conv)+

context cmd_env
begin

lemma GetClients_made:
  assumes "GetClients (e_exec env) (e_clientset env) kubeconfig contexts w = ((clients, e), w')"
  shows "clients_of env kubeconfig clients"
proof -
  obtain cs where "getClientsForContexts (e_clientset env) kubeconfig cs [] None = (clients, e) \<or> clients = []"
    using assms by (auto simp: GetClients_def split: prod.splits sum.splits)
  with getClientsForContexts_made[of "e_clientset env" kubeconfig cs "[]" None clients e] GetClients_facts(2)[OF assms]
  show ?thesis by (auto simp: clients_of_def)
qed

text \<open>A successful creation, taken apart: the syncer has been run for the ingress asked for, in an unchanged project.\<close>

lemma create_done:
  assumes "newCmdCreate env co [lbName] w = Some (Returns (Done t, w'))"
  obtains ing clients l force validate clusters w1 where "requested_ingress env co ing" "clients_of env (co_KubeconfigFilename co) clients"
    "lb_env view l lookup" "l_clients l = clients" "l_namer l = NewNamer MciPrefix lbName" "view w1 = view w"
    "CreateLoadBalancer l (e_ord env) ing force validate clusters w1 = Some (Returns (None, w'))" "l_lbName l = lbName"
    "\<exists>project cloud. e_cloud env project = Inr cloud \<and> l_cloud l = c_lbp cloud"
    "\<exists>v v'. EnsureIngress (e_ord env) ing clients force v = ((elems clusters, None), v')"
    "\<forall>f :: 'w \<Rightarrow> string \<Rightarrow> string option. untouched env f \<longrightarrow> f w1 = f w"
    "\<exists>v v'. GetClients (e_exec env) (e_clientset env) (co_KubeconfigFilename co) (co_KubeContexts co) v = ((clients, None), v')"
proof -
  obtain co' w0 where v: "validateCreateArgs env co [lbName] w = ((None, co'), w0)" "runCreate env co' [lbName] w0 = Some (Returns (None, w'))"
    using assms by (auto simp: newCmdCreate_def after_run_Returns split: option.splits outcome.splits prod.splits)
  have co': "co' = co\<lparr>co_GCPProject := co_GCPProject co'\<rparr>"
    using v(1) by (auto simp: validateCreateArgs_def Let_def split: if_splits prod.splits sum.splits)
  have same: "co_IngressFilename co' = co_IngressFilename co" "co_Namespace co' = co_Namespace co" "co_StaticIPName co' = co_StaticIPName co"
    "co_KubeconfigFilename co' = co_KubeconfigFilename co" "co_KubeContexts co' = co_KubeContexts co" by (subst co', simp)+
  let ?o = "co'\<lparr>co_LBName := lbName\<rparr>"
  obtain ing1 ing cloud clients w2 where run:
    "UnmarshallAndApplyDefaults (e_unmarshall env) (co_IngressFilename co) (co_Namespace co) zero_Ingress = (None, ing1)"
    "ApplyStaticIP (co_StaticIPName co) ing1 = (None, ing)" "e_cloud env (co_GCPProject co') = Inr cloud"
    "GetClients (e_exec env) (e_clientset env) (co_KubeconfigFilename co) (co_KubeContexts co) w0 = ((clients, None), w2)"
    "createIngressAndLoadBalancer env ing clients ?o cloud w2 = Some (Returns (None, w'))"
    using v(2) by (auto simp: runCreate_def Let_def same split: prod.splits option.splits sum.splits)
  note c = GetClients_facts[OF run(4)]
  obtain w3 cl w4 l where steps: "(if co_Validate ?o then Validate (e_ord env) clients ing w2 else (None, w2)) = (None, w3)"
    "EnsureIngress (e_ord env) ing clients (co_ForceUpdate ?o) w3 = ((cl, None), w4)" "newSyncer env lbName clients cloud (co_GCPProject co') = Inr l"
    "CreateLoadBalancer l (e_ord env) ing (co_ForceUpdate ?o) (co_Validate ?o) (slice_of cl) w4 = Some (Returns (None, w'))"
    using run(5) unfolding createIngressAndLoadBalancer_def by (auto split: prod.splits option.splits sum.splits)
  have "view w3 = view w2" using steps(1) Validate_view[OF c(3)] by (auto split: if_splits)
  with EnsureIngress_view[OF c(3) steps(2)] c(1) validate_args_view(1)[OF v(1)] have "view w4 = view w" by simp
  moreover have "requested_ingress env co ing" using run(1,2) by (auto simp: requested_ingress_def)
  moreover have "l_cloud l = c_lbp cloud" using steps(3) by (auto simp: newSyncer_def NewLoadBalancerSyncer_def split: sum.splits)
  moreover have "elems (slice_of cl) = cl" by (simp add: slice_of_def)
  moreover have "f w4 = f w" if f: "untouched env f" for f :: "'w \<Rightarrow> string \<Rightarrow> string option"
  proof -
    have out: "all_outside f clients" using GetClients_made[OF run(4)] f by (auto simp: clients_of_def untouched_def)
    have "f w3 = f w2" using steps(1) Validate_view[OF out] by (auto split: if_splits)
    then show ?thesis using EnsureIngress_view[OF out steps(2)] untouched_args[OF f v(1)] untouched_clients[OF f run(4)] by simp
  qed
  ultimately show ?thesis
    using that[OF _ GetClients_made[OF run(4)] newSyncer_env[OF run(3) steps(3) c(2,3)] _ _ _ steps(4)] newSyncer_fields(2)[OF steps(3)] run(3,4) steps(2) by auto
qed

lemma delete_done:
  assumes "newCmdDelete env dop [lbName] w = Returns (Done t, w')"
  obtains ing clients l force w1 w2 where "deleted_ingress env dop ing" "clients_of env (do_KubeconfigFilename dop) clients"
    "lb_env view l lookup" "l_clients l = clients" "l_namer l = NewNamer MciPrefix lbName" "view w1 = view w"
    "DeleteLoadBalancer l (e_ord env) ing force w1 = (None, w2)" "view w' = view w2"
proof -
  obtain dop' w0 where v: "validateDeleteArgs env dop [lbName] w = ((None, dop'), w0)" "runDelete env dop' [lbName] w0 = Returns (None, w')"
    using assms by (auto simp: newCmdDelete_def after_run_Returns split: option.splits outcome.splits prod.splits)
  have dop': "dop' = dop\<lparr>do_GCPProject := do_GCPProject dop'\<rparr>"
    using v(1) by (auto simp: validateDeleteArgs_def Let_def split: if_splits prod.splits sum.splits)
  have same: "do_IngressFilename dop' = do_IngressFilename dop" "do_Namespace dop' = do_Namespace dop"
    "do_KubeconfigFilename dop' = do_KubeconfigFilename dop" by (subst dop', simp)+
  let ?force = "do_ForceDelete dop'"
  obtain ing cloud clients w1 l where run:
    "UnmarshallAndApplyDefaults (e_unmarshall env) (do_IngressFilename dop) (do_Namespace dop) zero_Ingress = (None, ing)"
    "e_cloud env (do_GCPProject dop') = Inr cloud"
    "GetClients (e_exec env) (e_clientset env) (do_KubeconfigFilename dop) (do_KubeContexts dop') w0 = ((clients, None), w1)"
    "newSyncer env lbName clients cloud (do_GCPProject dop') = Inr l" "deleteResources env l ing clients ?force w1 = (None, w')"
    using v(2) by (auto simp: runDelete_def Let_def same split: prod.splits option.splits sum.splits)
  note c = GetClients_facts[OF run(3)]
  obtain de w2 ie where d: "DeleteLoadBalancer l (e_ord env) ing ?force w1 = (de, w2)" "ing_DeleteIngress (e_ord env) ing clients w2 = (ie, w')" "de = None"
    using run(5) by (auto simp: deleteResources_def split: prod.splits if_splits)
  moreover have "view w1 = view w" using c(1) validate_args_view(2)[OF v(1)] by simp
  moreover have "deleted_ingress env dop ing" using run(1) by (simp add: deleted_ingress_def)
  ultimately show ?thesis
    using that GetClients_made[OF run(3)] newSyncer_env[OF run(2,4) c(2,3)] newSyncer_fields(2)[OF run(4)] DeleteIngress_view[OF c(3) d(2)] by blast
qed

end

section \<open>Properties\<close>

lemma anyClient_of:
  assumes "clients_of env kubeconfig clients" "range_ok ord" "getAnyClient ord clients = Inr client"
  shows "client \<in> snd ` set clients" "\<exists>c. e_clientset env kubeconfig c = Inr client"
proof -
  obtain k where "(k, client) \<in> set (range_entries ord ''any client'' clients)"
    using assms(3) by (cases "range_entries ord ''any client'' clients") (auto simp: getAnyClient_def)
  then have k: "(k, client) \<in> set clients" using set_range_entries[OF assms(2)] assms(1) by (auto simp: clients_of_def)
  then show "client \<in> snd ` set clients" by force
  show "\<exists>c. e_clientset env kubeconfig c = Inr client" using bspec[OF conjunct2[OF assms(1)[unfolded clients_of_def]] k] by auto
qed

lemma DeleteLoadBalancer_client: "DeleteLoadBalancer l ord ing force w = (None, w') \<Longrightarrow> \<exists>client. getAnyClient ord (l_clients l) = Inr client"
  by (auto simp: DeleteLoadBalancer_def Let_def error_of_def split: sum.splits prod.splits if_splits)

lemma mci_prefix_short: "length (namer_prefix (NewNamer MciPrefix lbName)) \<le> 30"
  by (simp add: NewNamer_def MciPrefix_def)

lemma create_complete:
  assumes "cmd_env view env lookup" "range_ok (e_ord env)" "newCmdCreate env co [lbName] w = Some (Returns (Done t, w'))"
    and "\<forall>ing c client v. requested_ingress env co ing \<longrightarrow> e_clientset env (co_KubeconfigFilename co) c = Inr client \<longrightarrow>
      proper_ports (fst (ingToNodePorts (e_ord env) ing client v))"
  shows "\<exists>ing clients client v ip igs. let s = NewNamer MciPrefix lbName; ports = fst (ingToNodePorts (e_ord env) ing client v) in
    requested_ingress env co ing \<and> clients_of env (co_KubeconfigFilename co) clients \<and> client \<in> snd ` set clients
    \<and> fst ` set igs = fst ` set clients
    \<and> frontend_complete (view w') s ing ip
    \<and> (\<forall>q \<in> set ports. backend_complete (view w') s (flat_igs (e_ord env) igs) q)
    \<and> firewall_complete (view w') s ports (cluster_tags lookup igs)
    \<and> without_cells (lb_cells s ports) (view w') = without_cells (lb_cells s ports) (view w)"
proof (rule cmd_env.create_done[OF assms(1,3)])
  fix ing clients l force validate clusters w1
  assume ing: "requested_ingress env co ing" and clients: "clients_of env (co_KubeconfigFilename co) clients"
    and env: "lb_env view l lookup" and l: "l_clients l = clients" "l_namer l = NewNamer MciPrefix lbName" and w1: "view w1 = view w"
    and run: "CreateLoadBalancer l (e_ord env) ing force validate clusters w1 = Some (Returns (None, w'))"
  obtain client where client: "getAnyClient (e_ord env) clients = Inr client"
    using run by (auto simp: CreateLoadBalancer_def l split: sum.splits prod.splits if_splits)
  let ?s = "NewNamer MciPrefix lbName" and ?ports = "fst (ingToNodePorts (e_ord env) ing client w1)"
  have "proper_ports ?ports" using anyClient_of(2)[OF clients assms(2) client] assms(4) ing by blast
  note inj = proper_ports_names[OF this mci_prefix_short[of lbName]]
  have "length (namer_prefix (l_namer l)) \<le> 50" using mci_prefix_short[of lbName] unfolding l by simp
  note created = lb_env.CreateLoadBalancer_ok[OF env run assms(2) this client[folded l(1)] refl inj[folded l(2)], unfolded l w1]
  obtain ip igs where ok: "fst ` set igs = fst ` set clients" "frontend_complete (view w') ?s ing ip"
    "\<forall>q \<in> set ?ports. backend_complete (view w') ?s (flat_igs (e_ord env) igs) q"
    "firewall_complete (view w') ?s ?ports (cluster_tags lookup igs)" "\<forall>c. c \<notin> lb_cells ?s ?ports \<longrightarrow> view w' c = view w c"
    by (rule created)
  have "without_cells (lb_cells ?s ?ports) (view w') = without_cells (lb_cells ?s ?ports) (view w)"
    using ok(5) by (auto simp: without_cells_def restrict_map_def)
  with ing clients anyClient_of(1)[OF clients assms(2) client] ok(1-4) show ?thesis
    unfolding Let_def by (intro exI[of _ ing] exI[of _ clients] exI[of _ client] exI[of _ w1] exI[of _ ip] exI[of _ igs]) simp
qed

lemma delete_exact:
  assumes "cmd_env view env lookup" "range_ok (e_ord env)" "newCmdDelete env dop [lbName] w = Returns (Done t, w')"
    and "\<forall>ing c client v. deleted_ingress env dop ing \<longrightarrow> e_clientset env (do_KubeconfigFilename dop) c = Inr client \<longrightarrow>
      fst (ingToNodePorts (e_ord env) ing client v) = ports"
  shows "view w' = without_cells (lb_cells (NewNamer MciPrefix lbName) ports) (view w)"
proof (rule cmd_env.delete_done[OF assms(1,3)])
  fix ing clients l force w1 w2
  assume ing: "deleted_ingress env dop ing" and clients: "clients_of env (do_KubeconfigFilename dop) clients"
    and env: "lb_env view l lookup" and l: "l_clients l = clients" "l_namer l = NewNamer MciPrefix lbName" and w: "view w1 = view w" "view w' = view w2"
    and run: "DeleteLoadBalancer l (e_ord env) ing force w1 = (None, w2)"
  obtain client where client: "getAnyClient (e_ord env) (l_clients l) = Inr client" using DeleteLoadBalancer_client[OF run] by blast
  have "outside view client" using cmd_env.clientset_outside[OF assms(1)] anyClient_of(2)[OF clients assms(2) client[unfolded l]] by blast
  moreover have "\<forall>v. fst (ingToNodePorts (e_ord env) ing client v) = ports"
    using anyClient_of(2)[OF clients assms(2) client[unfolded l]] assms(4) ing by blast
  ultimately show ?thesis
    using cloud_api.DeleteLoadBalancer_effect[OF lb_env.cloud[OF env] refl refl refl refl client _ _ run] w l
    by (auto simp: without_cells_def restrict_map_def fun_eq_iff)
qed


text \<open>
  C7. When \<^verbatim>\<open>kubemci delete\<close> reports success, the project is what it was without the objects of the load balancer.  The hypothesis says that the
  clusters agree on the node ports of the ingress and keep them.
\<close>

theorem delete_command_exact:
  assumes "cmd_env view env lookup" "range_ok (e_ord env)" "newCmdDelete env dop [lbName] w = Returns (Done t, w')"
    and "\<forall>ing c client v. deleted_ingress env dop ing \<longrightarrow> e_clientset env (do_KubeconfigFilename dop) c = Inr client \<longrightarrow>
      fst (ingToNodePorts (e_ord env) ing client v) = ports"
  shows "view w' = without_cells (lb_cells (NewNamer MciPrefix lbName) ports) (view w)"
  using delete_exact[OF assms] .

text \<open>
  C8. \<^verbatim>\<open>kubemci create\<close> and then \<^verbatim>\<open>kubemci delete\<close> of the same load balancer, when both report success, leave the project as it was but for objects
  of the load balancer that were there before; when there were none, it is back to what it was.
\<close>

theorem create_then_delete_restores:
  assumes "cmd_env view env lookup" "range_ok (e_ord env)" "newCmdCreate env co [lbName] w = Some (Returns (Done t, w1))"
    and "newCmdDelete env dop [lbName] w1 = Returns (Done t', w2)"
    and "\<forall>ing c client v. requested_ingress env co ing \<longrightarrow> e_clientset env (co_KubeconfigFilename co) c = Inr client \<longrightarrow>
      fst (ingToNodePorts (e_ord env) ing client v) = ports"
    and "\<forall>ing c client v. deleted_ingress env dop ing \<longrightarrow> e_clientset env (do_KubeconfigFilename dop) c = Inr client \<longrightarrow>
      fst (ingToNodePorts (e_ord env) ing client v) = ports"
    and "proper_ports ports"
  shows "view w2 = without_cells (lb_cells (NewNamer MciPrefix lbName) ports) (view w)
    \<and> ((\<forall>c \<in> lb_cells (NewNamer MciPrefix lbName) ports. view w c = None) \<longrightarrow> view w2 = view w)"
proof -
  let ?cells = "lb_cells (NewNamer MciPrefix lbName) ports"
  have proper: "\<forall>ing c client v. requested_ingress env co ing \<longrightarrow> e_clientset env (co_KubeconfigFilename co) c = Inr client \<longrightarrow>
      proper_ports (fst (ingToNodePorts (e_ord env) ing client v))" using assms(5,7) by auto
  obtain ing clients client v where c: "requested_ingress env co ing" "clients_of env (co_KubeconfigFilename co) clients" "client \<in> snd ` set clients"
    "without_cells (lb_cells (NewNamer MciPrefix lbName) (fst (ingToNodePorts (e_ord env) ing client v))) (view w1) =
     without_cells (lb_cells (NewNamer MciPrefix lbName) (fst (ingToNodePorts (e_ord env) ing client v))) (view w)"
    using create_complete[OF assms(1-3) proper] unfolding Let_def by (elim exE conjE) (rule that)
  have "fst (ingToNodePorts (e_ord env) ing client v) = ports" using c(1-3) assms(5) unfolding clients_of_def by blast
  with c(4) delete_exact[OF assms(1,2,4,6)] have "view w2 = without_cells ?cells (view w)" by simp
  moreover have "without_cells ?cells (view w) = view w" if "\<forall>c \<in> ?cells. view w c = None"
    using that by (auto simp: without_cells_def restrict_map_def fun_eq_iff)
  ultimately show ?thesis by simp
qed

section \<open>Examples\<close>

definition create_options :: createOptions where
  "create_options = \<lparr>co_IngressFilename = ''ing.yaml'', co_KubeconfigFilename = ''config'', co_KubeContexts = [], co_LBName = '''',
     co_GCPProject = ''p'', co_ForceUpdate = False, co_Validate = True, co_Namespace = '''', co_StaticIPName = ''''\<rparr>"

lemma ready_defaults:
  "UnmarshallAndApplyDefaults (\<lambda>file ing. (None, ready_ingress)) file '''' ing0 = (None, ready_ingress)"
  "ApplyStaticIP '''' ready_ingress = (None, ready_ingress)"
  by (simp_all add: UnmarshallAndApplyDefaults_def applyClass_def IngressClass_def ApplyStaticIP_def StaticIPName_def annotation_def ing_Annotations_def
      ready_ingress_def web_ingress_def ing_Namespace_def StaticIPNameKey_def IngressClassKey_def GceMultiIngressClass_def InstanceGroupsAnnotationKey_def)

lemma example_env_fields [simp]:
  "e_exec example_env args w = (Inr ''a'', w)" "e_unmarshall example_env = (\<lambda>file ing. (None, ready_ingress))"
  "e_clientset example_env kubeconfig c = Inr ready_client" "e_cloud example_env project = Inr example_cloud" "e_ord example_env = in_order"
  by (simp_all add: example_env_def)

lemma example_clients: "GetClients (e_exec example_env) (e_clientset example_env) kubeconfig contexts w = (([(''a'', ready_client)], None), w)"
  by (simp add: GetClients_def GetClusterContexts_def Let_def)

lemma example_syncer_lb: "newSyncer example_env ''lb'' [(''a'', ready_client)] example_cloud project = Inr (lb_example ready_client)"
  by (simp add: example_syncer) (simp add: lb_example_def lb1_def MciPrefix_def)

lemma ready_valid: "Validate in_order [(''a'', ready_client)] ready_ingress w = (None, w)"
proof -
  have "version_text 1 9 3 '''' = ''v1.9.3''" by (simp add: version_text_def show_nat.simps digits)
  then have "parseVersion ''v1.9.3'' = Inr (1, 9, 3)" using parseVersion_text[of "''''" 1 9 3] by (simp add: plain_suffix_def)
  then have "serverVersionsNewEnough in_order [(''a'', ready_client)] w = (None, w)"
    by (simp add: serverVersionsNewEnough_def range_entries_def in_order_def List.map_filter_simps ready_client_def web_client_def serverVersionNewEnough_def)
  moreover have "GetServiceNodePort in_order be ns ready_client w = GetServiceNodePort in_order be ns (web_client ''/'') w" for be ns
    by (simp add: GetServiceNodePort_def ready_client_def)
  then have "servicesNodePortsSame in_order [(''a'', ready_client)] ready_ingress w = (None, w)"
    by (simp add: servicesNodePortsSame_def nodePortSameInAllClusters_def range_entries_def in_order_def List.map_filter_simps ready_ingress_def web_ingress_def
        ing_Namespace_def web_client_node_port)
  ultimately show ?thesis by (simp add: Validate_def)
qed

lemma ready_ensured: "EnsureIngress in_order ready_ingress [(''a'', ready_client)] force w = (([''a''], None), w)"
  by (simp add: EnsureIngress_def range_entries_def in_order_def List.map_filter_simps ensureIngressIn_def ready_client_def)

lemma ready_deleted: "ing_DeleteIngress in_order ready_ingress [(''a'', ready_client)] w = (None, w)"
  by (simp add: ing_DeleteIngress_def range_entries_def in_order_def List.map_filter_simps ready_client_def web_client_def)

lemma example_create:
  obtains f' where "newCmdCreate example_env create_options [''lb''] address_cloud = Some (Returns (Done ''Success.'', f'))" "\<not> f_fwReadOnly f'"
proof (rule example_created_writable)
  fix f'
  assume run: "CreateLoadBalancer (lb_example ready_client) in_order ready_ingress False True (Slice [''a'']) address_cloud = Some (Returns (None, f'))"
    and f': "\<not> f_fwReadOnly f'"
  have "newCmdCreate example_env create_options [''lb''] address_cloud = Some (Returns (Done ''Success.'', f'))"
    by (simp add: newCmdCreate_def validateCreateArgs_def projectOrDefault_def create_options_def runCreate_def ready_defaults example_clients
        createIngressAndLoadBalancer_def ready_valid ready_ensured example_syncer_lb run slice_of_def after_run_def)
  with f' that show thesis by blast
qed

text \<open>On the fakes a deletion fails at most with a 404, which the syncers ignore.\<close>

lemma fake_delete_errors:
  "fst (fake_DeleteGlobalForwardingRule n f) \<in> {None, Some FakeGoogleAPINotFoundErr}" "fst (fake_DeleteUrlMap n f) \<in> {None, Some FakeGoogleAPINotFoundErr}"
  "fst (fake_DeleteTargetHttpProxy n f) \<in> {None, Some FakeGoogleAPINotFoundErr}" "fst (fake_DeleteTargetHttpsProxy n f) \<in> {None, Some FakeGoogleAPINotFoundErr}"
  "fst (fake_DeleteSslCertificate n f) \<in> {None, Some FakeGoogleAPINotFoundErr}" "fst (fake_DeleteHealthCheck n f) \<in> {None, Some FakeGoogleAPINotFoundErr}"
  "fst (fake_DeleteGlobalBackendService n f) \<in> {None, Some FakeGoogleAPINotFoundErr}"
  "\<not> f_fwReadOnly f \<Longrightarrow> fst (fake_DeleteFirewall n f) \<in> {None, Some FakeGoogleAPINotFoundErr}"
  by (simp_all add: fake_ops fake_provider_ops deletion_error_def Let_def)

lemma ignored_404:
  "fst (f g) \<in> {None, Some FakeGoogleAPINotFoundErr} \<Longrightarrow>
   fst (case f g of (Some err, w1) \<Rightarrow> if IsHTTPErrorCode (Some err) StatusNotFound then (None, w1) else (Some err, w1) | (None, w1) \<Rightarrow> (None, w1)) = None"
  by (auto simp: FakeGoogleAPINotFoundErr_def split: prod.splits option.splits)

lemma fake_rule_deleted: "fst (deleteOneRule fake_lb msg n err f) = err"
  using fake_delete_errors(1)[of n f] by (auto simp: deleteOneRule_def FakeGoogleAPINotFoundErr_def split: prod.splits option.splits)

lemma fake_proxies_deleted: "fst (DeleteTargetProxies s fake_lb f) = None"
  using fake_delete_errors(3)[of "TargetHTTPProxyName s" f]
    fake_delete_errors(4)[of "TargetHTTPSProxyName s" "snd (fake_DeleteTargetHttpProxy (TargetHTTPProxyName s) f)"]
  by (auto simp: DeleteTargetProxies_def FakeGoogleAPINotFoundErr_def Let_def case_prod_unfold)

lemma fake_deletions:
  "fst (um_DeleteURLMap s fake_lb f) = None" "fst (DeleteSSLCert s fake_lb f) = None" "fst (deleteHealthCheck s fake_hc p f) = None"
  "fst (deleteBackendService s fake_be p f) = None" "fst (DeleteForwardingRules s fake_lb f) = None"
  "\<not> f_fwReadOnly f \<Longrightarrow> fst (DeleteFirewallRules s fake_fw f) = None"
  unfolding um_DeleteURLMap_def DeleteSSLCert_def deleteHealthCheck_def deleteBackendService_def DeleteFirewallRules_def fake_lb_methods fake_provider_methods
  by (rule ignored_404 fake_delete_errors | simp add: DeleteForwardingRules_def fake_rule_deleted case_prod_unfold)+

lemma example_delete:
  assumes "\<not> f_fwReadOnly f"
  obtains f' where "newCmdDelete example_env delete_options [''lb''] f = Returns (Done '''', f')"
proof -
  have "fst (deletePortResources (lb_example ready_client) in_order ready_ingress ready_client None g) = None" for g
    by (simp add: deletePortResources_def DeleteBackendServices_def DeleteHealthChecks_def Let_def case_prod_unfold fake_deletions wrap_err_def)
  then have "fst (DeleteLoadBalancer (lb_example ready_client) in_order ready_ingress True f) = None"
    using assms by (simp add: DeleteLoadBalancer_def Let_def error_of_def case_prod_unfold fake_deletions fake_proxies_deleted)
  then obtain f' where "DeleteLoadBalancer (lb_example ready_client) in_order ready_ingress True f = (None, f')"
    by (metis prod.collapse)
  then have "newCmdDelete example_env delete_options [''lb''] f = Returns (Done '''', f')"
    by (simp add: newCmdDelete_def validateDeleteArgs_def projectOrDefault_def delete_options_def runDelete_def ready_defaults example_clients
        deleteResources_def ready_deleted example_syncer_lb append_err_def after_run_def)
  with that show thesis by blast
qed

lemma example_requests:
  "requested_ingress example_env create_options ing \<longleftrightarrow> ing = ready_ingress"
  "deleted_ingress example_env delete_options ing \<longleftrightarrow> ing = ready_ingress"
  by (auto simp: requested_ingress_def deleted_ingress_def create_options_def delete_options_def ready_defaults)

lemma web_port_proper: "proper_ports [web_port]"
  by (simp add: proper_ports_def)

lemma mci_lb: "NewNamer MciPrefix ''lb'' = lb1"
  by (simp add: lb1_def MciPrefix_def)


theorem delete_command_exact_witness:
  "\<exists>f'. newCmdDelete example_env delete_options [''lb''] shared_project = Returns (Done '''', f')
     \<and> fake_view f' = without_cells (lb_cells lb1 [web_port]) (fake_view shared_project)"
proof (rule example_delete)
  show "\<not> f_fwReadOnly shared_project" by (simp add: shared_project_def cloud_example_def NewFakeLoadBalancers_def)
  fix f'
  assume run: "newCmdDelete example_env delete_options [''lb''] shared_project = Returns (Done '''', f')"
  have "fake_view f' = without_cells (lb_cells (NewNamer MciPrefix ''lb'') [web_port]) (fake_view shared_project)"
    by (rule delete_command_exact[OF example_cmd.cmd_env_axioms _ run]) (simp_all add: example_requests range_ok_in_order)
  with run show ?thesis unfolding mci_lb by blast
qed

theorem create_then_delete_restores_witness:
  "\<exists>f1 f2. newCmdCreate example_env create_options [''lb''] address_cloud = Some (Returns (Done ''Success.'', f1))
     \<and> newCmdDelete example_env delete_options [''lb''] f1 = Returns (Done '''', f2)
     \<and> fake_view f2 = without_cells (lb_cells lb1 [web_port]) (fake_view address_cloud)"
proof (rule example_create)
  fix f1
  assume create: "newCmdCreate example_env create_options [''lb''] address_cloud = Some (Returns (Done ''Success.'', f1))" and "\<not> f_fwReadOnly f1"
  then obtain f2 where delete: "newCmdDelete example_env delete_options [''lb''] f1 = Returns (Done '''', f2)" using example_delete by blast
  have "fake_view f2 = without_cells (lb_cells (NewNamer MciPrefix ''lb'') [web_port]) (fake_view address_cloud)"
    by (rule create_then_delete_restores[OF example_cmd.cmd_env_axioms _ create delete, THEN conjunct1])
      (simp_all add: example_requests range_ok_in_order web_port_proper)
  with create delete show ?thesis unfolding mci_lb by blast
qed

end
