(* ===== verification/MapKeys.thy ===== *)
theory MapKeys
  imports Commands
begin

text \<open>
  The typing of the maps kubemci builds (clients, instance groups, named ports, health checks, backend services, hosts and paths): on every
  branch, also when an error is reported, a map has one entry per key, and its keys come from the list the loop works off.
\<close>

section \<open>Typed maps\<close>

definition map_typed :: "'k list \<Rightarrow> ('k \<times> 'v) list \<Rightarrow> bool" where
  "map_typed ks m \<longleftrightarrow> distinct (map fst m) \<and> list_all (List.member ks) (map fst m)"

lemma map_typed_iff: "map_typed ks m \<longleftrightarrow> distinct (map fst m) \<and> fst ` set m \<subseteq> set ks"
  by (auto simp: map_typed_def list_all_iff)

lemma map_typed_Nil [simp, intro]: "map_typed ks []"
  by (simp add: map_typed_def)

lemma map_typed_update [simp, intro]: "map_typed ks m \<Longrightarrow> k \<in> set ks \<Longrightarrow> map_typed ks (AList.update k v m)"
  by (auto simp: map_typed_iff distinct_update AList.dom_update)

lemma map_typed_mono: "map_typed ks m \<Longrightarrow> set ks \<subseteq> set ls \<Longrightarrow> map_typed ls m"
  by (auto simp: map_typed_iff)

text \<open>A loop that assigns one key per element.\<close>

lemma map_typed_fold: "map_typed ks m \<Longrightarrow> key ` set xs \<subseteq> set ks \<Longrightarrow> map_typed ks (fold (\<lambda>x m. AList.update (key x) (val x) m) xs m)"
  by (induction xs arbitrary: m) auto

section \<open>The loops\<close>

lemma getClientsForContexts_typed:
  "map_typed ks m \<Longrightarrow> set cs \<subseteq> set ks \<Longrightarrow> map_typed ks (fst (getClientsForContexts g kubeconfig cs m err))"
  by (induction g kubeconfig cs m err rule: getClientsForContexts.induct) (auto split: sum.splits)

lemma ensureHealthCheckLoop_typed:
  "map_typed ks m \<Longrightarrow> sp_NodePort ` set ps \<subseteq> set ks \<Longrightarrow>
   map_typed ks (fst (fst (ensureHealthCheckLoop s H ord lbName clients force ps m err w)))"
  by (induction ps arbitrary: m err w) (simp_all split: prod.split option.split sum.split)

lemma ensureBackendServiceLoop_typed:
  "map_typed ks m \<Longrightarrow> sp_Name ` set ps \<subseteq> set ks \<Longrightarrow>
   pred_outcome (\<lambda>r. map_typed ks (fst (fst r))) (ensureBackendServiceLoop s B lbName hcMap npMap igLinks force ps m err w)"
  by (induction ps arbitrary: m err w) (simp_all split: outcome.split prod.split sum.split)

lemma pathsLoop_typed:
  "map_typed ks m \<Longrightarrow> path_expr ` set ps \<subseteq> set ks \<Longrightarrow> map_typed ks (fst (pathsLoop ns beMap ps m err))"
proof (induction ps arbitrary: m err)
  case (Cons p ps)
  have "pathsLoop ns beMap (p # ps) m err = (case getBackendService (Some (ip_Backend p)) ns beMap of
      Inl e \<Rightarrow> pathsLoop ns beMap ps m (multierror_Append err [e]) | Inr b \<Rightarrow> pathsLoop ns beMap ps (AList.update (path_expr p) b m) err)"
    by (auto simp: path_expr_def Let_def split: sum.split)
  with Cons show ?case by (simp split: sum.split)
qed simp

text \<open>The map from hosts to maps from paths to backend services.\<close>

definition url_map_typed :: "string list \<Rightarrow> string list \<Rightarrow> GCEURLMap \<Rightarrow> bool" where
  "url_map_typed hosts paths g \<longleftrightarrow> map_typed hosts g \<and> list_all (\<lambda>x. map_typed paths (snd x)) g"

lemma url_map_typed_iff: "url_map_typed hosts paths g \<longleftrightarrow> map_typed hosts g \<and> (\<forall>m \<in> snd ` set g. map_typed paths m)"
  by (auto simp: url_map_typed_def list_all_iff)

lemma url_map_typed_update:
  "url_map_typed hosts paths g \<Longrightarrow> host \<in> set hosts \<Longrightarrow> map_typed paths m \<Longrightarrow> url_map_typed hosts paths (AList.update host m g)"
  using values_update[of host m g] unfolding url_map_typed_iff by blast

definition rule_paths :: "IngressRule \<Rightarrow> string list" where
  "rule_paths r = (case ir_HTTP r of None \<Rightarrow> [] | Some ps \<Rightarrow> map path_expr (elems ps))"

lemma rulesLoop_typed:
  "url_map_typed hosts paths g \<Longrightarrow> rule_host ` set rules \<subseteq> set hosts \<Longrightarrow> \<Union> ((set \<circ> rule_paths) ` set rules) \<subseteq> set paths \<Longrightarrow>
   url_map_typed hosts paths (fst (rulesLoop ns beMap rules g err))"
proof (induction rules arbitrary: g err)
  case (Cons r rules)
  show ?case
  proof (cases "ir_HTTP r")
    case (Some ps)
    obtain m e where m: "pathsLoop ns beMap (elems ps) [] err = (m, e)" by fastforce
    from pathsLoop_typed[of paths "[]" "elems ps" ns beMap err] Cons.prems(3) Some m have "map_typed paths m"
      by (auto simp: rule_paths_def)
    with Cons.prems have "url_map_typed hosts paths (AList.update (rule_host r) m g)" by (auto intro: url_map_typed_update)
    moreover have "rulesLoop ns beMap (r # rules) g err = rulesLoop ns beMap rules (AList.update (rule_host r) m g) e"
      using Some m by (simp add: rule_host_def Let_def)
    ultimately show ?thesis using Cons.IH Cons.prems by simp
  qed (use Cons in auto)
qed simp

section \<open>The maps of the program\<close>

definition ing_hosts :: "Ingress \<Rightarrow> string list" where
  "ing_hosts ing = DefaultBackendKey # map rule_host (elems (is_Rules (ing_Spec ing)))"

definition ing_paths :: "Ingress \<Rightarrow> string list" where
  "ing_paths ing = DefaultBackendKey # concat (map rule_paths (elems (is_Rules (ing_Spec ing))))"

lemma ingToURLMap_typed: "url_map_typed (ing_hosts ing) (ing_paths ing) (fst (ingToURLMap ing beMap))"
proof -
  let ?r = "rulesLoop (ing_Namespace ing) beMap (elems (is_Rules (ing_Spec ing))) [] None"
  have "url_map_typed (ing_hosts ing) (ing_paths ing) (fst ?r)"
    by (rule rulesLoop_typed) (auto simp: url_map_typed_def ing_hosts_def ing_paths_def)
  moreover have "map_typed (ing_paths ing) [(DefaultBackendKey, d)]" for d :: BackendService by (simp add: map_typed_iff ing_paths_def)
  ultimately show ?thesis
    by (auto simp: ingToURLMap_def PutDefaultBackend_def ing_hosts_def url_map_typed_def[of _ _ "[]"]
        split: prod.splits sum.splits intro!: url_map_typed_update)
qed

lemma getIGs_typed: "pred_option (\<lambda>r. map_typed (map fst clients) (fst (fst r)) \<and> [] \<notin> snd ` set (fst (fst r))) (getIGs l ord ing clients w)"
proof (cases "getIGs l ord ing clients w")
  case (Some r)
  obtain igs e w' where r: "r = ((igs, e), w')" by (metis prod.collapse)
  then have "getIGsLoop l ing (range_entries ord ''instance groups'' clients) [] None w = Some ((igs, e), w')" using Some by (simp add: getIGs_def)
  from getIGsLoop_keys[OF this] have "distinct (map fst igs)" "[] \<notin> snd ` set igs"
    "fst ` set igs \<subseteq> fst ` set (range_entries ord ''instance groups'' clients)" by auto
  moreover from image_mono[OF range_entries_subset] have "fst ` set (range_entries ord ''instance groups'' clients) \<subseteq> fst ` set clients" .
  ultimately have "distinct (map fst igs)" "[] \<notin> snd ` set igs" "fst ` set igs \<subseteq> fst ` set clients" by blast+
  with Some r show ?thesis by (simp add: map_typed_iff)
qed simp

lemma GetClients_typed: "\<exists>contexts. map_typed contexts (fst (fst (GetClients exec g kubeconfig names w)))"
proof -
  have "\<exists>cs. map_typed cs (fst (getClientsForContexts g kubeconfig contexts [] None))" for contexts
    using getClientsForContexts_typed[of contexts "[]" contexts] by auto
  then show ?thesis by (auto simp: GetClients_def split: prod.splits sum.splits)
qed


end
