(* ===== verification/LoadBalancerRemove.thy ===== *)
theory LoadBalancerRemove
  imports Reach
begin

text \<open>
  Removing clusters from a load balancer, as a whole: what \<^verbatim>\<open>RemoveFromClusters\<close> (\<^verbatim>\<open>loadbalancersyncer.go\<close>) has done to the project when it
  reports no error.
\<close>

lemma append_err_None_cases: "append_err e1 e2 = None \<Longrightarrow> e1 = None \<and> e2 = None"
  by simp

context lb_env
begin

lemma getIGs_clusters:
  "range_ok ord \<Longrightarrow> distinct (map fst clients) \<Longrightarrow> getIGs l ord ing clients w = Some ((igs, None), w') \<Longrightarrow> fst ` set igs = fst ` set clients"
  unfolding getIGs_def by (drule getIGsLoop_all) (simp add: set_range_entries)

text \<open>A successful removal, taken apart.\<close>

lemma RemoveFromClusters_done:
  assumes "lb_RemoveFromClusters l ord ing clients force w = Some (Returns (None, w'))" "\<forall>c \<in> snd ` set clients. outside view c"
    and "getAnyClient ord (l_clients l) = Inr client" "\<forall>v. fst (ingToNodePorts ord ing client v) = ports"
  obtains igs w2 w3 w4 w5 w6 where "view w3 = view w" "getIGs l ord ing clients w2 = Some ((igs, None), w3)"
    "fw_RemoveFromClusters (l_namer l) (l_fwp l) (l_ig l) ord (l_lbName l) igs w3 = Returns (None, w4)"
    "be_RemoveFromClusters (l_namer l) (l_bsp l) ports (flat_igs ord igs) w4 = (None, w5)"
    "fr_RemoveClustersFromStatus (l_namer l) (l_cloud l) (map fst (range_entries ord ''clusters to remove'' clients)) w5 = (None, w6)"
    "um_RemoveClustersFromStatus (l_namer l) (l_cloud l) (map fst (range_entries ord ''clusters to remove'' clients)) w6 = (None, w')"
proof -
  let ?cs = "map fst (range_entries ord ''clusters to remove'' clients)"
  obtain st w1 where st: "getLoadBalancerStatus l w = (st, w1)" by fastforce
  then obtain s where s: "st = Inr s" "\<not> (\<not> hasSomeRemainingClusters (elems (Clusters s)) clients \<and> \<not> force)"
    using assms(1) by (cases st) (auto simp: lb_RemoveFromClusters_def split: if_splits)
  obtain w2 where ports: "ingToNodePorts ord ing client w1 = (ports, w2)" using assms(4) by (metis prod.collapse)
  note body = assms(1)[unfolded lb_RemoveFromClusters_def st s(1) prod.case sum.case if_not_P[OF s(2)] assms(3) ports Let_def]
  from body obtain igs igErr w3 where igs: "getIGs l ord ing clients w2 = Some ((igs, igErr), w3)" by (auto split: option.splits)
  have v3: "view w3 = view w"
    using getIGs_facts(1)[OF assms(2) igs] ingToNodePorts_view[OF anyClient_outside[OF assms(3)] ports] getLoadBalancerStatus_view[OF refl st] by simp
  from body[unfolded igs] obtain w5 where "igErr = None" "removeFromResources l ord ports igs None w3 = Returns (None, w5)"
    "removeClustersFromStatus l (l_lbName l) ?cs w5 = (None, w')"
    by (auto split: if_splits outcome.splits prod.splits dest!: append_err_None_cases)
  then show ?thesis using that[OF v3] igs
    by (auto simp: removeFromResources_def removeClustersFromStatus_def split: outcome.splits prod.splits if_splits option.splits dest!: append_err_None_cases)
qed

end

section \<open>Property\<close>

text \<open>
  When \<^verbatim>\<open>RemoveFromClusters\<close> reports no error, the load balancer no longer uses the given clusters: the firewall has lost exactly their tags,
  the backend service of every port exactly the backends of their instance groups, and the status on the URL map exactly their
  names, while its routing is as before.  No other object of the project has changed.
\<close>

theorem clusters_removed:
  assumes "lb_env view l lookup" "range_ok ord" "\<forall>c \<in> snd ` set clients. outside view c" "distinct (map fst clients)" "fw_named (view w)"
    and "lb_RemoveFromClusters l ord ing clients force w = Some (Returns (None, w'))"
    and "getAnyClient ord (l_clients l) = Inr client" "\<forall>v. fst (ingToNodePorts ord ing client v) = ports"
    and "inj_on (\<lambda>p. BeServiceName (l_namer l) (sp_NodePort p)) (set ports)"
    and "view w (KUrlMap, URLMapName (l_namer l)) = Some (RUrlMap m)" "valid_status st" "ToString st = Inr (um_Description m)"
    and "view w (KFirewall, FirewallRuleName (l_namer l)) = Some (RFirewall old)"
  shows "\<exists>igs fw r. fst ` set igs = fst ` set clients
    \<and> view w' (KFirewall, FirewallRuleName (l_namer l)) = Some (RFirewall fw)
    \<and> elems (fw_TargetTags fw) = sort (filter (\<lambda>t. t \<notin> cluster_tags lookup igs) (elems (fw_TargetTags old)))
    \<and> (\<forall>p \<in> set ports. \<exists>b b'. view w (KBackendService, BeServiceName (l_namer l) (sp_NodePort p)) = Some (RBackendService b)
        \<and> view w' (KBackendService, BeServiceName (l_namer l) (sp_NodePort p)) = Some (RBackendService b')
        \<and> groups_removed (flat_igs ord igs) b b')
    \<and> view w' (KUrlMap, URLMapName (l_namer l)) = Some (RUrlMap r) \<and> um_lookup r = um_lookup m
    \<and> um_getStatus r = Inr (st\<lparr>Clusters := slice_of (filter (\<lambda>c. c \<notin> fst ` set clients) (elems (Clusters st)))\<rparr>)
    \<and> (\<forall>c. c \<notin> lb_cells (l_namer l) ports \<longrightarrow> view w' c = view w c)"
proof (rule lb_env.RemoveFromClusters_done[OF assms(1,6,3,7,8)])
  fix igs w2 w3 w4 w5 w6
  let ?s = "l_namer l" and ?cs = "map fst (range_entries ord ''clusters to remove'' clients)"
  assume v3: "view w3 = view w" and igs: "getIGs l ord ing clients w2 = Some ((igs, None), w3)"
    and fw: "fw_RemoveFromClusters ?s (l_fwp l) (l_ig l) ord (l_lbName l) igs w3 = Returns (None, w4)"
    and be: "be_RemoveFromClusters ?s (l_bsp l) ports (flat_igs ord igs) w4 = (None, w5)"
    and fr: "fr_RemoveClustersFromStatus ?s (l_cloud l) ?cs w5 = (None, w6)" and um: "um_RemoveClustersFromStatus ?s (l_cloud l) ?cs w6 = (None, w')"
  note cloud = lb_env.cloud[OF assms(1)]
  have api: "fw_api view (l_fwp l)" "be_api view (l_bsp l)" "lb_api view (l_cloud l)" using cloud unfolding cloud_api_def by auto
  note all = lb_env.getIGs_clusters[OF assms(1,2,4) igs] and dist = lb_env.getIGs_facts(2)[OF assms(1,3) igs]
  obtain f where f: "view w4 = (view w)((KFirewall, FirewallRuleName ?s) \<mapsto> RFirewall f)"
    "elems (fw_TargetTags f) = sort (filter (\<lambda>t. t \<notin> cluster_tags lookup igs) (elems (fw_TargetTags old)))"
    using RemoveFromClusters_tags[OF api(1) lb_env.instances_steady[OF assms(1)] assms(2) dist _ _ fw, of old] assms(5,13)
    unfolding v3 fw_named_def by blast
  note b = be_api.removeFromClustersLoop_frame[OF api(2) be[unfolded be_RemoveFromClusters_def]]
    and bok = be_api.removeFromClustersLoop_ok[OF api(2) be[unfolded be_RemoveFromClusters_def] assms(9)]
  have v6: "view w6 = view w5" using lb_api.RemoveClusters_rules_view[OF api(3) fr] .
  have m: "view w6 (KUrlMap, URLMapName ?s) = Some (RUrlMap m)" using assms(10) f(1) v6 b[of "(KUrlMap, URLMapName ?s)"] by auto
  have cs: "set ?cs = fst ` set clients" using set_range_entries[OF assms(2,4)] by simp
  obtain r where r: "view w' = (view w6)((KUrlMap, URLMapName ?s) \<mapsto> RUrlMap r)" "um_lookup r = um_lookup m"
    "um_getStatus r = Inr (st\<lparr>Clusters := slice_of (filter (\<lambda>c. c \<notin> fst ` set clients) (elems (Clusters st)))\<rparr>)"
    using RemoveClusters_url_map[OF api(3) um m assms(11,12)] unfolding cs by blast
  have "view w' (KFirewall, FirewallRuleName ?s) = Some (RFirewall f)" using r(1) v6 b[of "(KFirewall, FirewallRuleName ?s)"] f(1) by auto
  moreover have "\<exists>b b'. view w (KBackendService, BeServiceName ?s (sp_NodePort p)) = Some (RBackendService b)
      \<and> view w' (KBackendService, BeServiceName ?s (sp_NodePort p)) = Some (RBackendService b') \<and> groups_removed (flat_igs ord igs) b b'"
    if "p \<in> set ports" for p using bok[OF that] f(1) r(1) v6 by simp
  moreover have "view w' c = view w c" if "c \<notin> lb_cells ?s ports" for c
    using that r(1) v6 b[of c] f(1) by (auto simp: lb_cells_def port_cells_def)
  moreover have "view w' (KUrlMap, URLMapName ?s) = Some (RUrlMap r)" using r(1) by simp
  ultimately show ?thesis using all f(2) r(2,3) by blast
qed

section \<open>Example\<close>

text \<open>A load balancer on the clusters \<^verbatim>\<open>a\<close> and \<^verbatim>\<open>b\<close>, whose instances are tagged with the links of their groups.\<close>

definition two_status :: LoadBalancerStatus where
  "two_status = zero_status\<lparr>Clusters := Slice [''a'', ''b'']\<rparr>"

definition two_map :: UrlMap where
  "two_map = zero_UrlMap\<lparr>um_Name := URLMapName lb1, um_Description := ToString_text two_status\<rparr>"

definition two_firewall :: Firewall where
  "two_firewall = zero_Firewall\<lparr>fw_Name := FirewallRuleName lb1, fw_TargetTags := Slice [''g2'', ''zones/z/instanceGroups/ig'']\<rparr>"

definition two_clusters :: FakeCloud where
  "two_clusters = (cloud_example None)\<lparr>f_Um := Slice [two_map], f_firewalls := [(FirewallRuleName lb1, two_firewall)],
     f_Fw := Slice [zero_ForwardingRule\<lparr>fr_Name := HTTPForwardingRuleName lb1, fr_Description := ToString_text two_status\<rparr>]\<rparr>"

lemma two_valid: "valid_status two_status"
  by (simp add: valid_status_def zero_status_def two_status_def)

lemma two_status_read: "\<exists>f1. getLoadBalancerStatus (lb_example ready_client) f = (Inr two_status, f1) \<and> f1 = log_call ''GetUrlMap'' f" if "f_Um f = Slice [two_map]"
  using that by (simp add: getLoadBalancerStatus_def um_GetLoadBalancerStatus_def um_getStatus_def fake_ops first_named_def
        FromString_ToString_text[OF two_valid] two_map_def zero_UrlMap_def log_call_def)

lemma two_fw: 
  assumes "f_firewalls f = [(FirewallRuleName lb1, two_firewall)]" "\<not> f_fwReadOnly f"
  shows "\<exists>f1. fw_RemoveFromClusters lb1 fake_fw ig_example in_order ''lb'' [(''a'', [''zones/z/instanceGroups/ig''])] f = Returns (None, f1)
    \<and> f_Um f1 = f_Um f \<and> f_Fw f1 = f_Fw f \<and> f_backendServices f1 = f_backendServices f"
  using assms by (simp add: fw_RemoveFromClusters_def fw_removeFromClusters_def desiredFirewallRuleWithoutClusters_def getInstances_def range_entries_def
        in_order_def List.map_filter_simps ig_example_def inst_example_def updateFirewallRule_def fake_provider_ops
        two_firewall_def Let_def)

lemma two_be:
  assumes "f_backendServices f = f_backendServices (cloud_example None)"
  shows "\<exists>f1. be_RemoveFromClusters lb1 fake_be [web_port] igs f = (None, f1) \<and> f_Um f1 = f_Um f \<and> f_Fw f1 = f_Fw f"
proof -
  have "be_returned (be_example None) = be_example None" by (simp add: be_returned_def) (simp add: be_example_def)
  moreover have "map_of (f_backendServices f) (BeServiceName lb1 30301) = Some (be_example None)" using assms by (simp add: cloud_example_def)
  ultimately obtain f1 where g: "fake_GetGlobalBackendService (BeServiceName lb1 30301) f = (Inr (be_example None), f1)"
    and f1: "f_Um f1 = f_Um f" "f_Fw f1 = f_Fw f" by (simp add: fake_GetGlobalBackendService_def del: lb1_names)
  let ?d = "desiredBackendServiceWithoutClusters (be_example None) igs"
  have "\<exists>f2. updateBackendService fake_be ?d f1 = (Inr (be_returned ?d), f2) \<and> f_Um f2 = f_Um f1 \<and> f_Fw f2 = f_Fw f1"
    by (simp add: updateBackendService_def fake_UpdateGlobalBackendService_def fake_GetGlobalBackendService_def AList.update_conv')
  with f1 show ?thesis by (auto simp: be_RemoveFromClusters_def removeFromClusters_def g)
qed

lemma two_status_written:
  assumes "f_Um f = Slice [two_map]" "f_Fw f = Slice [zero_ForwardingRule\<lparr>fr_Name := HTTPForwardingRuleName lb1, fr_Description := ToString_text two_status\<rparr>]"
  shows "\<exists>f1. removeClustersFromStatus (lb_example ready_client) ''lb'' [''a''] f = (None, f1)"
proof -
  have "\<exists>f1. fr_RemoveClustersFromStatus lb1 fake_lb [''a''] f = (None, f1) \<and> f_Um f1 = f_Um f"
    using assms(2)
    by (simp add: fr_RemoveClustersFromStatus_def fr_removeClustersFromStatus_def fake_ops first_named_def
        desiredForwardingRuleWithoutClusters_def zero_ForwardingRule_def RemoveClusters_def FromString_ToString_text[OF two_valid] ToString_Inr
        FakeGoogleAPINotFoundErr_def updateForwardingRule_def canIgnoreStatusUpdateError_def Let_def log_call_def)
  then obtain f1 where fr: "fr_RemoveClustersFromStatus lb1 fake_lb [''a''] f = (None, f1)" "f_Um f1 = Slice [two_map]" using assms(1) by auto
  have "fst (um_RemoveClustersFromStatus lb1 fake_lb [''a''] f1) = None"
    by (simp add: um_RemoveClustersFromStatus_def fake_ops first_named_def desiredURLMapWithoutClusters_def fr(2)
        RemoveClusters_def FromString_ToString_text[OF two_valid] ToString_Inr zero_UrlMap_def updateURLMap_def err_of_def
        Let_def two_map_def log_call_def)
  then obtain f2 where "um_RemoveClustersFromStatus lb1 fake_lb [''a''] f1 = (None, f2)" by (metis prod.collapse)
  with fr(1) show ?thesis by (simp add: removeClustersFromStatus_def)
qed

lemma example_removed:
  obtains f' where
    "lb_RemoveFromClusters (lb_example ready_client) in_order ready_ingress [(''a'', ready_client)] False two_clusters = Some (Returns (None, f'))"
proof -
  let ?l = "lb_example ready_client" and ?igs = "[(''a'', [''zones/z/instanceGroups/ig''])]"
  let ?f1 = "log_call ''GetUrlMap'' two_clusters"
  have f1: "f_firewalls ?f1 = [(FirewallRuleName lb1, two_firewall)]" "\<not> f_fwReadOnly ?f1" "f_Um ?f1 = Slice [two_map]"
    "f_Fw ?f1 = Slice [zero_ForwardingRule\<lparr>fr_Name := HTTPForwardingRuleName lb1, fr_Description := ToString_text two_status\<rparr>]" "f_backendServices ?f1 = f_backendServices (cloud_example None)"
    by (simp_all add: log_call_def two_clusters_def cloud_example_def NewFakeLoadBalancers_def)
  obtain f2 where f2: "fw_RemoveFromClusters lb1 fake_fw ig_example in_order ''lb'' ?igs ?f1 = Returns (None, f2)"
    "f_Um f2 = f_Um ?f1" "f_Fw f2 = f_Fw ?f1" "f_backendServices f2 = f_backendServices ?f1" using two_fw[OF f1(1,2)] by blast
  obtain f3 where f3: "be_RemoveFromClusters lb1 fake_be [web_port] (flat_igs in_order ?igs) f2 = (None, f3)" "f_Um f3 = f_Um f2" "f_Fw f3 = f_Fw f2"
    using two_be[of f2] f2(4) f1(5) by auto
  obtain f' where f': "removeClustersFromStatus ?l ''lb'' [''a''] f3 = (None, f')" using two_status_written[of f3] f3 f2 f1 by auto
  have status: "getLoadBalancerStatus ?l two_clusters = (Inr two_status, ?f1)" using two_status_read[of two_clusters] by (simp add: two_clusters_def)
  have some: "hasSomeRemainingClusters (elems (Clusters two_status)) [(''a'', ready_client)]"
    by (simp add: hasSomeRemainingClusters_def two_status_def)
  have "lb_RemoveFromClusters ?l in_order ready_ingress [(''a'', ready_client)] False two_clusters = Some (Returns (None, f'))"
    by (simp add: lb_RemoveFromClusters_def status some removeFromResources_def f2(1) f3(1) range_entries_def in_order_def List.map_filter_simps f')
  then show ?thesis by (rule that)
qed

lemma two_project:
  "fake_view two_clusters (KUrlMap, URLMapName lb1) = Some (RUrlMap two_map)" "fw_named (fake_view two_clusters)"
  "fake_view two_clusters (KFirewall, FirewallRuleName lb1) = Some (RFirewall two_firewall)" "ToString two_status = Inr (um_Description two_map)"
  by (simp_all add: two_clusters_def named_def two_map_def fw_named_def two_firewall_def ToString_Inr)

theorem clusters_removed_witness:
  "\<exists>f' fw r. lb_RemoveFromClusters (lb_example ready_client) in_order ready_ingress [(''a'', ready_client)] False two_clusters = Some (Returns (None, f'))
     \<and> fake_view f' (KFirewall, FirewallRuleName lb1) = Some (RFirewall fw)
     \<and> fake_view f' (KUrlMap, URLMapName lb1) = Some (RUrlMap r) \<and> um_getStatus r = Inr (two_status\<lparr>Clusters := Slice [''b'']\<rparr>)"
proof -
  obtain f' where run: "lb_RemoveFromClusters (lb_example ready_client) in_order ready_ingress [(''a'', ready_client)] False two_clusters = Some (Returns (None, f'))"
    by (rule example_removed)
  obtain fw' r where "fake_view f' (KFirewall, FirewallRuleName lb1) = Some (RFirewall fw')" "fake_view f' (KUrlMap, URLMapName lb1) = Some (RUrlMap r)"
    "um_getStatus r = Inr (two_status\<lparr>Clusters := slice_of (filter (\<lambda>c. c \<notin> fst ` set [(''a'', ready_client :: FakeCloud KubeClient)]) (elems (Clusters two_status)))\<rparr>)"
    using clusters_removed[OF example.lb_env_axioms range_ok_in_order _ _ two_project(2) run example_client _ example_inj(1),
        unfolded lb_example_fields, OF _ _ _ two_project(1) two_valid two_project(4,3)]
    by (auto simp: ready_client_outside simp del: fake_view.simps lb1_names)
  with run show ?thesis by (auto simp: two_status_def slice_of_def simp del: fake_view.simps lb1_names)
qed

end
