(* ===== verification/RemoveCommand.thy ===== *)
theory RemoveCommand
  imports Commands LoadBalancerRemove
begin

text \<open>
  \<^verbatim>\<open>kubemci remove-clusters\<close> (\<^verbatim>\<open>app/kubemci/cmd/remove_clusters.go\<close>) end to end: what the command has done to the project when it reports success.
\<close>

section \<open>The command, taken apart\<close>

definition removed_ingress :: "'w CmdEnv \<Rightarrow> removeClustersOptions \<Rightarrow> Ingress \<Rightarrow> bool" where
  "removed_ingress env options ing \<longleftrightarrow>
     UnmarshallAndApplyDefaults (e_unmarshall env) (ro_IngressFilename options) (ro_Namespace options) zero_Ingress = (None, ing)"

context cmd_env
begin

lemma remove_clusters_done:
  assumes "newCmdRemoveClusters env rop [lbName] w = Some (Returns (Done t, w'))"
  obtains ing clients l force w1 w2 where "removed_ingress env rop ing" "clients_of env (ro_KubeconfigFilename rop) clients"
    "lb_env view l lookup" "l_clients l = clients" "l_namer l = NewNamer MciPrefix lbName" "view w1 = view w"
    "lb_RemoveFromClusters l (e_ord env) ing clients force w1 = Some (Returns (None, w2))" "view w' = view w2"
    "\<forall>c \<in> snd ` set clients. outside view c"
proof -
  obtain rop' w0 where v: "validateRemoveClustersArgs env rop [lbName] w = ((None, rop'), w0)" "runRemoveClusters env rop' [lbName] w0 = Some (Returns (None, w'))"
    using assms by (auto simp: newCmdRemoveClusters_def after_run_Returns split: option.splits outcome.splits prod.splits)
  have rop': "rop' = rop\<lparr>ro_GCPProject := ro_GCPProject rop'\<rparr>"
    using v(1) by (auto simp: validateRemoveClustersArgs_def Let_def split: if_splits prod.splits sum.splits)
  have same: "ro_IngressFilename rop' = ro_IngressFilename rop" "ro_Namespace rop' = ro_Namespace rop"
    "ro_KubeconfigFilename rop' = ro_KubeconfigFilename rop" by (subst rop', simp)+
  let ?force = "ro_ForceUpdate rop'"
  obtain ing cloud clients w1 l where run:
    "UnmarshallAndApplyDefaults (e_unmarshall env) (ro_IngressFilename rop) (ro_Namespace rop) zero_Ingress = (None, ing)"
    "e_cloud env (ro_GCPProject rop') = Inr cloud"
    "GetClients (e_exec env) (e_clientset env) (ro_KubeconfigFilename rop) (ro_KubeContexts rop') w0 = ((clients, None), w1)"
    "newSyncer env lbName clients cloud (ro_GCPProject rop') = Inr l" "removeResources env l ing clients ?force w1 = Some (Returns (None, w'))"
    using v(2) by (auto simp: runRemoveClusters_def Let_def same split: prod.splits option.splits sum.splits)
  note c = GetClients_facts[OF run(3)]
  obtain w2 ie where d: "lb_RemoveFromClusters l (e_ord env) ing clients ?force w1 = Some (Returns (None, w2))"
    "ing_DeleteIngress (e_ord env) ing clients w2 = (ie, w')"
    using run(5) by (auto simp: removeResources_def split: prod.splits if_splits option.splits outcome.splits)
  moreover have "view w1 = view w" using c(1) validate_args_view(3)[OF v(1)] by simp
  moreover have "removed_ingress env rop ing" using run(1) by (simp add: removed_ingress_def)
  ultimately show ?thesis
    using that GetClients_made[OF run(3)] newSyncer_env[OF run(2,4) c(2,3)] newSyncer_fields(2)[OF run(4)] DeleteIngress_view[OF c(3) d(2)] c(3) by blast
qed

end

section \<open>Property\<close>


section \<open>Example\<close>

definition remove_options :: removeClustersOptions where
  "remove_options = \<lparr>ro_IngressFilename = ''ing.yaml'', ro_KubeconfigFilename = ''config'', ro_KubeContexts = [''a''], ro_LBName = '''',
     ro_GCPProject = ''p'', ro_ForceUpdate = False, ro_Namespace = ''''\<rparr>"

lemma removed_example: "removed_ingress example_env remove_options ing \<longleftrightarrow> ing = ready_ingress"
  by (auto simp: removed_ingress_def remove_options_def ready_defaults)

lemma example_remove_clusters:
  obtains f' where "newCmdRemoveClusters example_env remove_options [''lb''] two_clusters = Some (Returns (Done '''', f'))"
proof (rule example_removed)
  fix f'
  assume run: "lb_RemoveFromClusters (lb_example ready_client) in_order ready_ingress [(''a'', ready_client)] False two_clusters = Some (Returns (None, f'))"
  have "newCmdRemoveClusters example_env remove_options [''lb''] two_clusters = Some (Returns (Done '''', f'))"
    by (simp add: newCmdRemoveClusters_def validateRemoveClustersArgs_def projectOrDefault_def remove_options_def runRemoveClusters_def ready_defaults
        example_clients removeResources_def ready_deleted example_syncer_lb run after_run_def append_err_def)
  with that show thesis by blast
qed


end
