(* ===== verification/StatusCommand.thy ===== *)
theory StatusCommand
  imports Commands
begin

text \<open>
  \<^verbatim>\<open>kubemci get-status\<close> (\<^verbatim>\<open>app/kubemci/cmd/getstatus.go\<close>) after \<^verbatim>\<open>kubemci create\<close> and after \<^verbatim>\<open>kubemci delete\<close>: what the user is told of
  a load balancer that has just been created, or deleted.
\<close>

section \<open>The status a creation leaves in the project\<close>

definition created_status :: "string \<Rightarrow> string \<Rightarrow> string slice \<Rightarrow> LoadBalancerStatus" where
  "created_status lbName ip clusters = \<lparr>Description = ''URL map for kubernetes multicluster loadbalancer '' @ lbName,
     LoadBalancerName = lbName, Clusters = sort_Strings clusters, IPAddress = ip\<rparr>"

lemma created_status_valid:
  assumes "valid_utf8 lbName" "valid_utf8 ip" "set (elems clusters) = cs" "\<And>c. c \<in> cs \<Longrightarrow> valid_utf8 c"
  shows "valid_status (created_status lbName ip clusters)"
  using assms by (cases clusters) (auto simp: valid_status_def created_status_def)

context lb_env
begin

lemma createResources_url_map:
  assumes "createResources l ord ing force clusters client ports ip hcs igs nps err w = Returns (None, w')"
    and "outside view client" "range_ok ord" "distinct (map fst igs)"
  obtains d um bes where "desiredURLMap (l_namer l) ord (l_lbName l) ip clusters ing bes = Returns (Inr d)"
    "view w' (KUrlMap, URLMapName (l_namer l)) = Some (RUrlMap um)" "um_Description um = um_Description d"
proof (rule createResources_split[OF assms(1)])
  let ?s = "l_namer l"
  fix bes beErr w1 umx w2 err0 err1 w3 err2 w4 fwErr
  assume run: "EnsureURLMap ?s (l_cloud l) ord (l_lbName l) ip clusters ing bes force w1 = Returns (umx, w2)"
    "err0 = None \<longrightarrow> err = None \<and> beErr = None \<and> (\<exists>link. umx = Inr link)"
    "(if AllowHTTP ing then configureHTTP l ip (link_of umx) force err0 w2 else (err0, w2)) = (err1, w3)"
    "(if wants_https ing then configureHTTPS l ing client ip (link_of umx) force err1 w3 else (err1, w3)) = (err2, w4)"
    "EnsureFirewallRule ?s (l_fwp l) (l_ig l) ord (l_lbName l) ports igs force w4 = Returns (fwErr, w')"
    "(None :: go_error option) = None \<longrightarrow> err2 = None \<and> fwErr = None"
  have none: "err2 = None" "fwErr = None" using run(6) by simp_all
  note https = optional_https[OF run(4)[unfolded none(1)] assms(2)]
  note http = optional_http[OF run(3)[unfolded https(1)]]
  from run(2) http(1) obtain link where link: "umx = Inr link" by blast
  obtain d um where um: "desiredURLMap ?s ord (l_lbName l) ip clusters ing bes = Returns (Inr d)"
    "view w2 = (view w1)((KUrlMap, URLMapName ?s) \<mapsto> RUrlMap um)" "um_Description um = um_Description d"
    using EnsureURLMap_ok[OF run(1)[unfolded link] um_404] .
  obtain f where f: "view w' = (view w4)((KFirewall, FirewallRuleName ?s) \<mapsto> RFirewall f)"
    using EnsureFirewallRule_ok[OF run(5)[unfolded none(2)] assms(3,4)] by blast
  have "view w' (KUrlMap, URLMapName ?s) = Some (RUrlMap um)"
    using f http(3)[of "(KUrlMap, URLMapName ?s)"] https(3)[of "(KUrlMap, URLMapName ?s)"] um(2) by (simp add: http_cells_def https_cells_def)
  with um(1,3) show thesis by (intro that)
qed

lemma CreateLoadBalancer_status:
  assumes "CreateLoadBalancer l ord ing force validate clusters w = Some (Returns (None, w'))" "range_ok ord"
  obtains um client ports v a v' where "client \<in> snd ` set (l_clients l)" "ingToNodePorts ord ing client w = (ports, v)"
    "GetGlobalAddress (l_cloud l) (annotation ing StaticIPNameKey) v = (Inr a, v')"
    "view w' (KUrlMap, URLMapName (l_namer l)) = Some (RUrlMap um)"
    "valid_status (created_status (l_lbName l) (addr_Address a) clusters) \<Longrightarrow>
     um_getStatus um = Inr (created_status (l_lbName l) (addr_Address a) clusters)"
proof (rule CreateLoadBalancer_split[OF assms(1)])
  fix client w1 ports ip w2 hcs hcErr w3 igs igErr w4 nps portsErr w5 err
  assume run0: "ingToNodePorts ord ing client w = (ports, w1)"
    and run: "getAnyClient ord (l_clients l) = Inr client" "getIPAddress l ing w1 = (Inr ip, w2)" "getIGs l ord ing (l_clients l) w3 = Some ((igs, igErr), w4)"
    "createResources l ord ing force clusters client ports ip hcs igs nps err w5 = Returns (None, w')"
  have out: "\<forall>c \<in> snd ` set (l_clients l). outside view c" using clients_outside by blast
  obtain a where a: "GetGlobalAddress (l_cloud l) (annotation ing StaticIPNameKey) w1 = (Inr a, w2)" "ip = addr_Address a"
    using run(2) by (auto simp: getIPAddress_def Let_def split: if_splits prod.splits sum.splits)
  have client: "client \<in> snd ` set (l_clients l)" using getAnyClient_in[OF run(1)] by force
  show thesis
  proof (rule createResources_url_map[OF run(4) anyClient_outside[OF run(1)] assms(2) getIGs_facts(2)[OF out run(3)]])
    fix d um bes
    assume um: "desiredURLMap (l_namer l) ord (l_lbName l) ip clusters ing bes = Returns (Inr d)"
      "view w' (KUrlMap, URLMapName (l_namer l)) = Some (RUrlMap um)" "um_Description um = um_Description d"
    have "um_getStatus um = Inr (created_status (l_lbName l) ip clusters)" if "valid_status (created_status (l_lbName l) ip clusters)"
      using um(3) desiredURLMap_description[OF um(1)] that by (simp add: um_getStatus_def FromString_ToString_text created_status_def)
    then show thesis using that[OF client run0 a(1) um(2)] a(2) by simp
  qed
qed

text \<open>Reading a status that is stored on the URL map.\<close>

lemma PrintStatus_stored:
  assumes "view w (KUrlMap, URLMapName (l_namer l)) = Some (RUrlMap um)" "um_getStatus um = Inr st"
  shows "\<exists>w'. PrintStatus l w = ((formatLoadBalancerStatus (l_lbName l) st, None), w') \<and> view w' = view w"
proof -
  obtain x w1 where g: "GetUrlMap (l_cloud l) (URLMapName (l_namer l)) w = (x, w1)" by fastforce
  from get_url_map[OF g um_404 assms(1)] have x: "x = Inr um" by simp
  have "view w1 = view w" using g unfolding x by (rule um.get_view)
  then show ?thesis using g x assms(2) by (simp add: PrintStatus_def getLoadBalancerStatus_def um_GetLoadBalancerStatus_def)
qed

end

lemma GetClients_contexts:
  assumes "GetClients exec g kubeconfig names w = ((clients, e), w')" "c \<in> fst ` set clients"
  obtains cs v where "GetClusterContexts exec kubeconfig names w = (Inr cs, v)" "c \<in> set cs"
proof -
  have keys: "getClientsForContexts g kubeconfig cs m err = (clients, e) \<Longrightarrow> fst ` set clients \<subseteq> fst ` set m \<union> set cs" for cs m err
    by (induction g kubeconfig cs m err rule: getClientsForContexts.induct) (auto simp: dom_update split: sum.splits)
  obtain cs v where "GetClusterContexts exec kubeconfig names w = (Inr cs, v)" "getClientsForContexts g kubeconfig cs [] None = (clients, e)"
    using assms by (auto simp: GetClients_def split: prod.splits sum.splits)
  with keys[OF this(2)] assms(2) that show ?thesis by auto
qed

lemma EnsureIngress_clusters: "EnsureIngress ord ing clients force w = ((cl, e), w') \<Longrightarrow> cl = map fst (range_entries ord ''ensure ingress'' clients)"
proof -
  have "ensureIngressLoop ing force cs acc err w = ((cl, e), w') \<Longrightarrow> cl = acc @ map fst cs" for cs acc err w
    by (induction ing force cs acc err w rule: ensureIngressLoop.induct) (auto split: prod.splits)
  then show "EnsureIngress ord ing clients force w = ((cl, e), w') \<Longrightarrow> ?thesis" by (force simp: EnsureIngress_def)
qed

text \<open>The names of the clusters, in the order of the status.\<close>

lemma status_clusters:
  assumes "range_ok ord" "distinct (map fst clients)" "elems cl = map fst (range_entries ord site clients)"
  shows "elems (sort_Strings cl) = sorted_list_of_set (fst ` set clients)" "length (elems (sort_Strings cl)) = length clients"
    "set (elems cl) = fst ` set clients"
proof -
  have cl: "elems cl = ord site (map fst clients)" using assms(3) by (simp add: keys_range_entries[OF assms(1)])
  have keys: "distinct (elems cl)" "set (elems cl) = fst ` set clients" "length (elems cl) = length clients"
    unfolding cl using assms(2) by (simp_all add: range_ok_distinct[OF assms(1)] range_ok_set[OF assms(1)] range_ok_length[OF assms(1)])
  have sorted: "elems (sort_Strings cl) = sort (elems cl)" by (cases cl) simp_all
  show "elems (sort_Strings cl) = sorted_list_of_set (fst ` set clients)"
    unfolding sorted keys(2)[symmetric] by (simp add: sorted_list_of_set_sort_remdups distinct_remdups_id[OF keys(1)])
  show "length (elems (sort_Strings cl)) = length clients" unfolding sorted using keys(3) by simp
  show "set (elems cl) = fst ` set clients" by (rule keys(2))
qed

section \<open>Reserved addresses\<close>

text \<open>
  What a creation relies on for the static addresses: running a program or a call to a cluster does not change them, and the cloud of a project
  reports them as they are.
\<close>

locale reserved_addresses =
  fixes env :: "'w CmdEnv"
    and addr :: "'w \<Rightarrow> string \<Rightarrow> string option"
  assumes addr_untouched: "untouched env addr"
    and addr_reported: "e_cloud env project = Inr cloud \<Longrightarrow> GetGlobalAddress (c_lbp cloud) n w = (Inr a, w') \<Longrightarrow> addr w n = Some (addr_Address a)"
begin

lemma address_found:
  assumes "clients_of env kubeconfig clients" "client \<in> snd ` set clients" "ingToNodePorts ord ing client w = (ports, v)"
    and "e_cloud env project = Inr cloud" "GetGlobalAddress (c_lbp cloud) n v = (Inr a, v')"
  shows "addr w n = Some (addr_Address a)"
proof -
  have "outside addr client" using assms(1,2) addr_untouched by (auto simp: clients_of_def untouched_def)
  from ingToNodePorts_view[OF this assms(3)] addr_reported[OF assms(4,5)] show ?thesis by simp
qed

end

section \<open>The command\<close>

lemma get_status_syncer:
  assumes "e_instances env project = Inr ig"
  obtains l where "newSyncer env lbName [] cloud project = Inr l" "l_namer l = NewNamer MciPrefix lbName" "l_lbName l = lbName"
  using assms by (simp add: newSyncer_def NewLoadBalancerSyncer_def)

lemma get_status_stored:
  assumes "cmd_env view env lookup" "go_GCPProject gop \<noteq> ''''" "e_cloud env (go_GCPProject gop) = Inr cloud" "e_instances env (go_GCPProject gop) = Inr ig"
    and "view w (KUrlMap, URLMapName (NewNamer MciPrefix lbName)) = Some (RUrlMap um)" "um_getStatus um = Inr st"
  shows "\<exists>w'. newCmdGetStatus env gop [lbName] w = Returns (Done (formatLoadBalancerStatus lbName st), w') \<and> view w' = view w"
proof (rule get_status_syncer[OF assms(4)])
  fix l
  assume l: "newSyncer env lbName [] cloud (go_GCPProject gop) = Inr l" "l_namer l = NewNamer MciPrefix lbName" "l_lbName l = lbName"
  from lb_env.PrintStatus_stored[OF cmd_env.syncer_env[OF assms(1,3) l(1)] _ assms(6)] l assms(2,3,5) show ?thesis
    by (fastforce simp: newCmdGetStatus_def validateGetStatusArgs_def projectOrDefault_def runGetStatus_def)
qed

section \<open>Property\<close>


section \<open>Example\<close>

definition fake_addr :: "FakeCloud \<Rightarrow> string \<Rightarrow> string option" where
  "fake_addr f n = map_option addr_Address (find (\<lambda>a. addr_Name a = n) (elems (f_IP f)))"

interpretation fake_addresses: reserved_addresses example_env fake_addr
proof
  show "untouched example_env fake_addr" by (simp add: untouched_def ready_client_outside)
  show "fake_addr f n = Some (addr_Address a)" if "e_cloud example_env project = Inr cloud" "GetGlobalAddress (c_lbp cloud) n f = (Inr a, f')" for project cloud n f a f'
    using that by (auto simp: example_cloud_def fake_ops first_named_def fake_addr_def split: option.splits)
qed


section \<open>After a deletion\<close>

context lb_env
begin

lemma PrintStatus_missing:
  assumes "view w (KUrlMap, URLMapName (l_namer l)) = None"
  shows "\<exists>w'. PrintStatus l w = (('''', Some (Errorf ''Load balancer %s does not exist'' [AStr (l_lbName l)])), w') \<and> view w' = view w"
proof -
  obtain x w1 where g: "GetUrlMap (l_cloud l) (URLMapName (l_namer l)) w = (x, w1)" by fastforce
  have "x \<noteq> Inr um" for um using um.get_ok[of "URLMapName (l_namer l)" w um w1] g assms by auto
  then obtain err where x: "x = Inl err" by (cases x) auto
  have "IsHTTPErrorCode (Some err) StatusNotFound" using um_404[of "URLMapName (l_namer l)" w] g x by (auto simp: found_or_404_def)
  moreover have "view w1 = view w" using um.get_view[OF g] .
  ultimately show ?thesis using g x by (simp add: PrintStatus_def getLoadBalancerStatus_def um_GetLoadBalancerStatus_def)
qed

end

text \<open>
  C11. When \<^verbatim>\<open>kubemci delete\<close> has reported success, \<^verbatim>\<open>kubemci get-status\<close> of the same load balancer changes nothing and fails with the message that it does
  not exist.
\<close>

theorem deleted_status_missing:
  assumes "cmd_env view env lookup" "range_ok (e_ord env)" "newCmdDelete env dop [lbName] w = Returns (Done t, w')"
    and "\<forall>ing c client v. deleted_ingress env dop ing \<longrightarrow> e_clientset env (do_KubeconfigFilename dop) c = Inr client \<longrightarrow>
      fst (ingToNodePorts (e_ord env) ing client v) = ports"
    and "go_GCPProject gop \<noteq> ''''" "e_cloud env (go_GCPProject gop) = Inr cloud" "e_instances env (go_GCPProject gop) = Inr ig"
  shows "\<exists>w''. newCmdGetStatus env gop [lbName] w' = Returns (Failed (Errorf ''Load balancer %s does not exist'' [AStr lbName]), w'') \<and> view w'' = view w'"
proof (rule get_status_syncer[OF assms(7)])
  fix l
  assume l: "newSyncer env lbName [] cloud (go_GCPProject gop) = Inr l" "l_namer l = NewNamer MciPrefix lbName" "l_lbName l = lbName"
  have "view w' (KUrlMap, URLMapName (l_namer l)) = None"
    using delete_exact[OF assms(1-4)] l(2) by (simp add: without_cells_def lb_cells_def restrict_map_def)
  from lb_env.PrintStatus_missing[OF cmd_env.syncer_env[OF assms(1,6) l(1)] this] l assms(5,6) show ?thesis
    by (auto simp: newCmdGetStatus_def validateGetStatusArgs_def projectOrDefault_def runGetStatus_def)
qed

theorem deleted_status_missing_witness:
  "\<exists>f' f''. newCmdDelete example_env delete_options [''lb''] shared_project = Returns (Done '''', f')
     \<and> newCmdGetStatus example_env \<lparr>go_LBName = '''', go_GCPProject = ''p''\<rparr> [''lb''] f'
       = Returns (Failed (Errorf ''Load balancer %s does not exist'' [AStr ''lb'']), f'')"
proof (rule example_delete)
  show "\<not> f_fwReadOnly shared_project" by (simp add: shared_project_def cloud_example_def NewFakeLoadBalancers_def)
  fix f'
  assume run: "newCmdDelete example_env delete_options [''lb''] shared_project = Returns (Done '''', f')"
  let ?gop = "\<lparr>go_LBName = '''', go_GCPProject = ''p''\<rparr>"
  have given: "go_GCPProject ?gop \<noteq> ''''" "e_cloud example_env (go_GCPProject ?gop) = Inr example_cloud" "e_instances example_env (go_GCPProject ?gop) = Inr ig_example"
    "range_ok (e_ord example_env)" by (simp_all add: example_env_def)
  have ports: "\<forall>ing c client v. deleted_ingress example_env delete_options ing \<longrightarrow> e_clientset example_env (do_KubeconfigFilename delete_options) c = Inr client \<longrightarrow>
      fst (ingToNodePorts (e_ord example_env) ing client v) = [web_port]" by (simp add: example_requests)
  from deleted_status_missing[OF example_cmd.cmd_env_axioms given(4) run ports given(1-3)] run
  show ?thesis by (elim exE conjE) (intro exI conjI)
qed

end
