(* ===== verification/Wiring.thy ===== *)
theory Wiring
  imports Commands
begin

text \<open>
  How the surroundings of a command are made: running a program (\<^verbatim>\<open>ExecuteCommand\<close>), making the client of a cluster (\<^verbatim>\<open>getClientset\<close>, both
  \<^verbatim>\<open>pkg/kubeutils/utils.go\<close>), reading the ingress file (\<^verbatim>\<open>unmarshall\<close>, \<^verbatim>\<open>pkg/ingress\<close>), making the cloud (\<^verbatim>\<open>pkg/gcp/cloudinterface\<close>) and the
  instance getter (\<^verbatim>\<open>pkg/gcp/instances\<close>) of a project.  What these call (processes, files, the YAML decoder, \<^verbatim>\<open>clientcmd\<close>, the Google clients) is
  gathered in one record.
\<close>

section \<open>Running a program\<close>

definition TrimSuffix :: "string \<Rightarrow> string \<Rightarrow> string" where
  "TrimSuffix s suffix =
     (if length suffix \<le> length s \<and> drop (length s - length suffix) s = suffix then take (length s - length suffix) s else s)"

text \<open>\<open>run prog args\<close> is \<^verbatim>\<open>exec.Command(prog, args...).Output()\<close>: what the program has printed, and an error unless it ended with status 0.\<close>

definition ExecuteCommand :: "(string \<Rightarrow> string list \<Rightarrow> 'w \<Rightarrow> (string \<times> go_error option) \<times> 'w) \<Rightarrow> string list \<Rightarrow> 'w \<Rightarrow> ((string \<times> go_error option) \<times> 'w) outcome" where
  "ExecuteCommand run args w =
     (case args of
        [] \<Rightarrow> Panics
      | prog # rest \<Rightarrow>
          (case run prog rest w of
             ((output, err), w1) \<Rightarrow>
               Returns ((TrimSuffix output [CHR 0x0A],
                  map_option (\<lambda>err. Errorf ''unexpected error in executing command %q: error: %q, output: %q''
                    [AStr (join '' '' args), AErr err, AStr output]) err), w1)))"

section \<open>Clients of the clusters\<close>

text \<open>The further fields of the two structs of \<^verbatim>\<open>clientcmd\<close> keep their defaults.\<close>

record ClientConfigLoadingRules =
  lr_ExplicitPath :: string

record ConfigOverrides =
  ov_CurrentContext :: string

text \<open>\<^verbatim>\<open>NewForConfigOrDie\<close> panics when a client cannot be made.\<close>

definition getClientset ::
    "'r ClientConfigLoadingRules_scheme \<Rightarrow> ('r ClientConfigLoadingRules_scheme \<Rightarrow> ConfigOverrides \<Rightarrow> go_error + 'cfg) \<Rightarrow> ('cfg \<Rightarrow> go_error + 'w KubeClient) \<Rightarrow>
     string \<Rightarrow> string \<Rightarrow> (go_error + 'w KubeClient) outcome" where
  "getClientset defaultRules clientConfig newForConfig kubeconfigPath contextName =
     (let loadingRules = (if kubeconfigPath \<noteq> '''' then defaultRules\<lparr>lr_ExplicitPath := kubeconfigPath\<rparr> else defaultRules)
      in case clientConfig loadingRules \<lparr>ov_CurrentContext = contextName\<rparr> of
           Inl err \<Rightarrow> Returns (Inl err)
         | Inr config \<Rightarrow> (case newForConfig config of Inl err \<Rightarrow> Panics | Inr client \<Rightarrow> Returns (Inr client)))"

section \<open>The ingress file\<close>

definition unmarshall :: "(string \<Rightarrow> go_error + string) \<Rightarrow> (string \<Rightarrow> Ingress \<Rightarrow> go_error option \<times> Ingress) \<Rightarrow> string \<Rightarrow> Ingress \<Rightarrow> go_error option \<times> Ingress" where
  "unmarshall readFile yamlUnmarshal filename ing =
     (case readFile filename of
        Inl err \<Rightarrow> (Some err, ing)
      | Inr bytes \<Rightarrow>
          (case yamlUnmarshal bytes ing of
             (Some err, ing1) \<Rightarrow> (Some err, ing1)
           | (None, ing1) \<Rightarrow> (None, ing1)))"

section \<open>The cloud of a project\<close>

text \<open>The struct of the cloud provider; an interface or pointer that is only ever nil is a flag.\<close>

record CloudConfig =
  gc_ApiEndpoint :: string
  gc_ProjectID :: string
  gc_NetworkProjectID :: string
  gc_Region :: string
  gc_Zone :: string
  gc_ManagedZones :: "string slice"
  gc_NetworkName :: string
  gc_NetworkURL :: string
  gc_SubnetworkName :: string
  gc_SubnetworkURL :: string
  gc_SecondaryRangeName :: string
  gc_NodeTags :: "string slice"
  gc_NodeInstancePrefix :: string
  gc_hasTokenSource :: bool
  gc_UseMetadataServer :: bool
  gc_hasAlphaFeatureGate :: bool

definition getCloudConfig :: "string \<Rightarrow> CloudConfig" where
  "getCloudConfig projectID =
     \<lparr>gc_ApiEndpoint = '''', gc_ProjectID = projectID, gc_NetworkProjectID = '''', gc_Region = '''', gc_Zone = '''', gc_ManagedZones = NilSlice,
      gc_NetworkName = '''', gc_NetworkURL = '''', gc_SubnetworkName = '''', gc_SubnetworkURL = '''', gc_SecondaryRangeName = '''', gc_NodeTags = NilSlice,
      gc_NodeInstancePrefix = '''', gc_hasTokenSource = False, gc_UseMetadataServer = False, gc_hasAlphaFeatureGate = False\<rparr>"

definition NewGCECloudInterface :: "(CloudConfig \<Rightarrow> go_error + 'c) \<Rightarrow> string \<Rightarrow> go_error + 'c" where
  "NewGCECloudInterface CreateGCECloud projectID = (let config = getCloudConfig projectID in CreateGCECloud config)"

section \<open>The instance getter of a project\<close>

record 'h InstanceGetterStruct =
  ig_gcpProjectID :: string
  ig_client :: 'h

definition NewInstanceGetter :: "(go_error + 'h) \<Rightarrow> string \<Rightarrow> go_error + 'h InstanceGetterStruct" where
  "NewInstanceGetter defaultClient projectID =
     (case defaultClient of
        Inl err \<Rightarrow> Inl (Errorf ''error in instantiating GCP client: %s'' [AErr err])
      | Inr client \<Rightarrow> Inr \<lparr>ig_gcpProjectID = projectID, ig_client = client\<rparr>)"

text \<open>The two calls of the compute API, for a service and a project.\<close>

record ('s, 'w) ComputeCalls =
  cc_ListInstances :: "'s \<Rightarrow> string \<Rightarrow> string \<Rightarrow> string \<Rightarrow> 'w \<Rightarrow> (go_error + string list) \<times> 'w"
  cc_GetInstance :: "'s \<Rightarrow> string \<Rightarrow> string \<Rightarrow> string \<Rightarrow> 'w \<Rightarrow> (go_error + Instance) \<times> 'w"

definition g_GetInstance :: "('h \<Rightarrow> go_error + 's) \<Rightarrow> ('s, 'w) ComputeCalls \<Rightarrow> 'h InstanceGetterStruct \<Rightarrow> string \<Rightarrow> 'w \<Rightarrow> (go_error + Instance) \<times> 'w" where
  "g_GetInstance compute_New calls g igURL w =
     (case compute_New (ig_client g) of
        Inl err \<Rightarrow> (Inl (Errorf ''error in instantiating GCP client: %s'' [AErr err]), w)
      | Inr service \<Rightarrow> GetInstance (cc_ListInstances calls service (ig_gcpProjectID g)) (cc_GetInstance calls service (ig_gcpProjectID g)) igURL w)"

section \<open>The surroundings\<close>

record ('w, 'r, 'cfg, 'h, 's) Outside =
  o_run :: "string \<Rightarrow> string list \<Rightarrow> 'w \<Rightarrow> (string \<times> go_error option) \<times> 'w"
  o_readFile :: "string \<Rightarrow> go_error + string"
  o_yaml :: "string \<Rightarrow> Ingress \<Rightarrow> go_error option \<times> Ingress"
  o_rules :: "'r ClientConfigLoadingRules_scheme"
  o_clientConfig :: "'r ClientConfigLoadingRules_scheme \<Rightarrow> ConfigOverrides \<Rightarrow> go_error + 'cfg"
  o_newForConfig :: "'cfg \<Rightarrow> go_error + 'w KubeClient"
  o_createCloud :: "CloudConfig \<Rightarrow> go_error + 'w Cloud"
  o_defaultClient :: "go_error + 'h"
  o_computeNew :: "'h \<Rightarrow> go_error + 's"
  o_calls :: "('s, 'w) ComputeCalls"

definition clientset :: "('w, 'r, 'cfg, 'h, 's) Outside \<Rightarrow> string \<Rightarrow> string \<Rightarrow> (go_error + 'w KubeClient) outcome" where
  "clientset out = getClientset (o_rules out) (o_clientConfig out) (o_newForConfig out)"

text \<open>The environment of the commands is made of the functions above; callers of \<^verbatim>\<open>ExecuteCommand\<close> drop the output of a program that fails.\<close>

definition wired :: "('w, 'r, 'cfg, 'h, 's) Outside \<Rightarrow> 'w CmdEnv \<Rightarrow> bool" where
  "wired out env \<longleftrightarrow>
     (\<forall>prog args w. e_exec env (prog # args) w =
        (case ExecuteCommand (o_run out) (prog # args) w of Returns ((output, None), w1) \<Rightarrow> (Inr output, w1) | Returns ((output, Some err), w1) \<Rightarrow> (Inl err, w1)))
   \<and> e_unmarshall env = unmarshall (o_readFile out) (o_yaml out)
   \<and> (\<forall>kubeconfig c. clientset out kubeconfig c = Returns (e_clientset env kubeconfig c))
   \<and> e_cloud env = NewGCECloudInterface (o_createCloud out)
   \<and> (\<forall>project. e_instances env project = map_sum id (g_GetInstance (o_computeNew out) (o_calls out)) (NewInstanceGetter (o_defaultClient out) project))"

section \<open>Lemmas\<close>

definition lines :: "string list \<Rightarrow> string" where
  "lines cs = concat (map (\<lambda>c. c @ [CHR 0x0A]) cs)"

lemma lines_snoc: "lines (cs @ [c]) = lines cs @ c @ [CHR 0x0A]"
  by (simp add: lines_def)

lemma TrimSuffix_newline: "TrimSuffix (s @ [CHR 0x0A]) [CHR 0x0A] = s"
  by (simp add: TrimSuffix_def)

lemma split_lines_word: "CHR 0x0A \<notin> set c \<Longrightarrow> split_lines acc c = [rev acc @ c]"
  by (induction c arbitrary: acc) auto

lemma split_lines_line: "CHR 0x0A \<notin> set c \<Longrightarrow> split_lines acc (c @ CHR 0x0A # s) = (rev acc @ c) # split_lines [] s"
  by (induction c arbitrary: acc) auto

lemma split_lines_lines: "\<forall>c \<in> set cs. CHR 0x0A \<notin> set c \<Longrightarrow> CHR 0x0A \<notin> set d \<Longrightarrow> split_lines [] (lines cs @ d) = cs @ [d]"
  by (induction cs) (auto simp: lines_def split_lines_word split_lines_line)

lemma split_trimmed:
  assumes "\<forall>c \<in> set cs. CHR 0x0A \<notin> set c"
  shows "split_lines [] (TrimSuffix (lines cs) [CHR 0x0A]) = (if cs = [] then [''''] else cs)"
proof (cases cs rule: rev_cases)
  case Nil
  then show ?thesis by (simp add: lines_def TrimSuffix_def)
next
  case (snoc ds d)
  then show ?thesis using assms TrimSuffix_newline[of "lines ds @ d"] split_lines_lines[of ds d] by (simp add: lines_snoc)
qed

lemma getClientsForContexts_exact:
  "getClientsForContexts g kubeconfig cs m err = (clients, e) \<Longrightarrow>
   (map_of clients c = Some cl \<longleftrightarrow>
      (if c \<in> set cs \<and> (\<exists>cl. g kubeconfig c = Inr cl) then g kubeconfig c = Inr cl else map_of m c = Some cl))
   \<and> (e = None \<longleftrightarrow> err = None \<and> (\<forall>c \<in> set cs. \<exists>cl. g kubeconfig c = Inr cl))"
  by (induction g kubeconfig cs m err rule: getClientsForContexts.induct)
    (auto simp: multierror_Append_def AList.update_conv' split: sum.splits if_splits)

section \<open>Property\<close>

text \<open>
  C16. The clients of the clusters: when \<^verbatim>\<open>kubectl config get-contexts -o=name\<close> prints the names of the contexts, each on a line, the contexts are exactly these
  names, the map has a client exactly for each of them whose client can be made, and there is an error exactly if one cannot be made.  With no
  context at all, the one context of the empty name is used.  When \<^verbatim>\<open>kubectl\<close> fails there is an error and no client.
\<close>

theorem clients_of_contexts:
  assumes "wired out env"
    and "o_run out ''kubectl'' ((if kubeconfig \<noteq> '''' then [''--kubeconfig='' @ kubeconfig] else []) @ [''config'', ''get-contexts'', ''-o=name''] @ names) w
      = ((output, failure), w1)"
    and "failure = None \<longrightarrow> output = lines cs \<and> (\<forall>c \<in> set cs. CHR 0x0A \<notin> set c)"
    and "GetClients (e_exec env) (e_clientset env) kubeconfig names w = ((clients, e), w2)"
  shows "w2 = w1
    \<and> (failure \<noteq> None \<longrightarrow> clients = [] \<and> e \<noteq> None)
    \<and> (failure = None \<longrightarrow>
        (let contexts = (if cs = [] then [''''] else cs) in
           (\<forall>c client. map_of clients c = Some client \<longleftrightarrow> c \<in> set contexts \<and> clientset out kubeconfig c = Returns (Inr client))
         \<and> (e = None \<longleftrightarrow> (\<forall>c \<in> set contexts. \<exists>client. clientset out kubeconfig c = Returns (Inr client)))))"
proof -
  let ?args = "(if kubeconfig \<noteq> '''' then [''--kubeconfig='' @ kubeconfig] else []) @ [''config'', ''get-contexts'', ''-o=name''] @ names"
  have exec: "e_exec env (''kubectl'' # ?args) w = (case failure of None \<Rightarrow> (Inr (TrimSuffix output [CHR 0x0A]), w1)
      | Some err \<Rightarrow> (Inl (Errorf ''unexpected error in executing command %q: error: %q, output: %q''
          [AStr (join '' '' (''kubectl'' # ?args)), AErr err, AStr output]), w1))"
    using assms(1) assms(2) unfolding wired_def ExecuteCommand_def by (simp split: option.split)
  have client: "e_clientset env kubeconfig c = Inr cl \<longleftrightarrow> clientset out kubeconfig c = Returns (Inr cl)" for c cl
    using assms(1) unfolding wired_def by auto
  show ?thesis
  proof (cases failure)
    case None
    let ?contexts = "if cs = [] then [''''] else cs"
    have "GetClusterContexts (e_exec env) kubeconfig names w = (Inr ?contexts, w1)"
      using exec None assms(3) split_trimmed[of cs] by (simp add: GetClusterContexts_def)
    then have run: "getClientsForContexts (e_clientset env) kubeconfig ?contexts [] None = (clients, e)" "w2 = w1" using assms(4) by (simp_all add: GetClients_def)
    from getClientsForContexts_exact[OF run(1)] run(2) None show ?thesis
      unfolding Let_def client by (auto split: if_splits)
  next
    case (Some err)
    with exec assms(4) show ?thesis by (auto simp: GetClients_def GetClusterContexts_def)
  qed
qed

text \<open>The default project is what \<^verbatim>\<open>gcloud\<close> prints, without the end of the line.\<close>

lemma default_project:
  assumes "wired out env" "o_run out ''gcloud'' [''config'', ''get-value'', ''project''] w = ((project @ [CHR 0x0A], None), w1)"
  shows "GetProjectFromGCloud (e_exec env) w = (Inr project, w1)"
  using assms by (simp add: wired_def ExecuteCommand_def GetProjectFromGCloud_def TrimSuffix_newline)

section \<open>Example\<close>

definition out_example :: "(nat, unit, string, unit, unit) Outside" where
  "out_example = \<lparr>o_run = (\<lambda>prog args w. ((lines [''a'', ''b''], None), Suc w)), o_readFile = (\<lambda>f. Inl (Errorf ''no file'' [])), o_yaml = (\<lambda>s ing. (None, ing)),
     o_rules = \<lparr>lr_ExplicitPath = '''', \<dots> = ()\<rparr>,
     o_clientConfig = (\<lambda>r ov. if ov_CurrentContext ov = ''a'' then Inr (lr_ExplicitPath r) else Inl (Errorf ''no context'' [])),
     o_newForConfig = (\<lambda>cfg. Inr (web_client ''/'')), o_createCloud = (\<lambda>cfg. Inl (Errorf ''no cloud'' [])), o_defaultClient = Inr (), o_computeNew = Inr,
     o_calls = \<lparr>cc_ListInstances = (\<lambda>s p z n w. (Inr [], w)), cc_GetInstance = (\<lambda>s p z n w. (Inl (Errorf ''no instance'' []), w))\<rparr>\<rparr>"

definition env_example :: "nat CmdEnv" where
  "env_example = \<lparr>e_exec = (\<lambda>args w. (Inr (TrimSuffix (lines [''a'', ''b'']) [CHR 0x0A]), Suc w)), e_unmarshall = unmarshall (o_readFile out_example) (o_yaml out_example),
     e_clientset = (\<lambda>k c. if c = ''a'' then Inr (web_client ''/'') else Inl (Errorf ''no context'' [])), e_cloud = NewGCECloudInterface (o_createCloud out_example),
     e_instances = (\<lambda>project. map_sum id (g_GetInstance (o_computeNew out_example) (o_calls out_example)) (NewInstanceGetter (o_defaultClient out_example) project)),
     e_sleep = Suc, e_tabwriter = concat \<circ> map concat, e_ord = in_order\<rparr>"

lemma wired_example: "wired out_example env_example"
  by (simp add: wired_def env_example_def ExecuteCommand_def clientset_def getClientset_def out_example_def Let_def)

theorem clients_of_contexts_witness:
  "\<exists>clients e w2. GetClients (e_exec env_example) (e_clientset env_example) ''config'' [] 0 = ((clients, e), w2)
     \<and> map_of clients ''a'' = Some (web_client ''/'') \<and> map_of clients ''b'' = None \<and> e \<noteq> None"
proof -
  obtain clients e w2 where run: "GetClients (e_exec env_example) (e_clientset env_example) ''config'' [] 0 = ((clients, e), w2)" by (metis prod.collapse)
  have out: "o_run out_example p args w = ((lines [''a'', ''b''], None), Suc w)" for p args w by (simp add: out_example_def)
  have a: "clientset out_example k c = Returns (if c = ''a'' then Inr (web_client ''/'') else Inl (Errorf ''no context'' []))" for k c
    by (simp add: clientset_def getClientset_def out_example_def Let_def)
  have printed: "None = None \<longrightarrow> lines [''a'', ''b''] = lines [''a'', ''b''] \<and> (\<forall>c \<in> set [''a'', ''b'']. CHR 0x0A \<notin> set c)" by simp
  note facts = clients_of_contexts[OF wired_example out printed run]
  have made: "\<forall>c client. map_of clients c = Some client \<longleftrightarrow> c \<in> set [''a'', ''b''] \<and> clientset out_example ''config'' c = Returns (Inr client)"
    "e = None \<longleftrightarrow> (\<forall>c \<in> set [''a'', ''b'']. \<exists>client. clientset out_example ''config'' c = Returns (Inr client))"
    using facts by (simp_all only: Let_def list.distinct if_False simp_thms)
  have "map_of clients ''a'' = Some (web_client ''/'')" using made(1) by (simp add: a)
  moreover have "map_of clients ''b'' \<noteq> Some client" for client using made(1) by (simp add: a)
  moreover have "e \<noteq> None" using made(2) by (simp add: a)
  ultimately show ?thesis using run by blast
qed

end
