(* ===== verification/Doubles.thy ===== *)
theory Doubles
  imports LoadBalancer Validations "HOL-Library.Multiset"
begin

text \<open>
  The test doubles of the syncers (\<^verbatim>\<open>app/kubemci/pkg/**/fake_*.go\<close>) that the unit tests of the load balancer syncer and of the commands run against,
  and how far they behave like the syncers they stand for.  A double records what it has been asked to ensure.
\<close>

section \<open>Go maps as sets\<close>

definition MapFromSlice :: "string list \<Rightarrow> unit gomap" where
  "MapFromSlice strs = fold (\<lambda>s. AList.update s ()) strs []"

definition sliceToMap :: "string list \<Rightarrow> bool gomap" where
  "sliceToMap links = fold (\<lambda>v. AList.update v True) links []"

definition append_slice :: "'a slice \<Rightarrow> 'a \<Rightarrow> 'a slice" where
  "append_slice s x = Slice (elems s @ [x])"

section \<open>URL maps\<close>

record fakeURLMap =
  fum_LBName :: string
  fum_IPAddress :: string
  fum_Clusters :: "string slice"
  fum_Ingress :: Ingress
  fum_BeMap :: BackendServicesMap
  fum_HasStatus :: bool

record FakeURLMapSyncer =
  EnsuredURLMaps :: "fakeURLMap slice"

definition FakeURLSelfLink :: string where "FakeURLSelfLink = ''url/map/self/link''"

definition NewFakeURLMapSyncer :: FakeURLMapSyncer where "NewFakeURLMapSyncer = \<lparr>EnsuredURLMaps = NilSlice\<rparr>"

definition dum_EnsureURLMap ::
    "string \<Rightarrow> string \<Rightarrow> string slice \<Rightarrow> Ingress \<Rightarrow> BackendServicesMap \<Rightarrow> bool \<Rightarrow> FakeURLMapSyncer \<Rightarrow> (go_error + string) \<times> FakeURLMapSyncer" where
  "dum_EnsureURLMap lbName ipAddress clusters ing beMap forceUpdate f =
     (Inr FakeURLSelfLink, f\<lparr>EnsuredURLMaps := append_slice (EnsuredURLMaps f)
        \<lparr>fum_LBName = lbName, fum_IPAddress = ipAddress, fum_Clusters = clusters, fum_Ingress = ing, fum_BeMap = beMap, fum_HasStatus = True\<rparr>\<rparr>)"

definition dum_DeleteURLMap :: "FakeURLMapSyncer \<Rightarrow> go_error option \<times> FakeURLMapSyncer" where
  "dum_DeleteURLMap f = (None, f\<lparr>EnsuredURLMaps := NilSlice\<rparr>)"

definition fum_status :: "fakeURLMap \<Rightarrow> LoadBalancerStatus" where
  "fum_status fr = \<lparr>Description = '''', LoadBalancerName = fum_LBName fr, Clusters = fum_Clusters fr, IPAddress = fum_IPAddress fr\<rparr>"

text \<open>A double may also answer with neither a status nor an error.\<close>

definition dum_GetLoadBalancerStatus :: "string \<Rightarrow> FakeURLMapSyncer \<Rightarrow> go_error + LoadBalancerStatus option" where
  "dum_GetLoadBalancerStatus lbName f =
     (case find (\<lambda>fr. fum_LBName fr = lbName) (elems (EnsuredURLMaps f)) of
        None \<Rightarrow> Inl (Errorf ''load balancer %s does not exist'' [AStr lbName])
      | Some fr \<Rightarrow> if \<not> fum_HasStatus fr then Inr None else Inr (Some (fum_status fr)))"

definition dum_ListLoadBalancerStatuses :: "FakeURLMapSyncer \<Rightarrow> LoadBalancerStatus list" where
  "dum_ListLoadBalancerStatuses f = map fum_status (filter fum_HasStatus (elems (EnsuredURLMaps f)))"

definition dum_RemoveClustersFromStatus :: "string list \<Rightarrow> FakeURLMapSyncer \<Rightarrow> go_error option \<times> FakeURLMapSyncer" where
  "dum_RemoveClustersFromStatus clusters f =
     (let clustersToRemove = MapFromSlice clusters
      in (None, f\<lparr>EnsuredURLMaps := map_slice (\<lambda>fr.
            if \<not> fum_HasStatus fr then fr
            else fr\<lparr>fum_Clusters := Slice (filter (\<lambda>c. map_of clustersToRemove c = None) (elems (fum_Clusters fr)))\<rparr>) (EnsuredURLMaps f)\<rparr>))"

definition dum_setStatus :: "bool \<Rightarrow> string \<Rightarrow> FakeURLMapSyncer \<Rightarrow> FakeURLMapSyncer" where
  "dum_setStatus has lbName f =
     f\<lparr>EnsuredURLMaps := map_slice (\<lambda>um. if fum_LBName um = lbName then um\<lparr>fum_HasStatus := has\<rparr> else um) (EnsuredURLMaps f)\<rparr>"

definition dum_AddStatus :: "string \<Rightarrow> FakeURLMapSyncer \<Rightarrow> FakeURLMapSyncer" where
  "dum_AddStatus lbName f = dum_setStatus True lbName f"

definition dum_RemoveStatus :: "string \<Rightarrow> FakeURLMapSyncer \<Rightarrow> FakeURLMapSyncer" where
  "dum_RemoveStatus lbName f = dum_setStatus False lbName f"

section \<open>Forwarding rules\<close>

text \<open>
  The status of a rule is a pointer.  Rules of one load balancer may share it, but removing clusters a second time changes nothing, so a value
  per rule shows the same as the shared object.
\<close>

record fakeForwardingRule =
  ffr_LBName :: string
  ffr_IPAddress :: string
  ffr_TPLink :: string
  ffr_IsHTTPS :: bool
  ffr_Status :: "LoadBalancerStatus option"

record FakeForwardingRuleSyncer =
  EnsuredForwardingRules :: "fakeForwardingRule slice"

definition NewFakeForwardingRuleSyncer :: FakeForwardingRuleSyncer where
  "NewFakeForwardingRuleSyncer = \<lparr>EnsuredForwardingRules = NilSlice\<rparr>"

definition dfr_EnsureHTTPForwardingRule ::
    "string \<Rightarrow> string \<Rightarrow> string \<Rightarrow> bool \<Rightarrow> FakeForwardingRuleSyncer \<Rightarrow> go_error option \<times> FakeForwardingRuleSyncer" where
  "dfr_EnsureHTTPForwardingRule lbName ipAddress targetProxyLink forceUpdate f =
     (None, f\<lparr>EnsuredForwardingRules := append_slice (EnsuredForwardingRules f)
        \<lparr>ffr_LBName = lbName, ffr_IPAddress = ipAddress, ffr_TPLink = targetProxyLink, ffr_IsHTTPS = False, ffr_Status = None\<rparr>\<rparr>)"

definition dfr_EnsureHTTPSForwardingRule ::
    "string \<Rightarrow> string \<Rightarrow> string \<Rightarrow> bool \<Rightarrow> FakeForwardingRuleSyncer \<Rightarrow> go_error option \<times> FakeForwardingRuleSyncer" where
  "dfr_EnsureHTTPSForwardingRule lbName ipAddress targetProxyLink forceUpdate f =
     (None, f\<lparr>EnsuredForwardingRules := append_slice (EnsuredForwardingRules f)
        \<lparr>ffr_LBName = lbName, ffr_IPAddress = ipAddress, ffr_TPLink = targetProxyLink, ffr_IsHTTPS = True, ffr_Status = None\<rparr>\<rparr>)"

definition dfr_DeleteForwardingRules :: "FakeForwardingRuleSyncer \<Rightarrow> go_error option \<times> FakeForwardingRuleSyncer" where
  "dfr_DeleteForwardingRules f = (None, f\<lparr>EnsuredForwardingRules := NilSlice\<rparr>)"

definition dfr_GetLoadBalancerStatus :: "string \<Rightarrow> FakeForwardingRuleSyncer \<Rightarrow> go_error + LoadBalancerStatus option" where
  "dfr_GetLoadBalancerStatus lbName f =
     (case find (\<lambda>fr. ffr_LBName fr = lbName) (elems (EnsuredForwardingRules f)) of
        None \<Rightarrow> Inl (Errorf ''load balancer %s does not exist'' [AStr lbName])
      | Some fr \<Rightarrow> Inr (ffr_Status fr))"

definition dfr_ListLoadBalancerStatuses :: "FakeForwardingRuleSyncer \<Rightarrow> LoadBalancerStatus list" where
  "dfr_ListLoadBalancerStatuses f = List.map_filter ffr_Status (elems (EnsuredForwardingRules f))"

definition dfr_RemoveClustersFromStatus :: "string list \<Rightarrow> FakeForwardingRuleSyncer \<Rightarrow> go_error option \<times> FakeForwardingRuleSyncer" where
  "dfr_RemoveClustersFromStatus clusters f =
     (let clustersToRemove = MapFromSlice clusters
      in (None, f\<lparr>EnsuredForwardingRules := map_slice (\<lambda>fr.
            case ffr_Status fr of
              None \<Rightarrow> fr
            | Some s \<Rightarrow> fr\<lparr>ffr_Status := Some (s\<lparr>Clusters := Slice (filter (\<lambda>c. map_of clustersToRemove c = None) (elems (Clusters s)))\<rparr>)\<rparr>)
          (EnsuredForwardingRules f)\<rparr>))"

definition dfr_setStatus :: "LoadBalancerStatus option \<Rightarrow> string \<Rightarrow> FakeForwardingRuleSyncer \<Rightarrow> FakeForwardingRuleSyncer" where
  "dfr_setStatus status lbName f =
     f\<lparr>EnsuredForwardingRules := map_slice (\<lambda>fr. if ffr_LBName fr = lbName then fr\<lparr>ffr_Status := status\<rparr> else fr) (EnsuredForwardingRules f)\<rparr>"

definition dfr_AddStatus :: "string \<Rightarrow> LoadBalancerStatus \<Rightarrow> FakeForwardingRuleSyncer \<Rightarrow> FakeForwardingRuleSyncer" where
  "dfr_AddStatus lbName status f = dfr_setStatus (Some status) lbName f"

definition dfr_RemoveStatus :: "string \<Rightarrow> FakeForwardingRuleSyncer \<Rightarrow> FakeForwardingRuleSyncer" where
  "dfr_RemoveStatus lbName f = dfr_setStatus None lbName f"

section \<open>Backend services and health checks\<close>

record FakeBackendService =
  fbe_LBName :: string
  fbe_Port :: ServicePort
  fbe_HCMap :: HealthChecksMap
  fbe_NPMap :: NamedPortsMap
  fbe_IGLinks :: "string list"

record FakeBackendServiceSyncer =
  EnsuredBackendServices :: "FakeBackendService slice"

definition NewFakeBackendServiceSyncer :: FakeBackendServiceSyncer where
  "NewFakeBackendServiceSyncer = \<lparr>EnsuredBackendServices = NilSlice\<rparr>"

fun dbe_EnsureLoop ::
    "string \<Rightarrow> HealthChecksMap \<Rightarrow> NamedPortsMap \<Rightarrow> string list \<Rightarrow> ServicePort list \<Rightarrow> BackendServicesMap \<Rightarrow> FakeBackendServiceSyncer \<Rightarrow>
     BackendServicesMap \<times> FakeBackendServiceSyncer" where
  "dbe_EnsureLoop lbName hcMap npMap igLinks [] beMap h = (beMap, h)"
| "dbe_EnsureLoop lbName hcMap npMap igLinks (p # ps) beMap h =
     dbe_EnsureLoop lbName hcMap npMap igLinks ps (AList.update (sp_Name p) zero_BackendService beMap)
       (h\<lparr>EnsuredBackendServices := append_slice (EnsuredBackendServices h)
          \<lparr>fbe_LBName = lbName, fbe_Port = p, fbe_HCMap = hcMap, fbe_NPMap = npMap, fbe_IGLinks = igLinks\<rparr>\<rparr>)"

definition dbe_EnsureBackendService ::
    "string \<Rightarrow> ServicePort list \<Rightarrow> HealthChecksMap \<Rightarrow> NamedPortsMap \<Rightarrow> string list \<Rightarrow> bool \<Rightarrow> FakeBackendServiceSyncer \<Rightarrow>
     (BackendServicesMap \<times> go_error option) \<times> FakeBackendServiceSyncer" where
  "dbe_EnsureBackendService lbName ports hcMap npMap igLinks forceUpdate h =
     (case dbe_EnsureLoop lbName hcMap npMap igLinks ports [] h of (beMap, h1) \<Rightarrow> ((beMap, None), h1))"

definition dbe_DeleteBackendServices :: "ServicePort list \<Rightarrow> FakeBackendServiceSyncer \<Rightarrow> go_error option \<times> FakeBackendServiceSyncer" where
  "dbe_DeleteBackendServices ports h = (None, h\<lparr>EnsuredBackendServices := NilSlice\<rparr>)"

text \<open>A link is removed once, and then marked as removed.\<close>

fun removeLinksOnce :: "bool gomap \<Rightarrow> string list \<Rightarrow> string list" where
  "removeLinksOnce removeLinksEachBe [] = []"
| "removeLinksOnce removeLinksEachBe (ig # igs) =
     (if map_of removeLinksEachBe ig \<noteq> Some True then ig # removeLinksOnce removeLinksEachBe igs
      else removeLinksOnce (AList.update ig False removeLinksEachBe) igs)"

definition dbe_RemoveFromClusters :: "ServicePort list \<Rightarrow> string list \<Rightarrow> FakeBackendServiceSyncer \<Rightarrow> go_error option \<times> FakeBackendServiceSyncer" where
  "dbe_RemoveFromClusters ports removeIGLinks h =
     (let affectedPorts = fold (\<lambda>v. AList.update (sp_NodePort v) True) ports []
      in (None, h\<lparr>EnsuredBackendServices := map_slice (\<lambda>v.
            if map_of affectedPorts (sp_NodePort (fbe_Port v)) = None then v
            else v\<lparr>fbe_IGLinks := removeLinksOnce (sliceToMap removeIGLinks) (fbe_IGLinks v)\<rparr>) (EnsuredBackendServices h)\<rparr>))"

record fakeHealthCheck =
  fhc_LBName :: string
  fhc_Port :: ServicePort

record FakeHealthCheckSyncer =
  EnsuredHealthChecks :: "fakeHealthCheck slice"

definition NewFakeHealthCheckSyncer :: FakeHealthCheckSyncer where
  "NewFakeHealthCheckSyncer = \<lparr>EnsuredHealthChecks = NilSlice\<rparr>"

fun dhc_EnsureLoop :: "string \<Rightarrow> ServicePort list \<Rightarrow> HealthChecksMap \<Rightarrow> FakeHealthCheckSyncer \<Rightarrow> HealthChecksMap \<times> FakeHealthCheckSyncer" where
  "dhc_EnsureLoop lbName [] hcMap f = (hcMap, f)"
| "dhc_EnsureLoop lbName (p # ps) hcMap f =
     dhc_EnsureLoop lbName ps (AList.update (sp_NodePort p) zero_HealthCheck hcMap)
       (f\<lparr>EnsuredHealthChecks := append_slice (EnsuredHealthChecks f) \<lparr>fhc_LBName = lbName, fhc_Port = p\<rparr>\<rparr>)"

definition dhc_EnsureHealthCheck ::
    "string \<Rightarrow> ServicePort list \<Rightarrow> 'w KubeClient gomap \<Rightarrow> bool \<Rightarrow> FakeHealthCheckSyncer \<Rightarrow> (HealthChecksMap \<times> go_error option) \<times> FakeHealthCheckSyncer" where
  "dhc_EnsureHealthCheck lbName ports clients force f = (case dhc_EnsureLoop lbName ports [] f of (hcMap, f1) \<Rightarrow> ((hcMap, None), f1))"

definition dhc_DeleteHealthChecks :: "ServicePort list \<Rightarrow> FakeHealthCheckSyncer \<Rightarrow> go_error option \<times> FakeHealthCheckSyncer" where
  "dhc_DeleteHealthChecks ports f = (None, f\<lparr>EnsuredHealthChecks := NilSlice\<rparr>)"

section \<open>Firewall rules, proxies, certificates, instances and validation\<close>

record fakeFirewallRule =
  ffw_LBName :: string
  ffw_Ports :: "ServicePort list"
  ffw_IGLinks :: "string list gomap"

record FakeFirewallRuleSyncer =
  EnsuredFirewallRules :: "fakeFirewallRule slice"

definition NewFakeFirewallRuleSyncer :: FakeFirewallRuleSyncer where
  "NewFakeFirewallRuleSyncer = \<lparr>EnsuredFirewallRules = NilSlice\<rparr>"

definition dfw_EnsureFirewallRule ::
    "string \<Rightarrow> ServicePort list \<Rightarrow> string list gomap \<Rightarrow> bool \<Rightarrow> FakeFirewallRuleSyncer \<Rightarrow> go_error option \<times> FakeFirewallRuleSyncer" where
  "dfw_EnsureFirewallRule lbName ports igLinks forceUpdate h =
     (None, h\<lparr>EnsuredFirewallRules := append_slice (EnsuredFirewallRules h) \<lparr>ffw_LBName = lbName, ffw_Ports = ports, ffw_IGLinks = igLinks\<rparr>\<rparr>)"

definition dfw_DeleteFirewallRules :: "FakeFirewallRuleSyncer \<Rightarrow> go_error option \<times> FakeFirewallRuleSyncer" where
  "dfw_DeleteFirewallRules h = (None, h\<lparr>EnsuredFirewallRules := NilSlice\<rparr>)"

definition dfw_RemoveFromClusters :: "string \<Rightarrow> string list gomap \<Rightarrow> FakeFirewallRuleSyncer \<Rightarrow> go_error option \<times> FakeFirewallRuleSyncer" where
  "dfw_RemoveFromClusters lbName removeIGLinks h =
     (None, h\<lparr>EnsuredFirewallRules := map_slice (\<lambda>v.
        if ffw_LBName v \<noteq> lbName then v
        else v\<lparr>ffw_IGLinks := filter (\<lambda>(clusterName, igValues). map_of removeIGLinks clusterName = None) (ffw_IGLinks v)\<rparr>) (EnsuredFirewallRules h)\<rparr>)"

record fakeTargetProxy =
  ftp_LBName :: string
  ftp_UmLink :: string
  ftp_CertLink :: string

record FakeTargetProxySyncer =
  EnsuredTargetProxies :: "fakeTargetProxy slice"

definition FakeTargetProxySelfLink :: string where "FakeTargetProxySelfLink = ''target/proxy/self/link''"

definition NewFakeTargetProxySyncer :: FakeTargetProxySyncer where
  "NewFakeTargetProxySyncer = \<lparr>EnsuredTargetProxies = NilSlice\<rparr>"

definition dtp_EnsureHTTPTargetProxy :: "string \<Rightarrow> string \<Rightarrow> bool \<Rightarrow> FakeTargetProxySyncer \<Rightarrow> (go_error + string) \<times> FakeTargetProxySyncer" where
  "dtp_EnsureHTTPTargetProxy lbName umLink forceUpdate f =
     (Inr FakeTargetProxySelfLink, f\<lparr>EnsuredTargetProxies := append_slice (EnsuredTargetProxies f)
        \<lparr>ftp_LBName = lbName, ftp_UmLink = umLink, ftp_CertLink = ''''\<rparr>\<rparr>)"

definition dtp_EnsureHTTPSTargetProxy ::
    "string \<Rightarrow> string \<Rightarrow> string \<Rightarrow> bool \<Rightarrow> FakeTargetProxySyncer \<Rightarrow> (go_error + string) \<times> FakeTargetProxySyncer" where
  "dtp_EnsureHTTPSTargetProxy lbName umLink certLink forceUpdate f =
     (Inr FakeTargetProxySelfLink, f\<lparr>EnsuredTargetProxies := append_slice (EnsuredTargetProxies f)
        \<lparr>ftp_LBName = lbName, ftp_UmLink = umLink, ftp_CertLink = certLink\<rparr>\<rparr>)"

definition dtp_DeleteTargetProxies :: "FakeTargetProxySyncer \<Rightarrow> go_error option \<times> FakeTargetProxySyncer" where
  "dtp_DeleteTargetProxies f = (None, f\<lparr>EnsuredTargetProxies := NilSlice\<rparr>)"

record fakeSSLCert =
  fsc_LBName :: string
  fsc_Ingress :: Ingress

record fakeSSLCertSyncer =
  EnsuredSSLCerts :: "fakeSSLCert slice"

definition FakeSSLCertSelfLink :: string where "FakeSSLCertSelfLink = ''target/cert/self/link''"

definition NewFakeSSLCertSyncer :: fakeSSLCertSyncer where "NewFakeSSLCertSyncer = \<lparr>EnsuredSSLCerts = NilSlice\<rparr>"

definition dsc_EnsureSSLCert :: "string \<Rightarrow> Ingress \<Rightarrow> 'w KubeClient \<Rightarrow> bool \<Rightarrow> fakeSSLCertSyncer \<Rightarrow> (go_error + string) \<times> fakeSSLCertSyncer" where
  "dsc_EnsureSSLCert lbName ing client forceUpdate f =
     (Inr FakeSSLCertSelfLink, f\<lparr>EnsuredSSLCerts := append_slice (EnsuredSSLCerts f) \<lparr>fsc_LBName = lbName, fsc_Ingress = ing\<rparr>\<rparr>)"

definition dsc_DeleteSSLCert :: "fakeSSLCertSyncer \<Rightarrow> go_error option \<times> fakeSSLCertSyncer" where
  "dsc_DeleteSSLCert f = (None, f\<lparr>EnsuredSSLCerts := NilSlice\<rparr>)"

definition newInstance :: "string \<Rightarrow> Instance" where
  "newInstance igURL = \<lparr>inst_Name = igURL, inst_Zone = igURL, inst_Tags = Some (Slice [igURL]), inst_NetworkInterfaces = NilSlice\<rparr>"

definition FakeGetInstance :: "'w InstanceGetter" where
  "FakeGetInstance igURL w = (Inr (newInstance igURL), w)"

record 'w FakeValidator =
  ValidatedClusterSets :: "'w KubeClient gomap list"
  validationSucceeds :: bool
  ValidationError :: "go_error option"

definition NewFakeValidator :: "bool \<Rightarrow> 'w FakeValidator" where
  "NewFakeValidator validationShouldPass = \<lparr>ValidatedClusterSets = [], validationSucceeds = validationShouldPass, ValidationError = None\<rparr>"

definition fake_serverVersionsNewEnough :: "'w KubeClient gomap \<Rightarrow> 'w FakeValidator \<Rightarrow> go_error option \<times> 'w FakeValidator" where
  "fake_serverVersionsNewEnough clients v = (None, v\<lparr>ValidatedClusterSets := ValidatedClusterSets v @ [clients]\<rparr>)"

definition fake_Validate :: "'w KubeClient gomap \<Rightarrow> Ingress \<Rightarrow> 'w FakeValidator \<Rightarrow> go_error option \<times> 'w FakeValidator" where
  "fake_Validate clients ing v =
     (case fake_serverVersionsNewEnough clients v of
        (Some err, v1) \<Rightarrow> (Some err, v1)
      | (None, v1) \<Rightarrow>
          if \<not> validationSucceeds v1 then
            let e = Some (Errorf ''test-validation-err'' []) in (e, v1\<lparr>ValidationError := e\<rparr>)
          else (None, v1))"

section \<open>Lemmas\<close>

lemma fold_update: "map_of (fold (\<lambda>s. AList.update (k s) v) xs m) x = (if x \<in> k ` set xs then Some v else map_of m x)"
  by (induction xs arbitrary: m) (auto simp: AList.update_conv')

lemma MapFromSlice_None [simp]: "map_of (MapFromSlice cs) c = None \<longleftrightarrow> c \<notin> set cs"
  using fold_update[of id "()" cs "[]" c] by (simp add: MapFromSlice_def)

lemma sliceToMap_True [simp]: "map_of (sliceToMap cs) c = Some True \<longleftrightarrow> c \<in> set cs"
  using fold_update[of id True cs "[]" c] by (simp add: sliceToMap_def)

lemma elems_map_slice [simp]: "elems (map_slice g s) = map g (elems s)"
  by (cases s) simp_all

lemma elems_append_slice [simp]: "elems (append_slice s x) = elems s @ [x]"
  by (simp add: append_slice_def)

lemma find_map_key: "(\<And>x. P (g x) \<longleftrightarrow> P x) \<Longrightarrow> find P (map g xs) = map_option g (find P xs)"
  by (induction xs) auto

lemma removeLinksOnce_distinct:
  "distinct igs \<Longrightarrow> removeLinksOnce m igs = filter (\<lambda>ig. map_of m ig \<noteq> Some True) igs"
proof (induction igs arbitrary: m)
  case (Cons ig igs)
  then show ?case by (auto simp: AList.update_conv' intro!: filter_cong)
qed simp

section \<open>The contract of the status\<close>

text \<open>Removals of clusters, one after the other.\<close>

inductive removals :: "(string list \<Rightarrow> 'w \<Rightarrow> 'w \<Rightarrow> bool) \<Rightarrow> string list list \<Rightarrow> 'w \<Rightarrow> 'w \<Rightarrow> bool" for removed where
  none: "removals removed [] w w"
| one: "removed cs w w1 \<Longrightarrow> removals removed css w1 w2 \<Longrightarrow> removals removed (cs # css) w w2"

text \<open>
  What the load balancer syncer relies on for the status a syncer keeps: a successful ensure stores the name, the address and the clusters, a
  removal takes exactly the given clusters out.  The order of the clusters and the description are left open.
\<close>

locale status_store =
  fixes ensured :: "string \<Rightarrow> string \<Rightarrow> string list \<Rightarrow> 'w \<Rightarrow> 'w \<Rightarrow> bool"
    and removed :: "string list \<Rightarrow> 'w \<Rightarrow> 'w \<Rightarrow> bool"
    and status :: "string \<Rightarrow> 'w \<Rightarrow> string \<Rightarrow> string multiset \<Rightarrow> bool"
  assumes ensured_status: "ensured lb ip cl w w' \<Longrightarrow> status lb w' ip (mset cl)"
    and removed_status: "removed cs w w' \<Longrightarrow> status lb w ip M \<Longrightarrow> status lb w' ip (filter_mset (\<lambda>c. c \<notin> set cs) M)"
begin

lemma removals_status: "removals removed css w w' \<Longrightarrow> status lb w ip M \<Longrightarrow> status lb w' ip (filter_mset (\<lambda>c. c \<notin> \<Union> (set ` set css)) M)"
proof (induction arbitrary: M rule: removals.induct)
  case (one cs w w1 css w2)
  from one.IH[OF removed_status[OF one.hyps(1) one.prems]] show ?case by (simp add: filter_filter_mset conj_commute)
qed simp

lemma ensured_then_removed:
  "ensured lb ip cl w w1 \<Longrightarrow> removals removed css w1 w2 \<Longrightarrow> status lb w2 ip (mset (filter (\<lambda>c. c \<notin> \<Union> (set ` set css)) cl))"
  using removals_status[OF _ ensured_status] by (simp add: mset_filter)

end

text \<open>The double keeps the contract for load balancers ensured once.\<close>

definition dum_ensured :: "Ingress \<Rightarrow> BackendServicesMap \<Rightarrow> bool \<Rightarrow> string \<Rightarrow> string \<Rightarrow> string list \<Rightarrow> FakeURLMapSyncer \<Rightarrow> FakeURLMapSyncer \<Rightarrow> bool" where
  "dum_ensured ing beMap force lb ip cl f f' \<longleftrightarrow> (\<forall>m \<in> set (elems (EnsuredURLMaps f)). fum_LBName m \<noteq> lb)
     \<and> (\<exists>clusters link. elems clusters = cl \<and> dum_EnsureURLMap lb ip clusters ing beMap force f = (Inr link, f'))"

definition dum_removed :: "string list \<Rightarrow> FakeURLMapSyncer \<Rightarrow> FakeURLMapSyncer \<Rightarrow> bool" where
  "dum_removed cs f f' \<longleftrightarrow> dum_RemoveClustersFromStatus cs f = (None, f')"

definition dum_status :: "string \<Rightarrow> FakeURLMapSyncer \<Rightarrow> string \<Rightarrow> string multiset \<Rightarrow> bool" where
  "dum_status lb f ip M \<longleftrightarrow>
     (\<exists>s. dum_GetLoadBalancerStatus lb f = Inr (Some s) \<and> LoadBalancerName s = lb \<and> IPAddress s = ip \<and> mset (elems (Clusters s)) = M)"

interpretation url_map_double: status_store "dum_ensured ing beMap force" dum_removed dum_status
proof
  fix lb ip cl f f'
  assume e: "dum_ensured ing beMap force lb ip cl f f'"
  then have "find (\<lambda>fr. fum_LBName fr = lb) (elems (EnsuredURLMaps f)) = None" by (simp add: dum_ensured_def find_None_iff)
  with e show "dum_status lb f' ip (mset cl)"
    by (auto simp: dum_ensured_def dum_status_def dum_EnsureURLMap_def dum_GetLoadBalancerStatus_def fum_status_def find_append)
next
  fix cs f f' lb ip M
  assume r: "dum_removed cs f f'" and s: "dum_status lb f ip M"
  let ?g = "\<lambda>fr. if \<not> fum_HasStatus fr then fr
    else fr\<lparr>fum_Clusters := Slice (filter (\<lambda>c. map_of (MapFromSlice cs) c = None) (elems (fum_Clusters fr)))\<rparr>"
  obtain fr where fr: "find (\<lambda>fr. fum_LBName fr = lb) (elems (EnsuredURLMaps f)) = Some fr" "fum_HasStatus fr" "fum_LBName fr = lb" "fum_IPAddress fr = ip"
    "mset (elems (fum_Clusters fr)) = M"
    using s by (auto simp: dum_status_def dum_GetLoadBalancerStatus_def fum_status_def split: option.splits if_splits)
  have f': "EnsuredURLMaps f' = map_slice ?g (EnsuredURLMaps f)" using r by (auto simp: dum_removed_def dum_RemoveClustersFromStatus_def)
  have g: "find (\<lambda>fr. fum_LBName fr = lb) (map ?g xs) = map_option ?g (find (\<lambda>fr. fum_LBName fr = lb) xs)" for xs
    by (rule find_map_key) simp
  have "find (\<lambda>fr. fum_LBName fr = lb) (elems (EnsuredURLMaps f')) = Some (?g fr)" by (simp only: f' elems_map_slice g fr(1) option.map)
  with fr(2-5) show "dum_status lb f' ip (filter_mset (\<lambda>c. c \<notin> set cs) M)"
    by (auto simp: dum_status_def dum_GetLoadBalancerStatus_def fum_status_def mset_filter)
qed

text \<open>The URL map syncer keeps it too, against every cloud that obeys the laws.\<close>

definition um_ensured ::
    "'w LoadBalancers \<Rightarrow> Namer \<Rightarrow> range_order \<Rightarrow> Ingress \<Rightarrow> BackendServicesMap \<Rightarrow> bool \<Rightarrow> string \<Rightarrow> string \<Rightarrow> string list \<Rightarrow> 'w \<Rightarrow> 'w \<Rightarrow> bool" where
  "um_ensured P s ord ing beMap force lb ip cl w w' \<longleftrightarrow> found_or_404 (GetUrlMap P) (URLMapName s) w
     \<and> valid_utf8 lb \<and> valid_utf8 ip \<and> (\<forall>c \<in> set cl. valid_utf8 c)
     \<and> (\<exists>clusters link. elems clusters = cl \<and> EnsureURLMap s P ord lb ip clusters ing beMap force w = Returns (Inr link, w'))"

definition um_removed :: "'w LoadBalancers \<Rightarrow> Namer \<Rightarrow> string list \<Rightarrow> 'w \<Rightarrow> 'w \<Rightarrow> bool" where
  "um_removed P s cs w w' \<longleftrightarrow> um_RemoveClustersFromStatus s P cs w = (None, w')"

definition um_status :: "('w \<Rightarrow> project) \<Rightarrow> Namer \<Rightarrow> string \<Rightarrow> 'w \<Rightarrow> string \<Rightarrow> string multiset \<Rightarrow> bool" where
  "um_status view s lb w ip M \<longleftrightarrow> (\<exists>m st. view w (KUrlMap, URLMapName s) = Some (RUrlMap m) \<and> valid_status st \<and> ToString st = Inr (um_Description m)
     \<and> LoadBalancerName st = lb \<and> IPAddress st = ip \<and> mset (elems (Clusters st)) = M)"

lemma elems_sort_Strings [simp]: "elems (sort_Strings s) = sort (elems s)"
  by (cases s) simp_all

sublocale lb_api \<subseteq> status: status_store "um_ensured P s ord ing beMap force" "um_removed P s" "um_status view s"
  for s ord ing beMap force
proof
  fix lb ip cl w w'
  assume "um_ensured P s ord ing beMap force lb ip cl w w'"
  then obtain clusters link where e: "found_or_404 (GetUrlMap P) (URLMapName s) w" "valid_utf8 lb" "valid_utf8 ip" "\<forall>c \<in> set cl. valid_utf8 c"
    "elems clusters = cl" "EnsureURLMap s P ord lb ip clusters ing beMap force w = Returns (Inr link, w')" by (auto simp: um_ensured_def)
  let ?st = "\<lparr>Description = ''URL map for kubernetes multicluster loadbalancer '' @ lb, LoadBalancerName = lb, Clusters = sort_Strings clusters, IPAddress = ip\<rparr>"
  show "um_status view s lb w' ip (mset cl)"
  proof (rule EnsureURLMap_ok[OF e(6,1)])
    fix d um
    assume d: "desiredURLMap s ord lb ip clusters ing beMap = Returns (Inr d)"
      and um: "view w' = (view w)((KUrlMap, URLMapName s) \<mapsto> RUrlMap um)" "um_Description um = um_Description d"
    have "valid_status ?st" using e(2-5) by (auto simp: valid_status_def)
    moreover have "ToString ?st = Inr (um_Description um)" using um(2) desiredURLMap_description[OF d] by (simp add: ToString_Inr)
    ultimately show ?thesis using um(1) e(5) unfolding um_status_def by (intro exI[of _ um] exI[of _ ?st]) simp
  qed
next
  fix cs w w' lb ip M
  assume r: "um_removed P s cs w w'" and "um_status view s lb w ip M"
  then obtain m st where st: "view w (KUrlMap, URLMapName s) = Some (RUrlMap m)" "valid_status st" "ToString st = Inr (um_Description m)"
    "LoadBalancerName st = lb" "IPAddress st = ip" "mset (elems (Clusters st)) = M" by (auto simp: um_status_def)
  let ?st = "st\<lparr>Clusters := slice_of (filter (\<lambda>c. c \<notin> set cs) (elems (Clusters st)))\<rparr>"
  show "um_status view s lb w' ip (filter_mset (\<lambda>c. c \<notin> set cs) M)"
  proof (rule um_RemoveClusters_ok[OF r[unfolded um_removed_def] st(1)])
    fix r str
    assume str: "RemoveClusters (um_Description m) cs = (str, None)" "um_stored (m\<lparr>um_Description := str\<rparr>) r"
      "view w' = (view w)((KUrlMap, URLMapName s) \<mapsto> RUrlMap r)"
    have "str = ToString_text ?st" "valid_status ?st"
      using str(1) st(2,3)
      by (auto simp: ToString_Inr RemoveClusters_def FromString_ToString_text Let_def valid_status_def dest!: sym[of _ "um_Description m"])
    moreover have "um_Description r = str" using um_stored_description[OF str(2)] by simp
    ultimately show ?thesis using str(3) st(4-6) unfolding um_status_def
      by (intro exI[of _ r] exI[of _ ?st]) (auto simp: ToString_Inr mset_filter)
  qed
qed

context lb_api
begin

lemma status_after_removals:
  assumes "um_ensured P s ord ing beMap force lb ip cl w w1" "removals (um_removed P s) css w1 w2"
    and "um_GetLoadBalancerStatus s P lb w2 = (Inr st, w3)"
  shows "LoadBalancerName st = lb \<and> IPAddress st = ip \<and> mset (elems (Clusters st)) = mset (filter (\<lambda>c. c \<notin> \<Union> (set ` set css)) cl)"
proof -
  from status.ensured_then_removed[OF assms(1,2)] obtain m st0 where
    m: "view w2 (KUrlMap, URLMapName s) = Some (RUrlMap m)" "valid_status st0" "ToString st0 = Inr (um_Description m)"
    "LoadBalancerName st0 = lb" "IPAddress st0 = ip" "mset (elems (Clusters st0)) = mset (filter (\<lambda>c. c \<notin> \<Union> (set ` set css)) cl)"
    by (auto simp: um_status_def)
  obtain um w4 where g: "GetUrlMap P (URLMapName s) w2 = (Inr um, w4)" "um_getStatus um = Inr st"
    using assms(3) by (auto simp: um_GetLoadBalancerStatus_def split: prod.splits sum.splits if_splits)
  have "um = m" using um.get_ok[OF g(1)] m(1) by simp
  with g(2) m(2,3) have "st = st0" by (auto simp: um_getStatus_def ToString_Inr FromString_ToString_text dest!: sym[of _ "um_Description m"])
  with m(4-6) show ?thesis by simp
qed

end

section \<open>Properties\<close>

text \<open>
  C36. The double of the URL map syncer agrees with the syncer: after the same successful ensure and the same removals of clusters, the status
  read back from either names the same load balancer, the same address and the same clusters.
\<close>

theorem url_map_double_agrees:
  assumes "lb_api view P" "um_ensured P s ord ing beMap force lb ip cl w w1" "removals (um_removed P s) css w1 w2"
    and "um_GetLoadBalancerStatus s P lb w2 = (Inr st, w3)"
    and "dum_ensured ing beMap force lb ip cl d d1" "removals dum_removed css d1 d2"
  shows "\<exists>st'. dum_GetLoadBalancerStatus lb d2 = Inr (Some st') \<and> LoadBalancerName st' = LoadBalancerName st \<and> IPAddress st' = IPAddress st
    \<and> mset (elems (Clusters st')) = mset (elems (Clusters st))"
  using lb_api.status_after_removals[OF assms(1-4)] url_map_double.ensured_then_removed[OF assms(5,6)] by (auto simp: dum_status_def)


text \<open>
  The double of the backend service syncer removes a link only once, the syncer all backends with it; they agree for links without
  duplicates: the links left in an entry of the double are the groups left in the backend service.
\<close>

theorem backend_double_agrees:
  assumes "distinct (fbe_IGLinks v)" "map bk_Group (elems (be_Backends existing)) = fbe_IGLinks v"
    and "EnsuredBackendServices h = Slice [v]" "fbe_Port v \<in> set ports" "dbe_RemoveFromClusters ports links h = (e, h')"
  shows "\<exists>v'. EnsuredBackendServices h' = Slice [v']
    \<and> fbe_IGLinks v' = map bk_Group (elems (be_Backends (desiredBackendServiceWithoutClusters existing links)))"
proof -
  have p: "map_of (fold (\<lambda>v. AList.update (sp_NodePort v) True) ports []) (sp_NodePort (fbe_Port v)) = Some True"
    using assms(4) by (simp add: fold_update)
  have "removeLinksOnce (sliceToMap links) (fbe_IGLinks v) = filter (\<lambda>ig. ig \<notin> set links) (map bk_Group (elems (be_Backends existing)))"
    unfolding assms(2) using assms(1) by (simp add: removeLinksOnce_distinct)
  also have "\<dots> = map bk_Group (elems (be_Backends (desiredBackendServiceWithoutClusters existing links)))"
    by (simp add: withoutClusters_backends filter_map comp_def)
  finally show ?thesis using assms(3,5) p by (auto simp: dbe_RemoveFromClusters_def)
qed

section \<open>Examples\<close>

lemma dum_example: "\<exists>d1. dum_ensured ing beMap force lb ip cl NewFakeURLMapSyncer d1"
  by (auto simp: dum_ensured_def NewFakeURLMapSyncer_def dum_EnsureURLMap_def intro: exI[of _ "Slice cl"])

theorem url_map_double_agrees_witness:
  "\<exists>st st' f1 f2 f3 d1. um_ensured fake_lb lb1 in_order (shop [shop_rule ''h'' ''cart'']) shop_services False ''lb'' ''ip'' [''c2'', ''c1''] NewFakeLoadBalancers f1
     \<and> removals (um_removed fake_lb lb1) [] f1 f2 \<and> um_GetLoadBalancerStatus lb1 fake_lb ''lb'' f2 = (Inr st, f3)
     \<and> dum_ensured (shop [shop_rule ''h'' ''cart'']) shop_services False ''lb'' ''ip'' [''c2'', ''c1''] NewFakeURLMapSyncer d1
     \<and> dum_GetLoadBalancerStatus ''lb'' d1 = Inr (Some st') \<and> mset (elems (Clusters st')) = mset (elems (Clusters st))"
proof -
  let ?ing = "shop [shop_rule ''h'' ''cart'']"
  obtain link f1 where run: "EnsureURLMap lb1 fake_lb in_order ''lb'' ''ip'' (Slice [''c2'', ''c1'']) ?ing shop_services False NewFakeLoadBalancers
    = Returns (Inr link, f1)" by (simp add: ensure_um_eval shop_defs)
  have f404: "found_or_404 (GetUrlMap fake_lb) (URLMapName lb1) f" for f
    by (simp add: found_or_404_def fake_ops first_named_def FakeGoogleAPINotFoundErr_def split: option.splits)
  have real: "um_ensured fake_lb lb1 in_order ?ing shop_services False ''lb'' ''ip'' [''c2'', ''c1''] NewFakeLoadBalancers f1"
    using run f404 unfolding um_ensured_def by (auto intro!: exI[of _ "Slice [''c2'', ''c1'']"])
  from fake.status.ensured_status[OF real] obtain m st where m: "fake_view f1 (KUrlMap, URLMapName lb1) = Some (RUrlMap m)" "um_getStatus m = Inr st"
    unfolding um_status_def by (auto simp: um_getStatus_def ToString_Inr FromString_ToString_text dest!: sym[of _ "um_Description _"] simp del: fake_view.simps)
  obtain x f3 where g: "GetUrlMap fake_lb (URLMapName lb1) f1 = (x, f3)" by fastforce
  have get: "um_GetLoadBalancerStatus lb1 fake_lb ''lb'' f1 = (Inr st, f3)"
    using fake.get_url_map[OF g f404 m(1)] g m(2) by (simp add: um_GetLoadBalancerStatus_def)
  obtain d1 where d1: "dum_ensured ?ing shop_services False ''lb'' ''ip'' [''c2'', ''c1''] NewFakeURLMapSyncer d1" using dum_example by blast
  from url_map_double_agrees[OF fake.lb_api_axioms real removals.none get d1 removals.none] real get d1 removals.none[of "um_removed fake_lb lb1" f1] show ?thesis by blast
qed

definition rule_double :: FakeForwardingRuleSyncer where
  "rule_double = dfr_AddStatus ''lb'' (zero_status\<lparr>Clusters := Slice [''c1'', ''c2'']\<rparr>)
     (snd (dfr_EnsureHTTPForwardingRule ''lb'' ''ip'' ''tp'' False NewFakeForwardingRuleSyncer))"

definition two_cluster_status :: LoadBalancerStatus where
  "two_cluster_status = zero_status\<lparr>Clusters := Slice [''c1'', ''c2'']\<rparr>"

definition status_rule :: ForwardingRule where
  "status_rule = zero_ForwardingRule\<lparr>fr_Name := HTTPForwardingRuleName lb1, fr_Description := ToString_text two_cluster_status\<rparr>"


theorem backend_double_agrees_witness:
  "\<exists>h' v'. dbe_RemoveFromClusters [web_port] [''ig2'']
       (snd (dbe_EnsureBackendService ''lb'' [web_port] [] [] [''ig1'', ''ig2''] False NewFakeBackendServiceSyncer)) = (None, h')
     \<and> EnsuredBackendServices h' = Slice [v'] \<and> fbe_IGLinks v' = [''ig1'']"
proof -
  let ?v = "\<lparr>fbe_LBName = ''lb'', fbe_Port = web_port, fbe_HCMap = [], fbe_NPMap = [], fbe_IGLinks = [''ig1'', ''ig2'']\<rparr>"
  let ?h = "snd (dbe_EnsureBackendService ''lb'' [web_port] [] [] [''ig1'', ''ig2''] False NewFakeBackendServiceSyncer)"
  have h: "EnsuredBackendServices ?h = Slice [?v]"
    by (simp add: dbe_EnsureBackendService_def NewFakeBackendServiceSyncer_def append_slice_def)
  have be: "map bk_Group (elems (be_Backends (be_example None))) = fbe_IGLinks ?v" by (simp add: be_example_def desiredBackends_def zero_Backend_def)
  obtain h' where run: "dbe_RemoveFromClusters [web_port] [''ig2''] ?h = (None, h')" by (simp add: dbe_RemoveFromClusters_def)
  have left: "map bk_Group (elems (be_Backends (desiredBackendServiceWithoutClusters (be_example None) [''ig2'']))) = [''ig1'']"
    by (simp add: desiredBackendServiceWithoutClusters_def be_example_def desiredBackends_def zero_Backend_def)
  have "\<exists>v'. EnsuredBackendServices h' = Slice [v'] \<and> fbe_IGLinks v' = [''ig1'']"
    using backend_double_agrees[OF _ be h _ run] unfolding left by simp
  with run show ?thesis by blast
qed

end
