(* ===== verification/Syncers.thy ===== *)
theory Syncers
  imports Doubles LoadBalancerCreate
begin

text \<open>
  The load balancer syncer as it is declared: a struct of interfaces (\<^verbatim>\<open>pkg/gcp/*/interfaces.go\<close>), which the program fills with the syncers and the
  unit tests with their doubles.  An interface is a record of operations; a constructor \<^verbatim>\<open>New...Syncer\<close> gives the record of a syncer.  Shown: over the
  syncers the operations are those of \<open>LoadBalancer\<close>, and what they ask of the doubles.
\<close>

section \<open>The interfaces\<close>

record 'w HealthCheckSyncerInterface =
  hcs_EnsureHealthCheck :: "string \<Rightarrow> ServicePort list \<Rightarrow> 'w KubeClient gomap \<Rightarrow> bool \<Rightarrow> 'w \<Rightarrow> (HealthChecksMap \<times> go_error option) \<times> 'w"
  hcs_DeleteHealthChecks :: "ServicePort list \<Rightarrow> 'w \<Rightarrow> go_error option \<times> 'w"

record 'w BackendServiceSyncerInterface =
  bss_EnsureBackendService :: "string \<Rightarrow> ServicePort list \<Rightarrow> HealthChecksMap \<Rightarrow> NamedPortsMap \<Rightarrow> string list \<Rightarrow> bool \<Rightarrow> 'w \<Rightarrow>
    ((BackendServicesMap \<times> go_error option) \<times> 'w) outcome"
  bss_DeleteBackendServices :: "ServicePort list \<Rightarrow> 'w \<Rightarrow> go_error option \<times> 'w"
  bss_RemoveFromClusters :: "ServicePort list \<Rightarrow> string list \<Rightarrow> 'w \<Rightarrow> go_error option \<times> 'w"

text \<open>A status is a pointer: without an error it may still be nil.\<close>

record 'w URLMapSyncerInterface =
  ums_EnsureURLMap :: "string \<Rightarrow> string \<Rightarrow> string slice \<Rightarrow> Ingress \<Rightarrow> BackendServicesMap \<Rightarrow> bool \<Rightarrow> 'w \<Rightarrow> ((go_error + string) \<times> 'w) outcome"
  ums_DeleteURLMap :: "'w \<Rightarrow> go_error option \<times> 'w"
  ums_GetLoadBalancerStatus :: "string \<Rightarrow> 'w \<Rightarrow> (go_error + LoadBalancerStatus option) \<times> 'w"
  ums_ListLoadBalancerStatuses :: "'w \<Rightarrow> (LoadBalancerStatus list \<times> go_error option) \<times> 'w"
  ums_RemoveClustersFromStatus :: "string list \<Rightarrow> 'w \<Rightarrow> go_error option \<times> 'w"

record 'w TargetProxySyncerInterface =
  tps_EnsureHTTPTargetProxy :: "string \<Rightarrow> string \<Rightarrow> bool \<Rightarrow> 'w \<Rightarrow> (string \<times> go_error option) \<times> 'w"
  tps_EnsureHTTPSTargetProxy :: "string \<Rightarrow> string \<Rightarrow> string \<Rightarrow> bool \<Rightarrow> 'w \<Rightarrow> (string \<times> go_error option) \<times> 'w"
  tps_DeleteTargetProxies :: "'w \<Rightarrow> go_error option \<times> 'w"

record 'w ForwardingRuleSyncerInterface =
  frs_EnsureHTTPForwardingRule :: "string \<Rightarrow> string \<Rightarrow> string \<Rightarrow> bool \<Rightarrow> 'w \<Rightarrow> go_error option \<times> 'w"
  frs_EnsureHTTPSForwardingRule :: "string \<Rightarrow> string \<Rightarrow> string \<Rightarrow> bool \<Rightarrow> 'w \<Rightarrow> go_error option \<times> 'w"
  frs_DeleteForwardingRules :: "'w \<Rightarrow> go_error option \<times> 'w"
  frs_GetLoadBalancerStatus :: "string \<Rightarrow> 'w \<Rightarrow> (go_error + LoadBalancerStatus option) \<times> 'w"
  frs_ListLoadBalancerStatuses :: "'w \<Rightarrow> (LoadBalancerStatus list \<times> go_error option) \<times> 'w"
  frs_RemoveClustersFromStatus :: "string list \<Rightarrow> 'w \<Rightarrow> go_error option \<times> 'w"

record 'w FirewallRuleSyncerInterface =
  fws_EnsureFirewallRule :: "string \<Rightarrow> ServicePort list \<Rightarrow> string list gomap \<Rightarrow> bool \<Rightarrow> 'w \<Rightarrow> (go_error option \<times> 'w) outcome"
  fws_DeleteFirewallRules :: "'w \<Rightarrow> go_error option \<times> 'w"
  fws_RemoveFromClusters :: "string \<Rightarrow> string list gomap \<Rightarrow> 'w \<Rightarrow> (go_error option \<times> 'w) outcome"

record 'w SSLCertSyncerInterface =
  scs_EnsureSSLCert :: "string \<Rightarrow> Ingress \<Rightarrow> 'w KubeClient \<Rightarrow> bool \<Rightarrow> 'w \<Rightarrow> (go_error + string) \<times> 'w"
  scs_DeleteSSLCert :: "'w \<Rightarrow> go_error option \<times> 'w"

section \<open>The constructors of the syncers\<close>

text \<open>The order in which a syncer visits the maps it is given is fixed with it.\<close>

definition NewHealthCheckSyncer :: "range_order \<Rightarrow> Namer \<Rightarrow> 'w HealthCheckProvider \<Rightarrow> 'w HealthCheckSyncerInterface" where
  "NewHealthCheckSyncer ord namer hcp =
     \<lparr>hcs_EnsureHealthCheck = EnsureHealthCheck namer hcp ord, hcs_DeleteHealthChecks = DeleteHealthChecks namer hcp\<rparr>"

definition NewBackendServiceSyncer :: "Namer \<Rightarrow> 'w BackendServices \<Rightarrow> 'w BackendServiceSyncerInterface" where
  "NewBackendServiceSyncer namer bsp =
     \<lparr>bss_EnsureBackendService = EnsureBackendService namer bsp, bss_DeleteBackendServices = DeleteBackendServices namer bsp,
      bss_RemoveFromClusters = be_RemoveFromClusters namer bsp\<rparr>"

definition with_status :: "(go_error + LoadBalancerStatus) \<times> 'w \<Rightarrow> (go_error + LoadBalancerStatus option) \<times> 'w" where
  "with_status r = (case r of (Inl err, w) \<Rightarrow> (Inl err, w) | (Inr st, w) \<Rightarrow> (Inr (Some st), w))"

definition NewURLMapSyncer :: "range_order \<Rightarrow> Namer \<Rightarrow> 'w LoadBalancers \<Rightarrow> 'w URLMapSyncerInterface" where
  "NewURLMapSyncer ord namer ump =
     \<lparr>ums_EnsureURLMap = EnsureURLMap namer ump ord, ums_DeleteURLMap = um_DeleteURLMap namer ump,
      ums_GetLoadBalancerStatus = (\<lambda>lbName w. with_status (um_GetLoadBalancerStatus namer ump lbName w)),
      ums_ListLoadBalancerStatuses = um_ListLoadBalancerStatuses ump, ums_RemoveClustersFromStatus = um_RemoveClustersFromStatus namer ump\<rparr>"

definition NewTargetProxySyncer :: "Namer \<Rightarrow> 'w LoadBalancers \<Rightarrow> 'w TargetProxySyncerInterface" where
  "NewTargetProxySyncer namer tpp =
     \<lparr>tps_EnsureHTTPTargetProxy = EnsureHTTPTargetProxy namer tpp, tps_EnsureHTTPSTargetProxy = EnsureHTTPSTargetProxy namer tpp,
      tps_DeleteTargetProxies = DeleteTargetProxies namer tpp\<rparr>"

definition NewForwardingRuleSyncer :: "Namer \<Rightarrow> 'w LoadBalancers \<Rightarrow> 'w ForwardingRuleSyncerInterface" where
  "NewForwardingRuleSyncer namer frp =
     \<lparr>frs_EnsureHTTPForwardingRule = EnsureHTTPForwardingRule namer frp, frs_EnsureHTTPSForwardingRule = EnsureHTTPSForwardingRule namer frp,
      frs_DeleteForwardingRules = DeleteForwardingRules namer frp,
      frs_GetLoadBalancerStatus = (\<lambda>lbName w. with_status (fr_GetLoadBalancerStatus namer frp lbName w)),
      frs_ListLoadBalancerStatuses = fr_ListLoadBalancerStatuses frp, frs_RemoveClustersFromStatus = fr_RemoveClustersFromStatus namer frp\<rparr>"

definition NewFirewallRuleSyncer :: "range_order \<Rightarrow> Namer \<Rightarrow> 'w FirewallProvider \<Rightarrow> 'w InstanceGetter \<Rightarrow> 'w FirewallRuleSyncerInterface" where
  "NewFirewallRuleSyncer ord namer fwp ig =
     \<lparr>fws_EnsureFirewallRule = EnsureFirewallRule namer fwp ig ord, fws_DeleteFirewallRules = DeleteFirewallRules namer fwp,
      fws_RemoveFromClusters = fw_RemoveFromClusters namer fwp ig ord\<rparr>"

definition NewSSLCertSyncer :: "Namer \<Rightarrow> 'w LoadBalancers \<Rightarrow> 'w SSLCertSyncerInterface" where
  "NewSSLCertSyncer namer scp = \<lparr>scs_EnsureSSLCert = EnsureSSLCert namer scp, scs_DeleteSSLCert = DeleteSSLCert namer scp\<rparr>"

section \<open>The load balancer syncer\<close>

record 'w Syncer =
  sy_lbName :: string
  sy_hcs :: "'w HealthCheckSyncerInterface"
  sy_bss :: "'w BackendServiceSyncerInterface"
  sy_ums :: "'w URLMapSyncerInterface"
  sy_tps :: "'w TargetProxySyncerInterface"
  sy_frs :: "'w ForwardingRuleSyncerInterface"
  sy_fws :: "'w FirewallRuleSyncerInterface"
  sy_scs :: "'w SSLCertSyncerInterface"
  sy_clients :: "'w KubeClient gomap"
  sy_igp :: "string \<Rightarrow> string \<Rightarrow> 'w \<Rightarrow> (go_error + InstanceGroup) \<times> 'w"
  sy_ipp :: "string \<Rightarrow> 'w \<Rightarrow> (go_error + Address) \<times> 'w"
  sy_sleep :: "'w \<Rightarrow> 'w"

definition NewSyncer :: "range_order \<Rightarrow> 'w LBSyncer \<Rightarrow> 'w Syncer" where
  "NewSyncer ord l =
     \<lparr>sy_lbName = l_lbName l, sy_hcs = NewHealthCheckSyncer ord (l_namer l) (l_hcp l), sy_bss = NewBackendServiceSyncer (l_namer l) (l_bsp l),
      sy_ums = NewURLMapSyncer ord (l_namer l) (l_cloud l), sy_tps = NewTargetProxySyncer (l_namer l) (l_cloud l),
      sy_frs = NewForwardingRuleSyncer (l_namer l) (l_cloud l), sy_fws = NewFirewallRuleSyncer ord (l_namer l) (l_fwp l) (l_ig l),
      sy_scs = NewSSLCertSyncer (l_namer l) (l_cloud l), sy_clients = l_clients l, sy_igp = l_igp l, sy_ipp = GetGlobalAddress (l_cloud l),
      sy_sleep = l_sleep l\<rparr>"

definition sy_getIPAddress :: "'w Syncer \<Rightarrow> Ingress \<Rightarrow> 'w \<Rightarrow> (go_error + string) \<times> 'w" where
  "sy_getIPAddress l ing w =
     (let ipName = annotation ing StaticIPNameKey
      in if ipName = '''' then
           (Inl (Errorf ''The annotation %v has not been specified. Multicluster ingresses require a pre-reserved static IP'' [AStr StaticIPNameKey]), w)
         else (case sy_ipp l ipName w of
            (Inl err, w1) \<Rightarrow> (Inl (Errorf ''unexpected error in getting ip address %s: %s'' [AStr ipName, AErr err]), w1)
          | (Inr ip, w1) \<Rightarrow> (Inr (addr_Address ip), w1)))"

fun sy_getIGsLoop ::
    "('w \<Rightarrow> 'w) \<Rightarrow> Ingress \<Rightarrow> (string \<times> 'w KubeClient) list \<Rightarrow> string list gomap \<Rightarrow> go_error option \<Rightarrow> 'w \<Rightarrow>
     ((string list gomap \<times> go_error option) \<times> 'w) option" where
  "sy_getIGsLoop sleep ing [] igs err w = Some ((igs, err), w)"
| "sy_getIGsLoop sleep ing ((cluster, client) # cs) igs err w =
     (case getIGsForCluster sleep (ing_Name ing) (ing_Namespace ing) client w of
        None \<Rightarrow> None
      | Some (Inl getIGsErr, w1) \<Rightarrow> sy_getIGsLoop sleep ing cs igs (multierror_Append err [getIGsErr]) w1
      | Some (Inr igsFromCluster, w1) \<Rightarrow> sy_getIGsLoop sleep ing cs (AList.update cluster igsFromCluster igs) err w1)"

definition sy_getIGs ::
    "'w Syncer \<Rightarrow> range_order \<Rightarrow> Ingress \<Rightarrow> 'w KubeClient gomap \<Rightarrow> 'w \<Rightarrow> ((string list gomap \<times> go_error option) \<times> 'w) option" where
  "sy_getIGs l ord ing clients w = sy_getIGsLoop (sy_sleep l) ing (range_entries ord ''instance groups'' clients) [] None w"

definition sy_getNamedPortsForIG :: "'w Syncer \<Rightarrow> string \<Rightarrow> 'w \<Rightarrow> (NamedPortsMap \<times> go_error option) \<times> 'w" where
  "sy_getNamedPortsForIG l igURL w =
     (case GetZoneAndNameFromIGURL igURL of
        Inl err \<Rightarrow> (([], Some err), w)
      | Inr (zone, name) \<Rightarrow>
          (case sy_igp l name zone w of
             (Inl err, w1) \<Rightarrow> (([], Some err), w1)
           | (Inr ig, w1) \<Rightarrow> ((fold (\<lambda>np m. AList.update (np_Port np) np m) (ig_NamedPorts ig) [], None), w1)))"

definition sy_getNamedPorts :: "'w Syncer \<Rightarrow> range_order \<Rightarrow> string list gomap \<Rightarrow> 'w \<Rightarrow> ((NamedPortsMap \<times> go_error option) \<times> 'w) outcome" where
  "sy_getNamedPorts l ord igs w =
     (case range_entries ord ''named ports'' igs of
        [] \<Rightarrow> Returns (([], Some (Errorf ''Cannot fetch named ports since instance groups list is empty'' [])), w)
      | (k, []) # _ \<Rightarrow> Panics
      | (k, ig # _) # _ \<Rightarrow> Returns (sy_getNamedPortsForIG l ig w))"

subsection \<open>Creating\<close>

definition sy_configureHTTP :: "'w Syncer \<Rightarrow> string \<Rightarrow> string \<Rightarrow> bool \<Rightarrow> go_error option \<Rightarrow> 'w \<Rightarrow> go_error option \<times> 'w" where
  "sy_configureHTTP l ipAddr umLink forceUpdate err w =
     (case tps_EnsureHTTPTargetProxy (sy_tps l) (sy_lbName l) umLink forceUpdate w of
        ((tpLink, tpErr), w1) \<Rightarrow>
          (case frs_EnsureHTTPForwardingRule (sy_frs l) (sy_lbName l) ipAddr tpLink forceUpdate w1 of
             (frErr, w2) \<Rightarrow>
               (append_err (append_err err (wrap_err ''Error ensuring HTTP target proxy: %s'' [] tpErr))
                  (wrap_err ''Error ensuring http forwarding rule: %s'' [] frErr), w2)))"

definition sy_configureHTTPS ::
    "'w Syncer \<Rightarrow> Ingress \<Rightarrow> 'w KubeClient \<Rightarrow> string \<Rightarrow> string \<Rightarrow> bool \<Rightarrow> go_error option \<Rightarrow> 'w \<Rightarrow> go_error option \<times> 'w" where
  "sy_configureHTTPS l ing client ipAddr umLink forceUpdate err w =
     (case scs_EnsureSSLCert (sy_scs l) (sy_lbName l) ing client forceUpdate w of
        (cert, w1) \<Rightarrow>
          (case tps_EnsureHTTPSTargetProxy (sy_tps l) (sy_lbName l) umLink (link_of cert) forceUpdate w1 of
             ((tpLink, tpErr), w2) \<Rightarrow>
               (case frs_EnsureHTTPSForwardingRule (sy_frs l) (sy_lbName l) ipAddr tpLink forceUpdate w2 of
                  (frErr, w3) \<Rightarrow>
                    (append_err (append_err (append_err err (wrap_err ''Error ensuring SSL certs: %s'' [] (error_of cert)))
                       (wrap_err ''Error ensuring HTTPS target proxy: %s'' [] tpErr))
                       (wrap_err ''Error ensuring https forwarding rule: %s'' [] frErr), w3))))"

definition sy_createResources ::
    "'w Syncer \<Rightarrow> range_order \<Rightarrow> Ingress \<Rightarrow> bool \<Rightarrow> string slice \<Rightarrow> 'w KubeClient \<Rightarrow> ServicePort list \<Rightarrow> string \<Rightarrow> HealthChecksMap \<Rightarrow>
     string list gomap \<Rightarrow> NamedPortsMap \<Rightarrow> go_error option \<Rightarrow> 'w \<Rightarrow> (go_error option \<times> 'w) outcome" where
  "sy_createResources l ord ing forceUpdate clusters client ports ipAddr healthChecks igs namedPorts err w =
     (case bss_EnsureBackendService (sy_bss l) (sy_lbName l) ports healthChecks namedPorts (flat_igs ord igs) forceUpdate w of
        Panics \<Rightarrow> Panics
      | Returns ((backendServices, beErr), w1) \<Rightarrow>
          (case ums_EnsureURLMap (sy_ums l) (sy_lbName l) ipAddr clusters ing backendServices forceUpdate w1 of
             Panics \<Rightarrow> Panics
           | Returns (um, w2) \<Rightarrow>
               let err = append_err (append_err err (wrap_err ''Error ensuring backend service for %s: %s'' [AStr (sy_lbName l)] beErr))
                           (wrap_err ''Error ensuring urlmap for %s: %s'' [AStr (sy_lbName l)] (error_of um))
               in (case (if AllowHTTP ing then sy_configureHTTP l ipAddr (link_of um) forceUpdate err w2 else (err, w2)) of
                     (err1, w3) \<Rightarrow>
                       (case (if UseNamedTLS ing \<noteq> '''' \<or> length (elems (is_TLS (ing_Spec ing))) > 0
                              then sy_configureHTTPS l ing client ipAddr (link_of um) forceUpdate err1 w3 else (err1, w3)) of
                          (err2, w4) \<Rightarrow>
                            (case fws_EnsureFirewallRule (sy_fws l) (sy_lbName l) ports igs forceUpdate w4 of
                               Panics \<Rightarrow> Panics
                             | Returns (fwErr, w5) \<Rightarrow> Returns (append_err err2 fwErr, w5))))))"

definition sy_CreateLoadBalancer ::
    "'w Syncer \<Rightarrow> range_order \<Rightarrow> Ingress \<Rightarrow> bool \<Rightarrow> bool \<Rightarrow> string slice \<Rightarrow> 'w \<Rightarrow> (go_error option \<times> 'w) outcome option" where
  "sy_CreateLoadBalancer l ord ing forceUpdate validate clusters w =
     (case getAnyClient ord (sy_clients l) of
        Inl cErr \<Rightarrow> Some (Returns (Some cErr, w))
      | Inr client \<Rightarrow>
          (case ingToNodePorts ord ing client w of
             (ports, w1) \<Rightarrow>
               (case sy_getIPAddress l ing w1 of
                  (Inl err, w2) \<Rightarrow> Some (Returns (Some err, w2))
                | (Inr ipAddr, w2) \<Rightarrow>
                    (case hcs_EnsureHealthCheck (sy_hcs l) (sy_lbName l) ports (sy_clients l) forceUpdate w2 of
                       ((healthChecks, hcErr), w3) \<Rightarrow>
                         let err = append_err None (wrap_err ''Error ensuring health check for %s: %s'' [AStr (sy_lbName l)] hcErr)
                         in (case sy_getIGs l ord ing (sy_clients l) w3 of
                               None \<Rightarrow> None
                             | Some ((igs, igErr), w4) \<Rightarrow>
                                 Some (case sy_getNamedPorts l ord igs w4 of
                                    Panics \<Rightarrow> Panics
                                  | Returns ((namedPorts, portsErr), w5) \<Rightarrow>
                                      let err = append_err (append_err err igErr) portsErr
                                      in if igs = [] then
                                           Returns (multierror_Append err [Errorf ''No instance group found. Can not continue'' []], w5)
                                         else if namedPorts = [] then
                                           Returns (multierror_Append err [Errorf ''No named ports found. Can not continue'' []], w5)
                                         else sy_createResources l ord ing forceUpdate clusters client ports ipAddr healthChecks igs namedPorts err w5))))))"

subsection \<open>Deleting\<close>

definition sy_deletePortResources ::
    "'w Syncer \<Rightarrow> range_order \<Rightarrow> Ingress \<Rightarrow> 'w KubeClient \<Rightarrow> go_error option \<Rightarrow> 'w \<Rightarrow> go_error option \<times> 'w" where
  "sy_deletePortResources l ord ing client err w =
     (case ingToNodePorts ord ing client w of
        (ports, w1) \<Rightarrow>
          (case bss_DeleteBackendServices (sy_bss l) ports w1 of
             (beErr, w2) \<Rightarrow>
               (case hcs_DeleteHealthChecks (sy_hcs l) ports w2 of
                  (hcErr, w3) \<Rightarrow> (append_err (append_err err beErr) hcErr, w3))))"

definition sy_DeleteLoadBalancer :: "'w Syncer \<Rightarrow> range_order \<Rightarrow> Ingress \<Rightarrow> bool \<Rightarrow> 'w \<Rightarrow> go_error option \<times> 'w" where
  "sy_DeleteLoadBalancer l ord ing forceDelete w =
     (let anyClient = getAnyClient ord (sy_clients l)
      in if error_of anyClient \<noteq> None \<and> \<not> forceDelete then (error_of anyClient, w)
         else (case fws_DeleteFirewallRules (sy_fws l) w of
            (fwErr, w1) \<Rightarrow>
              (case frs_DeleteForwardingRules (sy_frs l) w1 of
                 (frErr, w2) \<Rightarrow>
                   (case tps_DeleteTargetProxies (sy_tps l) w2 of
                      (tpErr, w3) \<Rightarrow>
                        (case scs_DeleteSSLCert (sy_scs l) w3 of
                           (scErr, w4) \<Rightarrow>
                             (case ums_DeleteURLMap (sy_ums l) w4 of
                                (umErr, w5) \<Rightarrow>
                                  let err = append_err (append_err (append_err (append_err (append_err
                                              (append_err None (error_of anyClient)) fwErr) frErr) tpErr) scErr) umErr
                                  in (case anyClient of
                                        Inl cErr \<Rightarrow> (err, w5)
                                      | Inr client \<Rightarrow> sy_deletePortResources l ord ing client err w5)))))))"

subsection \<open>Status and removal\<close>

text \<open>The error of a syncer that gave neither a status nor an error is nil, which is formatted as such.\<close>

definition nil_or :: "go_error + LoadBalancerStatus option \<Rightarrow> go_arg" where
  "nil_or r = (case r of Inl err \<Rightarrow> AErr err | Inr _ \<Rightarrow> AStr ''%!s(<nil>)'')"

definition sy_getLoadBalancerStatus :: "'w Syncer \<Rightarrow> 'w \<Rightarrow> (go_error + LoadBalancerStatus) \<times> 'w" where
  "sy_getLoadBalancerStatus l w =
     (case ums_GetLoadBalancerStatus (sy_ums l) (sy_lbName l) w of
        (um, w1) \<Rightarrow>
          (case um of
             Inr (Some umStatus) \<Rightarrow> (Inr umStatus, w1)
           | _ \<Rightarrow>
               if IsHTTPErrorCode (error_of um) StatusNotFound then (Inl (Errorf ''Load balancer %s does not exist'' [AStr (sy_lbName l)]), w1)
               else (case frs_GetLoadBalancerStatus (sy_frs l) (sy_lbName l) w1 of
                  (fr, w2) \<Rightarrow>
                    (case fr of
                       Inr (Some frStatus) \<Rightarrow> (Inr frStatus, w2)
                     | _ \<Rightarrow>
                         if IsHTTPErrorCode (error_of fr) StatusNotFound then (Inl (Errorf ''Load balancer %s does not exist'' [AStr (sy_lbName l)]), w2)
                         else (Inl (Errorf ''failed to get status from both url map and forwarding rule. Error in extracting status from url map: %s. Error in extracting status from forwarding rule: %s''
                            [nil_or um, nil_or fr]), w2)))))"

definition sy_PrintStatus :: "'w Syncer \<Rightarrow> 'w \<Rightarrow> (string \<times> go_error option) \<times> 'w" where
  "sy_PrintStatus l w =
     (case sy_getLoadBalancerStatus l w of
        (Inl err, w1) \<Rightarrow> (('''', Some err), w1)
      | (Inr status, w1) \<Rightarrow> ((formatLoadBalancerStatus (sy_lbName l) status, None), w1))"

definition sy_ListLoadBalancers :: "(string list list \<Rightarrow> string) \<Rightarrow> 'w Syncer \<Rightarrow> 'w \<Rightarrow> (string \<times> go_error option) \<times> 'w" where
  "sy_ListLoadBalancers tabwriter l w =
     (case ums_ListLoadBalancerStatuses (sy_ums l) w of
        ((umBalancers, umErr), w1) \<Rightarrow>
          (case frs_ListLoadBalancerStatuses (sy_frs l) w1 of
             ((frBalancers, frErr), w2) \<Rightarrow>
               let err = append_err (append_err None umErr) frErr
               in if err \<noteq> None then (('''', err), w2)
                  else ((formatLoadBalancersList tabwriter (umBalancers @ frBalancers), None), w2)))"

definition sy_removeClustersFromStatus :: "'w Syncer \<Rightarrow> string \<Rightarrow> string list \<Rightarrow> 'w \<Rightarrow> go_error option \<times> 'w" where
  "sy_removeClustersFromStatus l lbName clustersToRemove w =
     (case frs_RemoveClustersFromStatus (sy_frs l) clustersToRemove w of
        (frErr, w1) \<Rightarrow>
          (case ums_RemoveClustersFromStatus (sy_ums l) clustersToRemove w1 of
             (umErr, w2) \<Rightarrow>
               (if IsHTTPErrorCode frErr StatusNotFound \<or> IsHTTPErrorCode umErr StatusNotFound then
                  Some (Errorf ''load balancer %s does not exist'' [AStr lbName])
                else case frErr of
                  None \<Rightarrow> umErr
                | Some fe \<Rightarrow>
                    (case umErr of
                       None \<Rightarrow> frErr
                     | Some ue \<Rightarrow> Some (Errorf ''errors in updating both forwarding rule and url map, forwarding rule error: %s, url map error: %s''
                         [AErr fe, AErr ue])), w2)))"

definition sy_removeFromResources ::
    "'w Syncer \<Rightarrow> range_order \<Rightarrow> ServicePort list \<Rightarrow> string list gomap \<Rightarrow> go_error option \<Rightarrow> 'w \<Rightarrow> (go_error option \<times> 'w) outcome" where
  "sy_removeFromResources l ord ports removeIGLinks err w =
     (case fws_RemoveFromClusters (sy_fws l) (sy_lbName l) removeIGLinks w of
        Panics \<Rightarrow> Panics
      | Returns (fwErr, w1) \<Rightarrow>
          (case bss_RemoveFromClusters (sy_bss l) ports (flat_igs ord removeIGLinks) w1 of
             (beErr, w2) \<Rightarrow> Returns (append_err (append_err err fwErr) beErr, w2)))"

definition sy_RemoveFromClusters ::
    "'w Syncer \<Rightarrow> range_order \<Rightarrow> Ingress \<Rightarrow> 'w KubeClient gomap \<Rightarrow> bool \<Rightarrow> 'w \<Rightarrow> (go_error option \<times> 'w) outcome option" where
  "sy_RemoveFromClusters l ord ing removeClients forceUpdate w =
     (case sy_getLoadBalancerStatus l w of
        (Inl statusErr, w1) \<Rightarrow> Some (Returns (Some (Errorf ''error in fetching status of existing load balancer: %s'' [AErr statusErr]), w1))
      | (Inr lbStatus, w1) \<Rightarrow>
          if \<not> hasSomeRemainingClusters (elems (Clusters lbStatus)) removeClients \<and> \<not> forceUpdate then
            Some (Returns (Some (Errorf ''This will remove the ingress from all clusters. You should use kubemci delete to delete the ingress completely. If you really want to just remove it from existing clusters without deleting it completely, use --force flag with remove-clusters command'' []), w1))
          else (case getAnyClient ord (sy_clients l) of
             Inl cErr \<Rightarrow> Some (Returns (Some cErr, w1))
           | Inr client \<Rightarrow>
               (case ingToNodePorts ord ing client w1 of
                  (ports, w2) \<Rightarrow>
                    (case sy_getIGs l ord ing removeClients w2 of
                       None \<Rightarrow> None
                     | Some ((removeIGLinks, igErr0), w3) \<Rightarrow>
                         let igErr = (if igErr0 = None \<and> removeIGLinks = [] then Some (Errorf ''No instance group found'' []) else igErr0)
                         in Some (if igErr \<noteq> None \<and> \<not> forceUpdate then Returns (igErr, w3)
                                  else (case (if igErr = None then sy_removeFromResources l ord ports removeIGLinks None w3
                                              else Returns (append_err None igErr, w3)) of
                                     Panics \<Rightarrow> Panics
                                   | Returns (err, w4) \<Rightarrow>
                                       (case sy_removeClustersFromStatus l (sy_lbName l) (map fst (range_entries ord ''clusters to remove'' removeClients)) w4 of
                                          (statusErr, w5) \<Rightarrow> Returns (append_err err statusErr, w5))))))))"

section \<open>Over the syncers\<close>

lemma NewSyncer_fields [simp]:
  "sy_lbName (NewSyncer ord l) = l_lbName l" "sy_clients (NewSyncer ord l) = l_clients l" "sy_igp (NewSyncer ord l) = l_igp l"
  "sy_ipp (NewSyncer ord l) = GetGlobalAddress (l_cloud l)" "sy_sleep (NewSyncer ord l) = l_sleep l"
  by (simp_all add: NewSyncer_def)

lemma NewSyncer_methods [simp]:
  "hcs_EnsureHealthCheck (sy_hcs (NewSyncer ord l)) = EnsureHealthCheck (l_namer l) (l_hcp l) ord"
  "hcs_DeleteHealthChecks (sy_hcs (NewSyncer ord l)) = DeleteHealthChecks (l_namer l) (l_hcp l)"
  "bss_EnsureBackendService (sy_bss (NewSyncer ord l)) = EnsureBackendService (l_namer l) (l_bsp l)"
  "bss_DeleteBackendServices (sy_bss (NewSyncer ord l)) = DeleteBackendServices (l_namer l) (l_bsp l)"
  "bss_RemoveFromClusters (sy_bss (NewSyncer ord l)) = be_RemoveFromClusters (l_namer l) (l_bsp l)"
  "ums_EnsureURLMap (sy_ums (NewSyncer ord l)) = EnsureURLMap (l_namer l) (l_cloud l) ord"
  "ums_DeleteURLMap (sy_ums (NewSyncer ord l)) = um_DeleteURLMap (l_namer l) (l_cloud l)"
  "ums_GetLoadBalancerStatus (sy_ums (NewSyncer ord l)) n w = with_status (um_GetLoadBalancerStatus (l_namer l) (l_cloud l) n w)"
  "ums_ListLoadBalancerStatuses (sy_ums (NewSyncer ord l)) = um_ListLoadBalancerStatuses (l_cloud l)"
  "ums_RemoveClustersFromStatus (sy_ums (NewSyncer ord l)) = um_RemoveClustersFromStatus (l_namer l) (l_cloud l)"
  "tps_EnsureHTTPTargetProxy (sy_tps (NewSyncer ord l)) = EnsureHTTPTargetProxy (l_namer l) (l_cloud l)"
  "tps_EnsureHTTPSTargetProxy (sy_tps (NewSyncer ord l)) = EnsureHTTPSTargetProxy (l_namer l) (l_cloud l)"
  "tps_DeleteTargetProxies (sy_tps (NewSyncer ord l)) = DeleteTargetProxies (l_namer l) (l_cloud l)"
  "frs_EnsureHTTPForwardingRule (sy_frs (NewSyncer ord l)) = EnsureHTTPForwardingRule (l_namer l) (l_cloud l)"
  "frs_EnsureHTTPSForwardingRule (sy_frs (NewSyncer ord l)) = EnsureHTTPSForwardingRule (l_namer l) (l_cloud l)"
  "frs_DeleteForwardingRules (sy_frs (NewSyncer ord l)) = DeleteForwardingRules (l_namer l) (l_cloud l)"
  "frs_GetLoadBalancerStatus (sy_frs (NewSyncer ord l)) n w = with_status (fr_GetLoadBalancerStatus (l_namer l) (l_cloud l) n w)"
  "frs_ListLoadBalancerStatuses (sy_frs (NewSyncer ord l)) = fr_ListLoadBalancerStatuses (l_cloud l)"
  "frs_RemoveClustersFromStatus (sy_frs (NewSyncer ord l)) = fr_RemoveClustersFromStatus (l_namer l) (l_cloud l)"
  "fws_EnsureFirewallRule (sy_fws (NewSyncer ord l)) = EnsureFirewallRule (l_namer l) (l_fwp l) (l_ig l) ord"
  "fws_DeleteFirewallRules (sy_fws (NewSyncer ord l)) = DeleteFirewallRules (l_namer l) (l_fwp l)"
  "fws_RemoveFromClusters (sy_fws (NewSyncer ord l)) = fw_RemoveFromClusters (l_namer l) (l_fwp l) (l_ig l) ord"
  "scs_EnsureSSLCert (sy_scs (NewSyncer ord l)) = EnsureSSLCert (l_namer l) (l_cloud l)"
  "scs_DeleteSSLCert (sy_scs (NewSyncer ord l)) = DeleteSSLCert (l_namer l) (l_cloud l)"
  by (simp_all add: NewSyncer_def NewHealthCheckSyncer_def NewBackendServiceSyncer_def NewURLMapSyncer_def NewTargetProxySyncer_def
      NewForwardingRuleSyncer_def NewFirewallRuleSyncer_def NewSSLCertSyncer_def)

lemma sy_getIGsLoop: "sy_getIGsLoop (l_sleep l) ing cs igs err w = getIGsLoop l ing cs igs err w"
  by (induction l ing cs igs err w rule: getIGsLoop.induct) (auto split: option.split prod.split sum.split)

lemma sy_getNamedPortsForIG: "sy_getNamedPortsForIG (NewSyncer ord l) ig w = getNamedPortsForIG l ig w"
  unfolding sy_getNamedPortsForIG_def getNamedPortsForIG_def NewSyncer_fields ..

lemma sy_getIPAddress: "sy_getIPAddress (NewSyncer ord l) ing w = getIPAddress l ing w"
  unfolding sy_getIPAddress_def getIPAddress_def NewSyncer_fields ..

lemma sy_getIGs: "sy_getIGs (NewSyncer ord l) ord' ing clients w = getIGs l ord' ing clients w"
  unfolding sy_getIGs_def getIGs_def NewSyncer_fields sy_getIGsLoop ..

lemma sy_getNamedPorts: "sy_getNamedPorts (NewSyncer ord l) ord' igs w = getNamedPorts l ord' igs w"
  unfolding sy_getNamedPorts_def getNamedPorts_def sy_getNamedPortsForIG ..

lemmas sy_helpers = sy_getIPAddress sy_getIGs sy_getNamedPorts

lemma sy_configureHTTP: "sy_configureHTTP (NewSyncer ord l) ip um force err w = configureHTTP l ip um force err w"
  unfolding sy_configureHTTP_def configureHTTP_def NewSyncer_fields NewSyncer_methods ..

lemma sy_configureHTTPS: "sy_configureHTTPS (NewSyncer ord l) ing client ip um force err w = configureHTTPS l ing client ip um force err w"
  unfolding sy_configureHTTPS_def configureHTTPS_def NewSyncer_fields NewSyncer_methods ..

lemma sy_createResources:
  "sy_createResources (NewSyncer ord l) ord ing force clusters client ports ip hcs igs nps err w =
   createResources l ord ing force clusters client ports ip hcs igs nps err w"
  unfolding sy_createResources_def createResources_def NewSyncer_fields NewSyncer_methods sy_configureHTTP sy_configureHTTPS ..

lemma sy_deletePortResources:
  "sy_deletePortResources (NewSyncer ord l) ord' ing client err w = deletePortResources l ord' ing client err w"
  unfolding sy_deletePortResources_def deletePortResources_def NewSyncer_methods ..

lemma sy_status: "sy_getLoadBalancerStatus (NewSyncer ord l) w = getLoadBalancerStatus l w"
  by (auto simp: sy_getLoadBalancerStatus_def getLoadBalancerStatus_def with_status_def nil_or_def error_of_def split: prod.splits sum.splits)

lemma sy_removeClustersFromStatus:
  "sy_removeClustersFromStatus (NewSyncer ord l) n cs w = removeClustersFromStatus l n cs w"
  unfolding sy_removeClustersFromStatus_def removeClustersFromStatus_def NewSyncer_methods ..

lemma sy_removeFromResources:
  "sy_removeFromResources (NewSyncer ord l) ord ports links err w = removeFromResources l ord ports links err w"
  unfolding sy_removeFromResources_def removeFromResources_def NewSyncer_fields NewSyncer_methods ..


section \<open>Over the doubles\<close>

text \<open>
  The state of the doubles of a unit test; what follows it in an extension of the record is the state of the clusters, of the instance groups and of
  the addresses.
\<close>

record DoubleState =
  d_hcs :: FakeHealthCheckSyncer
  d_bss :: FakeBackendServiceSyncer
  d_ums :: FakeURLMapSyncer
  d_tps :: FakeTargetProxySyncer
  d_frs :: FakeForwardingRuleSyncer
  d_fws :: FakeFirewallRuleSyncer
  d_scs :: fakeSSLCertSyncer

definition new_doubles :: DoubleState where
  "new_doubles = \<lparr>d_hcs = NewFakeHealthCheckSyncer, d_bss = NewFakeBackendServiceSyncer, d_ums = NewFakeURLMapSyncer, d_tps = NewFakeTargetProxySyncer,
     d_frs = NewFakeForwardingRuleSyncer, d_fws = NewFakeFirewallRuleSyncer, d_scs = NewFakeSSLCertSyncer\<rparr>"

text \<open>An operation of one double, on the state of all.\<close>

definition on_double :: "('w \<Rightarrow> 'd) \<Rightarrow> (('d \<Rightarrow> 'd) \<Rightarrow> 'w \<Rightarrow> 'w) \<Rightarrow> ('d \<Rightarrow> 'r \<times> 'd) \<Rightarrow> 'w \<Rightarrow> 'r \<times> 'w" where
  "on_double get put f w = (case f (get w) of (r, d) \<Rightarrow> (r, put (\<lambda>_. d) w))"

definition with_nil :: "(go_error + string) \<times> 'w \<Rightarrow> (string \<times> go_error option) \<times> 'w" where
  "with_nil r = (case r of (x, w) \<Rightarrow> ((link_of x, error_of x), w))"

definition double_hcs :: "'v DoubleState_scheme HealthCheckSyncerInterface" where
  "double_hcs =
     \<lparr>hcs_EnsureHealthCheck = (\<lambda>lbName ports clients force. on_double d_hcs d_hcs_update (dhc_EnsureHealthCheck lbName ports clients force)),
      hcs_DeleteHealthChecks = (\<lambda>ports. on_double d_hcs d_hcs_update (dhc_DeleteHealthChecks ports))\<rparr>"

definition double_bss :: "'v DoubleState_scheme BackendServiceSyncerInterface" where
  "double_bss =
     \<lparr>bss_EnsureBackendService = (\<lambda>lbName ports hcMap npMap igLinks force w.
        Returns (on_double d_bss d_bss_update (dbe_EnsureBackendService lbName ports hcMap npMap igLinks force) w)),
      bss_DeleteBackendServices = (\<lambda>ports. on_double d_bss d_bss_update (dbe_DeleteBackendServices ports)),
      bss_RemoveFromClusters = (\<lambda>ports links. on_double d_bss d_bss_update (dbe_RemoveFromClusters ports links))\<rparr>"

definition double_ums :: "'v DoubleState_scheme URLMapSyncerInterface" where
  "double_ums =
     \<lparr>ums_EnsureURLMap = (\<lambda>lbName ip clusters ing beMap force w.
        Returns (on_double d_ums d_ums_update (dum_EnsureURLMap lbName ip clusters ing beMap force) w)),
      ums_DeleteURLMap = on_double d_ums d_ums_update dum_DeleteURLMap,
      ums_GetLoadBalancerStatus = (\<lambda>lbName w. (dum_GetLoadBalancerStatus lbName (d_ums w), w)),
      ums_ListLoadBalancerStatuses = (\<lambda>w. ((dum_ListLoadBalancerStatuses (d_ums w), None), w)),
      ums_RemoveClustersFromStatus = (\<lambda>clusters. on_double d_ums d_ums_update (dum_RemoveClustersFromStatus clusters))\<rparr>"

definition double_tps :: "'v DoubleState_scheme TargetProxySyncerInterface" where
  "double_tps =
     \<lparr>tps_EnsureHTTPTargetProxy = (\<lambda>lbName um force w. with_nil (on_double d_tps d_tps_update (dtp_EnsureHTTPTargetProxy lbName um force) w)),
      tps_EnsureHTTPSTargetProxy = (\<lambda>lbName um cert force w. with_nil (on_double d_tps d_tps_update (dtp_EnsureHTTPSTargetProxy lbName um cert force) w)),
      tps_DeleteTargetProxies = on_double d_tps d_tps_update dtp_DeleteTargetProxies\<rparr>"

definition double_frs :: "'v DoubleState_scheme ForwardingRuleSyncerInterface" where
  "double_frs =
     \<lparr>frs_EnsureHTTPForwardingRule = (\<lambda>lbName ip tp force. on_double d_frs d_frs_update (dfr_EnsureHTTPForwardingRule lbName ip tp force)),
      frs_EnsureHTTPSForwardingRule = (\<lambda>lbName ip tp force. on_double d_frs d_frs_update (dfr_EnsureHTTPSForwardingRule lbName ip tp force)),
      frs_DeleteForwardingRules = on_double d_frs d_frs_update dfr_DeleteForwardingRules,
      frs_GetLoadBalancerStatus = (\<lambda>lbName w. (dfr_GetLoadBalancerStatus lbName (d_frs w), w)),
      frs_ListLoadBalancerStatuses = (\<lambda>w. ((dfr_ListLoadBalancerStatuses (d_frs w), None), w)),
      frs_RemoveClustersFromStatus = (\<lambda>clusters. on_double d_frs d_frs_update (dfr_RemoveClustersFromStatus clusters))\<rparr>"

definition double_fws :: "'v DoubleState_scheme FirewallRuleSyncerInterface" where
  "double_fws =
     \<lparr>fws_EnsureFirewallRule = (\<lambda>lbName ports igs force w. Returns (on_double d_fws d_fws_update (dfw_EnsureFirewallRule lbName ports igs force) w)),
      fws_DeleteFirewallRules = on_double d_fws d_fws_update dfw_DeleteFirewallRules,
      fws_RemoveFromClusters = (\<lambda>lbName igs w. Returns (on_double d_fws d_fws_update (dfw_RemoveFromClusters lbName igs) w))\<rparr>"

definition double_scs :: "'v DoubleState_scheme SSLCertSyncerInterface" where
  "double_scs =
     \<lparr>scs_EnsureSSLCert = (\<lambda>lbName ing client force. on_double d_scs d_scs_update (dsc_EnsureSSLCert lbName ing client force)),
      scs_DeleteSSLCert = on_double d_scs d_scs_update dsc_DeleteSSLCert\<rparr>"

definition doubles_syncer ::
    "string \<Rightarrow> 'v DoubleState_scheme KubeClient gomap \<Rightarrow>
     (string \<Rightarrow> string \<Rightarrow> 'v DoubleState_scheme \<Rightarrow> (go_error + InstanceGroup) \<times> 'v DoubleState_scheme) \<Rightarrow>
     (string \<Rightarrow> 'v DoubleState_scheme \<Rightarrow> (go_error + Address) \<times> 'v DoubleState_scheme) \<Rightarrow>
     ('v DoubleState_scheme \<Rightarrow> 'v DoubleState_scheme) \<Rightarrow> 'v DoubleState_scheme Syncer" where
  "doubles_syncer lbName clients igp ipp sleep =
     \<lparr>sy_lbName = lbName, sy_hcs = double_hcs, sy_bss = double_bss, sy_ums = double_ums, sy_tps = double_tps, sy_frs = double_frs, sy_fws = double_fws,
      sy_scs = double_scs, sy_clients = clients, sy_igp = igp, sy_ipp = ipp, sy_sleep = sleep\<rparr>"

subsection \<open>Lemmas\<close>

lemma no_entries:
  "d = new_doubles \<longleftrightarrow> EnsuredHealthChecks (d_hcs d) = NilSlice \<and> EnsuredBackendServices (d_bss d) = NilSlice \<and> EnsuredURLMaps (d_ums d) = NilSlice
     \<and> EnsuredTargetProxies (d_tps d) = NilSlice \<and> EnsuredForwardingRules (d_frs d) = NilSlice \<and> EnsuredFirewallRules (d_fws d) = NilSlice
     \<and> EnsuredSSLCerts (d_scs d) = NilSlice"
  unfolding new_doubles_def NewFakeHealthCheckSyncer_def NewFakeBackendServiceSyncer_def NewFakeURLMapSyncer_def NewFakeTargetProxySyncer_def
    NewFakeForwardingRuleSyncer_def NewFakeFirewallRuleSyncer_def NewFakeSSLCertSyncer_def
  by (cases d) auto

lemma doubles_syncer_fields [simp]:
  "sy_lbName (doubles_syncer n cs igp ipp sl) = n" "sy_clients (doubles_syncer n cs igp ipp sl) = cs" "sy_igp (doubles_syncer n cs igp ipp sl) = igp"
  "sy_ipp (doubles_syncer n cs igp ipp sl) = ipp" "sy_sleep (doubles_syncer n cs igp ipp sl) = sl" "sy_hcs (doubles_syncer n cs igp ipp sl) = double_hcs"
  "sy_bss (doubles_syncer n cs igp ipp sl) = double_bss" "sy_ums (doubles_syncer n cs igp ipp sl) = double_ums" "sy_tps (doubles_syncer n cs igp ipp sl) = double_tps"
  "sy_frs (doubles_syncer n cs igp ipp sl) = double_frs" "sy_fws (doubles_syncer n cs igp ipp sl) = double_fws" "sy_scs (doubles_syncer n cs igp ipp sl) = double_scs"
  by (simp_all add: doubles_syncer_def)

lemma dhc_EnsureLoop_records:
  "dhc_EnsureLoop lb ports m f = (m', f') \<Longrightarrow>
   elems (EnsuredHealthChecks f') = elems (EnsuredHealthChecks f) @ map (\<lambda>p. \<lparr>fhc_LBName = lb, fhc_Port = p\<rparr>) ports
   \<and> fst ` set m' = fst ` set m \<union> sp_NodePort ` set ports"
  by (induction lb ports m f rule: dhc_EnsureLoop.induct) (auto simp: dom_update)

lemma dbe_EnsureLoop_records:
  "dbe_EnsureLoop lb hcMap npMap links ports m f = (m', f') \<Longrightarrow>
   elems (EnsuredBackendServices f') = elems (EnsuredBackendServices f)
     @ map (\<lambda>p. \<lparr>fbe_LBName = lb, fbe_Port = p, fbe_HCMap = hcMap, fbe_NPMap = npMap, fbe_IGLinks = links\<rparr>) ports
   \<and> fst ` set m' = fst ` set m \<union> sp_Name ` set ports"
  by (induction lb hcMap npMap links ports m f rule: dbe_EnsureLoop.induct) (auto simp: dom_update)

text \<open>The calls of the clusters, of the instance groups and of the addresses leave the doubles alone.\<close>

definition beside_doubles :: "'v DoubleState_scheme Syncer \<Rightarrow> bool" where
  "beside_doubles l \<longleftrightarrow> (\<forall>c \<in> snd ` set (sy_clients l). outside DoubleState.truncate c)
     \<and> (\<forall>n z w. DoubleState.truncate (snd (sy_igp l n z w)) = DoubleState.truncate w)
     \<and> (\<forall>n w. DoubleState.truncate (snd (sy_ipp l n w)) = DoubleState.truncate w)
     \<and> (\<forall>w. DoubleState.truncate (sy_sleep l w) = DoubleState.truncate w)"

lemma polling_keeps:
  assumes "outside view client" "\<forall>w. view (sleep w) = view w" "getIGsForCluster sleep name ns client w = Some (x, w')"
  shows "view w' = view w"
proof -
  have "view (after_polls sleep name ns client k u) = view u" for k u
    using assms(1,2) by (induction k arbitrary: u) (auto simp: outside_def)
  then show ?thesis using getIGsForCluster_returned[OF assms(3)] igs_answer_view[OF assms(1)] by metis
qed

lemma sy_getIGsLoop_keeps:
  "\<forall>c \<in> snd ` set cs. outside view c \<Longrightarrow> \<forall>w. view (sleep w) = view w \<Longrightarrow> sy_getIGsLoop sleep ing cs igs err w = Some (x, w') \<Longrightarrow> view w' = view w"
proof (induction cs arbitrary: igs err w)
  case (Cons c cs)
  obtain n client where c: "c = (n, client)" by fastforce
  with Cons.prems obtain y w1 where g: "getIGsForCluster sleep (ing_Name ing) (ing_Namespace ing) client w = Some (y, w1)"
    by (auto split: option.splits prod.splits)
  have "view w1 = view w" by (rule polling_keeps[OF _ Cons.prems(2) g]) (use Cons.prems(1) c in simp)
  with Cons.IH[of _ _ w1] Cons.prems g c show ?case by (cases y) auto
qed simp

lemma getIGs_beside:
  "beside_doubles l \<Longrightarrow> sy_getIGs l ord ing (sy_clients l) w = Some (x, w') \<Longrightarrow> DoubleState.truncate w' = DoubleState.truncate w"
  unfolding sy_getIGs_def beside_doubles_def using range_entries_subset[of ord "''instance groups''" "sy_clients l"]
  by (elim conjE) (rule sy_getIGsLoop_keeps, auto)

lemma getNamedPorts_beside:
  "beside_doubles l \<Longrightarrow> sy_getNamedPorts l ord igs w = Returns (x, w') \<Longrightarrow> DoubleState.truncate w' = DoubleState.truncate w"
  unfolding sy_getNamedPorts_def sy_getNamedPortsForIG_def beside_doubles_def
  by (auto split: list.splits prod.splits sum.splits) (metis snd_conv)+

lemma getIPAddress_beside:
  "beside_doubles l \<Longrightarrow> sy_getIPAddress l ing w = (x, w') \<Longrightarrow> DoubleState.truncate w' = DoubleState.truncate w"
  unfolding sy_getIPAddress_def beside_doubles_def
  by (auto simp: Let_def split: if_splits prod.splits sum.splits) (metis snd_conv)+

lemma ingToNodePorts_beside:
  "beside_doubles l \<Longrightarrow> getAnyClient ord (sy_clients l) = Inr client \<Longrightarrow> ingToNodePorts ord ing client w = (ports, w') \<Longrightarrow>
   DoubleState.truncate w' = DoubleState.truncate w"
  using getAnyClient_in[of ord "sy_clients l" client] unfolding beside_doubles_def by (elim exE conjE) (rule ingToNodePorts_view, auto)

text \<open>What the doubles record of the resources of a load balancer, after those of the health checks.\<close>

definition wants_tls :: "Ingress \<Rightarrow> bool" where
  "wants_tls ing \<longleftrightarrow> UseNamedTLS ing \<noteq> '''' \<or> length (elems (is_TLS (ing_Spec ing))) > 0"

definition recorded_resources ::
    "string \<Rightarrow> range_order \<Rightarrow> Ingress \<Rightarrow> string slice \<Rightarrow> ServicePort list \<Rightarrow> string \<Rightarrow> HealthChecksMap \<Rightarrow> string list gomap \<Rightarrow> NamedPortsMap \<Rightarrow>
     DoubleState \<Rightarrow> DoubleState \<Rightarrow> bool" where
  "recorded_resources lb ord ing cl ports ip hcMap igs npMap d d' \<longleftrightarrow>
     elems (EnsuredBackendServices (d_bss d')) = elems (EnsuredBackendServices (d_bss d))
       @ map (\<lambda>p. \<lparr>fbe_LBName = lb, fbe_Port = p, fbe_HCMap = hcMap, fbe_NPMap = npMap, fbe_IGLinks = flat_igs ord igs\<rparr>) ports
   \<and> (\<exists>beMap. fst ` set beMap = sp_Name ` set ports \<and> elems (EnsuredURLMaps (d_ums d')) = elems (EnsuredURLMaps (d_ums d))
       @ [\<lparr>fum_LBName = lb, fum_IPAddress = ip, fum_Clusters = cl, fum_Ingress = ing, fum_BeMap = beMap, fum_HasStatus = True\<rparr>])
   \<and> elems (EnsuredTargetProxies (d_tps d')) = elems (EnsuredTargetProxies (d_tps d))
       @ (if AllowHTTP ing then [\<lparr>ftp_LBName = lb, ftp_UmLink = FakeURLSelfLink, ftp_CertLink = ''''\<rparr>] else [])
       @ (if wants_tls ing then [\<lparr>ftp_LBName = lb, ftp_UmLink = FakeURLSelfLink, ftp_CertLink = FakeSSLCertSelfLink\<rparr>] else [])
   \<and> elems (EnsuredForwardingRules (d_frs d')) = elems (EnsuredForwardingRules (d_frs d))
       @ map (\<lambda>https. \<lparr>ffr_LBName = lb, ffr_IPAddress = ip, ffr_TPLink = FakeTargetProxySelfLink, ffr_IsHTTPS = https, ffr_Status = None\<rparr>)
           ((if AllowHTTP ing then [False] else []) @ (if wants_tls ing then [True] else []))
   \<and> elems (EnsuredSSLCerts (d_scs d')) = elems (EnsuredSSLCerts (d_scs d)) @ (if wants_tls ing then [\<lparr>fsc_LBName = lb, fsc_Ingress = ing\<rparr>] else [])
   \<and> elems (EnsuredFirewallRules (d_fws d')) = elems (EnsuredFirewallRules (d_fws d)) @ [\<lparr>ffw_LBName = lb, ffw_Ports = ports, ffw_IGLinks = igs\<rparr>]"

lemmas double_ops = double_hcs_def double_bss_def double_ums_def double_tps_def double_frs_def double_fws_def double_scs_def on_double_def with_nil_def
  append_err_def wrap_err_def error_of_def link_of_def Let_def

lemma createResources_doubles:
  assumes "sy_createResources (doubles_syncer lb cs igp ipp sl) ord ing force cl client ports ip hcMap igs npMap err w = Returns (e, w')"
  shows "e = err \<and> d_hcs w' = d_hcs w
    \<and> recorded_resources lb ord ing cl ports ip hcMap igs npMap (DoubleState.truncate w) (DoubleState.truncate w')"
proof -
  obtain beMap f where be: "dbe_EnsureLoop lb hcMap npMap (flat_igs ord igs) ports [] (d_bss w) = (beMap, f)" by fastforce
  note records = dbe_EnsureLoop_records[OF be]
  note run = assms[unfolded sy_createResources_def sy_configureHTTP_def sy_configureHTTPS_def doubles_syncer_fields, folded wants_tls_def]
  note ops = double_ops dbe_EnsureBackendService_def dum_EnsureURLMap_def dtp_EnsureHTTPTargetProxy_def dtp_EnsureHTTPSTargetProxy_def
    dfr_EnsureHTTPForwardingRule_def dfr_EnsureHTTPSForwardingRule_def dsc_EnsureSSLCert_def dfw_EnsureFirewallRule_def DoubleState.truncate_def
  show ?thesis unfolding recorded_resources_def
    using run be records by (cases "AllowHTTP ing"; cases "wants_tls ing") (auto simp: ops intro!: exI[of _ beMap])
qed

lemma truncate_fields [simp]:
  "d_hcs (DoubleState.truncate w) = d_hcs w" "d_bss (DoubleState.truncate w) = d_bss w" "d_ums (DoubleState.truncate w) = d_ums w"
  "d_tps (DoubleState.truncate w) = d_tps w" "d_frs (DoubleState.truncate w) = d_frs w" "d_fws (DoubleState.truncate w) = d_fws w"
  "d_scs (DoubleState.truncate w) = d_scs w"
  by (simp_all add: DoubleState.truncate_def)

text \<open>The steps of a creation that ends without an error.\<close>

lemma CreateLoadBalancer_steps:
  assumes "sy_CreateLoadBalancer l ord ing force validate cl w = Some (Returns (None, w'))" "getAnyClient ord (sy_clients l) = Inr client"
  obtains ports w1 ip w2 hcMap hcErr w3 igs igErr w4 npMap npErr w5 err where
    "ingToNodePorts ord ing client w = (ports, w1)" "sy_getIPAddress l ing w1 = (Inr ip, w2)"
    "hcs_EnsureHealthCheck (sy_hcs l) (sy_lbName l) ports (sy_clients l) force w2 = ((hcMap, hcErr), w3)"
    "sy_getIGs l ord ing (sy_clients l) w3 = Some ((igs, igErr), w4)" "sy_getNamedPorts l ord igs w4 = Returns ((npMap, npErr), w5)"
    "igs \<noteq> []" "npMap \<noteq> []" "err = None \<longrightarrow> igErr = None"
    "sy_createResources l ord ing force cl client ports ip hcMap igs npMap err w5 = Returns (None, w')"
  using assms unfolding sy_CreateLoadBalancer_def
  by (auto simp: Let_def multierror_Append_def split: prod.splits sum.splits option.splits outcome.splits if_splits) (metis append_err_None)

lemma sy_getIGs_all:
  assumes "sy_getIGs l ord ing clients w = Some ((igs, None), w')" "range_ok ord" "distinct (map fst clients)"
  shows "fst ` set igs = fst ` set clients"
proof -
  have "sy_getIGsLoop (sy_sleep l) ing cs m e w = getIGsLoop (undefined\<lparr>l_sleep := sy_sleep l\<rparr>) ing cs m e w" for cs m e w
    using sy_getIGsLoop[of "undefined\<lparr>l_sleep := sy_sleep l\<rparr>"] by simp
  with assms(1) show ?thesis unfolding sy_getIGs_def by (simp add: set_range_entries[OF assms(2,3)]) (drule getIGsLoop_all, simp add: set_range_entries[OF assms(2,3)])
qed

text \<open>
  C38. What \<^verbatim>\<open>CreateLoadBalancer\<close> asks of the syncers, seen on the doubles of the unit tests: a creation that reports no error has asked for
  one health check and one backend service per port of the ingress, with the instance groups of all clusters; for one URL map with the address, the
  clusters and the ingress; for a proxy and a forwarding rule over HTTP, over HTTPS or over both, each for the link that the step before gave; for a
  certificate exactly with HTTPS; and for one firewall rule for all ports and all groups.
\<close>

theorem creation_on_doubles:
  assumes "sy_CreateLoadBalancer (doubles_syncer lb clients igp ipp sleep) ord ing force validate cl w = Some (Returns (None, w'))"
    and "getAnyClient ord clients = Inr client" "beside_doubles (doubles_syncer lb clients igp ipp sleep)" "range_ok ord" "distinct (map fst clients)"
  shows "\<exists>ip hcMap igs npMap. let ports = fst (ingToNodePorts ord ing client w) in
     elems (EnsuredHealthChecks (d_hcs w')) = elems (EnsuredHealthChecks (d_hcs w)) @ map (\<lambda>p. \<lparr>fhc_LBName = lb, fhc_Port = p\<rparr>) ports
   \<and> fst ` set hcMap = sp_NodePort ` set ports \<and> fst ` set igs = fst ` set clients \<and> npMap \<noteq> []
   \<and> recorded_resources lb ord ing cl ports ip hcMap igs npMap (DoubleState.truncate w) (DoubleState.truncate w')"
proof -
  let ?l = "doubles_syncer lb clients igp ipp sleep"
  obtain ports w1 ip w2 hcMap hcErr w3 igs igErr w4 npMap npErr w5 err where steps:
    "ingToNodePorts ord ing client w = (ports, w1)" "sy_getIPAddress ?l ing w1 = (Inr ip, w2)"
    "hcs_EnsureHealthCheck (sy_hcs ?l) (sy_lbName ?l) ports (sy_clients ?l) force w2 = ((hcMap, hcErr), w3)"
    "sy_getIGs ?l ord ing (sy_clients ?l) w3 = Some ((igs, igErr), w4)" "sy_getNamedPorts ?l ord igs w4 = Returns ((npMap, npErr), w5)"
    "igs \<noteq> []" "npMap \<noteq> []" "err = None \<longrightarrow> igErr = None"
    "sy_createResources ?l ord ing force cl client ports ip hcMap igs npMap err w5 = Returns (None, w')"
    by (rule CreateLoadBalancer_steps[OF assms(1)]) (use assms(2) in simp_all)
  have before: "DoubleState.truncate w2 = DoubleState.truncate w"
    using ingToNodePorts_beside[OF assms(3) _ steps(1)] getIPAddress_beside[OF assms(3) steps(2)] assms(2) by simp
  have after: "DoubleState.truncate w5 = DoubleState.truncate w3"
    using getIGs_beside[OF assms(3) steps(4)] getNamedPorts_beside[OF assms(3) steps(5)] by simp
  obtain f where hc: "dhc_EnsureLoop lb ports [] (d_hcs w2) = (hcMap, f)" "w3 = w2\<lparr>d_hcs := f\<rparr>"
    using steps(3) by (auto simp: double_hcs_def on_double_def dhc_EnsureHealthCheck_def split: prod.splits)
  note hc_records = dhc_EnsureLoop_records[OF hc(1)]
  note made = createResources_doubles[OF steps(9)]
  have igs: "fst ` set igs = fst ` set clients" using steps(4,8) made assms(4,5) sy_getIGs_all[of ?l ord ing clients w3 igs w4] by simp
  have same: "d_hcs w2 = d_hcs w" "d_hcs w5 = f" "recorded_resources lb ord ing cl ports ip hcMap igs npMap (DoubleState.truncate w5) d'
    = recorded_resources lb ord ing cl ports ip hcMap igs npMap (DoubleState.truncate w) d'" for d'
    using before after hc(2) unfolding recorded_resources_def by (simp_all add: DoubleState.truncate_def)
  from hc_records made same igs steps(1,7) show ?thesis by (intro exI[of _ ip] exI[of _ hcMap] exI[of _ igs] exI[of _ npMap]) (simp add: Let_def)
qed

text \<open>
  \<^verbatim>\<open>DeleteLoadBalancer\<close> asks every syncer to delete what it keeps: on the doubles it reports no error and leaves none of them an entry, whatever
  they held before, even when the load balancer had never been created.
\<close>

theorem deletion_on_doubles:
  assumes "getAnyClient ord clients = Inr client" "beside_doubles (doubles_syncer lb clients igp ipp sleep)"
  shows "\<exists>w'. sy_DeleteLoadBalancer (doubles_syncer lb clients igp ipp sleep) ord ing force w = (None, w') \<and> DoubleState.truncate w' = new_doubles"
proof -
  let ?l = "doubles_syncer lb clients igp ipp sleep"
  note ops = double_ops dfw_DeleteFirewallRules_def dfr_DeleteForwardingRules_def dtp_DeleteTargetProxies_def dsc_DeleteSSLCert_def dum_DeleteURLMap_def
  define u where "u = w\<lparr>d_fws := d_fws w\<lparr>EnsuredFirewallRules := NilSlice\<rparr>, d_frs := d_frs w\<lparr>EnsuredForwardingRules := NilSlice\<rparr>,
    d_tps := d_tps w\<lparr>EnsuredTargetProxies := NilSlice\<rparr>, d_scs := d_scs w\<lparr>EnsuredSSLCerts := NilSlice\<rparr>, d_ums := d_ums w\<lparr>EnsuredURLMaps := NilSlice\<rparr>\<rparr>"
  have run: "sy_DeleteLoadBalancer ?l ord ing force w = sy_deletePortResources ?l ord ing client None u"
    using assms(1) by (simp add: sy_DeleteLoadBalancer_def ops u_def)
  obtain ports w1 where p: "ingToNodePorts ord ing client u = (ports, w1)" by fastforce
  have "DoubleState.truncate w1 = DoubleState.truncate u" using ingToNodePorts_beside[OF assms(2) _ p] assms(1) by simp
  moreover have "sy_deletePortResources ?l ord ing client None u =
    (None, w1\<lparr>d_bss := d_bss w1\<lparr>EnsuredBackendServices := NilSlice\<rparr>, d_hcs := d_hcs w1\<lparr>EnsuredHealthChecks := NilSlice\<rparr>\<rparr>)"
    by (simp add: sy_deletePortResources_def p ops dbe_DeleteBackendServices_def dhc_DeleteHealthChecks_def)
  ultimately show ?thesis unfolding run by (simp add: no_entries DoubleState.truncate_def u_def)
qed

section \<open>Examples\<close>

definition test_igp :: "string \<Rightarrow> string \<Rightarrow> 'w \<Rightarrow> (go_error + InstanceGroup) \<times> 'w" where
  "test_igp name zone w = (Inr \<lparr>ig_NamedPorts = [np_example\<lparr>np_Port := 30301\<rparr>]\<rparr>, w)"

definition test_ipp :: "string \<Rightarrow> 'w \<Rightarrow> (go_error + Address) \<times> 'w" where
  "test_ipp name w = (Inr \<lparr>addr_Name = name, addr_Address = ''1.2.3.4''\<rparr>, w)"

definition test_syncer :: "DoubleState Syncer" where
  "test_syncer = doubles_syncer ''lb'' [(''a'', ready_client)] test_igp test_ipp id"

lemma test_syncer_beside: "beside_doubles test_syncer"
  by (simp add: test_syncer_def beside_doubles_def ready_client_outside test_igp_def test_ipp_def)

lemma test_creation: obtains w' where "sy_CreateLoadBalancer test_syncer in_order ready_ingress True True (Slice [''a'']) new_doubles = Some (Returns (None, w'))"
proof -
  have igs: "sy_getIGs test_syncer in_order ready_ingress [(''a'', ready_client)] w = Some (([(''a'', [''zones/z/instanceGroups/ig''])], None), w)" for w
  proof -
    have "getIGsForCluster id name ns ready_client w = Some (Inr [''zones/z/instanceGroups/ig''], w)" for name ns
      by (subst getIGsForCluster_step) simp
    then show ?thesis by (simp add: sy_getIGs_def test_syncer_def range_entries_def in_order_def List.map_filter_simps)
  qed
  have np: "sy_getNamedPorts test_syncer in_order [(''a'', [''zones/z/instanceGroups/ig''])] w = Returns (([(30301, np_example\<lparr>np_Port := 30301\<rparr>)], None), w)" for w
  proof -
    have "GetZoneAndNameFromIGURL ''zones/z/instanceGroups/ig'' = Inr (''z'', ''ig'')" by code_simp
    then show ?thesis by (simp add: sy_getNamedPorts_def sy_getNamedPortsForIG_def test_syncer_def test_igp_def range_entries_def in_order_def List.map_filter_simps)
  qed
  have ip: "sy_getIPAddress test_syncer ready_ingress w = (Inr ''1.2.3.4'', w)" for w
    by (simp add: sy_getIPAddress_def test_syncer_def test_ipp_def annotation_def ing_Annotations_def ready_ingress_def StaticIPNameKey_def InstanceGroupsAnnotationKey_def)
  have "\<exists>w'. sy_createResources test_syncer in_order ready_ingress True (Slice [''a'']) ready_client [web_port] ''1.2.3.4'' hcMap igs npMap None w
      = Returns (None, w')" for hcMap igs npMap w
    by (simp add: sy_createResources_def sy_configureHTTP_def test_syncer_def double_ops dbe_EnsureBackendService_def dum_EnsureURLMap_def
        dtp_EnsureHTTPTargetProxy_def dfr_EnsureHTTPForwardingRule_def dfw_EnsureFirewallRule_def ready_protocols)
  moreover have "\<exists>hcMap w3. hcs_EnsureHealthCheck (sy_hcs test_syncer) ''lb'' [web_port] [(''a'', ready_client)] True w = ((hcMap, None), w3)" for w
    by (simp add: test_syncer_def double_hcs_def on_double_def dhc_EnsureHealthCheck_def)
  ultimately obtain hcMap w3 w' where
    "hcs_EnsureHealthCheck (sy_hcs test_syncer) ''lb'' [web_port] [(''a'', ready_client)] True new_doubles = ((hcMap, None), w3)"
    "sy_createResources test_syncer in_order ready_ingress True (Slice [''a'']) ready_client [web_port] ''1.2.3.4'' hcMap
      [(''a'', [''zones/z/instanceGroups/ig''])] [(30301, np_example\<lparr>np_Port := 30301\<rparr>)] None w3 = Returns (None, w')" by meson
  then show ?thesis using igs np ip that
    by (simp add: sy_CreateLoadBalancer_def test_syncer_def append_err_def wrap_err_def)
qed

theorem creation_on_doubles_witness:
  "\<exists>w'. sy_CreateLoadBalancer test_syncer in_order ready_ingress True True (Slice [''a'']) new_doubles = Some (Returns (None, w'))
    \<and> elems (EnsuredHealthChecks (d_hcs w')) = [\<lparr>fhc_LBName = ''lb'', fhc_Port = web_port\<rparr>]"
proof -
  obtain w' where run: "sy_CreateLoadBalancer test_syncer in_order ready_ingress True True (Slice [''a'']) new_doubles = Some (Returns (None, w'))"
    by (rule test_creation)
  have "getAnyClient in_order [(''a'', ready_client)] = Inr (ready_client :: DoubleState KubeClient)" "distinct (map fst [(''a'', ready_client :: DoubleState KubeClient)])"
    by simp_all
  note facts = creation_on_doubles[OF run[unfolded test_syncer_def] this(1) test_syncer_beside[unfolded test_syncer_def] range_ok_in_order this(2)]
  have "elems (EnsuredHealthChecks (d_hcs w')) = [\<lparr>fhc_LBName = ''lb'', fhc_Port = web_port\<rparr>]"
    using facts by (auto simp: new_doubles_def NewFakeHealthCheckSyncer_def)
  with run show ?thesis by blast
qed

theorem deletion_on_doubles_witness:
  "\<exists>w'. sy_DeleteLoadBalancer test_syncer in_order ready_ingress False
     (new_doubles\<lparr>d_ums := snd (dum_EnsureURLMap ''lb'' ''ip'' (Slice [''a'']) ready_ingress [] False NewFakeURLMapSyncer)\<rparr>) = (None, w')
   \<and> DoubleState.truncate w' = new_doubles"
  unfolding test_syncer_def
  by (rule deletion_on_doubles[where client = ready_client]) (simp_all add: test_syncer_beside[unfolded test_syncer_def])

end
