(* ===== verification/ZonePrinter.thy ===== *)
theory ZonePrinter
  imports Json
begin

text \<open>
  \<^verbatim>\<open>examples/zone-printer/src/main.go\<close>: the web server of the example, which the load balancer of the end to end tests sends its traffic to.  It says
  in which datacenter it runs, and its health check can be switched off to see the load balancer react.  The handlers run concurrently; the only
  state they change is one flag, always under a lock, so that every interleaving is a sequence of requests.
\<close>

section \<open>Requests and responses\<close>

text \<open>What a handler writes: a body, the text of an error, or the page that sends the client to another path; and the content type it sets, if any.\<close>

datatype http_body = Text string | ErrorText go_error | RedirectTo string

record Response =
  rs_StatusCode :: int
  rs_ContentType :: "string option"
  rs_Body :: http_body

definition ok_response :: "string \<Rightarrow> Response" where
  "ok_response body = \<lparr>rs_StatusCode = 200, rs_ContentType = None, rs_Body = Text body\<rparr>"

definition http_Error :: "http_body \<Rightarrow> int \<Rightarrow> Response" where
  "http_Error body code = \<lparr>rs_StatusCode = code, rs_ContentType = Some ''text/plain; charset=utf-8'', rs_Body = body\<rparr>"

definition StatusInternalServerError :: int where "StatusInternalServerError = 500"

definition nl :: string where "nl = [CHR 0x0A]"
definition tabs :: "nat \<Rightarrow> string" where "tabs n = replicate n (CHR 0x09)"

section \<open>The server\<close>

record Datacenter =
  dc_location :: string
  dc_flagURL :: string

definition datacenters :: "Datacenter gomap" where
  "datacenters =
     [(''asia-east1'', \<lparr>dc_location = ''Changhua County, Taiwan'',
       dc_flagURL = ''https://upload.wikimedia.org/wikipedia/commons/7/72/Flag_of_the_Republic_of_China.svg''\<rparr>),
      (''asia-northeast1'', \<lparr>dc_location = ''Tokyo, Japan'',
       dc_flagURL = ''https://upload.wikimedia.org/wikipedia/en/9/9e/Flag_of_Japan.svg''\<rparr>),
      (''asia-northeast2'', \<lparr>dc_location = ''Osaka, Japan'',
       dc_flagURL = ''https://upload.wikimedia.org/wikipedia/en/9/9e/Flag_of_Japan.svg''\<rparr>),
      (''asia-northeast3'', \<lparr>dc_location = ''Seoul, South Korea'',
       dc_flagURL = ''https://upload.wikimedia.org/wikipedia/commons/0/09/Flag_of_South_Korea.svg''\<rparr>),
      (''asia-east2'', \<lparr>dc_location = ''Hong Kong'',
       dc_flagURL = ''https://upload.wikimedia.org/wikipedia/commons/5/5b/Flag_of_Hong_Kong.svg''\<rparr>),
      (''asia-south1'', \<lparr>dc_location = ''Mumbai, India'',
       dc_flagURL = ''https://upload.wikimedia.org/wikipedia/en/4/41/Flag_of_India.svg''\<rparr>),
      (''asia-southeast1'', \<lparr>dc_location = ''Jurong West, Singapore'',
       dc_flagURL = ''https://upload.wikimedia.org/wikipedia/commons/4/48/Flag_of_Singapore.svg''\<rparr>),
      (''australia-southeast1'', \<lparr>dc_location = ''Sydney, Australia'',
       dc_flagURL = ''https://upload.wikimedia.org/wikipedia/en/b/b9/Flag_of_Australia.svg''\<rparr>),
      (''europe-north1'', \<lparr>dc_location = ''Hamina, Finland'',
       dc_flagURL = ''https://upload.wikimedia.org/wikipedia/commons/b/bc/Flag_of_Finland.svg''\<rparr>),
      (''europe-west1'', \<lparr>dc_location = ''St. Ghislain, Belgium'',
       dc_flagURL = ''https://upload.wikimedia.org/wikipedia/commons/6/65/Flag_of_Belgium.svg''\<rparr>),
      (''europe-west2'', \<lparr>dc_location = ''London, U.K.'',
       dc_flagURL = ''https://upload.wikimedia.org/wikipedia/en/a/ae/Flag_of_the_United_Kingdom.svg''\<rparr>),
      (''europe-west3'', \<lparr>dc_location = ''Frankfurt, Germany'',
       dc_flagURL = ''https://upload.wikimedia.org/wikipedia/en/b/ba/Flag_of_Germany.svg''\<rparr>),
      (''europe-west4'', \<lparr>dc_location = ''Eemshaven, Netherlands'',
       dc_flagURL = ''https://upload.wikimedia.org/wikipedia/commons/2/20/Flag_of_the_Netherlands.svg''\<rparr>),
      (''europe-west6'', \<lparr>dc_location = ''Z'' @ [CHR 0xC3, CHR 0xBC] @ ''rich, Switzerland'',
       dc_flagURL = ''https://upload.wikimedia.org/wikipedia/commons/f/f3/Flag_of_Switzerland.svg''\<rparr>),
      (''northamerica-northeast1'', \<lparr>dc_location = ''Montr'' @ [CHR 0xC3, CHR 0xA9] @ ''al, Canada'',
       dc_flagURL = ''https://upload.wikimedia.org/wikipedia/commons/d/d9/Flag_of_Canada_%28Pantone%29.svg''\<rparr>),
      (''southamerica-east1'', \<lparr>dc_location = ''S'' @ [CHR 0xC3, CHR 0xA3] @ ''o Paulo, Brazil'',
       dc_flagURL = ''https://upload.wikimedia.org/wikipedia/en/0/05/Flag_of_Brazil.svg''\<rparr>),
      (''us-central1'', \<lparr>dc_location = ''Council Bluffs, Iowa, USA'',
       dc_flagURL = ''https://upload.wikimedia.org/wikipedia/en/a/a4/Flag_of_the_United_States.svg''\<rparr>),
      (''us-east1'', \<lparr>dc_location = ''Moncks Corner, South Carolina, USA'',
       dc_flagURL = ''https://upload.wikimedia.org/wikipedia/en/a/a4/Flag_of_the_United_States.svg''\<rparr>),
      (''us-east4'', \<lparr>dc_location = ''Ashburn, Virginia, USA'',
       dc_flagURL = ''https://upload.wikimedia.org/wikipedia/en/a/a4/Flag_of_the_United_States.svg''\<rparr>),
      (''us-west1'', \<lparr>dc_location = ''The Dalles, Oregon, USA'',
       dc_flagURL = ''https://upload.wikimedia.org/wikipedia/en/a/a4/Flag_of_the_United_States.svg''\<rparr>),
      (''us-west2'', \<lparr>dc_location = ''Los Angeles, California, USA'',
       dc_flagURL = ''https://upload.wikimedia.org/wikipedia/en/a/a4/Flag_of_the_United_States.svg''\<rparr>),
      (''us-west3'', \<lparr>dc_location = ''Salt Lake City, Utah, USA'',
       dc_flagURL = ''https://upload.wikimedia.org/wikipedia/en/a/a4/Flag_of_the_United_States.svg''\<rparr>),
      (''us-west4'', \<lparr>dc_location = ''Las Vegas, Nevada, USA'',
       dc_flagURL = ''https://upload.wikimedia.org/wikipedia/en/a/a4/Flag_of_the_United_States.svg''\<rparr>)]"

record ZoneServer =
  healthCheckPath :: string
  zp_version :: string
  computeZone :: string
  killed :: bool

text \<open>The start of \<^verbatim>\<open>main\<close>: outside of Compute Engine there is no zone; when the zone cannot be had the program ends.
  An empty pattern for the health check is refused by \<^verbatim>\<open>HandleFunc\<close> with a panic; a pattern that does not start with a slash would name a host, which is
  outside of the model.\<close>

definition zp_main :: "string \<Rightarrow> string \<Rightarrow> bool \<Rightarrow> go_error + string \<Rightarrow> (go_error + ZoneServer) outcome" where
  "zp_main path version onGCE zone =
     (case (if \<not> onGCE then Inr '''' else zone) of
        Inl err \<Rightarrow> Returns (Inl (Errorf ''failed to get compute zone: %+v'' [AErr err]))
      | Inr z \<Rightarrow> if path = '''' then Panics
          else Returns (Inr \<lparr>healthCheckPath = path, zp_version = version, computeZone = z, killed = False\<rparr>))"

record pingResponse =
  ping_Hostname :: string
  ping_Version :: string
  ping_GCPZone :: string
  ping_Backend :: string

definition Marshal_ping :: "pingResponse \<Rightarrow> string" where
  "Marshal_ping pr = json_object
     [(''Hostname'', json_string (ping_Hostname pr)), (''Version'', json_string (ping_Version pr)),
      (''GCPZone'', json_string (ping_GCPZone pr)), (''Backend'', json_string (ping_Backend pr))]"

definition handlePing :: "go_error + string \<Rightarrow> string \<Rightarrow> ZoneServer \<Rightarrow> Response" where
  "handlePing podHostname host s =
     (case podHostname of
        Inl err \<Rightarrow> http_Error (ErrorText err) StatusInternalServerError
      | Inr pod \<Rightarrow>
          \<lparr>rs_StatusCode = 200, rs_ContentType = Some ''application/json'',
           rs_Body = Text (Marshal_ping \<lparr>ping_Hostname = host, ping_Version = zp_version s, ping_GCPZone = computeZone s, ping_Backend = pod\<rparr>)\<rparr>)"

definition handleKill :: "ZoneServer \<Rightarrow> Response \<times> ZoneServer" where
  "handleKill s = (ok_response ''Successfully toggled kill status'', s\<lparr>killed := \<not> killed s\<rparr>)"

definition handleHealthCheck :: "ZoneServer \<Rightarrow> Response" where
  "handleHealthCheck s = (if \<not> killed s then ok_response ''OK'' else http_Error (Text (''Not OK'' @ nl)) StatusInternalServerError)"

text \<open>\<^verbatim>\<open>strings.LastIndex\<close> of a character, and the slice up to it, which panics for the index -1.\<close>

fun LastIndex :: "string \<Rightarrow> char \<Rightarrow> int" where
  "LastIndex [] c = -1"
| "LastIndex (x # s) c = (let i = LastIndex s c in if i \<ge> 0 then i + 1 else if x = c then 0 else -1)"

definition slice_to :: "string \<Rightarrow> int \<Rightarrow> string outcome" where
  "slice_to s i = (if 0 \<le> i \<and> i \<le> int (length s) then Returns (take (nat i) s) else Panics)"

definition handleLocation :: "ZoneServer \<Rightarrow> Response outcome" where
  "handleLocation s =
     (if computeZone s = '''' then
        Returns (ok_response (''<!DOCTYPE html>'' @ nl @ tabs 4 @ ''<h1>Cannot determine the compute zone :(</h1>'' @ nl @ tabs 4
          @ ''<p>Is it running on a Google Compute Engine instance?</p>''))
      else (case slice_to (computeZone s) (LastIndex (computeZone s) (CHR ''-'')) of
         Panics \<Rightarrow> Panics
       | Returns region \<Rightarrow>
           (case map_of datacenters region of
              None \<Rightarrow> Returns (ok_response (''<!DOCTYPE html>'' @ nl @ tabs 2 @ ''<h4>Welcome from Google Cloud datacenters at:<h4>'' @ nl @ tabs 2
                 @ ''<h1>'' @ computeZone s @ ''!</h1>''))
            | Some dc \<Rightarrow> Returns (ok_response (''<!DOCTYPE html>'' @ nl @ tabs 2 @ ''<h4>Welcome from Google Cloud datacenters at:</h4>'' @ nl @ tabs 2
                 @ ''<h1>'' @ dc_location dc @ ''</h1>'' @ nl @ tabs 2
                 @ ''<h3>You are now connected to &quot;'' @ computeZone s @ ''&quot;</h3>'' @ nl @ tabs 2
                 @ ''<img src=\"'' @ dc_flagURL dc @ ''\" style=\"width: 640px; height: auto; border: 1px solid black\"/>'')))))"

section \<open>Routing\<close>

text \<open>
  The multiplexer of \<^verbatim>\<open>net/http\<close> matches clean paths, which are the ones here: it sends a client that asks for another one to the clean path first.
  The main server: three exact patterns, and the pattern \<^verbatim>\<open>/\<close> for every other path.  A panic of a handler ends its request, not the server.
\<close>

definition mainServer :: "go_error + string \<Rightarrow> string \<Rightarrow> string \<Rightarrow> ZoneServer \<Rightarrow> Response outcome \<times> ZoneServer" where
  "mainServer podHostname host path s =
     (if path = ''/ping'' then (Returns (handlePing podHostname host s), s)
      else if path = ''/toggleKill'' then (case handleKill s of (r, s') \<Rightarrow> (Returns r, s'))
      else (handleLocation s, s))"

text \<open>The health check server has one pattern, a path; one that ends in a slash stands for all paths below it, and a request that lacks only the slash is
  sent there.\<close>

definition subtree_match :: "string \<Rightarrow> string \<Rightarrow> bool" where
  "subtree_match pattern path \<longleftrightarrow> pattern \<noteq> '''' \<and> last pattern = CHR ''/'' \<and> take (length pattern) path = pattern"

definition hcServer :: "string \<Rightarrow> ZoneServer \<Rightarrow> Response" where
  "hcServer path s =
     (if path = healthCheckPath s \<or> subtree_match (healthCheckPath s) path then handleHealthCheck s
      else if path @ ''/'' = healthCheckPath s
        then \<lparr>rs_StatusCode = 301, rs_ContentType = Some ''text/html; charset=utf-8'', rs_Body = RedirectTo (path @ ''/'')\<rparr>
      else http_Error (Text (''404 page not found'' @ nl)) 404)"

section \<open>Properties\<close>

text \<open>The main server works off a sequence of requests, each a host and a path.\<close>

definition serve :: "go_error + string \<Rightarrow> (string \<times> string) list \<Rightarrow> ZoneServer \<Rightarrow> ZoneServer" where
  "serve podHostname rs s = fold (\<lambda>(host, path) s. snd (mainServer podHostname host path s)) rs s"

definition toggles :: "(string \<times> string) list \<Rightarrow> nat" where
  "toggles rs = length (filter (\<lambda>r. snd r = ''/toggleKill'') rs)"

lemma mainServer_state: "snd (mainServer pod host path s) = (if path = ''/toggleKill'' then s\<lparr>killed := \<not> killed s\<rparr> else s)"
  by (simp add: mainServer_def handleKill_def)

lemma serve_Cons: "serve pod ((host, path) # rs) s = serve pod rs (snd (mainServer pod host path s))"
  by (simp add: serve_def)

lemma toggles_Cons: "toggles (r # rs) = (if snd r = ''/toggleKill'' then Suc (toggles rs) else toggles rs)"
  by (simp add: toggles_def)

lemma serve_state: "serve pod rs s = s\<lparr>killed := (killed s = even (toggles rs))\<rparr>"
proof (induction rs arbitrary: s)
  case (Cons r rs)
  obtain host path where r: "r = (host, path)" by (cases r)
  have flip: "((\<not> k) = even n) = (k = odd n)" for k and n :: nat by auto
  show ?case unfolding r serve_Cons Cons.IH mainServer_state toggles_Cons by (simp add: flip)
qed (simp add: serve_def toggles_def)

text \<open>
  C39. In every state the example server can reach, its health check passes exactly if the kill switch has been toggled an even number of times,
  whatever other requests have been served in between, also ones whose handler has panicked.
\<close>

theorem health_follows_toggles:
  assumes "zp_main path version onGCE zone = Returns (Inr s)" "take 1 path = ''/''"
  shows "rs_StatusCode (hcServer path (serve pod rs s)) = (if even (toggles rs) then 200 else 500)
    \<and> computeZone (serve pod rs s) = computeZone s"
proof -
  have "killed s = False" "healthCheckPath s = path" using assms(1) by (auto simp: zp_main_def split: sum.splits if_splits)
  then show ?thesis
    by (simp add: serve_state hcServer_def handleHealthCheck_def ok_response_def http_Error_def StatusInternalServerError_def)
qed

theorem health_follows_toggles_witness:
  "rs_StatusCode (hcServer ''/'' (serve (Inr ''pod'') [(''h'', ''/toggleKill''), (''h'', ''/ping'')]
     \<lparr>healthCheckPath = ''/'', zp_version = ''1.0'', computeZone = '''', killed = False\<rparr>)) = 500"
proof -
  have "zp_main ''/'' ''1.0'' False (Inr ''x'') = Returns (Inr \<lparr>healthCheckPath = ''/'', zp_version = ''1.0'', computeZone = '''', killed = False\<rparr>)"
    by (simp add: zp_main_def)
  from health_follows_toggles[OF this, of "Inr ''pod''" "[(''h'', ''/toggleKill''), (''h'', ''/ping'')]"] show ?thesis by (simp add: toggles_def)
qed

lemma LastIndex_bounds: "-1 \<le> LastIndex s c \<and> LastIndex s c < int (length s)"
  by (induction s) (auto simp: Let_def)

lemma LastIndex_none: "LastIndex s c = -1 \<longleftrightarrow> c \<notin> set s"
proof (induction s)
  case (Cons x s)
  with LastIndex_bounds[of s c] show ?case by (auto simp: Let_def)
qed simp

lemma LastIndex_last: "c \<notin> set t \<Longrightarrow> LastIndex (s @ c # t) c = int (length s)"
proof (induction s)
  case Nil
  then show ?case using LastIndex_none[of t c] by (simp add: Let_def)
qed (simp add: Let_def)

text \<open>
  C40. The location page panics exactly for a zone without a hyphen.  For a zone of the usual form, a region and a letter joined by a hyphen, it
  answers, and for a region of the table it names the place of its datacenter.
\<close>

theorem location_page_exact:
  shows "(handleLocation s = Panics \<longleftrightarrow> computeZone s \<noteq> '''' \<and> CHR ''-'' \<notin> set (computeZone s))
    \<and> (\<forall>region z dc. computeZone s = region @ CHR ''-'' # z \<and> CHR ''-'' \<notin> set z \<and> map_of datacenters region = Some dc \<longrightarrow>
        (\<exists>pre post. handleLocation s = Returns (ok_response (pre @ dc_location dc @ post))))"
proof (intro conjI allI impI)
  let ?i = "LastIndex (computeZone s) (CHR ''-'')"
  show "handleLocation s = Panics \<longleftrightarrow> computeZone s \<noteq> '''' \<and> CHR ''-'' \<notin> set (computeZone s)"
    using LastIndex_bounds[of "computeZone s" "CHR ''-''"] LastIndex_none[of "computeZone s" "CHR ''-''"]
    by (auto simp: handleLocation_def slice_to_def split: option.splits)
next
  fix region z dc
  assume "computeZone s = region @ CHR ''-'' # z \<and> CHR ''-'' \<notin> set z \<and> map_of datacenters region = Some dc"
  then have zone: "computeZone s = region @ CHR ''-'' # z" "CHR ''-'' \<notin> set z" and dc: "map_of datacenters region = Some dc" by auto
  have "slice_to (computeZone s) (LastIndex (computeZone s) (CHR ''-'')) = Returns region"
    unfolding zone(1) LastIndex_last[OF zone(2)] by (simp add: slice_to_def)
  with dc zone(1) show "\<exists>pre post. handleLocation s = Returns (ok_response (pre @ dc_location dc @ post))"
    unfolding handleLocation_def
    by (intro exI[of _ "''<!DOCTYPE html>'' @ nl @ tabs 2 @ ''<h4>Welcome from Google Cloud datacenters at:</h4>'' @ nl @ tabs 2 @ ''<h1>''"]
        exI[of _ "''</h1>'' @ nl @ tabs 2 @ ''<h3>You are now connected to &quot;'' @ computeZone s @ ''&quot;</h3>'' @ nl @ tabs 2
          @ ''<img src=\"'' @ dc_flagURL dc @ ''\" style=\"width: 640px; height: auto; border: 1px solid black\"/>''"]) simp
qed

theorem location_page_exact_witness:
  "\<exists>pre post. handleLocation \<lparr>healthCheckPath = ''/'', zp_version = ''1.0'', computeZone = ''us-east1-b'', killed = False\<rparr> =
     Returns (ok_response (pre @ ''Moncks Corner, South Carolina, USA'' @ post))"
proof -
  let ?s = "\<lparr>healthCheckPath = ''/'', zp_version = ''1.0'', computeZone = ''us-east1-b'', killed = False\<rparr>"
  let ?dc = "\<lparr>dc_location = ''Moncks Corner, South Carolina, USA'',
       dc_flagURL = ''https://upload.wikimedia.org/wikipedia/en/a/a4/Flag_of_the_United_States.svg''\<rparr>"
  have "map_of datacenters ''us-east1'' = Some ?dc" by (simp add: datacenters_def)
  then have "computeZone ?s = ''us-east1'' @ CHR ''-'' # ''b'' \<and> CHR ''-'' \<notin> set ''b'' \<and> map_of datacenters ''us-east1'' = Some ?dc" by simp
  from location_page_exact[of ?s, THEN conjunct2, rule_format, OF this] show ?thesis by simp
qed

end
