(* ===== verification/Flags.thy ===== *)
theory Flags
  imports Prelude
begin

text \<open>
  Parsing of command lines, \<^verbatim>\<open>vendor/github.com/spf13/pflag\<close>: the flags of a command write into its options \<open>'o\<close>.  The part of the package that
  kubemci uses: string, bool and string slice flags, long and short forms, and flags taken over from the \<^verbatim>\<open>flag\<close> package of Go.
\<close>

section \<open>Values\<close>

text \<open>
  One record of \<^verbatim>\<open>encoding/csv\<close> in its default configuration: a line break ends the record, \<^verbatim>\<open>\r\n\<close> counts as one, empty lines before
  it are skipped.  \<open>quoted\<close> carries the field read so far, in reverse.
\<close>

fun normalize_crlf :: "string \<Rightarrow> string" where
  "normalize_crlf [] = []"
| "normalize_crlf [c] = (if c = CHR 0x0D then [] else [c])"
| "normalize_crlf (c # d # s) = (if c = CHR 0x0D \<and> d = CHR 0x0A then CHR 0x0A # normalize_crlf s else c # normalize_crlf (d # s))"

definition csv_error :: go_error where "csv_error = LibError ''csv: parse error''"

definition separator :: "char \<Rightarrow> bool" where
  "separator c \<longleftrightarrow> c = CHR '','' \<or> c = CHR 0x0A"

function csv_field :: "string \<Rightarrow> go_error + string list"
  and quoted :: "string \<Rightarrow> string \<Rightarrow> go_error + string list"
  and after_field :: "string \<Rightarrow> string \<Rightarrow> go_error + string list" where
  "csv_field s =
     (if s \<noteq> [] \<and> hd s = CHR 0x22 then quoted [] (tl s)
      else let field = takeWhile (\<lambda>c. \<not> separator c) s
           in if CHR 0x22 \<in> set field then Inl csv_error else after_field field (dropWhile (\<lambda>c. \<not> separator c) s))"
| "quoted acc [] = Inl csv_error"
| "quoted acc (c # s) =
     (if c \<noteq> CHR 0x22 then quoted (c # acc) s
      else if s \<noteq> [] \<and> hd s = CHR 0x22 then quoted (CHR 0x22 # acc) (tl s)
      else after_field (rev acc) s)"
| "after_field field [] = Inr [field]"
| "after_field field (c # s) =
     (if c = CHR '','' then (case csv_field s of Inl err \<Rightarrow> Inl err | Inr fields \<Rightarrow> Inr (field # fields))
      else if c = CHR 0x0A then Inr [field]
      else Inl csv_error)"
  by pat_completeness auto
termination
  by (relation "measure (\<lambda>x. case x of Inl s \<Rightarrow> 2 * length s + 1 | Inr (Inl (acc, s)) \<Rightarrow> 2 * length s + 1 | Inr (Inr (field, s)) \<Rightarrow> 2 * length s)")
    (auto simp: less_Suc_eq_le length_dropWhile_le neq_Nil_conv)

declare csv_field.simps [simp del]

definition readAsCSV :: "string \<Rightarrow> go_error + string list" where
  "readAsCSV val =
     (if val = '''' then Inr []
      else let s = dropWhile (\<lambda>c. c = CHR 0x0A) (normalize_crlf val)
           in if s = '''' then Inl (LibError ''EOF'') else csv_field s)"

section \<open>Flags\<close>

text \<open>Setting a flag is told whether it has been set before, which only string slices ask for.\<close>

record 'o Flag =
  flag_Name :: string
  flag_Shorthand :: string
  flag_NoOptDefVal :: string
  flag_Set :: "bool \<Rightarrow> string \<Rightarrow> 'o \<Rightarrow> go_error option \<times> 'o"

definition StringVarP :: "(string \<Rightarrow> 'o \<Rightarrow> 'o) \<Rightarrow> string \<Rightarrow> string \<Rightarrow> 'o Flag" where
  "StringVarP upd name shorthand =
     \<lparr>flag_Name = name, flag_Shorthand = shorthand, flag_NoOptDefVal = '''', flag_Set = (\<lambda>changed val opts. (None, upd val opts))\<rparr>"

definition BoolVarP :: "(bool \<Rightarrow> 'o \<Rightarrow> 'o) \<Rightarrow> string \<Rightarrow> string \<Rightarrow> 'o Flag" where
  "BoolVarP upd name shorthand =
     \<lparr>flag_Name = name, flag_Shorthand = shorthand, flag_NoOptDefVal = ''true'',
      flag_Set = (\<lambda>changed val opts. case ParseBool val of None \<Rightarrow> (Some (LibError ''strconv.ParseBool: invalid syntax''), upd False opts) | Some b \<Rightarrow> (None, upd b opts))\<rparr>"

definition StringSliceVar :: "('o \<Rightarrow> string list) \<Rightarrow> (string list \<Rightarrow> 'o \<Rightarrow> 'o) \<Rightarrow> string \<Rightarrow> 'o Flag" where
  "StringSliceVar get upd name =
     \<lparr>flag_Name = name, flag_Shorthand = '''', flag_NoOptDefVal = '''',
      flag_Set = (\<lambda>changed val opts. case readAsCSV val of
          Inl err \<Rightarrow> (Some err, opts)
        | Inr v \<Rightarrow> (None, upd (if \<not> changed then v else get opts @ v) opts))\<rparr>"

text \<open>A flag of the \<^verbatim>\<open>flag\<close> package: whether it can stand without a value, and which values it refuses.  What it sets is not part of the options.\<close>

record GoFlag =
  gf_Name :: string
  gf_IsBoolFlag :: bool
  gf_Set :: "string \<Rightarrow> go_error option"

definition PFlagFromGoFlag :: "GoFlag \<Rightarrow> 'o Flag" where
  "PFlagFromGoFlag g =
     \<lparr>flag_Name = gf_Name g, flag_Shorthand = (if length (gf_Name g) = 1 then gf_Name g else ''''),
      flag_NoOptDefVal = (if gf_IsBoolFlag g then ''true'' else ''''), flag_Set = (\<lambda>changed val opts. (gf_Set g val, opts))\<rparr>"

section \<open>Flag sets\<close>

definition Lookup :: "'o Flag list \<Rightarrow> string \<Rightarrow> 'o Flag option" where
  "Lookup formal name = find (\<lambda>f. flag_Name f = name) formal"

definition ShorthandLookup :: "'o Flag list \<Rightarrow> char \<Rightarrow> 'o Flag option" where
  "ShorthandLookup formal c = find (\<lambda>f. flag_Shorthand f = [c]) formal"

text \<open>A name or a shorthand that is taken is a panic.\<close>

definition AddFlag :: "'o Flag list \<Rightarrow> 'o Flag \<Rightarrow> 'o Flag list outcome" where
  "AddFlag formal flag =
     (if Lookup formal (flag_Name flag) \<noteq> None then Panics
      else if flag_Shorthand flag = '''' then Returns (formal @ [flag])
      else if length (flag_Shorthand flag) > 1 then Panics
      else if ShorthandLookup formal (hd (flag_Shorthand flag)) \<noteq> None then Panics
      else Returns (formal @ [flag]))"

fun AddFlagSet :: "'o Flag list \<Rightarrow> 'o Flag list \<Rightarrow> 'o Flag list outcome" where
  "AddFlagSet formal [] = Returns formal"
| "AddFlagSet formal (flag # flags) =
     (if Lookup formal (flag_Name flag) \<noteq> None then AddFlagSet formal flags
      else (case AddFlag formal flag of Panics \<Rightarrow> Panics | Returns formal' \<Rightarrow> AddFlagSet formal' flags))"

section \<open>Parsing\<close>

record 'o FlagState =
  fs_options :: 'o
  fs_changed :: "string list"
  fs_args :: "string list"

definition ErrHelp :: go_error where "ErrHelp = LibError ''pflag: help requested''"

definition FlagSet_Set :: "'o Flag \<Rightarrow> string \<Rightarrow> 'o FlagState \<Rightarrow> go_error option \<times> 'o FlagState" where
  "FlagSet_Set flag val st =
     (case flag_Set flag (flag_Name flag \<in> set (fs_changed st)) val (fs_options st) of
        (Some err, opts) \<Rightarrow>
          (Some (Errorf ''invalid argument %q for %q flag: %v''
             [AStr val, AStr (if flag_Shorthand flag \<noteq> '''' then ''-'' @ flag_Shorthand flag @ '', --'' @ flag_Name flag else ''--'' @ flag_Name flag), AErr err]),
           st\<lparr>fs_options := opts\<rparr>)
      | (None, opts) \<Rightarrow>
          (None, st\<lparr>fs_options := opts,
             fs_changed := (if flag_Name flag \<in> set (fs_changed st) then fs_changed st else fs_changed st @ [flag_Name flag])\<rparr>))"

definition split_eq :: "string \<Rightarrow> string \<times> string option" where
  "split_eq s = (takeWhile (\<lambda>c. c \<noteq> CHR ''='') s, case dropWhile (\<lambda>c. c \<noteq> CHR ''='') s of [] \<Rightarrow> None | _ # v \<Rightarrow> Some v)"

text \<open>The rest of the arguments, an error, and the flags as set so far.\<close>

definition parseLongArg ::
    "'o Flag list \<Rightarrow> string \<Rightarrow> string list \<Rightarrow> 'o FlagState \<Rightarrow> (string list \<times> go_error option) \<times> 'o FlagState" where
  "parseLongArg formal s args st =
     (let name = drop 2 s
      in if name = '''' \<or> hd name = CHR ''-'' \<or> hd name = CHR ''='' then ((args, Some (Errorf ''bad flag syntax: %s'' [AStr s])), st)
         else (case split_eq name of
            (name, given) \<Rightarrow>
              (case Lookup formal name of
                 None \<Rightarrow> ((args, Some (if name = ''help'' then ErrHelp else Errorf ''unknown flag: --%s'' [AStr name])), st)
               | Some flag \<Rightarrow>
                   (case given of
                      Some val \<Rightarrow> (case FlagSet_Set flag val st of (err, st1) \<Rightarrow> ((args, err), st1))
                    | None \<Rightarrow>
                        if flag_NoOptDefVal flag \<noteq> '''' then (case FlagSet_Set flag (flag_NoOptDefVal flag) st of (err, st1) \<Rightarrow> ((args, err), st1))
                        else (case args of
                           val # rest \<Rightarrow> (case FlagSet_Set flag val st of (err, st1) \<Rightarrow> ((rest, err), st1))
                         | [] \<Rightarrow> (([], Some (Errorf ''flag needs an argument: %s'' [AStr s])), st))))))"

text \<open>One letter of a group of short flags: the letters left, the rest of the arguments.\<close>

definition parseSingleShortArg ::
    "'o Flag list \<Rightarrow> char \<Rightarrow> string \<Rightarrow> string list \<Rightarrow> 'o FlagState \<Rightarrow> (string \<times> string list \<times> go_error option) \<times> 'o FlagState" where
  "parseSingleShortArg formal c letters args st =
     (if HasPrefix (c # letters) ''test.'' then (('''', [], None), st)
      else (case ShorthandLookup formal c of
         None \<Rightarrow> ((letters, args, Some (if c = CHR ''h'' then ErrHelp else Errorf ''unknown shorthand flag: %q in -%s'' [AStr [c], AStr (c # letters)])), st)
       | Some flag \<Rightarrow>
           if length letters > 1 \<and> hd letters = CHR ''='' then (case FlagSet_Set flag (tl letters) st of (err, st1) \<Rightarrow> (('''', args, err), st1))
           else if flag_NoOptDefVal flag \<noteq> '''' then (case FlagSet_Set flag (flag_NoOptDefVal flag) st of (err, st1) \<Rightarrow> ((letters, args, err), st1))
           else if letters \<noteq> '''' then (case FlagSet_Set flag letters st of (err, st1) \<Rightarrow> (('''', args, err), st1))
           else (case args of
              val # rest \<Rightarrow> (case FlagSet_Set flag val st of (err, st1) \<Rightarrow> ((letters, rest, err), st1))
            | [] \<Rightarrow> ((letters, [], Some (Errorf ''flag needs an argument: %q in -%s'' [AStr [c], AStr (c # letters)])), st))))"

lemma parseSingleShortArg_shorter: "parseSingleShortArg formal c letters args st = ((shorts, rest, err), st') \<Longrightarrow> length shorts \<le> length letters \<and> length rest \<le> length args"
  by (auto simp: parseSingleShortArg_def split: if_splits option.splits prod.splits list.splits)

text \<open>The arguments a letter consumes are taken from those before the group, for every letter anew.\<close>

function parseShortArg :: "'o Flag list \<Rightarrow> string \<Rightarrow> string list \<Rightarrow> string list \<Rightarrow> 'o FlagState \<Rightarrow> (string list \<times> go_error option) \<times> 'o FlagState" where
  "parseShortArg formal [] args a st = ((a, None), st)"
| "parseShortArg formal (c # letters) args a st =
     (case parseSingleShortArg formal c letters args st of
        ((shorts, rest, Some err), st1) \<Rightarrow> ((rest, Some err), st1)
      | ((shorts, rest, None), st1) \<Rightarrow> parseShortArg formal shorts args rest st1)"
  by pat_completeness auto
termination
  by (relation "measure (\<lambda>(formal, shorts, args, a, st). length shorts)") (auto simp: less_Suc_eq_le dest!: parseSingleShortArg_shorter[OF sym])

lemma parseLongArg_shorter: "parseLongArg formal s args st = ((rest, err), st') \<Longrightarrow> length rest \<le> length args"
  by (auto simp: parseLongArg_def Let_def split: if_splits option.splits prod.splits list.splits)

lemma parseShortArg_shorter: "parseShortArg formal shorts args a st = ((rest, err), st') \<Longrightarrow> length a \<le> length args \<Longrightarrow> length rest \<le> length args"
  by (induction formal shorts args a st rule: parseShortArg.induct)
    (auto split: prod.splits option.splits dest: parseSingleShortArg_shorter)

function parseArgs :: "'o Flag list \<Rightarrow> string list \<Rightarrow> 'o FlagState \<Rightarrow> go_error option \<times> 'o FlagState" where
  "parseArgs formal [] st = (None, st)"
| "parseArgs formal (s # args) st =
     (if s = '''' \<or> hd s \<noteq> CHR ''-'' \<or> length s = 1 then parseArgs formal args (st\<lparr>fs_args := fs_args st @ [s]\<rparr>)
      else if s = ''--'' then (None, st\<lparr>fs_args := fs_args st @ args\<rparr>)
      else (case (if s ! 1 = CHR ''-'' then parseLongArg formal s args st else parseShortArg formal (tl s) args args st) of
         ((rest, Some err), st1) \<Rightarrow> (Some err, st1)
       | ((rest, None), st1) \<Rightarrow> parseArgs formal rest st1))"
  by pat_completeness auto
termination
  by (relation "measure (\<lambda>(formal, args, st). length args)")
    (auto simp: less_Suc_eq_le split: if_splits dest!: parseLongArg_shorter[OF sym] parseShortArg_shorter[OF sym])

definition Parse :: "'o Flag list \<Rightarrow> 'o \<Rightarrow> string list \<Rightarrow> go_error option \<times> 'o FlagState" where
  "Parse formal opts arguments = parseArgs formal arguments \<lparr>fs_options = opts, fs_changed = [], fs_args = []\<rparr>"

section \<open>Lemmas\<close>

text \<open>What is given is what arrives: a list of plain names survives the comma separated form.\<close>

definition plain_name :: "string \<Rightarrow> bool" where
  "plain_name s \<longleftrightarrow> s \<noteq> '''' \<and> list_all (\<lambda>c. c \<notin> {CHR 0x22, CHR '','', CHR 0x0A, CHR 0x0D}) s"

lemma normalize_crlf_id: "CHR 0x0D \<notin> set s \<Longrightarrow> normalize_crlf s = s"
  by (induction s rule: normalize_crlf.induct) auto

lemma plain_take:
  assumes "plain_name s"
  shows "takeWhile (\<lambda>c. \<not> separator c) s = s" "takeWhile (\<lambda>c. \<not> separator c) (s @ CHR '','' # t) = s"
    "dropWhile (\<lambda>c. \<not> separator c) s = []" "dropWhile (\<lambda>c. \<not> separator c) (s @ CHR '','' # t) = CHR '','' # t"
proof -
  have "\<forall>c \<in> set s. \<not> separator c" using assms by (auto simp: plain_name_def list_all_iff separator_def)
  then show "takeWhile (\<lambda>c. \<not> separator c) s = s" "takeWhile (\<lambda>c. \<not> separator c) (s @ CHR '','' # t) = s"
    "dropWhile (\<lambda>c. \<not> separator c) s = []" "dropWhile (\<lambda>c. \<not> separator c) (s @ CHR '','' # t) = CHR '','' # t"
    by (auto simp: separator_def takeWhile_append2 dropWhile_append2)
qed

lemma plain_no_quote: "plain_name s \<Longrightarrow> CHR 0x22 \<notin> set s" "plain_name s \<Longrightarrow> hd (s @ t) \<noteq> CHR 0x22" "plain_name s \<Longrightarrow> s \<noteq> []"
  by (cases s; auto simp: plain_name_def list_all_iff)+

lemma csv_field_bare: "plain_name c \<Longrightarrow> csv_field c = Inr [c]"
  using plain_no_quote(1,3)[of c] plain_no_quote(2)[of c "[]"] by (subst csv_field.simps) (simp add: plain_take)

lemma csv_field_more:
  "plain_name c \<Longrightarrow> csv_field (c @ CHR '','' # s) = (case csv_field s of Inl err \<Rightarrow> Inl err | Inr cs \<Rightarrow> Inr (c # cs))"
  using plain_no_quote[of c] by (subst csv_field.simps) (simp add: plain_take)

lemma csv_field_plain: "list_all plain_name (c # cs) \<Longrightarrow> csv_field (join '','' (c # cs)) = Inr (c # cs)"
  by (induction cs arbitrary: c) (simp_all add: csv_field_bare csv_field_more)

lemma plain_no_cr: "plain_name s \<Longrightarrow> CHR 0x0D \<notin> set s"
  by (auto simp: plain_name_def list_all_iff)

lemma join_plain_no_cr: "list_all plain_name (c # cs) \<Longrightarrow> CHR 0x0D \<notin> set (join '','' (c # cs))"
  by (induction cs arbitrary: c) (simp_all add: plain_no_cr)

lemma readAsCSV_plain: "list_all plain_name cs \<Longrightarrow> readAsCSV (join '','' cs) = Inr cs"
proof (cases cs)
  case (Cons c ds)
  assume "list_all plain_name cs"
  then have plain: "list_all plain_name (c # ds)" using Cons by simp
  obtain t where t: "join '','' (c # ds) = c @ t" by (cases ds) auto
  obtain x s where x: "c = x # s" "x \<noteq> CHR 0x0A" using plain by (cases c) (auto simp: plain_name_def)
  have "dropWhile (\<lambda>c. c = CHR 0x0A) (join '','' (c # ds)) = join '','' (c # ds)" "join '','' (c # ds) \<noteq> ''''"
    unfolding t unfolding x(1) using x(2) by simp_all
  then show ?thesis unfolding Cons readAsCSV_def Let_def normalize_crlf_id[OF join_plain_no_cr[OF plain]] using csv_field_plain[OF plain] by metis
qed (simp add: readAsCSV_def)

text \<open>The form \<^verbatim>\<open>--name=value\<close>.\<close>

definition long_flag :: "string \<Rightarrow> string \<Rightarrow> string" where
  "long_flag name val = ''--'' @ name @ ''='' @ val"

definition flag_name_ok :: "string \<Rightarrow> bool" where
  "flag_name_ok name \<longleftrightarrow> name \<noteq> '''' \<and> hd name \<noteq> CHR ''-'' \<and> CHR ''='' \<notin> set name"

lemma split_eq_long: "CHR ''='' \<notin> set name \<Longrightarrow> split_eq (name @ CHR ''='' # val) = (name, Some val)"
  by (induction name) (auto simp: split_eq_def)

lemma parseArgs_long:
  assumes "flag_name_ok name" "Lookup formal name = Some flag" "FlagSet_Set flag val st = (None, st1)"
  shows "parseArgs formal (long_flag name val # args) st = parseArgs formal args st1"
proof -
  have "hd (name @ CHR ''='' # val) = hd name" "hd name \<noteq> CHR ''=''" using assms(1) by (cases name; auto simp: flag_name_ok_def)+
  then have "parseLongArg formal (long_flag name val) args st = ((args, None), st1)"
    using assms split_eq_long[of name val] by (simp add: parseLongArg_def long_flag_def flag_name_ok_def)
  then show ?thesis by (simp add: long_flag_def)
qed

lemma parseArgs_plain: "take 1 s \<noteq> ''-'' \<Longrightarrow> parseArgs formal (s # args) st = parseArgs formal args (st\<lparr>fs_args := fs_args st @ [s]\<rparr>)"
  by (cases s) simp_all

text \<open>Adding flags keeps those that are there, and does not panic when the shorthands are distinct.\<close>

lemma Lookup_append: "Lookup (xs @ ys) name = (case Lookup xs name of None \<Rightarrow> Lookup ys name | Some f \<Rightarrow> Some f)"
  by (induction xs) (auto simp: Lookup_def)

lemma Lookup_None: "Lookup formal name = None \<longleftrightarrow> name \<notin> flag_Name ` set formal"
  by (auto simp: Lookup_def find_None_iff)

lemma ShorthandLookup_None: "ShorthandLookup formal c = None \<longleftrightarrow> (\<forall>f \<in> set formal. flag_Shorthand f \<noteq> [c])"
  by (auto simp: ShorthandLookup_def find_None_iff)

lemma AddFlag_returns:
  assumes "Lookup formal (flag_Name f) = None" "length (flag_Shorthand f) \<le> 1"
    and "flag_Shorthand f \<noteq> '''' \<Longrightarrow> flag_Shorthand f \<notin> flag_Shorthand ` set formal"
  shows "AddFlag formal f = Returns (formal @ [f])"
proof (cases "flag_Shorthand f")
  case (Cons c s)
  with assms have "ShorthandLookup formal c = None" by (auto simp: ShorthandLookup_None image_iff)
  with Cons assms(1,2) show ?thesis by (simp add: AddFlag_def)
qed (use assms(1) in \<open>simp add: AddFlag_def\<close>)

lemma AddFlagSet_returns:
  assumes "\<forall>f \<in> set fs. length (flag_Shorthand f) \<le> 1" "distinct (filter (\<lambda>s. s \<noteq> '''') (map flag_Shorthand formal @ map flag_Shorthand fs))"
  shows "\<exists>gs. set gs \<subseteq> set fs \<and> AddFlagSet formal fs = Returns (formal @ gs)"
  using assms
proof (induction fs arbitrary: formal)
  case (Cons f fs)
  show ?case
  proof (cases "Lookup formal (flag_Name f)")
    case None
    have "flag_Shorthand f \<notin> flag_Shorthand ` set formal" if "flag_Shorthand f \<noteq> ''''" using Cons.prems(2) that by auto
    then have "AddFlag formal f = Returns (formal @ [f])" using None Cons.prems(1) by (intro AddFlag_returns) auto
    moreover obtain gs where "set gs \<subseteq> set fs" "AddFlagSet (formal @ [f]) fs = Returns ((formal @ [f]) @ gs)"
      using Cons.IH[of "formal @ [f]"] Cons.prems by auto
    ultimately show ?thesis using None by (intro exI[of _ "f # gs"]) auto
  next
    case (Some g)
    moreover obtain gs where "set gs \<subseteq> set fs" "AddFlagSet formal fs = Returns (formal @ gs)"
      using Cons.IH[of formal] Cons.prems by (auto split: if_splits)
    ultimately show ?thesis by (intro exI[of _ gs]) auto
  qed
qed simp

end
