(* ===== verification/Cli.thy ===== *)
theory Cli
  imports Commands Flags
begin

text \<open>
  The command line of kubemci: the flags of the commands (\<^verbatim>\<open>app/kubemci/cmd/*.go\<close>), the tree of commands (\<^verbatim>\<open>cmd.go\<close>) as \<^verbatim>\<open>cobra\<close> searches
  and executes it, and the exit status of \<^verbatim>\<open>cmd/kubemci\<close>.  The flags that packages register with the \<^verbatim>\<open>flag\<close> package of Go, such as those of the logger,
  are a parameter; they are flags of every command and have no effect on it.  A flag named \<^verbatim>\<open>help\<close> among them is outside of the model.
\<close>

section \<open>The flags of the commands\<close>

definition addCreateFlags :: "createOptions Flag list" where
  "addCreateFlags =
     [StringVarP (\<lambda>v opts. opts\<lparr>co_IngressFilename := v\<rparr>) ''ingress'' ''i'',
      StringVarP (\<lambda>v opts. opts\<lparr>co_KubeconfigFilename := v\<rparr>) ''kubeconfig'' ''k'',
      StringSliceVar co_KubeContexts (\<lambda>v opts. opts\<lparr>co_KubeContexts := v\<rparr>) ''kubecontexts'',
      StringVarP (\<lambda>v opts. opts\<lparr>co_GCPProject := v\<rparr>) ''gcp-project'' '''',
      BoolVarP (\<lambda>v opts. opts\<lparr>co_ForceUpdate := v\<rparr>) ''force'' ''f'',
      BoolVarP (\<lambda>v opts. opts\<lparr>co_Validate := v\<rparr>) ''validate'' '''',
      StringVarP (\<lambda>v opts. opts\<lparr>co_Namespace := v\<rparr>) ''namespace'' ''n'',
      StringVarP (\<lambda>v opts. opts\<lparr>co_StaticIPName := v\<rparr>) ''static-ip'' '''']"

definition newCreateOptions :: createOptions where
  "newCreateOptions = \<lparr>co_IngressFilename = '''', co_KubeconfigFilename = '''', co_KubeContexts = [], co_LBName = '''', co_GCPProject = '''',
     co_ForceUpdate = False, co_Validate = True, co_Namespace = '''', co_StaticIPName = ''''\<rparr>"

definition addDeleteFlags :: "deleteOptions Flag list" where
  "addDeleteFlags =
     [StringVarP (\<lambda>v opts. opts\<lparr>do_IngressFilename := v\<rparr>) ''ingress'' ''i'',
      StringVarP (\<lambda>v opts. opts\<lparr>do_KubeconfigFilename := v\<rparr>) ''kubeconfig'' ''k'',
      StringSliceVar do_KubeContexts (\<lambda>v opts. opts\<lparr>do_KubeContexts := v\<rparr>) ''kubecontexts'',
      StringVarP (\<lambda>v opts. opts\<lparr>do_GCPProject := v\<rparr>) ''gcp-project'' '''',
      BoolVarP (\<lambda>v opts. opts\<lparr>do_ForceDelete := v\<rparr>) ''force'' ''f'',
      StringVarP (\<lambda>v opts. opts\<lparr>do_Namespace := v\<rparr>) ''namespace'' ''n'']"

definition newDeleteOptions :: deleteOptions where
  "newDeleteOptions = \<lparr>do_IngressFilename = '''', do_KubeconfigFilename = '''', do_KubeContexts = [], do_LBName = '''', do_GCPProject = '''',
     do_ForceDelete = False, do_Namespace = ''''\<rparr>"

definition addRemoveClustersFlags :: "removeClustersOptions Flag list" where
  "addRemoveClustersFlags =
     [StringVarP (\<lambda>v opts. opts\<lparr>ro_IngressFilename := v\<rparr>) ''ingress'' ''i'',
      StringVarP (\<lambda>v opts. opts\<lparr>ro_KubeconfigFilename := v\<rparr>) ''kubeconfig'' ''k'',
      StringSliceVar ro_KubeContexts (\<lambda>v opts. opts\<lparr>ro_KubeContexts := v\<rparr>) ''kubecontexts'',
      StringVarP (\<lambda>v opts. opts\<lparr>ro_GCPProject := v\<rparr>) ''gcp-project'' '''',
      BoolVarP (\<lambda>v opts. opts\<lparr>ro_ForceUpdate := v\<rparr>) ''force'' ''f'',
      StringVarP (\<lambda>v opts. opts\<lparr>ro_Namespace := v\<rparr>) ''namespace'' ''n'']"

definition newRemoveClustersOptions :: removeClustersOptions where
  "newRemoveClustersOptions = \<lparr>ro_IngressFilename = '''', ro_KubeconfigFilename = '''', ro_KubeContexts = [], ro_LBName = '''', ro_GCPProject = '''',
     ro_ForceUpdate = False, ro_Namespace = ''''\<rparr>"

definition addGetStatusFlags :: "getStatusOptions Flag list" where
  "addGetStatusFlags = [StringVarP (\<lambda>v opts. opts\<lparr>go_GCPProject := v\<rparr>) ''gcp-project'' '''']"

definition newGetStatusOptions :: getStatusOptions where
  "newGetStatusOptions = \<lparr>go_LBName = '''', go_GCPProject = ''''\<rparr>"

definition addListFlags :: "listOptions Flag list" where
  "addListFlags = [StringVarP (\<lambda>v opts. opts\<lparr>lo_GCPProject := v\<rparr>) ''gcp-project'' '''']"

definition newListOptions :: listOptions where
  "newListOptions = \<lparr>lo_GCPProject = ''''\<rparr>"

section \<open>Executing a command\<close>

text \<open>
  What a command line comes to: a command has been run and has ended in its way, a help text has been printed, or the command line has been refused.
\<close>

datatype cli_result = Ran cmd_result | Help | UsageError go_error

type_synonym 'w cli = "string list \<Rightarrow> 'w \<Rightarrow> (cli_result \<times> 'w) outcome option"

text \<open>The flag \<^verbatim>\<open>--help\<close> is added to the flags of a command when it is executed; its value stands next to the options.\<close>

definition lift_flag :: "'o Flag \<Rightarrow> ('o \<times> bool) Flag" where
  "lift_flag f = \<lparr>flag_Name = flag_Name f, flag_Shorthand = flag_Shorthand f, flag_NoOptDefVal = flag_NoOptDefVal f,
     flag_Set = (\<lambda>changed val opts. case flag_Set f changed val (fst opts) of (err, opts') \<Rightarrow> (err, (opts', snd opts)))\<rparr>"

definition help_flag :: "('o \<times> bool) Flag" where
  "help_flag = BoolVarP (\<lambda>b opts. (fst opts, b)) ''help'' ''h''"

definition mergePersistentFlags :: "GoFlag list \<Rightarrow> 'o Flag list \<Rightarrow> ('o \<times> bool) Flag list outcome" where
  "mergePersistentFlags goflags flags = AddFlagSet (map lift_flag flags) (map PFlagFromGoFlag goflags)"

definition InitDefaultHelpFlag :: "('o \<times> bool) Flag list \<Rightarrow> ('o \<times> bool) Flag list outcome" where
  "InitDefaultHelpFlag formal = (if Lookup formal ''help'' = None then AddFlag formal help_flag else Returns formal)"

definition command_flags :: "GoFlag list \<Rightarrow> 'o Flag list \<Rightarrow> ('o \<times> bool) Flag list outcome" where
  "command_flags goflags flags = (case mergePersistentFlags goflags flags of Panics \<Rightarrow> Panics | Returns formal \<Rightarrow> InitDefaultHelpFlag formal)"

definition execute :: "GoFlag list \<Rightarrow> 'o Flag list \<Rightarrow> 'o \<Rightarrow> ('o \<Rightarrow> 'w cli) \<Rightarrow> 'w cli" where
  "execute goflags flags options Run a w =
     (case command_flags goflags flags of
        Panics \<Rightarrow> Some Panics
      | Returns formal \<Rightarrow>
          (case Parse formal (options, False) a of
             (Some err, st) \<Rightarrow> Some (Returns (if err = ErrHelp then Help else UsageError err, w))
           | (None, st) \<Rightarrow>
               if snd (fs_options st) then Some (Returns (Help, w))
               else Run (fst (fs_options st)) (fs_args st) w))"

section \<open>The tree of commands\<close>

definition ran :: "(cmd_result \<times> 'w) outcome \<Rightarrow> (cli_result \<times> 'w) outcome" where
  "ran r = (case r of Panics \<Rightarrow> Panics | Returns (c, w) \<Rightarrow> Returns (Ran c, w))"

text \<open>The subcommands in the order they are added; \<^verbatim>\<open>help\<close> is added by the library.\<close>

definition NewCommand :: "'w CmdEnv \<Rightarrow> GoFlag list \<Rightarrow> (string \<times> 'w cli) list" where
  "NewCommand env goflags =
     [(''create'', execute goflags addCreateFlags newCreateOptions (\<lambda>opts args w. map_option ran (newCmdCreate env opts args w))),
      (''delete'', execute goflags addDeleteFlags newDeleteOptions (\<lambda>opts args w. Some (ran (newCmdDelete env opts args w)))),
      (''get-status'', execute goflags addGetStatusFlags newGetStatusOptions (\<lambda>opts args w. Some (ran (newCmdGetStatus env opts args w)))),
      (''version'', execute goflags [] () (\<lambda>opts args w. Some (Returns (Ran (newCmdGetVersion args), w)))),
      (''list'', execute goflags addListFlags newListOptions (\<lambda>opts args w. Some (ran (Returns (newCmdList env opts args w))))),
      (''remove-clusters'', execute goflags addRemoveClustersFlags newRemoveClustersOptions (\<lambda>opts args w. map_option ran (newCmdRemoveClusters env opts args w))),
      (''help'', execute goflags [] () (\<lambda>opts args w. Some (Returns (Help, w))))]"

text \<open>\<^verbatim>\<open>stripFlags\<close> of \<^verbatim>\<open>cobra\<close>: the words of the command line that are no flags, as far as the flags of the command at hand tell.\<close>

definition hasNoOptDefVal :: "string \<Rightarrow> 'o Flag list \<Rightarrow> bool" where
  "hasNoOptDefVal name formal = (case Lookup formal name of None \<Rightarrow> False | Some f \<Rightarrow> flag_NoOptDefVal f \<noteq> '''')"

definition shortHasNoOptDefVal :: "string \<Rightarrow> 'o Flag list \<Rightarrow> bool" where
  "shortHasNoOptDefVal name formal =
     (case name of [] \<Rightarrow> False | c # _ \<Rightarrow> (case ShorthandLookup formal c of None \<Rightarrow> False | Some f \<Rightarrow> flag_NoOptDefVal f \<noteq> ''''))"

definition takes_next :: "'o Flag list \<Rightarrow> string \<Rightarrow> bool" where
  "takes_next formal s \<longleftrightarrow> HasPrefix s ''-'' \<and> CHR ''='' \<notin> set s
     \<and> (HasPrefix s ''--'' \<and> \<not> hasNoOptDefVal (drop 2 s) formal \<or> length s = 2 \<and> \<not> shortHasNoOptDefVal (drop 1 s) formal)"

fun stripFlags :: "'o Flag list \<Rightarrow> string list \<Rightarrow> string list" where
  "stripFlags formal [] = []"
| "stripFlags formal (s # args) =
     (if s = ''--'' then []
      else if takes_next formal s then (if length args \<le> 1 then [] else stripFlags formal (tl args))
      else if s \<noteq> '''' \<and> \<not> HasPrefix s ''-'' then s # stripFlags formal args
      else stripFlags formal args)"

definition argsMinusFirstX :: "string list \<Rightarrow> string \<Rightarrow> string list" where
  "argsMinusFirstX args x = remove1 x args"

text \<open>
  The root command has the persistent flags only and cannot be run.  Its subcommands have no subcommands, so the search ends with them whatever
  follows.  The suggestions in the error message are left out.
\<close>

definition root_flags :: "GoFlag list \<Rightarrow> unit Flag list" where
  "root_flags goflags = map PFlagFromGoFlag goflags"

definition ExecuteC :: "'w CmdEnv \<Rightarrow> GoFlag list \<Rightarrow> 'w cli" where
  "ExecuteC env goflags args w =
     (case stripFlags (root_flags goflags) args of
        [] \<Rightarrow> execute goflags [] () (\<lambda>opts args w. Some (Returns (Help, w))) args w
      | name # _ \<Rightarrow>
          (case map_of (NewCommand env goflags) name of
             None \<Rightarrow> Some (Returns (UsageError (Errorf ''unknown command %q for %q%s'' [AStr name, AStr ''kubemci'']), w))
           | Some cmd \<Rightarrow> cmd (argsMinusFirstX args name) w))"

text \<open>The exit status of the program, where it comes to an end without a panic: \<^verbatim>\<open>Execute\<close> reports what \<^verbatim>\<open>cobra\<close> refuses, not what a command prints.\<close>

definition exit_status :: "cli_result \<Rightarrow> int" where
  "exit_status r = (case r of UsageError err \<Rightarrow> 1 | _ \<Rightarrow> 0)"

section \<open>What a command line can do\<close>

lemma execute_cases:
  assumes "execute goflags flags options Run a w = Some (Returns (r, w'))"
  obtains "w' = w" "\<forall>c. r \<noteq> Ran c" | opts args where "Run opts args w = Some (Returns (r, w'))"
  using assms by (auto simp: execute_def split: outcome.splits prod.splits option.splits if_splits)

lemma ran_Returns: "ran x = Returns (r, w) \<longleftrightarrow> (\<exists>c. r = Ran c \<and> x = Returns (c, w))"
  by (auto simp: ran_def split: outcome.splits)

text \<open>Every command line either leaves the world alone or is a step of one of the commands.\<close>

lemma subcommand_step:
  assumes "map_of (NewCommand env goflags) name = Some cmd" "cmd args w = Some (Returns (r, w'))"
  shows "w' = w \<or> (\<exists>c. r = Ran c) \<and> kubemci_step env w w'"
  using assms
  by (auto simp: NewCommand_def ran_Returns split: if_splits elim!: execute_cases intro: kubemci_step.intros)

lemma ExecuteC_step:
  assumes "ExecuteC env goflags args w = Some (Returns (r, w'))"
  shows "w' = w \<or> (\<exists>c. r = Ran c) \<and> kubemci_step env w w'"
proof (cases "stripFlags (root_flags goflags) args")
  case Nil
  with assms show ?thesis by (auto simp: ExecuteC_def elim!: execute_cases)
next
  case (Cons name rest)
  with assms show ?thesis
    by (cases "map_of (NewCommand env goflags) name") (auto simp: ExecuteC_def dest: subcommand_step)
qed

text \<open>A session is any number of command lines, one after the other.\<close>

inductive session :: "'w CmdEnv \<Rightarrow> GoFlag list \<Rightarrow> 'w \<Rightarrow> 'w \<Rightarrow> bool" for env goflags where
  start: "session env goflags w w"
| line: "session env goflags w w1 \<Longrightarrow> ExecuteC env goflags args w1 = Some (Returns (r, w')) \<Longrightarrow> session env goflags w w'"

lemma session_run: "session env goflags w w' \<Longrightarrow> (kubemci_step env)\<^sup>*\<^sup>* w w'"
  by (induction rule: session.induct) (auto dest!: ExecuteC_step intro: rtranclp.rtrancl_into_rtrancl)

text \<open>
  C5. Whatever is typed after \<^verbatim>\<open>kubemci\<close>, in any number of command lines: an object of the project whose name does not begin with \<^verbatim>\<open>mci1-\<close> is neither
  created, changed nor deleted.
\<close>

theorem command_lines_safe:
  assumes "cmd_env view env lookup" "session env goflags w w'" "fw_named (view w)" "\<not> HasPrefix n ''mci1-''"
  shows "view w' (k, n) = view w (k, n)"
  using cmd_env.kubemci_run_change[OF assms(1) session_run[OF assms(2)]] assms(3,4) by (simp add: lb_change_def foreign_def NewNamer_def MciPrefix_def)


text \<open>A boolean flag in front of the command takes the command for its value, since the root command does not know the flag.\<close>

lemma bool_flag_before_command:
  assumes "''force'' \<notin> gf_Name ` set goflags"
  shows "ExecuteC env goflags [''--force'', ''create'', ''lb''] w = Some (Returns (UsageError (Errorf ''unknown command %q for %q%s'' [AStr ''lb'', AStr ''kubemci'']), w))"
proof -
  have "Lookup (root_flags goflags) ''force'' = None" using assms by (auto simp: root_flags_def Lookup_None PFlagFromGoFlag_def)
  then have "takes_next (root_flags goflags) ''--force''" "\<not> takes_next (root_flags goflags) ''lb''" by (simp_all add: takes_next_def HasPrefix_def hasNoOptDefVal_def)
  then show ?thesis by (simp add: ExecuteC_def NewCommand_def HasPrefix_def)
qed

section \<open>The options arrive\<close>

definition show_bool :: "bool \<Rightarrow> string" where "show_bool b = (if b then ''true'' else ''false'')"

definition create_args :: "createOptions \<Rightarrow> string list" where
  "create_args opts =
     [long_flag ''ingress'' (co_IngressFilename opts), long_flag ''kubeconfig'' (co_KubeconfigFilename opts),
      long_flag ''kubecontexts'' (join '','' (co_KubeContexts opts)), long_flag ''gcp-project'' (co_GCPProject opts),
      long_flag ''force'' (show_bool (co_ForceUpdate opts)), long_flag ''validate'' (show_bool (co_Validate opts)),
      long_flag ''namespace'' (co_Namespace opts), long_flag ''static-ip'' (co_StaticIPName opts)]"

lemma ParseBool_show: "ParseBool (show_bool b) = Some b"
  by (simp add: ParseBool_def show_bool_def)

text \<open>The flags of a command are found under their names whatever Go flags there are, as long as no shorthand is taken twice.\<close>

definition go_flags_ok :: "GoFlag list \<Rightarrow> bool" where
  "go_flags_ok gs \<longleftrightarrow> distinct (map gf_Name gs) \<and> list_all (\<lambda>g. gf_Name g \<notin> {''i'', ''k'', ''f'', ''n'', ''h'', ''help''}) gs"

lemma command_flags_ok:
  assumes "go_flags_ok gs" "set (map flag_Shorthand flags) \<subseteq> {''i'', ''k'', ''f'', ''n'', ''''}"
    and "distinct (filter (\<lambda>s. s \<noteq> '''') (map flag_Shorthand flags))" "''help'' \<notin> set (map flag_Name flags)"
  shows "\<exists>rest_flags. command_flags gs flags = Returns (map lift_flag flags @ rest_flags)"
proof -
  let ?fs = "map PFlagFromGoFlag gs :: ('a \<times> bool) Flag list" and ?short = "\<lambda>g. if length (gf_Name g) = 1 then gf_Name g else ''''"
  have short: "map flag_Shorthand ?fs = map ?short gs" "map flag_Name ?fs = map gf_Name gs" by (simp_all add: PFlagFromGoFlag_def)
  have lift: "map flag_Shorthand (map lift_flag flags) = map flag_Shorthand flags" "map flag_Name (map lift_flag flags) = map flag_Name flags"
    by (simp_all add: lift_flag_def)
  have dist: "distinct (filter (\<lambda>s. s \<noteq> '''') (map ?short gs))"
    using assms(1) unfolding go_flags_ok_def by (induction gs) auto
  have disj: "set (filter (\<lambda>s. s \<noteq> '''') (map flag_Shorthand flags)) \<inter> set (filter (\<lambda>s. s \<noteq> '''') (map ?short gs)) = {}"
  proof -
    have "flag_Shorthand f \<in> {''i'', ''k'', ''f'', ''n'', ''''}" if "f \<in> set flags" for f using assms(2) that by auto
    then show ?thesis using assms(1) by (fastforce simp: go_flags_ok_def list_all_iff)
  qed
  have "\<forall>f \<in> set ?fs. length (flag_Shorthand f) \<le> 1" by (simp add: PFlagFromGoFlag_def)
  moreover have "distinct (filter (\<lambda>s. s \<noteq> '''') (map flag_Shorthand (map lift_flag flags) @ map flag_Shorthand ?fs))"
    unfolding short lift filter_append distinct_append using dist disj assms(3) by blast
  ultimately obtain rest_flags where rest_flags: "set rest_flags \<subseteq> set ?fs" "mergePersistentFlags gs flags = Returns (map lift_flag flags @ rest_flags)"
    unfolding mergePersistentFlags_def using AddFlagSet_returns[of ?fs "map lift_flag flags"] by blast
  have "''help'' \<notin> flag_Name ` set (map lift_flag flags @ rest_flags)" "''h'' \<notin> flag_Shorthand ` set (map lift_flag flags @ rest_flags)"
    using assms(1,2,4) rest_flags(1) by (auto simp: go_flags_ok_def list_all_iff lift_flag_def PFlagFromGoFlag_def split: if_splits dest!: subsetD)
  then have "AddFlag (map lift_flag flags @ rest_flags) help_flag = Returns ((map lift_flag flags @ rest_flags) @ [help_flag])"
    by (intro AddFlag_returns) (simp_all add: help_flag_def BoolVarP_def Lookup_None)
  moreover have "Lookup (map lift_flag flags @ rest_flags) ''help'' = None"
    using \<open>''help'' \<notin> flag_Name ` set (map lift_flag flags @ rest_flags)\<close> by (simp add: Lookup_None)
  ultimately show ?thesis using rest_flags(2) by (simp add: command_flags_def InitDefaultHelpFlag_def)
qed

lemma Lookup_own:
  "Lookup (map lift_flag flags @ rest_flags) name = (case Lookup flags name of None \<Rightarrow> Lookup rest_flags name | Some f \<Rightarrow> Some (lift_flag f))"
  by (induction flags) (auto simp: Lookup_def lift_flag_def)

lemma set_lifted:
  assumes "Lookup formal name = Some (lift_flag f)" "flag_Name f = name" "flag_name_ok name" "name \<notin> set (fs_changed st)"
    and "flag_Set f False val (fst (fs_options st)) = (None, opts)"
  shows "parseArgs formal (long_flag name val # args) st =
    parseArgs formal args (st\<lparr>fs_options := (opts, snd (fs_options st)), fs_changed := fs_changed st @ [name]\<rparr>)"
  using assms by (intro parseArgs_long[OF assms(3,1)]) (simp add: FlagSet_Set_def lift_flag_def)

lemma set_string:
  assumes "Lookup formal name = Some (lift_flag (StringVarP upd name sh))" "flag_name_ok name" "name \<notin> set (fs_changed st)"
  shows "parseArgs formal (long_flag name val # args) st =
    parseArgs formal args (st\<lparr>fs_options := (upd val (fst (fs_options st)), snd (fs_options st)), fs_changed := fs_changed st @ [name]\<rparr>)"
  by (rule set_lifted[OF assms(1) _ assms(2,3)]) (simp_all add: StringVarP_def)

lemma set_bool:
  assumes "Lookup formal name = Some (lift_flag (BoolVarP upd name sh))" "flag_name_ok name" "name \<notin> set (fs_changed st)"
  shows "parseArgs formal (long_flag name (show_bool b) # args) st =
    parseArgs formal args (st\<lparr>fs_options := (upd b (fst (fs_options st)), snd (fs_options st)), fs_changed := fs_changed st @ [name]\<rparr>)"
  by (rule set_lifted[OF assms(1) _ assms(2,3)]) (simp_all add: BoolVarP_def ParseBool_show)

lemma set_slice:
  assumes "Lookup formal name = Some (lift_flag (StringSliceVar get upd name))" "flag_name_ok name" "name \<notin> set (fs_changed st)" "list_all plain_name cs"
  shows "parseArgs formal (long_flag name (join '','' cs) # args) st =
    parseArgs formal args (st\<lparr>fs_options := (upd cs (fst (fs_options st)), snd (fs_options st)), fs_changed := fs_changed st @ [name]\<rparr>)"
  by (rule set_lifted[OF assms(1) _ assms(2,3)]) (simp_all add: StringSliceVar_def readAsCSV_plain[OF assms(4)])

lemma own_flag: "Lookup flags name = Some f \<Longrightarrow> Lookup (map lift_flag flags @ rest_flags) name = Some (lift_flag f)"
  by (simp add: Lookup_own)

lemma create_flags:
  "Lookup addCreateFlags ''ingress'' = Some (StringVarP (\<lambda>v opts. opts\<lparr>co_IngressFilename := v\<rparr>) ''ingress'' ''i'')"
  "Lookup addCreateFlags ''kubeconfig'' = Some (StringVarP (\<lambda>v opts. opts\<lparr>co_KubeconfigFilename := v\<rparr>) ''kubeconfig'' ''k'')"
  "Lookup addCreateFlags ''kubecontexts'' = Some (StringSliceVar co_KubeContexts (\<lambda>v opts. opts\<lparr>co_KubeContexts := v\<rparr>) ''kubecontexts'')"
  "Lookup addCreateFlags ''gcp-project'' = Some (StringVarP (\<lambda>v opts. opts\<lparr>co_GCPProject := v\<rparr>) ''gcp-project'' '''')"
  "Lookup addCreateFlags ''force'' = Some (BoolVarP (\<lambda>v opts. opts\<lparr>co_ForceUpdate := v\<rparr>) ''force'' ''f'')"
  "Lookup addCreateFlags ''validate'' = Some (BoolVarP (\<lambda>v opts. opts\<lparr>co_Validate := v\<rparr>) ''validate'' '''')"
  "Lookup addCreateFlags ''namespace'' = Some (StringVarP (\<lambda>v opts. opts\<lparr>co_Namespace := v\<rparr>) ''namespace'' ''n'')"
  "Lookup addCreateFlags ''static-ip'' = Some (StringVarP (\<lambda>v opts. opts\<lparr>co_StaticIPName := v\<rparr>) ''static-ip'' '''')"
  by (simp_all add: addCreateFlags_def Lookup_def StringVarP_def BoolVarP_def StringSliceVar_def)

lemma parse_create_args:
  assumes "list_all plain_name (co_KubeContexts opts)" "co_LBName opts = ''''"
  shows "\<exists>changed. parseArgs (map lift_flag addCreateFlags @ rest_flags) (create_args opts @ tail) \<lparr>fs_options = (newCreateOptions, False), fs_changed = [], fs_args = xs\<rparr>
    = parseArgs (map lift_flag addCreateFlags @ rest_flags) tail \<lparr>fs_options = (opts, False), fs_changed = changed, fs_args = xs\<rparr>"
proof -
  have opts: "\<lparr>co_IngressFilename = co_IngressFilename opts, co_KubeconfigFilename = co_KubeconfigFilename opts, co_KubeContexts = co_KubeContexts opts, co_LBName = '''',
    co_GCPProject = co_GCPProject opts, co_ForceUpdate = co_ForceUpdate opts, co_Validate = co_Validate opts, co_Namespace = co_Namespace opts,
    co_StaticIPName = co_StaticIPName opts\<rparr> = opts" using assms(2) by simp
  show ?thesis
    by (simp add: create_args_def newCreateOptions_def flag_name_ok_def
        set_string[OF own_flag[OF create_flags(1)]] set_string[OF own_flag[OF create_flags(2)]] set_slice[OF own_flag[OF create_flags(3)] _ _ assms(1)]
        set_string[OF own_flag[OF create_flags(4)]] set_bool[OF own_flag[OF create_flags(5)]] set_bool[OF own_flag[OF create_flags(6)]]
        set_string[OF own_flag[OF create_flags(7)]] set_string[OF own_flag[OF create_flags(8)]] opts del: parseArgs.simps) blast
qed

lemma create_command_flags: "go_flags_ok gs \<Longrightarrow> \<exists>rest_flags. command_flags gs addCreateFlags = Returns (map lift_flag addCreateFlags @ rest_flags)"
  by (rule command_flags_ok) (auto simp: addCreateFlags_def StringVarP_def BoolVarP_def StringSliceVar_def)

lemma strip_long_flags: "stripFlags formal (long_flag name val # args) = stripFlags formal args"
  by (simp add: long_flag_def takes_next_def HasPrefix_def)

lemma strip_command: "x \<noteq> '''' \<Longrightarrow> take 1 x \<noteq> ''-'' \<Longrightarrow> stripFlags formal (x # xs) = x # stripFlags formal xs"
  by (cases x) (auto simp: takes_next_def HasPrefix_def)

text \<open>Flags after the command and its argument, or before both.\<close>

lemma create_line:
  assumes "go_flags_ok gs" "list_all plain_name (co_KubeContexts opts)" "co_LBName opts = ''''" "take 1 lb \<noteq> ''-''"
  shows "ExecuteC env gs (''create'' # lb # create_args opts) w = map_option ran (newCmdCreate env opts [lb] w)"
    and "ExecuteC env gs (create_args opts @ [''create'', lb]) w = map_option ran (newCmdCreate env opts [lb] w)"
proof -
  obtain rest_flags where flags: "command_flags gs addCreateFlags = Returns (map lift_flag addCreateFlags @ rest_flags)" using create_command_flags[OF assms(1)] by blast
  let ?formal = "map lift_flag addCreateFlags @ rest_flags"
  obtain ch where after: "Parse ?formal (newCreateOptions, False) (lb # create_args opts) = (None, \<lparr>fs_options = (opts, False), fs_changed = ch, fs_args = [lb]\<rparr>)"
    using parse_create_args[OF assms(2,3), of rest_flags "[]" "[lb]"] by (auto simp: Parse_def parseArgs_plain[OF assms(4)] simp del: parseArgs.simps(2))
  obtain ch' where before: "Parse ?formal (newCreateOptions, False) (create_args opts @ [lb]) = (None, \<lparr>fs_options = (opts, False), fs_changed = ch', fs_args = [lb]\<rparr>)"
    using parse_create_args[OF assms(2,3), of rest_flags "[lb]" "[]"] by (auto simp: Parse_def parseArgs_plain[OF assms(4)] simp del: parseArgs.simps(2))
  show "ExecuteC env gs (''create'' # lb # create_args opts) w = map_option ran (newCmdCreate env opts [lb] w)"
    by (simp add: ExecuteC_def strip_command NewCommand_def execute_def flags argsMinusFirstX_def after del: stripFlags.simps)
  have "stripFlags (root_flags gs) (create_args opts @ [''create'', lb]) = ''create'' # stripFlags (root_flags gs) [lb]"
    unfolding create_args_def append.simps strip_long_flags by (rule strip_command) simp_all
  moreover have "''create'' \<notin> set (create_args opts)" by (simp add: create_args_def long_flag_def)
  then have "remove1 ''create'' (create_args opts @ [''create'', lb]) = create_args opts @ [lb]" by (simp add: remove1_append)
  ultimately show "ExecuteC env gs (create_args opts @ [''create'', lb]) w = map_option ran (newCmdCreate env opts [lb] w)"
    by (simp add: ExecuteC_def NewCommand_def execute_def flags argsMinusFirstX_def before del: stripFlags.simps)
qed

definition delete_args :: "deleteOptions \<Rightarrow> string list" where
  "delete_args opts =
     [long_flag ''ingress'' (do_IngressFilename opts), long_flag ''kubeconfig'' (do_KubeconfigFilename opts),
      long_flag ''kubecontexts'' (join '','' (do_KubeContexts opts)), long_flag ''gcp-project'' (do_GCPProject opts),
      long_flag ''force'' (show_bool (do_ForceDelete opts)), long_flag ''namespace'' (do_Namespace opts)]"

lemma delete_flags:
  "Lookup addDeleteFlags ''ingress'' = Some (StringVarP (\<lambda>v opts. opts\<lparr>do_IngressFilename := v\<rparr>) ''ingress'' ''i'')"
  "Lookup addDeleteFlags ''kubeconfig'' = Some (StringVarP (\<lambda>v opts. opts\<lparr>do_KubeconfigFilename := v\<rparr>) ''kubeconfig'' ''k'')"
  "Lookup addDeleteFlags ''kubecontexts'' = Some (StringSliceVar do_KubeContexts (\<lambda>v opts. opts\<lparr>do_KubeContexts := v\<rparr>) ''kubecontexts'')"
  "Lookup addDeleteFlags ''gcp-project'' = Some (StringVarP (\<lambda>v opts. opts\<lparr>do_GCPProject := v\<rparr>) ''gcp-project'' '''')"
  "Lookup addDeleteFlags ''force'' = Some (BoolVarP (\<lambda>v opts. opts\<lparr>do_ForceDelete := v\<rparr>) ''force'' ''f'')"
  "Lookup addDeleteFlags ''namespace'' = Some (StringVarP (\<lambda>v opts. opts\<lparr>do_Namespace := v\<rparr>) ''namespace'' ''n'')"
  by (simp_all add: addDeleteFlags_def Lookup_def StringVarP_def BoolVarP_def StringSliceVar_def)

lemma delete_command_flags: "go_flags_ok gs \<Longrightarrow> \<exists>rest_flags. command_flags gs addDeleteFlags = Returns (map lift_flag addDeleteFlags @ rest_flags)"
  by (rule command_flags_ok) (auto simp: addDeleteFlags_def StringVarP_def BoolVarP_def StringSliceVar_def)

lemma delete_line:
  assumes "go_flags_ok gs" "list_all plain_name (do_KubeContexts opts)" "do_LBName opts = ''''" "take 1 lb \<noteq> ''-''"
  shows "ExecuteC env gs (''delete'' # lb # delete_args opts) w = Some (ran (newCmdDelete env opts [lb] w))"
proof -
  have opts: "\<lparr>do_IngressFilename = do_IngressFilename opts, do_KubeconfigFilename = do_KubeconfigFilename opts, do_KubeContexts = do_KubeContexts opts, do_LBName = '''',
    do_GCPProject = do_GCPProject opts, do_ForceDelete = do_ForceDelete opts, do_Namespace = do_Namespace opts\<rparr> = opts" using assms(3) by simp
  obtain rest_flags where flags: "command_flags gs addDeleteFlags = Returns (map lift_flag addDeleteFlags @ rest_flags)" using delete_command_flags[OF assms(1)] by blast
  have "\<exists>ch. Parse (map lift_flag addDeleteFlags @ rest_flags) (newDeleteOptions, False) (lb # delete_args opts)
      = (None, \<lparr>fs_options = (opts, False), fs_changed = ch, fs_args = [lb]\<rparr>)"
    by (simp add: Parse_def parseArgs_plain[OF assms(4)] delete_args_def newDeleteOptions_def flag_name_ok_def
        set_string[OF own_flag[OF delete_flags(1)]] set_string[OF own_flag[OF delete_flags(2)]] set_slice[OF own_flag[OF delete_flags(3)] _ _ assms(2)]
        set_string[OF own_flag[OF delete_flags(4)]] set_bool[OF own_flag[OF delete_flags(5)]] set_string[OF own_flag[OF delete_flags(6)]] opts del: parseArgs.simps(2))
  then obtain ch where parse: "Parse (map lift_flag addDeleteFlags @ rest_flags) (newDeleteOptions, False) (lb # delete_args opts)
      = (None, \<lparr>fs_options = (opts, False), fs_changed = ch, fs_args = [lb]\<rparr>)" by blast
  show ?thesis by (simp add: ExecuteC_def strip_command NewCommand_def execute_def flags argsMinusFirstX_def parse del: stripFlags.simps)
qed

text \<open>
  C12. The options of \<^verbatim>\<open>kubemci create\<close> and \<^verbatim>\<open>kubemci delete\<close> arrive as they are given: the command is run with these options and this argument, for \<^verbatim>\<open>create\<close> also with
  the flags before the command.  The names of contexts have to be free of quotes, commas and line breaks, and no Go flag may take a shorthand of the commands.
\<close>

theorem options_arrive:
  assumes "go_flags_ok gs" "take 1 lb \<noteq> ''-''" "list_all plain_name (co_KubeContexts co)" "co_LBName co = ''''"
    and "list_all plain_name (do_KubeContexts dop)" "do_LBName dop = ''''"
  shows "ExecuteC env gs (''create'' # lb # create_args co) w = map_option ran (newCmdCreate env co [lb] w)
    \<and> ExecuteC env gs (create_args co @ [''create'', lb]) w = map_option ran (newCmdCreate env co [lb] w)
    \<and> ExecuteC env gs (''delete'' # lb # delete_args dop) w = Some (ran (newCmdDelete env dop [lb] w))"
  by (intro conjI create_line delete_line assms)

section \<open>Examples\<close>

definition logger_flags :: "GoFlag list" where
  "logger_flags = [\<lparr>gf_Name = ''logtostderr'', gf_IsBoolFlag = True, gf_Set = (\<lambda>v. None)\<rparr>, \<lparr>gf_Name = ''v'', gf_IsBoolFlag = False, gf_Set = (\<lambda>v. None)\<rparr>]"

lemma logger_flags_ok: "go_flags_ok logger_flags"
  by (simp add: go_flags_ok_def logger_flags_def)

theorem options_arrive_witness:
  "ExecuteC example_env logger_flags (create_args (create_options\<lparr>co_KubeContexts := [''east'', ''west'']\<rparr>) @ [''create'', ''lb'']) address_cloud
   = map_option ran (newCmdCreate example_env (create_options\<lparr>co_KubeContexts := [''east'', ''west'']\<rparr>) [''lb''] address_cloud)"
  by (rule options_arrive[OF logger_flags_ok, where dop = delete_options, THEN conjunct2, THEN conjunct1])
    (simp_all add: plain_name_def create_options_def delete_options_def)

theorem command_lines_safe_witness:
  "\<exists>f'. session example_env logger_flags shared_project f'
     \<and> ExecuteC example_env logger_flags (''delete'' # ''lb'' # delete_args delete_options) shared_project = Some (Returns (Ran (Done ''''), f'))
     \<and> fake_view f' (KFirewall, ''office'') = Some (RFirewall (zero_Firewall\<lparr>fw_Name := ''office''\<rparr>))"
proof (rule example_delete[of shared_project])
  show "\<not> f_fwReadOnly shared_project" by (simp add: shared_project_def cloud_example_def NewFakeLoadBalancers_def)
  fix f'
  assume run: "newCmdDelete example_env delete_options [''lb''] shared_project = Returns (Done '''', f')"
  have line: "ExecuteC example_env logger_flags (''delete'' # ''lb'' # delete_args delete_options) shared_project = Some (Returns (Ran (Done ''''), f'))"
    using delete_line[OF logger_flags_ok, of delete_options "''lb''" example_env shared_project] run by (simp add: delete_options_def ran_def)
  have s: "session example_env logger_flags shared_project f'" using session.line[OF session.start line] .
  have "fw_named (fake_view shared_project)" "\<not> HasPrefix ''office'' ''mci1-''" by (simp_all add: fw_named_def shared_project_def HasPrefix_def)
  from command_lines_safe[OF example_cmd.cmd_env_axioms s this, of KFirewall] s line show ?thesis by (simp add: shared_project_def)
qed

definition no_file :: go_error where "no_file = LibError ''no such file''"

definition fileless_env :: "FakeCloud CmdEnv" where
  "fileless_env = example_env\<lparr>e_unmarshall := (\<lambda>file ing. (Some no_file, ing))\<rparr>"

lemma fileless_create:
  "newCmdCreate fileless_env create_options [''lb''] w =
     Some (Returns (Failed (Errorf ''error in unmarshalling the yaml file %s, err: %s'' [AStr ''ing.yaml'', AErr no_file]), w))"
  by (simp add: newCmdCreate_def validateCreateArgs_def projectOrDefault_def create_options_def runCreate_def UnmarshallAndApplyDefaults_def fileless_env_def after_run_def)


end
