(* ===== verification/Spec2Isabelle.thy ===== *)
theory Spec2Isabelle
  imports MapKeys RemoveCommand StatusCommand Wiring Syncers ZonePrinter Cli
begin

text \<open>
  \<^bold>\<open>kubemci\<close> (GoogleCloudPlatform/k8s-multicluster-ingress) configures one Google Cloud L7 load balancer in front of several Kubernetes
  clusters from one ingress specification.  This development models the program of \<^verbatim>\<open>app/kubemci\<close> and proves what its commands do to
  a project.  Paths below are relative to \<^verbatim>\<open>src/app/kubemci\<close> unless they begin with \<^verbatim>\<open>vendor\<close>.

  \<^bold>\<open>The program.\<close>  A command (\<^verbatim>\<open>cmd/*.go\<close>) checks its arguments, reads the ingress, makes a client for every cluster of the kubeconfig,
  puts the ingress into the clusters or takes it out (\<^verbatim>\<open>pkg/ingress\<close>), and calls the load balancer syncer
  (\<^verbatim>\<open>pkg/gcp/loadbalancer\<close>).  That waits until the clusters have published their instance groups and then drives one syncer per kind
  of object: health checks, backend services, URL map, target proxies, certificate, forwarding rules, firewall.  Every name comes
  from one namer; the state of a load balancer that is not derivable from its objects is a JSON text in the description of its URL map.

  \<^bold>\<open>Modelling.\<close>  All code runs over a world \<open>'w\<close>: a call takes a world and gives a result and a world.  A Go interface is a record of such
  calls (\<open>LoadBalancers\<close>, \<open>HealthCheckProvider\<close>, \<open>BackendServices\<close>, \<open>FirewallProvider\<close>, \<open>InstanceGetter\<close>, \<open>KubeClient\<close>), an
  error is a value \<open>go_error\<close>, a call that may fail gives \<open>go_error + 'a\<close>, code that may dereference nil gives an \<open>outcome\<close> with the
  value \<open>Panics\<close>, nil and empty slices are distinct (\<open>slice\<close>), a Go map is an association list with distinct keys, and the order in
  which a \<^verbatim>\<open>range\<close> loop visits a map is a parameter (\<open>range_order\<close>) the properties quantify over.  Aliasing is written out where the
  code depends on it (\<open>desiredForwardingRuleWithoutClusters\<close>, \<open>clearServerFields\<close>).  Loops over lists are recursive functions; the one loop
  that may run forever, the polling in \<^verbatim>\<open>getIGsForCluster\<close>, is a \<^theory_text>\<open>partial_function (option)\<close>: not returning is the value \<open>None\<close>.
  There is no fuel anywhere; all other recursions, the JSON decoder included, terminate by a measure.

  \<^bold>\<open>Theories.\<close>
  \<^item> \<open>Prelude\<close>: Go errors, \<^verbatim>\<open>multierror\<close>, slices, maps and their iteration, outcomes; collections of facts.  \<open>Json\<close>: the encoder and
    decoder of \<^verbatim>\<open>encoding/json\<close> for the status.  \<open>Md5\<close>: MD5 and hexadecimal, used for path matcher names.
  \<^item> \<open>Namer\<close> (\<^verbatim>\<open>pkg/gcp/namer\<close>): lengths and distinctness of names.  \<open>Status\<close> (\<^verbatim>\<open>pkg/gcp/status\<close>): round trip and removal of clusters.
  \<^item> \<open>Compute\<close>: the objects of the Compute API with all fields.  \<open>Cloud\<close>, \<open>Providers\<close>: the provider interfaces and their laws.  A project is a
    map from a kind and a name to an object; the locale \<open>resource_base\<close> says what get, create and delete do to it, \<open>resource_api\<close>
    adds that creating never overwrites, \<open>provider_api\<close> what an update does; \<open>lb_api\<close>, \<open>hc_api\<close>, \<open>be_api\<close> and \<open>fw_api\<close> put the kinds together.  \<open>Ensure\<close>: the common
    get, compare, update or create pattern, proved once in the locale \<open>ensure_api\<close>.
  \<^item> \<open>FakeLoadBalancers\<close>, \<open>FakeProviders\<close> (\<^verbatim>\<open>vendor/k8s.io/ingress-gce/pkg/*/fakes.go\<close>), \<open>FakeKube\<close> (\<^verbatim>\<open>vendor/k8s.io/client-go/testing/fixture.go\<close>):
    the in-memory implementations the tests of the repository use.  Every locale is interpreted on them, so its laws can hold, and the
    witnesses run on them.
  \<^item> \<open>KubeTypes\<close>, \<open>KubeClient\<close>, \<open>KubeUtils\<close> (\<^verbatim>\<open>pkg/kubeutils\<close>), \<open>Instances\<close> (\<^verbatim>\<open>pkg/gcp/instances\<close>, \<^verbatim>\<open>pkg/gcp/utils\<close>): the Kubernetes side, node ports,
    readiness probes, equivalence of ingresses, parsing of links.
  \<^item> \<open>ForwardingRule\<close>, \<open>UrlMap\<close>, \<open>TargetProxy\<close>, \<open>SslCert\<close>, \<open>HealthCheck\<close>, \<open>BackendService\<close>, \<open>FirewallRule\<close>: one syncer each
    (\<^verbatim>\<open>pkg/gcp/<name>/<name>syncer.go\<close>), every operation with its error branches.  Shown of each: what a successful ensure leaves in the
    project, that nothing else changes, what \<^verbatim>\<open>--force\<close> guards, that deleting removes exactly the objects of the load balancer, and what
    removing clusters does.
  \<^item> \<open>Validations\<close> (\<^verbatim>\<open>pkg/validations\<close>), \<open>Ingress\<close> (\<^verbatim>\<open>pkg/ingress\<close>): what the checks amount to; the ingress in all clusters, against the laws of
    the locale \<open>clusters_api\<close>.
  \<^item> \<open>LoadBalancer\<close>, \<open>LoadBalancerCreate\<close>, \<open>LoadBalancerForce\<close> (\<^verbatim>\<open>pkg/gcp/loadbalancer\<close>): the composition of the syncers.  The locale
    \<open>cloud_api\<close> joins the provider laws, \<open>lb_env\<close> adds the surroundings of a syncer.  Shown: the created load balancer is complete and routes
    as the ingress says; deletion refines the removal of its cells from the project; creation without \<^verbatim>\<open>--force\<close> only adds; polling
    returns the first decisive answer and the operations return when the clusters eventually answer; removal from all clusters is refused.
    \<open>LoadBalancerRemove\<close>: what a successful removal of clusters does to the firewall rule, the backend services and the status.
  \<^item> \<open>Cmd\<close> (\<^verbatim>\<open>cmd\<close>), \<open>Reach\<close>: the commands, in surroundings given by the record \<open>CmdEnv\<close> and the locale \<open>cmd_env\<close>, and the runs of
    kubemci as a step relation; no run touches an object that does not carry the prefix of kubemci.  \<open>Commands\<close>: what a successful
    \<^verbatim>\<open>create\<close> and a successful \<^verbatim>\<open>delete\<close> do to the project, and that one undoes the other.  \<open>RemoveCommand\<close>: the same for \<^verbatim>\<open>remove-clusters\<close>.
    \<open>StatusCommand\<close>: what \<^verbatim>\<open>get-status\<close> tells after a creation and after a deletion; the locale \<open>reserved_addresses\<close> says what it
    relies on for static addresses.
  \<^item> \<open>Wiring\<close>: how these surroundings are made, from running a process (\<^verbatim>\<open>ExecuteCommand\<close>), making a client (\<^verbatim>\<open>getClientset\<close>), reading the ingress file
    (\<^verbatim>\<open>unmarshall\<close>), the configuration of the cloud (\<^verbatim>\<open>pkg/gcp/cloudinterface\<close>) and the instance getter (\<^verbatim>\<open>pkg/gcp/instances\<close>).  Shown: the clients are those of
    the contexts \<^verbatim>\<open>kubectl\<close> lists.
  \<^item> \<open>Flags\<close> (\<^verbatim>\<open>vendor/github.com/spf13/pflag\<close>), \<open>Cli\<close> (\<^verbatim>\<open>cmd/cmd.go\<close>, the flags of \<^verbatim>\<open>cmd/*.go\<close>, \<^verbatim>\<open>src/cmd/kubemci\<close>, the search and execution of commands in
    \<^verbatim>\<open>vendor/github.com/spf13/cobra\<close>): the command line.  Shown: options arrive as they are given; whatever is typed, no foreign object is touched; the exit
    status tells refused command lines from others, but not failed commands from successful ones.
  \<^item> \<open>MapKeys\<close>: every map the program builds is well typed, next to an error as well.
  \<^item> \<open>Doubles\<close> (\<^verbatim>\<open>pkg/**/fake_*.go\<close>): the test doubles of the syncers, and how far they agree with what they stand for; the locale \<open>status_store\<close> is
    the contract that the URL map syncer and its double share.
  \<^item> \<open>Syncers\<close> (\<^verbatim>\<open>pkg/gcp/*/interfaces.go\<close>, \<^verbatim>\<open>pkg/gcp/loadbalancer\<close>): the load balancer syncer as it is declared, a struct of interfaces.  Filled
    with the syncers it is the one of \<open>LoadBalancer\<close>; filled with the doubles, as in the unit tests, it shows what creation and deletion ask for.
  \<^item> \<open>ZonePrinter\<close> (\<^verbatim>\<open>examples/zone-printer/src/main.go\<close>, from the root of the repository): the web server the example ingress leads to.

  \<^bold>\<open>Hypotheses on the cloud.\<close>  The laws are those of a server no one else writes to during a call: a call that fails leaves the
  object as it was, a get returns what is stored, names are keys.  Where a syncer takes any lookup error for absence, the properties
  that need it say that lookups fail only with a 404 (\<open>found_or_404\<close>).  Properties that need distinct names of ports state it; that
  names are distinct is shown in \<open>Namer\<close> as long as they are not cut.

  \<^bold>\<open>Not modelled.\<close>  What lies behind the calls to other systems is a parameter: running \<^verbatim>\<open>gcloud\<close> and \<^verbatim>\<open>kubectl\<close>, reading a file, the YAML decoder, loading
  a kubeconfig and building a client in \<^verbatim>\<open>client-go\<close>, building the cloud provider of Kubernetes from its configuration, the authenticated HTTP
  client and the two compute calls of the instance getter, and the table writer.  Help texts, logging and printing of progress have no
  counterpart; the flags other packages register with Go's \<^verbatim>\<open>flag\<close> package are a parameter, of which none is called \<^verbatim>\<open>help\<close>; what a command prints as its
  result is its value.  The end to end tests, which drive \<^verbatim>\<open>kubectl\<close>, \<^verbatim>\<open>gcloud\<close> and \<^verbatim>\<open>kubemci\<close> on real clusters, are left out.
\<close>

end
